(* ===== verification/Prelude.thy ===== *)
theory Prelude
  imports Complex_Main "HOL-Library.AList" "HOL-Library.Sublist" "HOL-Library.Product_Lexorder"
begin

text \<open>
  What every component of the model shares.

  \<^item> The effect of an asynchronous TypeScript method is a function from the state of the process
    to a result and the next state (type \<open>('s, 'a) js\<close>). The result is a sum: \<open>Inl\<close> of the thrown
    error, \<open>Inr\<close> of the returned value. State changes made before a \<open>throw\<close> are kept, as in
    JavaScript.
  \<^item> A JavaScript \<open>Map\<close> is an association list in insertion order (\<open>AList.update\<close> replaces in place
    or appends, as \<open>Map.set\<close> does), a \<open>Set\<close> a duplicate-free list in insertion order.
  \<^item> Strings are lists of characters; \<open>toLowerCase\<close>, \<open>startsWith\<close>, \<open>includes\<close> and the printing of
    integers are written out.
\<close>

section \<open>Errors and effects\<close>

text \<open>
  An exception carries the \<open>message\<close> property, which is absent when the rejected value is no
  \<open>Error\<close> object; parts of the code inspect it.
\<close>

datatype exn = Exn (message: "string option")

abbreviation Error :: "string \<Rightarrow> exn" where
  "Error m \<equiv> Exn (Some m)"

type_synonym ('s, 'a) js = "'s \<Rightarrow> (exn + 'a) \<times> 's"

definition ret :: "'a \<Rightarrow> ('s, 'a) js" where
  "ret x = (\<lambda>s. (Inr x, s))"

definition throw :: "exn \<Rightarrow> ('s, 'a) js" where
  "throw e = (\<lambda>s. (Inl e, s))"

definition bnd :: "('s, 'a) js \<Rightarrow> ('a \<Rightarrow> ('s, 'b) js) \<Rightarrow> ('s, 'b) js" where
  "bnd m f = (\<lambda>s. case m s of (Inl e, t) \<Rightarrow> (Inl e, t) | (Inr x, t) \<Rightarrow> f x t)"

text \<open>\<open>await a; b\<close>: the value of the first call is not used.\<close>

definition andthen :: "('s, 'a) js \<Rightarrow> ('s, 'b) js \<Rightarrow> ('s, 'b) js" where
  "andthen m n = bnd m (\<lambda>_. n)"

definition gets :: "('s \<Rightarrow> 'a) \<Rightarrow> ('s, 'a) js" where
  "gets f = (\<lambda>s. (Inr (f s), s))"

definition modify :: "('s \<Rightarrow> 's) \<Rightarrow> ('s, unit) js" where
  "modify f = (\<lambda>s. (Inr (), f s))"

definition catching :: "('s, 'a) js \<Rightarrow> (exn \<Rightarrow> ('s, 'a) js) \<Rightarrow> ('s, 'a) js" where
  "catching m h = (\<lambda>s. case m s of (Inl e, t) \<Rightarrow> h e t | (Inr x, t) \<Rightarrow> (Inr x, t))"

text \<open>\<open>try { m } finally { f }\<close> where \<open>f\<close> only changes the state and does not throw.\<close>

definition finally_do :: "('s, 'a) js \<Rightarrow> ('s \<Rightarrow> 's) \<Rightarrow> ('s, 'a) js" where
  "finally_do m f = (\<lambda>s. case m s of (r, t) \<Rightarrow> (r, f t))"

definition throw_if :: "bool \<Rightarrow> string \<Rightarrow> ('s, unit) js" where
  "throw_if b msg = (if b then throw (Error msg) else ret ())"

definition of_result :: "exn + 'a \<Rightarrow> ('s, 'a) js" where
  "of_result r = (\<lambda>s. (r, s))"

text \<open>\<open>for (const x of xs) { await f(x) }\<close>\<close>

primrec for_each :: "('a \<Rightarrow> ('s, unit) js) \<Rightarrow> 'a list \<Rightarrow> ('s, unit) js" where
  "for_each f [] = ret ()"
| "for_each f (x # xs) = andthen (f x) (for_each f xs)"

text \<open>The same loop with an accumulator, such as a list of transaction hashes.\<close>

primrec fold_js :: "('a \<Rightarrow> 'b \<Rightarrow> ('s, 'b) js) \<Rightarrow> 'a list \<Rightarrow> 'b \<Rightarrow> ('s, 'b) js" where
  "fold_js f [] acc = ret acc"
| "fold_js f (x # xs) acc = bnd (f x acc) (fold_js f xs)"

text \<open>The monad's operations applied to a state, with which \<open>simp\<close> runs a handler.\<close>

named_theorems js_run \<open>running an effectful computation on a state\<close>

lemma ret_run [js_run, simp]: "ret x s = (Inr x, s)"
  by (simp add: ret_def)

lemma throw_run [js_run, simp]: "throw e s = (Inl e, s)"
  by (simp add: throw_def)

lemma gets_run [js_run, simp]: "gets f s = (Inr (f s), s)"
  by (simp add: gets_def)

lemma modify_run [js_run, simp]: "modify f s = (Inr (), f s)"
  by (simp add: modify_def)

lemma of_result_run [js_run, simp]: "of_result r s = (r, s)"
  by (simp add: of_result_def)

lemma throw_if_run [js_run, simp]:
  "throw_if b msg s = (if b then (Inl (Error msg), s) else (Inr (), s))"
  by (simp add: throw_if_def)

lemma bnd_run [js_run]:
  "bnd m f s = (case m s of (Inl e, t) \<Rightarrow> (Inl e, t) | (Inr x, t) \<Rightarrow> f x t)"
  by (simp add: bnd_def)

lemma andthen_run [js_run]:
  "andthen m n s = (case m s of (Inl e, t) \<Rightarrow> (Inl e, t) | (Inr x, t) \<Rightarrow> n t)"
  by (simp add: andthen_def bnd_def)

lemma catching_run [js_run]:
  "catching m h s = (case m s of (Inl e, t) \<Rightarrow> h e t | (Inr x, t) \<Rightarrow> (Inr x, t))"
  by (simp add: catching_def)

lemma finally_do_run [js_run]: "finally_do m f s = (fst (m s), f (snd (m s)))"
  by (simp add: finally_do_def split: prod.split)

text \<open>Inversion: how a sequence can have returned, or thrown.\<close>

lemma bnd_InrE:
  assumes "bnd m f s = (Inr y, u)"
  obtains x t where "m s = (Inr x, t)" and "f x t = (Inr y, u)"
  using assms by (auto simp: bnd_run split: prod.splits sum.splits)

lemma andthen_InrE:
  assumes "andthen m n s = (Inr y, u)"
  obtains x t where "m s = (Inr x, t)" and "n t = (Inr y, u)"
  using assms by (auto simp: andthen_run split: prod.splits sum.splits)

lemma throw_if_InrD: "throw_if b msg s = (Inr y, u) \<Longrightarrow> \<not> b \<and> u = s"
  by (auto split: if_splits)

section \<open>Relations every handler respects\<close>

text \<open>
  \<open>along R m\<close>: whatever \<open>m\<close> returns or throws, the state after it is related by \<open>R\<close> to the state
  before. A reflexive and transitive \<open>R\<close> (an invariant kept, a counter that only grows, a part of
  the state that stays) composes over the code's sequencing, branching, catching and loops.
\<close>

definition along :: "('s \<Rightarrow> 's \<Rightarrow> bool) \<Rightarrow> ('s, 'a) js \<Rightarrow> bool" where
  "along R m \<longleftrightarrow> (\<forall>s. R s (snd (m s)))"

lemma alongI: "(\<And>s. R s (snd (m s))) \<Longrightarrow> along R m"
  by (simp add: along_def)

lemma alongD: "along R m \<Longrightarrow> R s (snd (m s))"
  by (simp add: along_def)

text \<open>A value the computation can return; what a handler does next may depend on it.\<close>

definition returns :: "('s, 'a) js \<Rightarrow> 'a \<Rightarrow> bool" where
  "returns m x \<longleftrightarrow> (\<exists>s t. m s = (Inr x, t))"

locale step_relation =
  fixes R :: "'s \<Rightarrow> 's \<Rightarrow> bool"
  assumes R_refl: "R s s"
    and R_trans: "R s t \<Longrightarrow> R t u \<Longrightarrow> R s u"
begin

lemma along_ret: "along R (ret x)"
  by (simp add: along_def R_refl)

lemma along_throw: "along R (throw e)"
  by (simp add: along_def R_refl)

lemma along_gets: "along R (gets f)"
  by (simp add: along_def R_refl)

lemma along_of_result: "along R (of_result r)"
  by (simp add: along_def R_refl)

lemma along_throw_if: "along R (throw_if b msg)"
  by (simp add: along_def R_refl)

lemma along_modify: "(\<And>s. R s (f s)) \<Longrightarrow> along R (modify f)"
  by (simp add: along_def)

lemma along_bnd:
  assumes "along R m" and "\<And>x. along R (f x)"
  shows "along R (bnd m f)"
proof (rule alongI)
  fix s
  have "R s (snd (m s))" using assms(1) by (rule alongD)
  moreover have "R t (snd (f x t))" for x t using assms(2) by (rule alongD)
  ultimately show "R s (snd (bnd m f s))"
    by (auto simp: bnd_run intro: R_trans split: prod.split sum.split)
qed

lemma along_bnd_returns:
  assumes "along R m" and "\<And>x. returns m x \<Longrightarrow> along R (f x)"
  shows "along R (bnd m f)"
proof (rule alongI)
  fix s
  have 1: "R s (snd (m s))" using assms(1) by (rule alongD)
  show "R s (snd (bnd m f s))"
  proof (cases "fst (m s)")
    case (Inl e)
    then show ?thesis using 1 by (cases "m s") (simp add: bnd_run)
  next
    case (Inr x)
    then have "returns m x" unfolding returns_def by (metis prod.collapse)
    then have "R (snd (m s)) (snd (f x (snd (m s))))" by (rule alongD [OF assms(2)])
    then have "R s (snd (f x (snd (m s))))" by (rule R_trans [OF 1])
    then show ?thesis using Inr by (cases "m s") (simp add: bnd_run)
  qed
qed

lemma along_andthen: "along R m \<Longrightarrow> along R n \<Longrightarrow> along R (andthen m n)"
  by (simp add: andthen_def along_bnd)

lemma along_catching:
  assumes "along R m" and "\<And>e. along R (h e)"
  shows "along R (catching m h)"
proof (rule alongI)
  fix s
  have "R s (snd (m s))" using assms(1) by (rule alongD)
  moreover have "R t (snd (h e t))" for e t using assms(2) by (rule alongD)
  ultimately show "R s (snd (catching m h s))"
    by (auto simp: catching_run intro: R_trans split: prod.split sum.split)
qed

lemma along_finally: "along R m \<Longrightarrow> (\<And>s. R s (f s)) \<Longrightarrow> along R (finally_do m f)"
  by (auto simp: along_def finally_do_run intro: R_trans)

lemma along_for_each: "(\<And>x. along R (f x)) \<Longrightarrow> along R (for_each f xs)"
  by (induction xs) (auto intro: along_ret along_andthen)

lemma along_fold: "(\<And>x b. along R (f x b)) \<Longrightarrow> along R (fold_js f xs acc)"
  by (induction xs arbitrary: acc) (auto intro: along_ret along_bnd)

lemma along_if: "(b \<Longrightarrow> along R m) \<Longrightarrow> (\<not> b \<Longrightarrow> along R n) \<Longrightarrow> along R (if b then m else n)"
  by simp

lemma along_option:
  "along R n \<Longrightarrow> (\<And>x. along R (m x)) \<Longrightarrow> along R (case v of None \<Rightarrow> n | Some x \<Rightarrow> m x)"
  by (cases v) auto

lemmas along_rules = along_ret along_throw along_gets along_of_result along_throw_if
  along_bnd along_andthen along_catching along_for_each along_fold along_if along_option

end

text \<open>A property of the state that is kept; what a handler reads first may rest on it.\<close>

definition keeps :: "('s \<Rightarrow> bool) \<Rightarrow> 's \<Rightarrow> 's \<Rightarrow> bool" where
  "keeps I s t \<longleftrightarrow> (I s \<longrightarrow> I t)"

interpretation keeping: step_relation "keeps I" for I
  by unfold_locales (auto simp: keeps_def)

lemma along_keepsI: "(\<And>s. I s \<Longrightarrow> I (snd (m s))) \<Longrightarrow> along (keeps I) m"
  by (simp add: along_def keeps_def)

lemma along_keepsD: "along (keeps I) m \<Longrightarrow> I s \<Longrightarrow> I (snd (m s))"
  by (simp add: along_def keeps_def)

lemma along_keeps_gets: "(\<And>s. I s \<Longrightarrow> along (keeps I) (g (f s))) \<Longrightarrow> along (keeps I) (bnd (gets f) g)"
  by (simp add: along_def keeps_def bnd_run)

lemma along_keeps_bnd_run:
  assumes "along (keeps I) m" and "\<And>s x t. I s \<Longrightarrow> m s = (Inr x, t) \<Longrightarrow> along (keeps I) (f x)"
  shows "along (keeps I) (bnd m f)"
proof (rule along_keepsI)
  fix s assume s: "I s"
  show "I (snd (bnd m f s))"
  proof (cases "m s")
    case (Pair r t)
    then have t: "I t" using along_keepsD [OF assms(1) s] by simp
    show ?thesis
    proof (cases r)
      case (Inl e)
      then show ?thesis using Pair t by (simp add: bnd_run)
    next
      case (Inr x)
      then show ?thesis using Pair along_keepsD [OF assms(2) [OF s] t] by (simp add: bnd_run)
    qed
  qed
qed

section \<open>Collections with insertion order\<close>

text \<open>\<open>Set.add\<close>\<close>

definition set_add :: "'a \<Rightarrow> 'a list \<Rightarrow> 'a list" where
  "set_add x xs = (if x \<in> set xs then xs else xs @ [x])"

lemma set_set_add [simp]: "set (set_add x xs) = insert x (set xs)"
  by (auto simp: set_add_def)

lemma distinct_set_add [simp]: "distinct (set_add x xs) = distinct xs"
  by (auto simp: set_add_def)

text \<open>\<open>new Set(xs)\<close>\<close>

definition set_of_list :: "'a list \<Rightarrow> 'a list" where
  "set_of_list xs = foldl (\<lambda>acc x. set_add x acc) [] xs"

lemma set_foldl_set_add: "set (foldl (\<lambda>acc x. set_add x acc) acc xs) = set acc \<union> set xs"
  by (induction xs arbitrary: acc) auto

lemma distinct_foldl_set_add:
  "distinct acc \<Longrightarrow> distinct (foldl (\<lambda>acc x. set_add x acc) acc xs)"
  by (induction xs arbitrary: acc) auto

lemma set_set_of_list [simp]: "set (set_of_list xs) = set xs"
  by (simp add: set_of_list_def set_foldl_set_add)

lemma distinct_set_of_list [simp]: "distinct (set_of_list xs)"
  by (simp add: set_of_list_def distinct_foldl_set_add)

section \<open>Strings\<close>

definition lower_char :: "char \<Rightarrow> char" where
  "lower_char c = (let n = of_char c :: nat in
     if 65 \<le> n \<and> n \<le> 90
     then (case c of Char b0 b1 b2 b3 b4 b5 b6 b7 \<Rightarrow> Char b0 b1 b2 b3 b4 True b6 b7) else c)"

definition toLowerCase :: "string \<Rightarrow> string" where
  "toLowerCase s = map lower_char s"

lemma lower_char_idem [simp]: "lower_char (lower_char c) = lower_char c"
  by (cases c) (auto simp: lower_char_def Let_def of_char_def split: if_splits)

lemma toLowerCase_idem [simp]: "toLowerCase (toLowerCase s) = toLowerCase s"
  by (simp add: toLowerCase_def)

lemma length_toLowerCase [simp]: "length (toLowerCase s) = length s"
  by (simp add: toLowerCase_def)

lemma toLowerCase_append [simp]: "toLowerCase (s @ t) = toLowerCase s @ toLowerCase t"
  by (simp add: toLowerCase_def)

lemma toLowerCase_drop: "toLowerCase (drop n s) = drop n (toLowerCase s)"
  by (simp add: toLowerCase_def drop_map)

definition startsWith :: "string \<Rightarrow> string \<Rightarrow> bool" where
  "startsWith s p \<longleftrightarrow> take (length p) s = p"

text \<open>\<open>String.includes\<close>\<close>

fun has_substring :: "string \<Rightarrow> string \<Rightarrow> bool" where
  "has_substring [] p = (p = [])"
| "has_substring (c # s) p = (take (length p) (c # s) = p \<or> has_substring s p)"

lemma startsWith_iff_prefix: "startsWith s p \<longleftrightarrow> prefix p s"
  by (metis append_eq_conv_conj append_take_drop_id prefix_def startsWith_def)

lemma includes_iff: "has_substring s p \<longleftrightarrow> (\<exists>u v. s = u @ p @ v)"
proof (induction s)
  case Nil
  show ?case by auto
next
  case (Cons c s)
  have "(\<exists>u v. c # s = u @ p @ v) \<longleftrightarrow> prefix p (c # s) \<or> (\<exists>u v. s = u @ p @ v)"
    by (metis append_Cons append_Nil list.sel(3) neq_Nil_conv prefix_def tl_append2)
  then show ?case
    by (simp add: Cons.IH flip: startsWith_iff_prefix) (simp add: startsWith_def)
qed

text \<open>The line break in template strings.\<close>

definition nl :: string where "nl = [CHR 0x0A]"

text \<open>
  The members that every object inherits: reading one of these names from a table of the program does not
  give \<open>undefined\<close>, even when the table has no such entry.
\<close>

definition objectPrototype :: "string list" where
  "objectPrototype = [''constructor'', ''__defineGetter__'', ''__defineSetter__'', ''hasOwnProperty'', ''__lookupGetter__'',
     ''__lookupSetter__'', ''isPrototypeOf'', ''propertyIsEnumerable'', ''toString'', ''valueOf'', ''__proto__'', ''toLocaleString'']"

section \<open>Printing integers\<close>

definition digit_char :: "nat \<Rightarrow> char" where
  "digit_char d = (if d < 10 then char_of (48 + d) else char_of (87 + d))"

text \<open>Digits in a base between 2 and 16, most significant first.\<close>

function digits_in :: "nat \<Rightarrow> nat \<Rightarrow> string" where
  "digits_in b n = (if n < b \<or> b < 2 then [digit_char n] else digits_in b (n div b) @ [digit_char (n mod b)])"
  by pat_completeness auto
termination
  by (relation "measure snd") auto

declare digits_in.simps [simp del]

definition int_str :: "int \<Rightarrow> string" where
  "int_str n = (if n < 0 then ''-'' @ digits_in 10 (nat (- n)) else digits_in 10 (nat n))"

lemma digits_in_nonempty [simp]: "digits_in b n \<noteq> []"
  by (subst digits_in.simps) simp

end
