(* ===== verification/JsNumber.thy ===== *)
theory JsNumber
  imports Prelude "HOL-Library.Log_Nat"
begin

text \<open>
  JavaScript numbers. A finite double is the rational number it denotes; every arithmetic
  operation rounds its exact result to the nearest double, ties to even, with a significand of
  53 bits (\<open>rnd\<close>). A \<open>number\<close> is \<open>Some\<close> of such a rational or \<open>None\<close> for \<open>NaN\<close>, for which
  every comparison is false. The exponent is not bounded: overflow to infinity, subnormal
  numbers and the sign of zero are outside the model (gas, prices and block numbers are far from
  them). Counters that the code only increments, compares and subtracts (block numbers, nonces)
  are integers of type \<open>int\<close>: they are exact up to \<open>2 ^ 53\<close> (\<open>rnd_of_int\<close>).
\<close>

section \<open>Rounding to a double\<close>

definition bit_length :: "int \<Rightarrow> int" where
  "bit_length n = int (floorlog 2 (nat n))"

text \<open>The position of the leading bit: \<open>2 powi ilog2 x \<le> x < 2 powi (ilog2 x + 1)\<close> for \<open>x > 0\<close>.\<close>

definition ilog2 :: "rat \<Rightarrow> int" where
  "ilog2 x = (case quotient_of x of (a, b) \<Rightarrow>
     (let k = bit_length a - bit_length b in if x < 2 powi k then k - 1 else k))"

text \<open>Round half to even.\<close>

definition round_even :: "rat \<Rightarrow> int" where
  "round_even y = (let f = \<lfloor>y\<rfloor>; r = y - of_int f in
     if r < 1 / 2 then f else if 1 / 2 < r then f + 1 else if even f then f else f + 1)"

definition rnd_pos :: "rat \<Rightarrow> rat" where
  "rnd_pos x = (let u = 2 powi (ilog2 x - 52) in of_int (round_even (x / u)) * u)"

definition rnd :: "rat \<Rightarrow> rat" where
  "rnd x = (if x = 0 then 0 else if x < 0 then - rnd_pos (- x) else rnd_pos x)"

lemma round_even_of_int [simp]: "round_even (of_int n) = n"
  by (simp add: round_even_def)

lemma round_even_bounds: "\<lfloor>y\<rfloor> \<le> round_even y \<and> round_even y \<le> \<lceil>y\<rceil>"
proof -
  have "\<lceil>y\<rceil> = \<lfloor>y\<rfloor> + 1" if "y - of_int \<lfloor>y\<rfloor> \<noteq> 0"
    using that by (metis ceiling_altdef diff_eq_diff_eq diff_zero)
  moreover have "\<lfloor>y\<rfloor> \<le> \<lceil>y\<rceil>" by (rule floor_le_ceiling)
  ultimately show ?thesis by (auto simp: round_even_def Let_def)
qed

lemma round_even_mono:
  assumes "x \<le> y" shows "round_even x \<le> round_even y"
proof (cases "\<lfloor>x\<rfloor> = \<lfloor>y\<rfloor>")
  case True
  with assms show ?thesis by (auto simp: round_even_def Let_def)
next
  case False
  with assms have "\<lfloor>x\<rfloor> + 1 \<le> \<lfloor>y\<rfloor>"
    using floor_mono [OF assms] by simp
  moreover have "round_even x \<le> \<lfloor>x\<rfloor> + 1" by (auto simp: round_even_def Let_def)
  moreover have "\<lfloor>y\<rfloor> \<le> round_even y" using round_even_bounds by blast
  ultimately show ?thesis by simp
qed

lemma bit_length_bounds:
  assumes "0 < n" shows "2 powi (bit_length n - 1) \<le> (of_int n :: rat)" and "(of_int n :: rat) < 2 powi bit_length n"
proof -
  let ?k = "floorlog 2 (nat n)"
  from assms have b: "2 ^ (?k - 1) \<le> nat n \<and> nat n < 2 ^ ?k"
    using floorlog_bounds [of "nat n" 2] by simp
  from assms have k: "0 < ?k" by (simp add: floorlog_def)
  have "(2::rat) powi (bit_length n - 1) = 2 ^ (?k - 1)"
    using k by (simp add: bit_length_def power_int_def nat_diff_distrib)
  also have "\<dots> = of_nat (2 ^ (?k - 1))" by simp
  also have "\<dots> \<le> of_nat (nat n)" using b by (simp only: of_nat_le_iff)
  also have "\<dots> = of_int n" using assms by (simp add: of_nat_nat)
  finally show "2 powi (bit_length n - 1) \<le> (of_int n :: rat)" .
  have "(of_int n :: rat) = of_nat (nat n)" using assms by (simp add: of_nat_nat)
  also have "\<dots> < of_nat (2 ^ ?k)" using b by (simp only: of_nat_less_iff)
  also have "\<dots> = 2 powi bit_length n" by (simp add: bit_length_def power_int_def)
  finally show "(of_int n :: rat) < 2 powi bit_length n" .
qed

lemma ilog2_bounds:
  assumes "0 < x" shows "2 powi ilog2 x \<le> x" and "x < 2 powi (ilog2 x + 1)"
proof -
  obtain a b where q: "quotient_of x = (a, b)" by (cases "quotient_of x")
  have bpos: "0 < b" using quotient_of_denom_pos [OF q] .
  have x: "x = of_int a / of_int b" using quotient_of_div [OF q] .
  have apos: "0 < a"
    using assms bpos unfolding x by (simp add: zero_less_divide_iff)
  let ?k = "bit_length a - bit_length b"
  have "(2::rat) powi (?k - 1) * of_int b \<le> 2 powi (?k - 1) * 2 powi bit_length b"
    using bit_length_bounds(2) [OF bpos] by (simp add: mult_left_mono)
  also have "\<dots> = 2 powi (bit_length a - 1)" by (simp flip: power_int_add)
  also have "\<dots> \<le> of_int a" by (rule bit_length_bounds(1) [OF apos])
  finally have lo: "2 powi (?k - 1) \<le> x"
    using bpos unfolding x by (simp add: pos_le_divide_eq)
  have "(of_int a :: rat) < 2 powi bit_length a" by (rule bit_length_bounds(2) [OF apos])
  also have "\<dots> = 2 powi (?k + 1) * 2 powi (bit_length b - 1)" by (simp flip: power_int_add)
  also have "\<dots> \<le> 2 powi (?k + 1) * of_int b"
    using bit_length_bounds(1) [OF bpos] by (intro mult_left_mono) auto
  finally have hi: "x < 2 powi (?k + 1)"
    using bpos unfolding x by (simp add: pos_divide_less_eq)
  show "2 powi ilog2 x \<le> x" and "x < 2 powi (ilog2 x + 1)"
    using lo hi by (auto simp: ilog2_def q Let_def not_less)
qed

lemma powi_le_cancel: "(2::rat) powi m < 2 powi n \<Longrightarrow> m < n"
  by (meson not_less one_le_numeral power_int_increasing)

lemma ilog2_mono:
  assumes "0 < x" "x \<le> y" shows "ilog2 x \<le> ilog2 y"
proof -
  have "2 powi ilog2 x \<le> x" using assms by (simp add: ilog2_bounds)
  also have "\<dots> \<le> y" by (rule assms)
  also have "y < 2 powi (ilog2 y + 1)" using assms by (simp add: ilog2_bounds)
  finally show ?thesis using powi_le_cancel by fastforce
qed

lemma scale_52: "2 ^ 52 * (2::rat) powi (k - 52) = 2 powi k" "2 ^ 53 * (2::rat) powi (k - 52) = 2 powi (k + 1)"
  by (simp_all add: power_int_diff power_int_add)

lemma quotient_52: "2 powi k / (2::rat) powi (k - 52) = of_int (2 ^ 52)"
  by (simp flip: power_int_diff)

lemma rnd_pos_bounds:
  assumes "0 < x" shows "2 powi ilog2 x \<le> rnd_pos x" and "rnd_pos x \<le> 2 powi (ilog2 x + 1)"
proof -
  let ?u = "(2::rat) powi (ilog2 x - 52)"
  have u: "0 < ?u" by simp
  have "2 powi ilog2 x / ?u = (2::rat) powi 52" by (simp flip: power_int_diff)
  then have lo: "of_int (2 ^ 52) \<le> x / ?u"
    using ilog2_bounds(1) [OF assms] u by (metis divide_right_mono less_imp_le of_int_numeral of_int_power power_int_numeral)
  have "2 powi (ilog2 x + 1) / ?u = (2::rat) powi 53" by (simp flip: power_int_diff)
  then have hi: "x / ?u \<le> of_int (2 ^ 53)"
    using ilog2_bounds(2) [OF assms] u
    by (metis divide_right_mono less_imp_le of_int_numeral of_int_power power_int_numeral)
  have r: "2 ^ 52 \<le> round_even (x / ?u)" "round_even (x / ?u) \<le> 2 ^ 53"
    using round_even_mono [OF lo] round_even_mono [OF hi] by (simp_all only: round_even_of_int)
  have "(2::rat) powi ilog2 x = of_int (2 ^ 52) * ?u" using scale_52(1) by simp
  also have "\<dots> \<le> of_int (round_even (x / ?u)) * ?u"
    using r(1) u by (intro mult_right_mono) (simp_all only: of_int_le_iff less_imp_le)
  finally show "2 powi ilog2 x \<le> rnd_pos x" by (simp add: rnd_pos_def Let_def)
  have "of_int (round_even (x / ?u)) * ?u \<le> of_int (2 ^ 53) * ?u"
    using r(2) u by (intro mult_right_mono) (simp_all only: of_int_le_iff less_imp_le)
  also have "\<dots> = 2 powi (ilog2 x + 1)" using scale_52(2) by simp
  finally show "rnd_pos x \<le> 2 powi (ilog2 x + 1)" by (simp add: rnd_pos_def Let_def)
qed

lemma rnd_pos_mono:
  assumes "0 < x" "x \<le> y" shows "rnd_pos x \<le> rnd_pos y"
proof (cases "ilog2 x = ilog2 y")
  case True
  let ?u = "(2::rat) powi (ilog2 y - 52)"
  have "x / ?u \<le> y / ?u" using assms(2) by (simp add: divide_right_mono)
  then have "round_even (x / ?u) \<le> round_even (y / ?u)" by (rule round_even_mono)
  then show ?thesis
    unfolding rnd_pos_def Let_def True by (intro mult_right_mono) simp_all
next
  case False
  with ilog2_mono [OF assms] have "ilog2 x + 1 \<le> ilog2 y" by simp
  then have "(2::rat) powi (ilog2 x + 1) \<le> 2 powi ilog2 y" by (rule power_int_increasing) simp
  moreover have "0 < y" using assms by simp
  ultimately show ?thesis
    using rnd_pos_bounds(2) [OF assms(1)] rnd_pos_bounds(1) [of y] by linarith
qed

lemma rnd_pos_positive: "0 < x \<Longrightarrow> 0 < rnd_pos x"
  using rnd_pos_bounds(1) [of x] by (meson less_le_trans zero_less_numeral zero_less_power_int)

lemma rnd_0 [simp]: "rnd 0 = 0"
  by (simp add: rnd_def)

lemma rnd_mono: assumes "x \<le> y" shows "rnd x \<le> rnd y"
proof -
  consider "0 < x" | "x \<le> 0" "0 \<le> y" | "y < 0" by linarith
  then show ?thesis
  proof cases
    case 1
    with assms show ?thesis by (simp add: rnd_def rnd_pos_mono)
  next
    case 2
    then have "rnd x \<le> 0" by (simp add: rnd_def rnd_pos_positive less_imp_le)
    moreover have "0 \<le> rnd y" using 2 by (simp add: rnd_def rnd_pos_positive less_imp_le)
    ultimately show ?thesis by simp
  next
    case 3
    with assms show ?thesis by (simp add: rnd_def rnd_pos_mono)
  qed
qed

lemma rnd_nonneg: "0 \<le> x \<Longrightarrow> 0 \<le> rnd x"
  using rnd_mono [of 0 x] by simp

text \<open>A number with a significand of at most 53 bits is its own double.\<close>

lemma rnd_pos_exact:
  assumes "0 < m" "m \<le> 2 ^ 53" shows "rnd_pos (of_int m * 2 powi e) = of_int m * 2 powi e"
proof -
  let ?x = "of_int m * (2::rat) powi e"
  let ?l = "ilog2 ?x"
  have xpos: "0 < ?x" using assms by simp
  show ?thesis
  proof (cases "?l - 52 \<le> e")
    case True
    then obtain j where j: "e = ?l - 52 + int j" using zle_iff_zadd by auto
    have "?x / 2 powi (?l - 52) = of_int (m * 2 ^ j)"
      by (subst (1) j) (simp add: power_int_add)
    then show ?thesis
      by (simp add: rnd_pos_def Let_def del: of_int_mult) (subst (2) j, simp add: power_int_add)
  next
    case False
    have 1: "(2::rat) powi (e + 53) \<le> 2 powi ?l"
      using False by (intro power_int_increasing) simp_all
    have 2: "2 powi ?l \<le> ?x" by (rule ilog2_bounds(1) [OF xpos])
    have "?x \<le> of_int (2 ^ 53) * 2 powi e"
      using assms by (intro mult_right_mono) (simp_all only: of_int_le_iff, simp)
    also have "\<dots> = 2 powi (e + 53)" by (simp add: power_int_add)
    finally have "?x = 2 powi ?l" using 1 2 by linarith
    then have "?x / 2 powi (?l - 52) = 2 powi ?l / 2 powi (?l - 52)" by (rule arg_cong)
    also have "\<dots> = of_int (2 ^ 52)" by (rule quotient_52)
    finally have "rnd_pos ?x = of_int (2 ^ 52) * 2 powi (?l - 52)"
      unfolding rnd_pos_def Let_def by (simp only: round_even_of_int)
    also have "\<dots> = 2 powi ?l" using scale_52(1) by simp
    finally show ?thesis using \<open>?x = 2 powi ?l\<close> by simp
  qed
qed

lemma rnd_eq_pos: "0 < x \<Longrightarrow> rnd x = rnd_pos x"
  by (simp add: rnd_def)

lemma rnd_exact:
  assumes "\<bar>m\<bar> \<le> 2 ^ 53" shows "rnd (of_int m * 2 powi e) = of_int m * 2 powi e"
proof -
  consider "m = 0" | "0 < m" | "m < 0" by linarith
  then show ?thesis
  proof cases
    case 2
    then have "0 < of_int m * (2::rat) powi e" by simp
    then show ?thesis using 2 assms by (simp only: rnd_eq_pos rnd_pos_exact)
  next
    case 3
    then have "rnd_pos (of_int (- m) * 2 powi e) = of_int (- m) * 2 powi e"
      using assms by (intro rnd_pos_exact) auto
    then show ?thesis using 3 by (simp add: rnd_def mult_neg_pos mult_less_0_iff)
  qed simp
qed

lemma rnd_of_int: "\<bar>m\<bar> \<le> 2 ^ 53 \<Longrightarrow> rnd (of_int m) = of_int m"
  using rnd_exact [of m 0] by simp

lemma rnd_numeral [simp]: "numeral k \<le> (2 ^ 53 :: int) \<Longrightarrow> rnd (numeral k) = numeral k"
  using rnd_of_int [of "numeral k"] by simp

lemma rnd_double_of_int: "\<bar>m\<bar> \<le> 2 ^ 53 \<Longrightarrow> rnd (of_int m * 2) = of_int m * 2"
  using rnd_exact [of m 1] by simp

text \<open>
  A double is identified by its significand: this evaluates \<open>rnd\<close> on concrete numbers.
\<close>

lemma round_even_eqI: "\<bar>y - of_int m\<bar> < 1 / 2 \<Longrightarrow> round_even y = m"
proof -
  assume a: "\<bar>y - of_int m\<bar> < 1 / 2"
  then have "\<lfloor>y\<rfloor> = m \<or> \<lfloor>y\<rfloor> = m - 1" by linarith
  with a show ?thesis by (auto simp: round_even_def Let_def abs_if split: if_splits)
qed

lemma ilog2_eqI:
  assumes "2 powi k \<le> x" "x < 2 powi (k + 1)" shows "ilog2 x = k"
proof -
  have x: "0 < x" using assms(1) by (meson less_le_trans zero_less_numeral zero_less_power_int)
  have "k < ilog2 x + 1"
    using assms(1) ilog2_bounds(2) [OF x] by (intro powi_le_cancel) (rule le_less_trans)
  moreover have "ilog2 x < k + 1"
    using assms(2) ilog2_bounds(1) [OF x] by (intro powi_le_cancel) (rule le_less_trans)
  ultimately show ?thesis by simp
qed

lemma rnd_eqI:
  assumes "2 powi (e + 52) \<le> x" "x < 2 powi (e + 53)" "\<bar>x / 2 powi e - of_int m\<bar> < 1 / 2"
  shows "rnd x = of_int m * 2 powi e"
proof -
  have "0 < x" using assms(1) by (meson less_le_trans zero_less_numeral zero_less_power_int)
  moreover have "ilog2 x = e + 52" using assms by (intro ilog2_eqI) (simp_all add: add.assoc)
  ultimately show ?thesis
    using round_even_eqI [OF assms(3)] by (simp add: rnd_eq_pos rnd_pos_def)
qed

section \<open>Operations on numbers\<close>

type_synonym number = "rat option"

abbreviation NaN :: number where
  "NaN \<equiv> None"

definition num :: "int \<Rightarrow> number" where
  "num n = Some (of_int n)"

definition num_lt :: "number \<Rightarrow> number \<Rightarrow> bool" where
  "num_lt a b = (case (a, b) of (Some x, Some y) \<Rightarrow> x < y | _ \<Rightarrow> False)"

definition num_add :: "number \<Rightarrow> number \<Rightarrow> number" where
  "num_add a b = (case (a, b) of (Some x, Some y) \<Rightarrow> Some (rnd (x + y)) | _ \<Rightarrow> NaN)"

definition num_mul :: "number \<Rightarrow> number \<Rightarrow> number" where
  "num_mul a b = (case (a, b) of (Some x, Some y) \<Rightarrow> Some (rnd (x * y)) | _ \<Rightarrow> NaN)"

definition num_div :: "number \<Rightarrow> rat \<Rightarrow> number" where
  "num_div a y = map_option (\<lambda>x. rnd (x / y)) a"

definition math_floor :: "number \<Rightarrow> number" where
  "math_floor a = map_option (\<lambda>x. of_int \<lfloor>x\<rfloor>) a"

definition math_ceil :: "number \<Rightarrow> number" where
  "math_ceil a = map_option (\<lambda>x. of_int \<lceil>x\<rceil>) a"

text \<open>\<open>Math.round\<close> rounds a half upwards.\<close>

definition math_round :: "number \<Rightarrow> number" where
  "math_round a = map_option (\<lambda>x. of_int \<lfloor>x + 1 / 2\<rfloor>) a"

lemma num_lt_NaN [simp]: "\<not> num_lt NaN b" "\<not> num_lt a NaN"
  by (auto simp: num_lt_def split: option.split)

lemma num_lt_num [simp]: "num_lt (num m) (num n) \<longleftrightarrow> m < n"
  by (simp add: num_lt_def num_def)

section \<open>Reading and printing numbers\<close>

text \<open>The value of a digit in a base up to 36.\<close>

definition digit_value :: "char \<Rightarrow> nat option" where
  "digit_value c = (let n = of_char c :: nat in
     if 48 \<le> n \<and> n \<le> 57 then Some (n - 48)
     else if 97 \<le> n \<and> n \<le> 122 then Some (n - 87)
     else if 65 \<le> n \<and> n \<le> 90 then Some (n - 55) else None)"

definition is_digit_in :: "nat \<Rightarrow> char \<Rightarrow> bool" where
  "is_digit_in b c = (case digit_value c of Some d \<Rightarrow> d < b | None \<Rightarrow> False)"

definition digits_value :: "nat \<Rightarrow> string \<Rightarrow> nat" where
  "digits_value b s = foldl (\<lambda>acc c. acc * b + the (digit_value c)) 0 s"

definition is_white :: "char \<Rightarrow> bool" where
  "is_white c = (let n = of_char c :: nat in n = 32 \<or> (9 \<le> n \<and> n \<le> 13))"

definition strip_hex :: "string \<Rightarrow> string option" where
  "strip_hex s = (if take 2 s = ''0x'' \<or> take 2 s = ''0X'' then Some (drop 2 s) else None)"

definition split_sign :: "string \<Rightarrow> bool \<times> string" where
  "split_sign s = (case s of [] \<Rightarrow> (False, [])
     | c # t \<Rightarrow> if c = CHR ''-'' then (True, t) else if c = CHR ''+'' then (False, t) else (False, s))"

text \<open>
  \<open>parseInt(s, radix)\<close>, radix 0 for none given: leading white space and a sign, a \<open>0x\<close> prefix in
  radix 16 or without a radix, then the longest prefix of digits; \<open>NaN\<close> when there is no digit.
\<close>

definition parse_int :: "nat \<Rightarrow> string \<Rightarrow> int option" where
  "parse_int radix s =
     (case split_sign (dropWhile is_white s) of (neg, t) \<Rightarrow>
       (let hex = (if radix = 0 \<or> radix = 16 then strip_hex t else None);
            base = (if radix = 0 then (if hex = None then 10 else 16) else radix);
            ds = takeWhile (is_digit_in base) (case hex of Some u \<Rightarrow> u | None \<Rightarrow> t)
        in if ds = [] then None
           else Some (if neg then - int (digits_value base ds) else int (digits_value base ds))))"

definition parseInt :: "string \<Rightarrow> number" where
  "parseInt s = map_option (\<lambda>n. rnd (of_int n)) (parse_int 0 s)"

definition parseInt16 :: "string \<Rightarrow> number" where
  "parseInt16 s = map_option (\<lambda>n. rnd (of_int n)) (parse_int 16 s)"

text \<open>
  \<open>Number(s)\<close>: white space around, the empty string is 0, a hexadecimal literal without sign, or a
  decimal literal with an optional fraction and exponent; anything else is \<open>NaN\<close>.
  (\<open>Infinity\<close> is outside the model.)
\<close>

definition parse_exponent :: "string \<Rightarrow> int option" where
  "parse_exponent s = (case s of [] \<Rightarrow> Some 0
     | c # t \<Rightarrow> if c = CHR ''e'' \<or> c = CHR ''E'' then
         (case split_sign t of (neg, ds) \<Rightarrow>
           if ds \<noteq> [] \<and> list_all (is_digit_in 10) ds
           then Some (if neg then - int (digits_value 10 ds) else int (digits_value 10 ds)) else None)
       else None)"

definition parse_decimal :: "string \<Rightarrow> rat option" where
  "parse_decimal s =
     (let whole = takeWhile (is_digit_in 10) s; rest = dropWhile (is_digit_in 10) s;
          frac = (case rest of c # t \<Rightarrow> if c = CHR ''.'' then takeWhile (is_digit_in 10) t else [] | [] \<Rightarrow> []);
          rest2 = (case rest of c # t \<Rightarrow> if c = CHR ''.'' then dropWhile (is_digit_in 10) t else rest | [] \<Rightarrow> [])
      in if whole = [] \<and> frac = [] then None
         else map_option (\<lambda>e. of_nat (digits_value 10 (whole @ frac)) * 10 powi (e - int (length frac)))
                (parse_exponent rest2))"

definition Number_of :: "string \<Rightarrow> number" where
  "Number_of s =
     (let t = rev (dropWhile is_white (rev (dropWhile is_white s))) in
      if t = [] then Some 0
      else case strip_hex t of
        Some ds \<Rightarrow> if ds \<noteq> [] \<and> list_all (is_digit_in 16) ds then Some (rnd (of_nat (digits_value 16 ds))) else NaN
      | None \<Rightarrow> (case split_sign t of (neg, u) \<Rightarrow>
          map_option (\<lambda>x. rnd (if neg then - x else x)) (parse_decimal u)))"

text \<open>\<open>n.toString(16)\<close> with the prefix the code writes before it.\<close>

definition hex_str :: "int \<Rightarrow> string" where
  "hex_str n = (if n < 0 then ''-0x'' @ digits_in 16 (nat (- n)) else ''0x'' @ digits_in 16 (nat n))"

text \<open>
  \<open>n.toString()\<close>. An integer below 2^53 prints its digits. Any other number prints the fewest digits
  that read back as it: with \<open>k\<close> digits the candidates are the two multiples of \<open>10^(n-k)\<close> around it,
  \<open>n\<close> being the position of the decimal point; from 10^21 on and below 10^-6 with an exponent.
\<close>

definition point_position :: "rat \<Rightarrow> int" where
  "point_position x = (if 1 \<le> x then int (length (digits_in 10 (nat \<lfloor>x\<rfloor>)))
     else 1 - int (length (digits_in 10 (nat (\<lceil>1 / x\<rceil> - 1)))))"

fun shortest_digits :: "nat \<Rightarrow> nat \<Rightarrow> int \<Rightarrow> rat \<Rightarrow> int" where
  "shortest_digits 0 k n x = \<lfloor>x * 10 powi (int k - n)\<rfloor>"
| "shortest_digits (Suc m) k n x =
     (let e = n - int k; lo = \<lfloor>x / 10 powi e\<rfloor>; hi = lo + 1;
          lo_ok = rnd (of_int lo * 10 powi e) = x; hi_ok = (rnd (of_int hi * 10 powi e) = x \<and> hi < 10 ^ k)
      in if lo_ok \<and> (\<not> hi_ok \<or> x / 10 powi e - of_int lo \<le> of_int hi - x / 10 powi e) then lo
         else if hi_ok then hi else shortest_digits m (k + 1) n x)"

definition exponent_str :: "int \<Rightarrow> string" where
  "exponent_str e = ''e'' @ (if e < 0 then int_str e else ''+'' @ int_str e)"

definition positive_str :: "rat \<Rightarrow> string" where
  "positive_str x = (let n = point_position x; ds = digits_in 10 (nat (shortest_digits 17 1 n x)); k = int (length ds) in
     if k \<le> n \<and> n \<le> 21 then ds @ replicate (nat (n - k)) CHR ''0''
     else if 0 < n \<and> n \<le> 21 then take (nat n) ds @ ''.'' @ drop (nat n) ds
     else if - 6 < n \<and> n \<le> 0 then ''0.'' @ replicate (nat (- n)) CHR ''0'' @ ds
     else if k = 1 then ds @ exponent_str (n - 1)
     else take 1 ds @ ''.'' @ drop 1 ds @ exponent_str (n - 1))"

definition number_str :: "number \<Rightarrow> string" where
  "number_str a = (case a of None \<Rightarrow> ''NaN''
     | Some x \<Rightarrow> if of_int \<lfloor>x\<rfloor> = x \<and> \<bar>x\<bar> < 2 ^ 53 then int_str \<lfloor>x\<rfloor>
         else if x < 0 then ''-'' @ positive_str (- x) else positive_str x)"

text \<open>
  \<open>BigInt(s)\<close>: white space around, the empty string is 0, a hexadecimal, octal or binary literal
  without sign, or decimal digits with an optional sign; anything else is a \<open>SyntaxError\<close>.
\<close>

definition BigInt_of :: "string \<Rightarrow> exn + int" where
  "BigInt_of s =
     (let t = rev (dropWhile is_white (rev (dropWhile is_white s)));
          fail = Inl (Error (''Cannot convert '' @ s @ '' to a BigInt''));
          in_base = (\<lambda>b ds. if ds \<noteq> [] \<and> list_all (is_digit_in b) ds then Inr (int (digits_value b ds)) else fail)
      in if t = [] then Inr 0
         else if take 2 t \<in> {''0x'', ''0X''} then in_base 16 (drop 2 t)
         else if take 2 t \<in> {''0o'', ''0O''} then in_base 8 (drop 2 t)
         else if take 2 t \<in> {''0b'', ''0B''} then in_base 2 (drop 2 t)
         else (case split_sign t of (neg, ds) \<Rightarrow> map_sum id (\<lambda>n. if neg then - n else n) (in_base 10 ds)))"

text \<open>\<open>BN.toNumber\<close> accepts at most 53 bits.\<close>

definition bn_toNumber :: "int \<Rightarrow> exn + int" where
  "bn_toNumber n = (if \<bar>n\<bar> < 2 ^ 53 then Inr n else Inl (Error ''Number can only safely store up to 53 bits''))"

lemma digit_value_digit_char: "d < 16 \<Longrightarrow> digit_value (digit_char d) = Some d"
  by (auto simp: digit_value_def digit_char_def Let_def)

lemma digits_value_snoc: "digits_value b (s @ [c]) = digits_value b s * b + the (digit_value c)"
  by (simp add: digits_value_def)

lemma digits_value_digits_in:
  assumes "2 \<le> b" "b \<le> 16"
  shows "digits_value b (digits_in b n) = n \<and> list_all (is_digit_in b) (digits_in b n)"
  using assms
proof (induction b n rule: digits_in.induct)
  case (1 b n)
  show ?case
  proof (cases "n < b")
    case True
    with 1 show ?thesis
      by (simp add: digits_in.simps [of b n] digits_value_def digit_value_digit_char is_digit_in_def)
  next
    case False
    then have "\<not> (n < b \<or> b < 2)" using 1 by simp
    moreover from this have "digits_value b (digits_in b (n div b)) = n div b \<and>
        list_all (is_digit_in b) (digits_in b (n div b))" using 1 by blast
    moreover have "n mod b < b" "digit_value (digit_char (n mod b)) = Some (n mod b)"
      using 1 by (simp_all add: digit_value_digit_char order.strict_trans2 [of _ b])
    ultimately show ?thesis using 1
      by (simp add: digits_in.simps [of b n] digits_value_snoc digit_value_digit_char is_digit_in_def)
  qed
qed

lemma digits_value_str: "2 \<le> b \<Longrightarrow> b \<le> 16 \<Longrightarrow> digits_value b (digits_in b n) = n"
  and digits_str_all: "2 \<le> b \<Longrightarrow> b \<le> 16 \<Longrightarrow> list_all (is_digit_in b) (digits_in b n)"
  by (simp_all add: digits_value_digits_in)

lemma takeWhile_all: "list_all P xs \<Longrightarrow> takeWhile P xs = xs"
  by (simp add: list_all_iff)

text \<open>A digit is neither white space, nor a sign, nor the \<open>x\<close> of a prefix in base 10.\<close>

lemma digit_not_special:
  assumes "is_digit_in b c" "b \<le> 16"
  shows "\<not> is_white c" "c \<noteq> CHR ''-''" "c \<noteq> CHR ''+''" "c \<noteq> CHR ''x''" "c \<noteq> CHR ''X''"
  using assms
  by (auto simp: is_digit_in_def digit_value_def is_white_def Let_def split: if_splits)

lemma white_minus: "\<not> is_white CHR ''-''" "\<not> is_white CHR ''0''"
  by (simp_all add: is_white_def)

lemma strip_hex_digits:
  assumes "list_all (is_digit_in 10) s" shows "strip_hex s = None"
proof -
  have "CHR ''x'' \<notin> set s" "CHR ''X'' \<notin> set s"
    using assms digit_not_special(4,5) [of 10] by (fastforce simp: list_all_iff)+
  then have "CHR ''x'' \<notin> set (take 2 s)" "CHR ''X'' \<notin> set (take 2 s)"
    by (auto dest: in_set_takeD)
  then show ?thesis by (auto simp: strip_hex_def)
qed

lemma split_sign_digits:
  assumes "list_all (is_digit_in b) s" "b \<le> 16" shows "split_sign s = (False, s)"
  using assms digit_not_special [of b] by (cases s) (auto simp: split_sign_def)

lemma dropWhile_white_digits:
  assumes "list_all (is_digit_in b) s" "b \<le> 16" shows "dropWhile is_white s = s"
  using assms digit_not_special [of b] by (cases s) auto

lemma parse_int_int_str [simp]: "parse_int 0 (int_str n) = Some n"
proof (cases "n < 0")
  case True
  let ?d = "digits_in 10 (nat (- n))"
  have a: "list_all (is_digit_in 10) ?d" by (simp add: digits_str_all)
  have "dropWhile is_white (int_str n) = CHR ''-'' # ?d"
    using True by (simp add: int_str_def white_minus)
  then show ?thesis
    using True a
    by (simp add: parse_int_def split_sign_def strip_hex_digits takeWhile_all digits_value_str Let_def)
next
  case False
  let ?d = "digits_in 10 (nat n)"
  have a: "list_all (is_digit_in 10) ?d" by (simp add: digits_str_all)
  then show ?thesis
    using False
    by (simp add: parse_int_def int_str_def dropWhile_white_digits split_sign_digits
        strip_hex_digits takeWhile_all digits_value_str Let_def)
qed

lemma parse_int_hex_str:
  assumes "0 \<le> n" shows "parse_int 16 (hex_str n) = Some n" "parse_int 0 (hex_str n) = Some n"
proof -
  let ?d = "digits_in 16 (nat n)"
  have a: "list_all (is_digit_in 16) ?d" by (simp add: digits_str_all)
  have "hex_str n = CHR ''0'' # CHR ''x'' # ?d" using assms by (simp add: hex_str_def)
  with a assms show "parse_int 16 (hex_str n) = Some n" "parse_int 0 (hex_str n) = Some n"
    by (simp_all add: parse_int_def white_minus split_sign_def strip_hex_def takeWhile_all
        digits_value_str Let_def)
qed

lemma parseInt_int_str: "\<bar>n\<bar> \<le> 2 ^ 53 \<Longrightarrow> parseInt (int_str n) = num n"
  by (simp add: parseInt_def num_def rnd_of_int)

lemma number_str_num [simp]:
  assumes "\<bar>n\<bar> < 2 ^ 53" shows "number_str (num n) = int_str n"
proof -
  have "\<bar>of_int n :: rat\<bar> = of_int \<bar>n\<bar>" "(2 ^ 53 :: rat) = of_int (2 ^ 53)" by simp_all
  then have "\<bar>of_int n :: rat\<bar> < 2 ^ 53" using assms by (simp only: of_int_less_iff)
  then show ?thesis by (simp add: number_str_def num_def)
qed

lemma parseInt16_hex_str: "0 \<le> n \<Longrightarrow> n \<le> 2 ^ 53 \<Longrightarrow> parseInt16 (hex_str n) = num n"
  by (simp add: parseInt16_def parse_int_hex_str num_def rnd_of_int)

lemma parseInt_hex_str: "0 \<le> n \<Longrightarrow> n \<le> 2 ^ 53 \<Longrightarrow> parseInt (hex_str n) = num n"
  by (simp add: parseInt_def parse_int_hex_str num_def rnd_of_int)

end
