(* ===== verification/Types.thy ===== *)
theory Types
  imports JsNumber
begin

text \<open>
  The data the components exchange: the signed requests (\<open>src/common/EIP712\<close>), the HTTP request
  around them and the details a dApp hands to the client (\<open>src/relayclient/types\<close>), the answer to a
  ping (\<open>src/common/PingResponse.ts\<close>), the events of the relay hub, and the constants
  (\<open>src/common/Constants.ts\<close>, \<open>src/common/Environments.ts\<close>). Optional members are options.
\<close>

section \<open>Signed requests\<close>

record forward_request =
  fr_relayHub :: string
  fr_from :: string
  fr_to :: string
  fr_tokenContract :: string
  fr_value :: string
  fr_gas :: string
  fr_nonce :: string
  fr_tokenAmount :: string
  fr_tokenGas :: string
  fr_data :: string

record deploy_request_struct =
  dr_relayHub :: string
  dr_from :: string
  dr_to :: string
  dr_tokenContract :: string
  dr_recoverer :: string
  dr_value :: string
  dr_nonce :: string
  dr_tokenAmount :: string
  dr_tokenGas :: string
  dr_index :: string
  dr_data :: string

record relay_data =
  rd_gasPrice :: string
  rd_domainSeparator :: string
  rd_relayWorker :: string
  rd_callForwarder :: string
  rd_callVerifier :: string

text \<open>
  \<open>RelayRequest | DeployRequest\<close>. The code tells the two apart by the member \<open>recoverer\<close>, which
  only the deploy request has.
\<close>

datatype signed_request =
  RelayRequest forward_request (relayData: relay_data)
| DeployRequest deploy_request_struct (relayData: relay_data)

definition isDeploy :: "signed_request \<Rightarrow> bool" where
  "isDeploy r = (case r of RelayRequest _ _ \<Rightarrow> False | DeployRequest _ _ \<Rightarrow> True)"

definition request_from :: "signed_request \<Rightarrow> string" where
  "request_from r = (case r of RelayRequest q _ \<Rightarrow> fr_from q | DeployRequest q _ \<Rightarrow> dr_from q)"

lemma isDeploy_simps [simp]: "\<not> isDeploy (RelayRequest q d)" "isDeploy (DeployRequest p d)"
  by (simp_all add: isDeploy_def)

section \<open>The HTTP request to a relay server\<close>

record relay_metadata =
  md_relayHubAddress :: string
  md_relayMaxNonce :: int
  md_signature :: string

record relay_transaction_request =
  relayRequest :: signed_request
  metadata :: relay_metadata

record ping_response =
  pr_relayWorkerAddress :: string
  pr_relayManagerAddress :: string
  pr_relayHubAddress :: string
  pr_minGasPrice :: string
  pr_networkId :: "string option"
  pr_chainId :: "string option"
  pr_ready :: bool
  pr_version :: string

section \<open>The details of a transaction to be relayed\<close>

record transaction_details =
  td_from :: string
  td_data :: string
  td_to :: string
  td_tokenContract :: "string option"
  td_tokenAmount :: "string option"
  td_tokenGas :: "string option"
  td_recoverer :: "string option"
  td_index :: "string option"
  td_value :: "string option"
  td_gas :: "string option"
  td_gasPrice :: "string option"
  td_relayHub :: "string option"
  td_callForwarder :: "string option"
  td_callVerifier :: "string option"
  td_isSmartWalletDeploy :: "bool option"
  td_smartWalletAddress :: "string option"
  td_clientId :: "string option"
  td_useEnveloping :: "bool option"
  td_forceGasPrice :: "string option"
  td_forceGas :: "string option"
  td_onlyPreferredRelays :: "bool option"
  td_retries :: "int option"
  td_initialBackoff :: "int option"

text \<open>\<open>a ?? d\<close>\<close>

definition or_else :: "'a option \<Rightarrow> 'a \<Rightarrow> 'a" where
  "or_else v d = (case v of None \<Rightarrow> d | Some x \<Rightarrow> x)"

lemma or_else_simps [simp]: "or_else None d = d" "or_else (Some x) d = x"
  by (simp_all add: or_else_def)

section \<open>Events of the relay hub\<close>

text \<open>The members of \<open>returnValues\<close> the code reads, whichever the event has.\<close>

record return_values =
  rv_relayManager :: string
  rv_relayUrl :: string
  rv_newRelayWorkers :: "string list"
  rv_withdrawBlock :: string

record event_data =
  ev_event :: string
  ev_blockNumber :: int
  ev_transactionIndex :: int
  ev_transactionHash :: string
  ev_returnValues :: return_values

definition RelayServerRegistered :: string where
  "RelayServerRegistered = ''RelayServerRegistered''"
definition RelayWorkersAdded :: string where
  "RelayWorkersAdded = ''RelayWorkersAdded''"
definition TransactionRelayed :: string where
  "TransactionRelayed = ''TransactionRelayed''"
definition TransactionRejectedByRecipient :: string where
  "TransactionRejectedByRecipient = ''TransactionRelayedButRevertedByRecipient''"
definition StakeAdded :: string where
  "StakeAdded = ''StakeAdded''"
definition StakeUnlocked :: string where
  "StakeUnlocked = ''StakeUnlocked''"
definition StakeWithdrawn :: string where
  "StakeWithdrawn = ''StakeWithdrawn''"
definition StakePenalized :: string where
  "StakePenalized = ''StakePenalized''"

definition ActiveManagerEvents :: "string list" where
  "ActiveManagerEvents =
     [RelayServerRegistered, RelayWorkersAdded, TransactionRelayed, TransactionRejectedByRecipient]"

lemmas event_name_defs = RelayServerRegistered_def RelayWorkersAdded_def TransactionRelayed_def
  TransactionRejectedByRecipient_def StakeAdded_def StakeUnlocked_def StakeWithdrawn_def
  StakePenalized_def

section \<open>Relays known to the client\<close>

text \<open>
  \<open>RelayInfoUrl\<close>, or its extension \<open>RelayRegisteredEventInfo\<close>, which has a \<open>relayManager\<close>.
\<close>

record relay_info_url =
  ri_relayUrl :: string
  ri_relayManager :: "string option"

definition isInfoFromEvent :: "relay_info_url \<Rightarrow> bool" where
  "isInfoFromEvent info \<longleftrightarrow> ri_relayManager info \<noteq> None"

record relay_failure_info =
  rf_lastErrorTime :: int
  rf_relayManager :: string
  rf_relayUrl :: string

section \<open>Constants\<close>

definition ZERO_ADDRESS :: string where
  "ZERO_ADDRESS = ''0x0000000000000000000000000000000000000000''"
definition SHA3_NULL_S :: string where
  "SHA3_NULL_S = ''0xc5d2460186f7233c927e7db2dcc703c0e500b653ca82273b7bfad8045d85a470''"
definition TRANSACTION_GAS_COST :: int where
  "TRANSACTION_GAS_COST = 21000"
definition TX_ZERO_DATA_GAS_COST :: int where
  "TX_ZERO_DATA_GAS_COST = 4"
definition TX_NO_ZERO_DATA_GAS_COST :: int where
  "TX_NO_ZERO_DATA_GAS_COST = 68"
definition MAX_ESTIMATED_GAS_DEVIATION :: number where
  "MAX_ESTIMATED_GAS_DEVIATION = Some (rnd (2 / 10))"
definition ESTIMATED_GAS_CORRECTION_FACTOR :: number where
  "ESTIMATED_GAS_CORRECTION_FACTOR = num 2"
definition INTERNAL_TRANSACTION_ESTIMATE_CORRECTION :: int where
  "INTERNAL_TRANSACTION_ESTIMATE_CORRECTION = 20000"
definition WAIT_FOR_RECEIPT_RETRIES :: int where
  "WAIT_FOR_RECEIPT_RETRIES = 6"
definition WAIT_FOR_RECEIPT_INITIAL_BACKOFF :: int where
  "WAIT_FOR_RECEIPT_INITIAL_BACKOFF = 1000"

record relay_hub_configuration =
  rh_maxWorkerCount :: int
  rh_minimumStake :: string
  rh_minimumUnstakeDelay :: int
  rh_minimumEntryDepositValue :: string

record environment =
  en_chainId :: int
  en_mintxgascost :: int
  en_relayHubConfiguration :: relay_hub_configuration

definition defaultRelayHubConfiguration :: relay_hub_configuration where
  "defaultRelayHubConfiguration = \<lparr>rh_maxWorkerCount = 10, rh_minimumStake = int_str (10 ^ 18),
     rh_minimumUnstakeDelay = 1000, rh_minimumEntryDepositValue = int_str (10 ^ 18)\<rparr>"

definition env_istanbul :: environment where
  "env_istanbul = \<lparr>en_chainId = 1, en_mintxgascost = 21000,
     en_relayHubConfiguration = defaultRelayHubConfiguration\<rparr>"

definition env_rsk :: environment where
  "env_rsk = \<lparr>en_chainId = 33, en_mintxgascost = 21000,
     en_relayHubConfiguration = defaultRelayHubConfiguration\<rparr>"

definition environments :: "(string \<times> environment) list" where
  "environments = [(''istanbul'', env_istanbul), (''constantinople'', env_istanbul), (''rsk'', env_rsk)]"

definition defaultEnvironment :: environment where
  "defaultEnvironment = env_rsk"

definition getEnvironment :: "string \<Rightarrow> environment" where
  "getEnvironment networkName = (if startsWith networkName ''rsk'' then env_rsk else defaultEnvironment)"

definition isRsk :: "environment \<Rightarrow> bool" where
  "isRsk e \<longleftrightarrow> en_chainId e = 33"

lemma mintxgascost [simp]: "en_mintxgascost defaultEnvironment = 21000"
  by (simp add: defaultEnvironment_def env_rsk_def)

end
