(* ===== verification/Web3.thy ===== *)
theory Web3
  imports Types
begin

text \<open>
  The code that is not in the repository, as parameters of the model: nothing here is defined,
  each member of a record stands for a function of a library or a request to a service.

  \<^item> \<open>web3_utils\<close>: the pure functions of web3-utils, web3-eth-abi, eth-sig-util, ow and semver.
    Values of the class \<open>BN\<close> (bn.js) are integers.
  \<^item> \<open>node\<close>: the JSON-RPC node with the contracts on it, reached through web3 and truffle-contract.
    Its state has the type \<open>'w\<close>, of which the model knows nothing: every request may change it and
    may be rejected, so the blocks mined and the transactions of others between two requests of
    the program are covered.
  \<^item> \<open>txlib\<close>: the class \<open>Transaction\<close> of ethereumjs-tx.
\<close>

datatype request_shape = DeployTransactionRequestShape | RelayTransactionRequestShape

datatype sol_arg = SolAddress string | SolUint256 int | SolBytes32 string | SolBytes1 string

text \<open>The methods of the hub, the verifiers and the factory that the code builds.\<close>

datatype hub_method =
  RegisterRelayServer string
| AddRelayWorkers "string list"
| RelayCall signed_request string
| DeployCall signed_request string
| VerifyRelayedCall signed_request string
| RelayedUserSmartWalletCreation signed_request string string string

record web3_utils =
  w3_toBN :: "string \<Rightarrow> exn + int"
  w3_toBN_num :: "number \<Rightarrow> exn + int"
  w3_toHex_BN :: "int \<Rightarrow> string"
  w3_toHex_num :: "number \<Rightarrow> exn + string"
  w3_toHex_str :: "string \<Rightarrow> exn + string"
  w3_isAddress :: "string \<Rightarrow> bool"
  w3_toChecksumAddress :: "string \<Rightarrow> int option \<Rightarrow> string"
  w3_soliditySha3 :: "sol_arg list \<Rightarrow> string option"
  w3_decodeString :: "string \<Rightarrow> exn + string"
  w3_encodeEventSignature :: "string \<Rightarrow> string"
  w3_encodeABI :: "hub_method \<Rightarrow> string"
  w3_encodeTransfer :: "string \<Rightarrow> string \<Rightarrow> string"
  w3_domainHash :: "string \<Rightarrow> int \<Rightarrow> string"
  w3_ow :: "request_shape \<Rightarrow> relay_transaction_request \<Rightarrow> exn + unit"
  w3_hubInterface :: "string list option"
  w3_stringify :: "exn \<Rightarrow> string"
  w3_semver_valid :: "string \<Rightarrow> bool"
  w3_semver_satisfies :: "string \<Rightarrow> string \<Rightarrow> bool"

record call_params =
  cp_from :: string
  cp_to :: "string option"
  cp_data :: "string option"
  cp_gasPrice :: "string option"
  cp_gas :: "string option"

record block =
  bl_number :: int
  bl_timestamp :: int
  bl_gasLimit :: int

text \<open>What \<open>eth_getTransaction\<close> answers: the block is absent while the transaction is pending.\<close>

record tx_info =
  ti_blockNumber :: "int option"
  ti_nonce :: int
  ti_from :: string

text \<open>A log entry as the node gives it, and a receipt; its logs may be \<open>null\<close>.\<close>

record raw_log =
  lg_address :: string
  lg_topics :: "string list"
  lg_data :: string

record receipt =
  rc_transactionHash :: string
  rc_status :: bool
  rc_logs :: "raw_log list option"

record stake_info =
  si_stake :: string
  si_unstakeDelay :: string
  si_withdrawBlock :: string
  si_owner :: string

record past_event_options =
  pe_fromBlock :: int
  pe_toBlock :: "string option"

text \<open>The result of a view call: as a boolean, and its member \<open>returnValue\<close>.\<close>

record call_result =
  cr_true :: bool
  cr_returnValue :: "string option"

text \<open>The version registry: its events and the methods that are sent to it.\<close>

record registry_event =
  re_event :: string
  re_id :: string
  re_version :: string
  re_value :: string
  re_time :: string
  re_reason :: string

datatype registry_method =
  AddVersion string string string
| CancelVersion string string string

record registry_send_options =
  ro_from :: "string option"
  ro_gas :: "int option"
  ro_gasPrice :: "string option"

record 'w node =
  n_getTransactionCount :: "string \<Rightarrow> string option \<Rightarrow> ('w, int) js"
  n_getGasPrice :: "('w, string) js"
  n_getBalance :: "string \<Rightarrow> string \<Rightarrow> ('w, string) js"
  n_getBlockNumber :: "('w, int) js"
  n_getBlock :: "string \<Rightarrow> ('w, block) js"
  n_getTransaction :: "string \<Rightarrow> ('w, tx_info option) js"
  n_getTransactionReceipt :: "string \<Rightarrow> ('w, receipt option) js"
  n_getCode :: "string \<Rightarrow> ('w, string) js"
  n_getChainId :: "('w, int) js"
  n_getNetworkId :: "('w, int) js"
  n_getNetworkType :: "('w, string) js"
  n_estimateGas :: "call_params \<Rightarrow> ('w, int) js"
  n_call :: "call_params \<Rightarrow> ('w, string option) js"
  n_sendSignedTransaction :: "string \<Rightarrow> ('w, receipt) js"
  n_sendRawTransaction :: "string \<Rightarrow> ('w, string) js"
  n_getPastEvents :: "string \<Rightarrow> string list list \<Rightarrow> past_event_options \<Rightarrow> ('w, event_data list) js"
  n_getStakeInfo :: "string \<Rightarrow> string \<Rightarrow> ('w, stake_info) js"
  n_contractAt :: "string \<Rightarrow> string \<Rightarrow> ('w, unit) js"
  n_versionHub :: "string \<Rightarrow> ('w, string) js"
  n_forwarderNonce :: "string \<Rightarrow> ('w, string) js"
  n_factoryNonce :: "string \<Rightarrow> string \<Rightarrow> ('w, string) js"
  n_getAcceptedTokens :: "string \<Rightarrow> ('w, string list) js"
  n_methodCall :: "string \<Rightarrow> hub_method \<Rightarrow> call_params \<Rightarrow> string option \<Rightarrow> ('w, call_result) js"
  n_methodEstimateGas :: "string \<Rightarrow> hub_method \<Rightarrow> call_params \<Rightarrow> ('w, int) js"
  n_registryEvents :: "string \<Rightarrow> string \<Rightarrow> string option \<Rightarrow> ('w, registry_event list) js"
  n_registrySend :: "string \<Rightarrow> registry_method \<Rightarrow> registry_send_options \<Rightarrow> ('w, unit) js"
  n_now :: "('w, int) js"
  n_random :: "('w, rat) js"
  n_sleep :: "rat \<Rightarrow> ('w, unit) js"

text \<open>The arguments of \<open>new Transaction\<close>; \<open>to\<close> may be undefined and \<open>value\<close> left out.\<close>

record tx_args =
  ta_to :: "string option"
  ta_value :: "string option"
  ta_gasLimit :: number
  ta_gasPrice :: number
  ta_data :: string
  ta_nonce :: "int option"

text \<open>
  A transaction object, its members read with \<open>bufferToHex\<close> and \<open>bufferToInt\<close>; \<open>t_raw\<close> of a
  transaction is the hexadecimal string of its serialization, \<open>t_decode\<close> the constructor applied to
  such a string. \<open>t_raw\<close> and \<open>t_hash\<close> have the prefix \<open>0x\<close>.
\<close>

record ('k, 't) txlib =
  t_new :: "tx_args \<Rightarrow> exn + 't"
  t_sign :: "'k \<Rightarrow> 't \<Rightarrow> 't"
  t_raw :: "'t \<Rightarrow> string"
  t_decode :: "string \<Rightarrow> exn + 't"
  t_sender :: "'t \<Rightarrow> exn + string"
  t_hash :: "'t \<Rightarrow> string"
  t_to :: "'t \<Rightarrow> string"
  t_gas :: "'t \<Rightarrow> int"
  t_gasPrice :: "'t \<Rightarrow> int"
  t_data :: "'t \<Rightarrow> string"
  t_nonce :: "'t \<Rightarrow> int"

section \<open>A process that talks to the node\<close>

record 'w net =
  world :: 'w

text \<open>\<open>await\<close> a request to the node.\<close>

definition io :: "('w, 'a) js \<Rightarrow> (('w, 'z) net_scheme, 'a) js" where
  "io m = (\<lambda>s. case m (world s) of (r, w) \<Rightarrow> (r, s\<lparr>world := w\<rparr>))"

lemma io_run [js_run]: "io m s = (fst (m (world s)), s\<lparr>world := snd (m (world s))\<rparr>)"
  by (simp add: io_def split: prod.split)

lemma io_returns: "io m s = (Inr x, t) \<Longrightarrow> returns m x"
  by (auto simp: io_def returns_def split: prod.splits)

lemma along_io:
  "(\<And>s w. R s (s\<lparr>world := w\<rparr>)) \<Longrightarrow> along R (io m)"
  by (simp add: along_def io_run)

end
