(* ===== verification/Utils.thy ===== *)
theory Utils
  imports Web3
begin

text \<open>
  \<open>src/common/Utils.ts\<close> (helpers of both the client and the server) and \<open>src/common/AmountRequired.ts\<close>.
\<close>

section \<open>Hexadecimal strings and topics\<close>

definition removeHexPrefix :: "string option \<Rightarrow> exn + string" where
  "removeHexPrefix hex = (case hex of
     None \<Rightarrow> Inl (Error ''Cannot remove hex prefix'')
   | Some h \<Rightarrow> Inr (if startsWith h ''0x'' then drop 2 h else h))"

definition padTo64 :: "string \<Rightarrow> string" where
  "padTo64 hex = (if length hex < 64
     then (let padded = replicate 64 CHR ''0'' @ hex in drop (length padded - 64) padded) else hex)"

definition address2topic :: "string \<Rightarrow> string" where
  "address2topic address = ''0x'' @ replicate 24 CHR ''0'' @ drop 2 (toLowerCase address)"

definition addresses2topics :: "string list \<Rightarrow> string list" where
  "addresses2topics addresses = map address2topic addresses"

text \<open>
  \<open>event2topic\<close>: the names of the contract's interface that are asked for, hashed; a contract without
  an interface (a mock) gives the names back.
\<close>

definition event2topic :: "web3_utils \<Rightarrow> string list option \<Rightarrow> string list \<Rightarrow> string list" where
  "event2topic W jsonInterface names = (case jsonInterface of
     None \<Rightarrow> names
   | Some es \<Rightarrow> map (w3_encodeEventSignature W) (filter (\<lambda>e. e \<in> set names) es))"

definition decodeRevertReason :: "web3_utils \<Rightarrow> string option \<Rightarrow> bool \<Rightarrow> exn + string option" where
  "decodeRevertReason W revertBytes throwOnError = (case revertBytes of
     None \<Rightarrow> Inr None
   | Some b \<Rightarrow>
       if \<not> startsWith b ''0x08c379a0'' then
         (if throwOnError then Inl (Error (''invalid revert bytes: '' @ b)) else Inr (Some b))
       else map_sum id Some (w3_decodeString W (''0x'' @ drop 10 b)))"

fun parseHexString :: "string \<Rightarrow> int option list" where
  "parseHexString (a # b # str) = parse_int 16 [a, b] # parseHexString str"
| "parseHexString _ = []"

definition isSameAddress :: "string \<Rightarrow> string \<Rightarrow> bool" where
  "isSameAddress address1 address2 \<longleftrightarrow> toLowerCase address1 = toLowerCase address2"

text \<open>\<open>url.indexOf(c)\<close>, -1 when the character does not occur.\<close>

fun index_of_from :: "int \<Rightarrow> char \<Rightarrow> string \<Rightarrow> int" where
  "index_of_from i c [] = -1"
| "index_of_from i c (d # s) = (if c = d then i else index_of_from (i + 1) c s)"

definition index_of :: "char \<Rightarrow> string \<Rightarrow> int" where
  "index_of c s = index_of_from 0 c s"

section \<open>Gas\<close>

definition calculateDeployTransactionMaxPossibleGas ::
  "web3_utils \<Rightarrow> string \<Rightarrow> string option \<Rightarrow> exn + int" where
  "calculateDeployTransactionMaxPossibleGas W estimatedDeployGas estimatedTokenPaymentGas =
     (let subsidized = (case estimatedTokenPaymentGas of
          None \<Rightarrow> Inr True | Some g \<Rightarrow> map_sum id (\<lambda>n. n = 0) (w3_toBN W g))
      in case subsidized of
        Inl e \<Rightarrow> Inl e
      | Inr True \<Rightarrow> (case (w3_toBN W estimatedDeployGas, w3_toBN W ''12000'') of
            (Inl e, _) \<Rightarrow> Inl e | (Inr a, Inl e) \<Rightarrow> Inl e | (Inr a, Inr b) \<Rightarrow> Inr (a + b))
      | Inr False \<Rightarrow> w3_toBN W estimatedDeployGas)"

definition estimateMaxPossibleRelayCallWithLinearFit ::
  "web3_utils \<Rightarrow> number \<Rightarrow> number \<Rightarrow> bool \<Rightarrow> exn + number" where
  "estimateMaxPossibleRelayCallWithLinearFit W relayCallGasLimit tokenPaymentGas addCushion =
     (let cushion = (if addCushion then ESTIMATED_GAS_CORRECTION_FACTOR else num 1) in
      case w3_toBN_num W tokenPaymentGas of
        Inl e \<Rightarrow> Inl e
      | Inr t \<Rightarrow>
          if t = 0 then
            (let a0 = Number_of ''85090.977''; a1 = Number_of ''1.067'';
                 estimatedCost = num_add (num_mul a1 relayCallGasLimit) a0
             in Inr (math_ceil (num_mul estimatedCost cushion)))
          else
            (let a0 = Number_of ''72530.9611''; a1 = Number_of ''1.1114'';
                 estimatedCost = num_add (num_mul a1 (num_add relayCallGasLimit tokenPaymentGas)) a0
             in Inr (math_ceil (num_mul estimatedCost cushion))))"

definition nonZeroDataBytes :: "nat list \<Rightarrow> nat" where
  "nonZeroDataBytes data = foldl (\<lambda>counter byte. if byte \<noteq> 0 then counter + 1 else counter) 0 data"

text \<open>
  \<open>transactionParamDataCost\<close>; \<open>arrayify\<close> (@ethersproject/bytes) is a parameter, \<open>encodeABI\<close> of the
  call a member of \<open>web3_utils\<close>.
\<close>

definition transactionParamDataCost ::
  "web3_utils \<Rightarrow> (string \<Rightarrow> nat list) \<Rightarrow> relay_transaction_request \<Rightarrow> int" where
  "transactionParamDataCost W arrayify req =
     (let r = relayRequest req; sig = md_signature (metadata req);
          encodedCall = w3_encodeABI W (if isDeploy r then DeployCall r sig else RelayCall r sig);
          dataAsByteArray = arrayify encodedCall;
          nonZeroes = int (nonZeroDataBytes dataAsByteArray);
          zeroVals = int (length dataAsByteArray) - nonZeroes
      in TRANSACTION_GAS_COST + zeroVals * TX_ZERO_DATA_GAS_COST + nonZeroes * TX_NO_ZERO_DATA_GAS_COST)"

text \<open>\<open>randomInRange\<close> on the value \<open>r\<close> of \<open>Math.random()\<close>.\<close>

definition randomInRange :: "rat \<Rightarrow> int \<Rightarrow> int \<Rightarrow> number" where
  "randomInRange r lo hi =
     math_floor (num_add (num_mul (Some r) (num (hi - lo))) (num lo))"

section \<open>Events\<close>

definition isSecondEventLater :: "event_data \<Rightarrow> event_data \<Rightarrow> bool" where
  "isSecondEventLater a b =
     (if ev_blockNumber a = ev_blockNumber b
      then ev_transactionIndex a < ev_transactionIndex b
      else ev_blockNumber a < ev_blockNumber b)"

text \<open>
  \<open>Array.sort\<close> is stable and sorts in place: \<open>getLatestEventData\<close> leaves the caller's array sorted
  from the latest event to the first, so the model returns the array as well.
\<close>

definition sortLatestFirst :: "event_data list \<Rightarrow> event_data list" where
  "sortLatestFirst events = sort_key (\<lambda>e. (- ev_blockNumber e, - ev_transactionIndex e)) events"

definition getLatestEventData :: "event_data list \<Rightarrow> event_data option \<times> event_data list" where
  "getLatestEventData events = (if events = [] then (None, events)
     else (let eventDataSorted = sortLatestFirst events in (Some (hd eventDataSorted), eventDataSorted)))"

text \<open>The URL the server registers: the port is appended unless the URL has one.\<close>

definition registrationUrl :: "string \<Rightarrow> int \<Rightarrow> string" where
  "registrationUrl url port = (let portIncluded = 0 < index_of CHR '':'' url in
     url @ (if \<not> portIncluded \<and> 0 < port then '':'' @ int_str port else ''''))"

definition isRegistrationValid :: "event_data option \<Rightarrow> string \<Rightarrow> int \<Rightarrow> string \<Rightarrow> bool" where
  "isRegistrationValid registerEvent url port managerAddress = (case registerEvent of
     None \<Rightarrow> False
   | Some e \<Rightarrow> isSameAddress (rv_relayManager (ev_returnValues e)) managerAddress \<and>
       rv_relayUrl (ev_returnValues e) = registrationUrl url port)"

section \<open>Required amounts\<close>

record amount_required =
  am_name :: string
  am_currentValue :: int
  am_requiredValue :: int

definition newAmountRequired :: "string \<Rightarrow> int \<Rightarrow> amount_required" where
  "newAmountRequired name requiredValue =
     \<lparr>am_name = name, am_currentValue = 0, am_requiredValue = requiredValue\<rparr>"

definition isSatisfied :: "amount_required \<Rightarrow> bool" where
  "isSatisfied a \<longleftrightarrow> am_requiredValue a \<le> am_currentValue a"

text \<open>\<open>_onChange\<close>: the message that is logged, up to the description, before the listener is called.\<close>

definition onChange :: "bool \<Rightarrow> amount_required \<Rightarrow> string" where
  "onChange wasSatisfied a =
     (let changeString = (if wasSatisfied = isSatisfied a then ''still'' @ (if isSatisfied a then '''' else '' not'')
        else if isSatisfied a then ''now'' else ''no longer'')
      in am_name a @ '' requirement is '' @ changeString @ '' satisfied'')"

text \<open>The setters; the second component is what \<open>_onChange\<close> logs when the value changed.\<close>

definition set_currentValue :: "int \<Rightarrow> amount_required \<Rightarrow> amount_required \<times> string option" where
  "set_currentValue newValue a =
     (let didChange = (am_currentValue a \<noteq> newValue); wasSatisfied = isSatisfied a;
          a' = a\<lparr>am_currentValue := newValue\<rparr>
      in (a', if didChange then Some (onChange wasSatisfied a') else None))"

definition set_requiredValue :: "int \<Rightarrow> amount_required \<Rightarrow> amount_required \<times> string option" where
  "set_requiredValue newValue a =
     (let didChange = (am_requiredValue a \<noteq> newValue); wasSatisfied = isSatisfied a;
          a' = a\<lparr>am_requiredValue := newValue\<rparr>
      in (a', if didChange then Some (onChange wasSatisfied a') else None))"

section \<open>Lemmas\<close>

lemma isSameAddress_refl [simp]: "isSameAddress a a"
  by (simp add: isSameAddress_def)

lemma isSameAddress_sym: "isSameAddress a b \<longleftrightarrow> isSameAddress b a"
  by (auto simp: isSameAddress_def)

lemma isSameAddress_trans: "isSameAddress a b \<Longrightarrow> isSameAddress b c \<Longrightarrow> isSameAddress a c"
  by (simp add: isSameAddress_def)

text \<open>Two addresses that differ only in case have one topic, and only those, when prefixed alike.\<close>

lemma address2topic_eq_iff:
  "address2topic (''0x'' @ a) = address2topic (''0x'' @ b) \<longleftrightarrow> isSameAddress (''0x'' @ a) (''0x'' @ b)"
  by (simp add: address2topic_def isSameAddress_def toLowerCase_def)

lemma length_padTo64: "length (padTo64 h) = max 64 (length h)"
  by (simp add: padTo64_def Let_def)

lemma nonZeroDataBytes_eq: "nonZeroDataBytes data = length (filter (\<lambda>b. b \<noteq> 0) data)"
proof -
  have "foldl (\<lambda>n b. if b \<noteq> 0 then n + 1 else n) k data = k + length (filter (\<lambda>b. b \<noteq> 0) data)"
    for k :: nat and data :: "nat list"
    by (induction data arbitrary: k) auto
  then show ?thesis by (simp add: nonZeroDataBytes_def)
qed

text \<open>The head of the sorted array is an event of the array that no other is later than.\<close>

lemma set_sortLatestFirst [simp]: "set (sortLatestFirst es) = set es"
  by (simp add: sortLatestFirst_def)

lemma sortLatestFirst_eq_Nil [simp]: "sortLatestFirst es = [] \<longleftrightarrow> es = []"
  by (metis set_empty set_sortLatestFirst)

lemma isSecondEventLater_iff:
  "isSecondEventLater a b \<longleftrightarrow>
     (ev_blockNumber a, ev_transactionIndex a) < (ev_blockNumber b, ev_transactionIndex b)"
  by (auto simp: isSecondEventLater_def)

lemma hd_sort_key_least:
  assumes "xs \<noteq> []" "x \<in> set xs" shows "f (hd (sort_key f xs)) \<le> f x"
proof -
  have s: "sorted (map f (sort_key f xs))" by simp
  obtain y ys where ys: "sort_key f xs = y # ys" using assms(1) by (cases "sort_key f xs") (auto dest: arg_cong [of _ _ set])
  moreover have "x \<in> set (sort_key f xs)" using assms(2) by simp
  ultimately show ?thesis using s by auto
qed

lemma getLatestEventData_latest:
  assumes "getLatestEventData es = (Some l, es')"
  shows "l \<in> set es" and "e \<in> set es \<Longrightarrow> \<not> isSecondEventLater l e" and "set es' = set es"
proof -
  from assms have ne: "es \<noteq> []" and l: "l = hd (sortLatestFirst es)" and es': "es' = sortLatestFirst es"
    by (auto simp: getLatestEventData_def Let_def split: if_splits)
  show "l \<in> set es" using ne unfolding l by (metis hd_in_set set_sortLatestFirst sortLatestFirst_eq_Nil)
  show "set es' = set es" by (simp add: es')
  assume "e \<in> set es"
  from hd_sort_key_least [OF ne this, of "\<lambda>e. (- ev_blockNumber e, - ev_transactionIndex e)"]
  show "\<not> isSecondEventLater l e"
    by (auto simp: l sortLatestFirst_def isSecondEventLater_def)
qed

lemma getLatestEventData_None: "getLatestEventData es = (None, es') \<longleftrightarrow> es = [] \<and> es' = []"
  by (auto simp: getLatestEventData_def Let_def)

lemma isSatisfied_set_current: "isSatisfied (fst (set_currentValue v a)) \<longleftrightarrow> am_requiredValue a \<le> v"
  by (simp add: set_currentValue_def Let_def isSatisfied_def)

lemma am_requiredValue_set_current [simp]: "am_requiredValue (fst (set_currentValue v a)) = am_requiredValue a"
  by (simp add: set_currentValue_def Let_def)

lemma am_currentValue_set_current [simp]: "am_currentValue (fst (set_currentValue v a)) = v"
  by (simp add: set_currentValue_def Let_def)

end
