(* ===== verification/Configurator.thy ===== *)
theory Configurator
  imports Utils
begin

text \<open>
  \<open>src/relayclient/Configurator.ts\<close>: the configuration of the client and of every contract
  interactor, its defaults and how the caller's partial configuration overrides them. An absent
  member of \<open>Partial<EnvelopingConfig>\<close> is \<open>None\<close>.
\<close>

record enveloping_config =
  ec_preferredRelays :: "string list"
  ec_onlyPreferredRelays :: bool
  ec_relayLookupWindowBlocks :: int
  ec_relayLookupWindowParts :: int
  ec_methodSuffix :: string
  ec_jsonStringifyRequest :: bool
  ec_relayTimeoutGrace :: int
  ec_sliceSize :: int
  ec_logLevel :: int
  ec_gasPriceFactorPercent :: int
  ec_minGasPrice :: int
  ec_maxRelayNonceGap :: int
  ec_relayHubAddress :: string
  ec_deployVerifierAddress :: string
  ec_relayVerifierAddress :: string
  ec_forwarderAddress :: string
  ec_smartWalletFactoryAddress :: string
  ec_chainId :: int
  ec_clientId :: string

record partial_config =
  pc_preferredRelays :: "string list option"
  pc_onlyPreferredRelays :: "bool option"
  pc_relayLookupWindowBlocks :: "int option"
  pc_relayLookupWindowParts :: "int option"
  pc_methodSuffix :: "string option"
  pc_jsonStringifyRequest :: "bool option"
  pc_relayTimeoutGrace :: "int option"
  pc_sliceSize :: "int option"
  pc_logLevel :: "int option"
  pc_gasPriceFactorPercent :: "int option"
  pc_minGasPrice :: "int option"
  pc_maxRelayNonceGap :: "int option"
  pc_relayHubAddress :: "string option"
  pc_deployVerifierAddress :: "string option"
  pc_relayVerifierAddress :: "string option"
  pc_forwarderAddress :: "string option"
  pc_smartWalletFactoryAddress :: "string option"
  pc_chainId :: "int option"
  pc_clientId :: "string option"

definition defaultEnvelopingConfig :: enveloping_config where
  "defaultEnvelopingConfig =
     \<lparr>ec_preferredRelays = [], ec_onlyPreferredRelays = False, ec_relayLookupWindowBlocks = 60000,
      ec_relayLookupWindowParts = 1, ec_methodSuffix = '''', ec_jsonStringifyRequest = False,
      ec_relayTimeoutGrace = 1800, ec_sliceSize = 3, ec_logLevel = 0, ec_gasPriceFactorPercent = 0,
      ec_minGasPrice = 60000000, ec_maxRelayNonceGap = 3, ec_relayHubAddress = ZERO_ADDRESS,
      ec_deployVerifierAddress = ZERO_ADDRESS, ec_relayVerifierAddress = ZERO_ADDRESS,
      ec_forwarderAddress = ZERO_ADDRESS, ec_smartWalletFactoryAddress = ZERO_ADDRESS,
      ec_chainId = en_chainId defaultEnvironment, ec_clientId = ''1''\<rparr>"

definition emptyConfig :: partial_config where
  "emptyConfig =
     \<lparr>pc_preferredRelays = None, pc_onlyPreferredRelays = None, pc_relayLookupWindowBlocks = None,
      pc_relayLookupWindowParts = None, pc_methodSuffix = None, pc_jsonStringifyRequest = None,
      pc_relayTimeoutGrace = None, pc_sliceSize = None, pc_logLevel = None,
      pc_gasPriceFactorPercent = None, pc_minGasPrice = None, pc_maxRelayNonceGap = None,
      pc_relayHubAddress = None, pc_deployVerifierAddress = None, pc_relayVerifierAddress = None,
      pc_forwarderAddress = None, pc_smartWalletFactoryAddress = None, pc_chainId = None,
      pc_clientId = None\<rparr>"

text \<open>\<open>Object.assign({}, base, partial)\<close>\<close>

definition override :: "enveloping_config \<Rightarrow> partial_config \<Rightarrow> enveloping_config" where
  "override b p =
     \<lparr>ec_preferredRelays = or_else (pc_preferredRelays p) (ec_preferredRelays b),
      ec_onlyPreferredRelays = or_else (pc_onlyPreferredRelays p) (ec_onlyPreferredRelays b),
      ec_relayLookupWindowBlocks = or_else (pc_relayLookupWindowBlocks p) (ec_relayLookupWindowBlocks b),
      ec_relayLookupWindowParts = or_else (pc_relayLookupWindowParts p) (ec_relayLookupWindowParts b),
      ec_methodSuffix = or_else (pc_methodSuffix p) (ec_methodSuffix b),
      ec_jsonStringifyRequest = or_else (pc_jsonStringifyRequest p) (ec_jsonStringifyRequest b),
      ec_relayTimeoutGrace = or_else (pc_relayTimeoutGrace p) (ec_relayTimeoutGrace b),
      ec_sliceSize = or_else (pc_sliceSize p) (ec_sliceSize b),
      ec_logLevel = or_else (pc_logLevel p) (ec_logLevel b),
      ec_gasPriceFactorPercent = or_else (pc_gasPriceFactorPercent p) (ec_gasPriceFactorPercent b),
      ec_minGasPrice = or_else (pc_minGasPrice p) (ec_minGasPrice b),
      ec_maxRelayNonceGap = or_else (pc_maxRelayNonceGap p) (ec_maxRelayNonceGap b),
      ec_relayHubAddress = or_else (pc_relayHubAddress p) (ec_relayHubAddress b),
      ec_deployVerifierAddress = or_else (pc_deployVerifierAddress p) (ec_deployVerifierAddress b),
      ec_relayVerifierAddress = or_else (pc_relayVerifierAddress p) (ec_relayVerifierAddress b),
      ec_forwarderAddress = or_else (pc_forwarderAddress p) (ec_forwarderAddress b),
      ec_smartWalletFactoryAddress =
        or_else (pc_smartWalletFactoryAddress p) (ec_smartWalletFactoryAddress b),
      ec_chainId = or_else (pc_chainId p) (ec_chainId b),
      ec_clientId = or_else (pc_clientId p) (ec_clientId b)\<rparr>"

definition configure :: "partial_config \<Rightarrow> enveloping_config" where
  "configure partialConfig = override defaultEnvelopingConfig partialConfig"

text \<open>What \<open>resolveConfiguration\<close> looks at in the provider.\<close>

record provider_info =
  pv_hasSend :: bool
  pv_hasSendAsync :: bool
  pv_isMetaMask :: bool

text \<open>
  The address of the forwarder that is resolved is the empty string when the caller gives none,
  so the zero address of the defaults is overridden.
\<close>

definition resolveConfiguration ::
  "'w node \<Rightarrow> provider_info \<Rightarrow> partial_config \<Rightarrow> (('w, 'z) net_scheme, enveloping_config) js" where
  "resolveConfiguration N provider partialConfig =
     andthen (throw_if (\<not> pv_hasSend provider \<and> \<not> pv_hasSendAsync provider)
       ''First param is not a web3 provider'')
     (andthen (throw_if (pc_relayHubAddress partialConfig \<noteq> None) ''Resolve cannot override passed values'')
     (bnd (case pc_chainId partialConfig of Some c \<Rightarrow> ret c | None \<Rightarrow> io (n_getChainId N)) (\<lambda>chainId.
       ret (let isMetamask = pv_isMetaMask provider in
         (override defaultEnvelopingConfig partialConfig)
           \<lparr>ec_forwarderAddress := or_else (pc_forwarderAddress partialConfig) '''',
            ec_chainId := chainId,
            ec_methodSuffix := or_else (pc_methodSuffix partialConfig)
              (if isMetamask then ''_v4'' else ec_methodSuffix defaultEnvelopingConfig),
            ec_jsonStringifyRequest := or_else (pc_jsonStringifyRequest partialConfig)
              (if isMetamask then True else ec_jsonStringifyRequest defaultEnvelopingConfig)\<rparr>))))"

section \<open>Lemmas\<close>

lemma override_empty [simp]: "override b emptyConfig = b"
  by (simp add: override_def emptyConfig_def)

text \<open>What the caller gives is kept, whatever the provider is.\<close>

lemma resolveConfiguration_keeps:
  assumes "resolveConfiguration N provider p s = (Inr c, t)"
  shows "pc_methodSuffix p = Some m \<Longrightarrow> ec_methodSuffix c = m"
    and "pc_chainId p = Some i \<Longrightarrow> ec_chainId c = i"
    and "ec_relayHubAddress c = ZERO_ADDRESS"
  using assms
  by (auto simp: resolveConfiguration_def Let_def override_def defaultEnvelopingConfig_def
      elim!: bnd_InrE andthen_InrE dest!: throw_if_InrD)

end
