(* ===== verification/VersionRegistry.thy ===== *)
theory VersionRegistry
  imports Utils
begin

text \<open>
  \<open>src/common/VersionRegistry.ts\<close>, the accessor of the on-chain version registry, and
  \<open>src/common/VersionsManager.ts\<close>. Strings are sequences of bytes, which for the ASCII strings of
  versions and identifiers is their UTF-8 encoding. The events come from the node, oldest first.
\<close>

section \<open>Strings in 32 bytes\<close>

definition byte_hex :: "char \<Rightarrow> string" where
  "byte_hex c = (let n = of_char c :: nat in [digit_char (n div 16), digit_char (n mod 16)])"

text \<open>\<open>Buffer.from(s).toString('hex')\<close>\<close>

definition hex_encode :: "string \<Rightarrow> string" where
  "hex_encode s = concat (map byte_hex s)"

text \<open>\<open>Buffer.from(h, 'hex')\<close> stops at the first pair that is not hexadecimal.\<close>

fun hex_decode :: "string \<Rightarrow> string" where
  "hex_decode (a # b # s) =
     (if is_digit_in 16 a \<and> is_digit_in 16 b
      then char_of (the (digit_value a) * 16 + the (digit_value b)) # hex_decode s else [])"
| "hex_decode _ = []"

definition padEnd :: "nat \<Rightarrow> char \<Rightarrow> string \<Rightarrow> string" where
  "padEnd n c s = s @ replicate (n - length s) c"

definition string32 :: "string \<Rightarrow> string" where
  "string32 s = padEnd 66 CHR ''0'' (''0x'' @ hex_encode s)"

fun zero_bytes :: "string \<Rightarrow> bool" where
  "zero_bytes [] = True"
| "zero_bytes [c] = False"
| "zero_bytes (a # b # s) = (a = CHR ''0'' \<and> b = CHR ''0'' \<and> zero_bytes s)"

text \<open>The lazy group of \<open>/^(?:0x)?(.*?)(00)*$/\<close>: the shortest prefix whose rest is zero bytes.\<close>

fun before_zero_bytes :: "string \<Rightarrow> string" where
  "before_zero_bytes s = (if zero_bytes s then [] else case s of [] \<Rightarrow> [] | c # t \<Rightarrow> c # before_zero_bytes t)"

declare before_zero_bytes.simps [simp del]

definition bytes32toString :: "string \<Rightarrow> string" where
  "bytes32toString s =
     hex_decode (before_zero_bytes (if startsWith s ''0x'' then drop 2 s else s))"

section \<open>The registry\<close>

record version_info =
  vi_value :: string
  vi_version :: string
  vi_time :: number
  vi_canceled :: bool
  vi_cancelReason :: "string option"

definition isValid :: "'w node \<Rightarrow> string \<Rightarrow> (('w, 'z) net_scheme, bool) js" where
  "isValid N registry = bnd (io (n_getCode N registry)) (\<lambda>code.
     ret (if code = ''0x'' \<or> code = ''0x00'' then False else True))"

definition cancelReasons :: "registry_event list \<Rightarrow> (string \<times> string) list" where
  "cancelReasons events = foldl (\<lambda>acc e. AList.update (re_version e) (re_reason e) acc) []
     (filter (\<lambda>e. re_event e = ''VersionCanceled'') events)"

definition versionInfo :: "(string \<times> string) list \<Rightarrow> registry_event \<Rightarrow> version_info" where
  "versionInfo reasons e =
     \<lparr>vi_value = re_value e, vi_version = bytes32toString (re_version e), vi_time = parseInt (re_time e),
      vi_canceled = (map_of reasons (re_version e) \<noteq> None),
      vi_cancelReason = map_of reasons (re_version e)\<rparr>"

text \<open>The filter that keeps the first occurrence of each version, with the set \<open>found\<close>.\<close>

fun first_occurrences :: "string list \<Rightarrow> version_info list \<Rightarrow> version_info list" where
  "first_occurrences found [] = []"
| "first_occurrences found (e # es) =
     (if vi_version e \<in> set found then first_occurrences found es
      else e # first_occurrences (set_add (vi_version e) found) es)"

definition allVersions :: "registry_event list \<Rightarrow> version_info list" where
  "allVersions events = rev (first_occurrences []
     (map (versionInfo (cancelReasons events)) (filter (\<lambda>e. re_event e = ''VersionAdded'') events)))"

definition getAllVersions ::
  "'w node \<Rightarrow> string \<Rightarrow> string \<Rightarrow> (('w, 'z) net_scheme, version_info list) js" where
  "getAllVersions N registry i =
     bnd (io (n_registryEvents N registry ''allEvents'' (Some (string32 i)))) (\<lambda>events. ret (allVersions events))"

text \<open>\<open>versions.find(...)\<close> of \<open>getVersion\<close>; \<open>optInVersion\<close> is the empty string by default.\<close>

definition usable :: "number \<Rightarrow> int \<Rightarrow> string \<Rightarrow> version_info \<Rightarrow> bool" where
  "usable delayPeriod now optInVersion v \<longleftrightarrow> \<not> vi_canceled v \<and>
     ((case num_add (vi_time v) delayPeriod of NaN \<Rightarrow> False | Some t \<Rightarrow> t \<le> of_int now) \<or>
      vi_version v = optInVersion)"

text \<open>The two requests of \<open>Promise.all\<close> are answered in the order they are written.\<close>

definition getVersion ::
  "'w node \<Rightarrow> string \<Rightarrow> string \<Rightarrow> number \<Rightarrow> string \<Rightarrow> (('w, 'z) net_scheme, version_info) js" where
  "getVersion N registry i delayPeriod optInVersion =
     bnd (getAllVersions N registry i) (\<lambda>versions.
     bnd (io (n_getBlock N ''latest'')) (\<lambda>b.
       case find (usable delayPeriod (bl_timestamp b) optInVersion) versions of
         None \<Rightarrow> throw (Error (''getVersion('' @ i @ '') - no version found''))
       | Some ver \<Rightarrow> ret ver))"

definition listIds :: "'w node \<Rightarrow> string \<Rightarrow> (('w, 'z) net_scheme, string list) js" where
  "listIds N registry = bnd (io (n_registryEvents N registry ''VersionAdded'' None)) (\<lambda>events.
     ret (set_of_list (map (\<lambda>e. bytes32toString (re_id e)) events)))"

definition checkVersion ::
  "'w node \<Rightarrow> string \<Rightarrow> string \<Rightarrow> string \<Rightarrow> bool \<Rightarrow> (('w, 'z) net_scheme, unit) js" where
  "checkVersion N registry i version validateExists =
     bnd (catching (getAllVersions N registry i) (\<lambda>_. ret [])) (\<lambda>versions.
       throw_if ((find (\<lambda>v. vi_version v = version) versions \<noteq> None) \<noteq> validateExists)
         (''version '' @ (if validateExists then ''does not exist'' else ''already exists'') @ '': '' @ i @ '' @ '' @ version))"

text \<open>The options of the registry itself are empty, so those of the call are the ones sent.\<close>

definition addVersion ::
  "'w node \<Rightarrow> string \<Rightarrow> string \<Rightarrow> string \<Rightarrow> string \<Rightarrow> registry_send_options \<Rightarrow> (('w, 'z) net_scheme, unit) js" where
  "addVersion N registry i version value sendOptions =
     andthen (checkVersion N registry i version False)
       (io (n_registrySend N registry (AddVersion (string32 i) (string32 version) value) sendOptions))"

definition cancelVersion ::
  "'w node \<Rightarrow> string \<Rightarrow> string \<Rightarrow> string \<Rightarrow> string \<Rightarrow> registry_send_options \<Rightarrow> (('w, 'z) net_scheme, unit) js" where
  "cancelVersion N registry i version cancelReason sendOptions =
     andthen (checkVersion N registry i version True)
       (io (n_registrySend N registry (CancelVersion (string32 i) (string32 version) cancelReason) sendOptions))"

section \<open>Versions manager\<close>

definition newVersionsManager :: "web3_utils \<Rightarrow> string \<Rightarrow> exn + string" where
  "newVersionsManager W componentVersion = (if \<not> w3_semver_valid W componentVersion
     then Inl (Error ''Component version is not valid'') else Inr componentVersion)"

text \<open>\<open>version.replace('_', '-')\<close> replaces the first occurrence.\<close>

fun replace_first :: "char \<Rightarrow> char \<Rightarrow> string \<Rightarrow> string" where
  "replace_first a b [] = []"
| "replace_first a b (c # s) = (if c = a then b # s else c # replace_first a b s)"

definition isMinorSameOrNewer :: "web3_utils \<Rightarrow> string \<Rightarrow> string \<Rightarrow> bool" where
  "isMinorSameOrNewer W componentVersion version =
     w3_semver_satisfies W (replace_first CHR ''_'' CHR ''-'' version) (''^'' @ componentVersion)"

section \<open>Lemmas\<close>

text \<open>The 32 byte encoding is inverted up to trailing zero bytes.\<close>

lemma is_digit_digit_char: "d < 16 \<Longrightarrow> is_digit_in 16 (digit_char d)"
  by (simp add: is_digit_in_def digit_value_digit_char)

lemma of_char_div: "(of_char c :: nat) div 16 < 16"
  by (rule less_mult_imp_div_less) simp

lemma hex_decode_byte: "hex_decode (byte_hex c @ s) = c # hex_decode s"
proof -
  show ?thesis
    by (simp add: byte_hex_def Let_def is_digit_digit_char digit_value_digit_char of_char_div)
qed

lemma hex_decode_encode [simp]: "hex_decode (hex_encode s) = s"
  by (induction s) (simp_all add: hex_encode_def hex_decode_byte)

lemma length_hex_encode [simp]: "length (hex_encode s) = 2 * length s"
  by (induction s) (simp_all add: hex_encode_def byte_hex_def Let_def)

lemma zero_bytes_replicate: "zero_bytes (replicate n CHR ''0'') \<longleftrightarrow> even n"
proof (induction n rule: less_induct)
  case (less n)
  show ?case
  proof (cases n)
    case (Suc m) then show ?thesis using less by (cases m) auto
  qed simp
qed

lemma zero_bytes_even: "zero_bytes s \<Longrightarrow> even (length s)"
  by (induction s rule: zero_bytes.induct) auto

lemma zero_bytes_append: "zero_bytes (s @ t) \<Longrightarrow> even (length s) \<Longrightarrow> zero_bytes s"
  by (induction s rule: zero_bytes.induct) auto

lemma byte_hex_zero: "byte_hex c = ''00'' \<longleftrightarrow> c = CHR 0x00"
proof -
  have d: "digit_char d = CHR ''0'' \<longleftrightarrow> d = 0" if "d < 16" for d
  proof
    assume "digit_char d = CHR ''0''"
    moreover have "digit_value CHR ''0'' = Some 0" by code_simp
    ultimately show "d = 0" using digit_value_digit_char [OF that] by simp
  next
    assume "d = 0"
    then show "digit_char d = CHR ''0''" by (simp add: digit_char_def, code_simp)
  qed
  have "byte_hex c = ''00'' \<longleftrightarrow> (of_char c :: nat) div 16 = 0 \<and> (of_char c :: nat) mod 16 = 0"
    by (simp add: byte_hex_def Let_def d of_char_div)
  also have "\<dots> \<longleftrightarrow> (of_char c :: nat) = 0" by presburger
  also have "\<dots> \<longleftrightarrow> c = CHR 0x00" by (cases c) (auto simp: of_char_def)
  finally show ?thesis .
qed

lemma byte_hex_Cons: "\<exists>a b. byte_hex c = [a, b]"
  by (simp add: byte_hex_def Let_def)

lemma zero_bytes_encode_pad:
  assumes "even n" "s \<noteq> []" "last s \<noteq> CHR 0x00"
  shows "\<not> zero_bytes (hex_encode s @ replicate n CHR ''0'')"
  using assms(2,3)
proof (induction s)
  case (Cons c s)
  obtain a b where ab: "byte_hex c = [a, b]" using byte_hex_Cons by blast
  show ?case
  proof (cases "s = []")
    case True
    then show ?thesis using Cons ab byte_hex_zero [of c] by (auto simp: hex_encode_def)
  next
    case False
    then show ?thesis using Cons ab by (auto simp: hex_encode_def)
  qed
qed simp

lemma zero_bytes_odd: "odd (length s) \<Longrightarrow> \<not> zero_bytes s"
  using zero_bytes_even by blast

lemma before_zero_bytes_encode:
  assumes "even n" "s = [] \<or> last s \<noteq> CHR 0x00"
  shows "before_zero_bytes (hex_encode s @ replicate n CHR ''0'') = hex_encode s"
  using assms(2)
proof (induction s)
  case Nil
  then show ?case using assms(1) by (simp add: before_zero_bytes.simps hex_encode_def zero_bytes_replicate)
next
  case (Cons c s)
  obtain a b where ab: "byte_hex c = [a, b]" using byte_hex_Cons by blast
  let ?r = "hex_encode s @ replicate n CHR ''0''"
  have e: "hex_encode (c # s) = a # b # hex_encode s" by (simp add: hex_encode_def ab)
  have 1: "\<not> zero_bytes (a # b # ?r)"
    using zero_bytes_encode_pad [OF assms(1), of "c # s"] Cons.prems e by simp
  have 2: "\<not> zero_bytes (b # ?r)" using assms(1) by (intro zero_bytes_odd) simp
  have "before_zero_bytes (a # b # ?r) = a # b # before_zero_bytes ?r"
    using before_zero_bytes.simps [of "a # b # ?r"] before_zero_bytes.simps [of "b # ?r"] 1 2 by simp
  then show ?case using Cons by (simp add: e split: if_splits)
qed

lemma bytes32toString_string32:
  assumes "s = [] \<or> last s \<noteq> CHR 0x00"
  shows "bytes32toString (string32 s) = s"
proof -
  have "even (66 - length (''0x'' @ hex_encode s))" by simp
  from before_zero_bytes_encode [OF this assms] show ?thesis
    by (simp add: bytes32toString_def string32_def padEnd_def startsWith_def)
qed

text \<open>The versions are those added, each once, in the order of their last first occurrence.\<close>

lemma set_first_occurrences: "set (first_occurrences found es) \<subseteq> set es"
  by (induction found es rule: first_occurrences.induct) auto

lemma first_occurrences_not_found:
  "vi_version ` set (first_occurrences found es) = vi_version ` set es - set found"
  by (induction found es rule: first_occurrences.induct) auto

lemma distinct_first_occurrences: "distinct (map vi_version (first_occurrences found es))"
  by (induction found es rule: first_occurrences.induct)
    (simp_all add: first_occurrences_not_found)

lemma map_of_cancelReasons:
  "map_of (cancelReasons events) v \<noteq> None \<longleftrightarrow>
     (\<exists>e\<in>set events. re_event e = ''VersionCanceled'' \<and> re_version e = v)"
proof -
  have "dom (map_of (foldl (\<lambda>acc e. AList.update (re_version e) (re_reason e) acc) acc es)) =
      dom (map_of acc) \<union> re_version ` set es" for acc es
    by (induction es arbitrary: acc) (auto simp: update_conv')
  from this [of "[]" "filter (\<lambda>e. re_event e = ''VersionCanceled'') events"]
  have "dom (map_of (cancelReasons events)) =
      re_version ` set (filter (\<lambda>e. re_event e = ''VersionCanceled'') events)"
    by (simp add: cancelReasons_def)
  then show ?thesis unfolding domIff [symmetric] by auto
qed

lemma allVersions_distinct: "distinct (map vi_version (allVersions events))"
  by (simp add: allVersions_def distinct_first_occurrences flip: rev_map)

lemma allVersions_member:
  assumes "v \<in> set (allVersions events)"
  obtains e where "e \<in> set events" "re_event e = ''VersionAdded''" "v = versionInfo (cancelReasons events) e"
  using assms set_first_occurrences [of "[]"] unfolding allVersions_def by fastforce

lemma allVersions_complete:
  "vi_version ` set (allVersions events) =
     bytes32toString ` re_version ` {e \<in> set events. re_event e = ''VersionAdded''}"
  by (auto simp: allVersions_def first_occurrences_not_found versionInfo_def image_image)

lemma getVersion_Inr:
  assumes "getVersion N registry i d opt s = (Inr v, t)"
  obtains events now where "find (usable d now opt) (allVersions events) = Some v"
  using assms by (auto simp: getVersion_def getAllVersions_def split: option.splits elim!: bnd_InrE)

end
