(* ===== verification/ContractInteractor.thy ===== *)
theory ContractInteractor
  imports Configurator VersionRegistry "HOL-Library.Signed_Division"
begin

text \<open>
  \<open>src/common/ContractInteractor.ts\<close>: every request of the client and the server to the chain. Its
  state (\<open>interactor\<close>) is the addresses of the contract instances, absent until \<open>init\<close> has created
  them, and what \<open>init\<close> learns of the chain. \<open>N\<close> is the node, \<open>W\<close> the pure functions of web3.
\<close>

record raw_tx_options =
  ro_chain :: string
  ro_chainId :: int
  ro_networkId :: int
  ro_hardfork :: string

record 'w interactor = "'w net" +
  ci_relayHub :: "string option"
  ci_relayVerifier :: "string option"
  ci_deployVerifier :: "string option"
  ci_rawTxOptions :: "raw_tx_options option"
  ci_chainId :: int
  ci_networkId :: "int option"
  ci_networkType :: "string option"

definition getRawTxOptions :: "int \<Rightarrow> int \<Rightarrow> string option \<Rightarrow> raw_tx_options" where
  "getRawTxOptions chainId networkId chain =
     \<lparr>ro_chain = (case chain of None \<Rightarrow> ''mainnet''
        | Some c \<Rightarrow> if c = ''main'' \<or> c = ''private'' then ''mainnet'' else c),
      ro_chainId = chainId, ro_networkId = networkId, ro_hardfork = ''istanbul''\<rparr>"

text \<open>A member of an object that is undefined is read.\<close>

definition instance_of :: "string option \<Rightarrow> ('s, string) js" where
  "instance_of v = (case v of None \<Rightarrow> throw (Error ''Cannot read property of undefined'') | Some a \<Rightarrow> ret a)"

definition relayHubInstance :: "(('w, 'z) interactor_scheme, string) js" where
  "relayHubInstance = bnd (gets ci_relayHub) instance_of"

text \<open>A new contract interactor has no contracts and the chain of its configuration.\<close>

definition newInteractor :: "enveloping_config \<Rightarrow> (('w, 'z) interactor_scheme, unit) js" where
  "newInteractor config = modify (\<lambda>s. s\<lparr>ci_relayHub := None, ci_relayVerifier := None, ci_deployVerifier := None,
     ci_rawTxOptions := None, ci_chainId := ec_chainId config, ci_networkId := None, ci_networkType := None\<rparr>)"

section \<open>Initialization\<close>

definition VERSION :: string where
  "VERSION = ''2.0.1''"

definition isInitialized :: "('w, 'z) interactor_scheme \<Rightarrow> bool" where
  "isInitialized s \<longleftrightarrow> ci_rawTxOptions s \<noteq> None"

definition createContract :: "'w node \<Rightarrow> string \<Rightarrow> string \<Rightarrow> (('w, 'z) net_scheme, string) js" where
  "createContract N kind address = andthen (io (n_contractAt N kind address)) (ret address)"

definition validateVersion :: "web3_utils \<Rightarrow> string \<Rightarrow> ('s, unit) js" where
  "validateVersion W version = throw_if (\<not> isMinorSameOrNewer W VERSION version)
     (''Provided Hub version('' @ version @ '') is not supported by the current interactor('' @ VERSION @ '')'')"

definition validateCompatibility ::
  "'w node \<Rightarrow> web3_utils \<Rightarrow> enveloping_config \<Rightarrow> (('w, 'z) interactor_scheme, unit) js" where
  "validateCompatibility N W cfg = (if ec_relayHubAddress cfg = ZERO_ADDRESS then ret ()
     else bnd relayHubInstance (\<lambda>hub. bnd (io (n_versionHub N hub)) (validateVersion W)))"

definition initializeContracts ::
  "'w node \<Rightarrow> enveloping_config \<Rightarrow> (('w, 'z) interactor_scheme, unit) js" where
  "initializeContracts N cfg =
     andthen (if ec_relayHubAddress cfg = ZERO_ADDRESS then ret ()
       else bnd (createContract N ''IRelayHub'' (ec_relayHubAddress cfg)) (\<lambda>a.
         modify (\<lambda>s. s\<lparr>ci_relayHub := Some a\<rparr>)))
     (andthen (if ec_relayVerifierAddress cfg = ZERO_ADDRESS then ret ()
       else bnd (createContract N ''IRelayVerifier'' (ec_relayVerifierAddress cfg)) (\<lambda>a.
         modify (\<lambda>s. s\<lparr>ci_relayVerifier := Some a\<rparr>)))
     (if ec_deployVerifierAddress cfg = ZERO_ADDRESS then ret ()
       else bnd (createContract N ''IDeployVerifier'' (ec_deployVerifierAddress cfg)) (\<lambda>a.
         modify (\<lambda>s. s\<lparr>ci_deployVerifier := Some a\<rparr>))))"

definition ci_init ::
  "'w node \<Rightarrow> web3_utils \<Rightarrow> enveloping_config \<Rightarrow> (('w, 'z) interactor_scheme, unit) js" where
  "ci_init N W cfg =
     bnd (gets isInitialized) (\<lambda>i. andthen (throw_if i ''_init has already called'')
     (andthen (initializeContracts N cfg)
     (andthen (catching (validateCompatibility N W cfg) (\<lambda>_. ret ()))
     (bnd (io (n_getNetworkType N)) (\<lambda>chain.
      bnd (io (n_getChainId N)) (\<lambda>chainId. andthen (modify (\<lambda>s. s\<lparr>ci_chainId := chainId\<rparr>))
     (bnd (io (n_getNetworkId N)) (\<lambda>networkId. andthen (modify (\<lambda>s. s\<lparr>ci_networkId := Some networkId\<rparr>))
     (bnd (io (n_getNetworkType N)) (\<lambda>networkType.
        modify (\<lambda>s. s\<lparr>ci_networkType := Some networkType,
          ci_rawTxOptions := Some (getRawTxOptions chainId networkId (Some chain))\<rparr>)))))))))))"

definition ci_getRawTxOptions :: "(('w, 'z) interactor_scheme, raw_tx_options) js" where
  "ci_getRawTxOptions = bnd (gets ci_rawTxOptions) (\<lambda>v. case v of
     None \<Rightarrow> throw (Error ''_init not called'') | Some r \<Rightarrow> ret r)"

definition getNetworkId :: "(('w, 'z) interactor_scheme, int) js" where
  "getNetworkId = bnd (gets ci_networkId) (\<lambda>v. case v of
     None \<Rightarrow> throw (Error ''_init not called'') | Some r \<Rightarrow> ret r)"

definition getNetworkType :: "(('w, 'z) interactor_scheme, string) js" where
  "getNetworkType = bnd (gets ci_networkType) (\<lambda>v. case v of
     None \<Rightarrow> throw (Error ''_init not called'') | Some r \<Rightarrow> ret r)"

section \<open>Requests\<close>

definition getSenderNonce :: "'w node \<Rightarrow> string \<Rightarrow> (('w, 'z) net_scheme, string) js" where
  "getSenderNonce N sWallet = bnd (createContract N ''IForwarder'' sWallet) (\<lambda>forwarder. io (n_forwarderNonce N forwarder))"

definition getFactoryNonce :: "'w node \<Rightarrow> string \<Rightarrow> string \<Rightarrow> (('w, 'z) net_scheme, string) js" where
  "getFactoryNonce N factoryAddr from =
     bnd (createContract N ''IWalletFactory'' factoryAddr) (\<lambda>factory. io (n_factoryNonce N factory from))"

definition getBlockGasLimit :: "'w node \<Rightarrow> (('w, 'z) net_scheme, int) js" where
  "getBlockGasLimit N = bnd (io (n_getBlock N ''latest'')) (\<lambda>latestBlock. ret (bl_gasLimit latestBlock))"

definition getBalance :: "'w node \<Rightarrow> string \<Rightarrow> string \<Rightarrow> (('w, 'z) net_scheme, string) js" where
  "getBalance N address defaultBlock = io (n_getBalance N address defaultBlock)"

definition validateAddress :: "web3_utils \<Rightarrow> string \<Rightarrow> string \<Rightarrow> ('s, unit) js" where
  "validateAddress W address exceptionTitle =
     throw_if (\<not> w3_isAddress W address) (exceptionTitle @ '' '' @ address)"

definition isContractDeployed :: "'w node \<Rightarrow> string \<Rightarrow> (('w, 'z) net_scheme, bool) js" where
  "isContractDeployed N address = bnd (io (n_getCode N address)) (\<lambda>code.
     ret (code \<noteq> ''0x'' \<and> code \<noteq> ''0x00''))"

definition getStakeInfo :: "'w node \<Rightarrow> string \<Rightarrow> (('w, 'z) interactor_scheme, stake_info) js" where
  "getStakeInfo N managerAddress =
     bnd relayHubInstance (\<lambda>hub. io (n_getStakeInfo N hub managerAddress))"

text \<open>A method object: the address of its contract, the method and its arguments.\<close>

definition getRegisterRelayMethod :: "string \<Rightarrow> (('w, 'z) interactor_scheme, string \<times> hub_method) js" where
  "getRegisterRelayMethod url = bnd relayHubInstance (\<lambda>hub. ret (hub, RegisterRelayServer url))"

definition getAddRelayWorkersMethod :: "string list \<Rightarrow> (('w, 'z) interactor_scheme, string \<times> hub_method) js" where
  "getAddRelayWorkersMethod workers = bnd relayHubInstance (\<lambda>hub. ret (hub, AddRelayWorkers workers))"

definition getPastEvents ::
  "'w node \<Rightarrow> web3_utils \<Rightarrow> string \<Rightarrow> string list \<Rightarrow> string list \<Rightarrow> past_event_options \<Rightarrow>
   (('w, 'z) net_scheme, event_data list) js" where
  "getPastEvents N W contract names extraTopics options =
     (let eventTopic = event2topic W (w3_hubInterface W) names;
          topics = [eventTopic] @ (if extraTopics \<noteq> [] then [extraTopics] else [])
      in io (n_getPastEvents N contract topics options))"

definition getPastEventsForHub ::
  "'w node \<Rightarrow> web3_utils \<Rightarrow> string list \<Rightarrow> past_event_options \<Rightarrow> string list \<Rightarrow>
   (('w, 'z) interactor_scheme, event_data list) js" where
  "getPastEventsForHub N W extraTopics options names =
     bnd relayHubInstance (\<lambda>hub. getPastEvents N W hub names extraTopics options)"

definition getPastEventsForStakeManagement ::
  "'w node \<Rightarrow> web3_utils \<Rightarrow> string list \<Rightarrow> string list \<Rightarrow> past_event_options \<Rightarrow>
   (('w, 'z) interactor_scheme, event_data list) js" where
  "getPastEventsForStakeManagement N W names extraTopics options =
     bnd relayHubInstance (\<lambda>hub. getPastEvents N W hub names extraTopics options)"

text \<open>
  \<open>getTransactionReceipt\<close>: \<open>n\<close> tries are left, the pause before the next one is \<open>backoff\<close>.
\<close>

primrec receipt_loop :: "'w node \<Rightarrow> string \<Rightarrow> nat \<Rightarrow> int \<Rightarrow> (('w, 'z) net_scheme, receipt) js" where
  "receipt_loop N transactionHash 0 backoff =
     throw (Error (''No receipt found for this transaction '' @ transactionHash))"
| "receipt_loop N transactionHash (Suc n) backoff =
     bnd (io (n_getTransactionReceipt N transactionHash)) (\<lambda>r. case r of
       Some receipt \<Rightarrow> ret receipt
     | None \<Rightarrow> andthen (io (n_sleep N (of_int backoff))) (receipt_loop N transactionHash n (backoff * 2)))"

definition getTransactionReceipt ::
  "'w node \<Rightarrow> string \<Rightarrow> int option \<Rightarrow> int option \<Rightarrow> (('w, 'z) net_scheme, receipt) js" where
  "getTransactionReceipt N transactionHash retries initialBackoff =
     receipt_loop N transactionHash (nat (or_else retries WAIT_FOR_RECEIPT_RETRIES))
       (or_else initialBackoff WAIT_FOR_RECEIPT_INITIAL_BACKOFF)"

section \<open>Gas\<close>

definition fromWorker :: "signed_request \<Rightarrow> call_params" where
  "fromWorker r = \<lparr>cp_from = rd_relayWorker (relayData r), cp_to = None, cp_data = None,
     cp_gasPrice = Some (rd_gasPrice (relayData r)), cp_gas = None\<rparr>"

definition fromWorkerOnly :: "string \<Rightarrow> call_params" where
  "fromWorkerOnly a = \<lparr>cp_from = a, cp_to = None, cp_data = None, cp_gasPrice = None, cp_gas = None\<rparr>"

definition corrected :: "int \<Rightarrow> number" where
  "corrected maxPossibleGas = math_ceil (num_mul (num maxPossibleGas) ESTIMATED_GAS_CORRECTION_FACTOR)"

definition request_hub :: "signed_request \<Rightarrow> string" where
  "request_hub r = (case r of RelayRequest q _ \<Rightarrow> fr_relayHub q | DeployRequest q _ \<Rightarrow> dr_relayHub q)"

definition estimateRelayTransactionMaxPossibleGas ::
  "'w node \<Rightarrow> web3_utils \<Rightarrow> signed_request \<Rightarrow> string \<Rightarrow> (('w, 'z) interactor_scheme, number) js" where
  "estimateRelayTransactionMaxPossibleGas N W r signature =
     bnd relayHubInstance (\<lambda>_.
     bnd (io (n_estimateGas N ((fromWorker r)\<lparr>cp_to := Some (request_hub r),
            cp_data := Some (w3_encodeABI W (RelayCall r signature))\<rparr>))) (\<lambda>maxPossibleGas.
     ret (corrected maxPossibleGas)))"

definition estimateRelayTransactionMaxPossibleGasWithTransactionRequest ::
  "'w node \<Rightarrow> relay_transaction_request \<Rightarrow> (('w, 'z) net_scheme, number) js" where
  "estimateRelayTransactionMaxPossibleGasWithTransactionRequest N req =
     andthen (throw_if (md_relayHubAddress (metadata req) = ZERO_ADDRESS)
       ''calculateDeployCallGas: RelayHub must be defined'')
     (bnd (createContract N ''IRelayHub'' (md_relayHubAddress (metadata req))) (\<lambda>rHub.
      bnd (io (n_methodEstimateGas N rHub (RelayCall (relayRequest req) (md_signature (metadata req)))
             (fromWorker (relayRequest req)))) (\<lambda>maxPossibleGas.
      ret (corrected maxPossibleGas))))"

definition estimateDestinationContractCallGas ::
  "'w node \<Rightarrow> call_params \<Rightarrow> bool \<Rightarrow> (('w, 'z) net_scheme, number) js" where
  "estimateDestinationContractCallGas N transactionDetails addCushion =
     bnd (io (n_estimateGas N transactionDetails)) (\<lambda>estimated.
       ret (let internalCallCost = num (if estimated > INTERNAL_TRANSACTION_ESTIMATE_CORRECTION
                  then estimated - INTERNAL_TRANSACTION_ESTIMATE_CORRECTION else estimated)
            in if addCushion then num_mul internalCallCost ESTIMATED_GAS_CORRECTION_FACTOR
               else internalCallCost))"

definition walletFactoryEstimateGasOfDeployCall ::
  "'w node \<Rightarrow> relay_transaction_request \<Rightarrow> (('w, 'z) net_scheme, int) js" where
  "walletFactoryEstimateGasOfDeployCall N req =
     andthen (throw_if (md_relayHubAddress (metadata req) = ZERO_ADDRESS)
       ''calculateDeployCallGas: RelayHub must be defined'')
     (bnd (createContract N ''IRelayHub'' (md_relayHubAddress (metadata req))) (\<lambda>rHub.
      io (n_methodEstimateGas N rHub (DeployCall (relayRequest req) (md_signature (metadata req)))
            (fromWorker (relayRequest req)))))"

definition walletFactoryDeployEstimateGasForInternalCall ::
  "'w node \<Rightarrow> signed_request \<Rightarrow> string \<Rightarrow> string \<Rightarrow> string \<Rightarrow> string \<Rightarrow> bool \<Rightarrow> (('w, 'z) net_scheme, int) js" where
  "walletFactoryDeployEstimateGasForInternalCall N request factory domainHash suffixData signature testCall =
     bnd (createContract N ''IWalletFactory'' factory) (\<lambda>pFactory.
       let m = RelayedUserSmartWalletCreation request domainHash suffixData signature in
       andthen (if testCall
         then andthen (io (n_methodCall N pFactory m (fromWorkerOnly (request_hub request)) None)) (ret ())
         else ret ())
       (io (n_methodEstimateGas N pFactory m
         ((fromWorkerOnly (request_hub request))\<lparr>cp_gasPrice := Some (rd_gasPrice (relayData request))\<rparr>))))"

definition getMaxViewableRelayGasLimit ::
  "'w node \<Rightarrow> web3_utils \<Rightarrow> signed_request \<Rightarrow> string \<Rightarrow> (('w, 'z) interactor_scheme, number) js" where
  "getMaxViewableRelayGasLimit N W r signature =
     bnd (of_result (w3_toBN W (rd_gasPrice (relayData r)))) (\<lambda>gasPrice.
       if gasPrice > 0 then
         bnd (estimateRelayTransactionMaxPossibleGas N W r signature) (\<lambda>maxEstimatedGas.
         bnd (getBalance N (rd_relayWorker (relayData r)) ''latest'') (\<lambda>balance.
         bnd (of_result (w3_toBN W balance)) (\<lambda>b.
         bnd (of_result (w3_toBN_num W maxEstimatedGas)) (\<lambda>m.
           ret (if b sdiv gasPrice \<ge> m then maxEstimatedGas else num 0)))))
       else ret (num 0))"

definition getMaxViewableDeployGasLimit ::
  "'w node \<Rightarrow> web3_utils \<Rightarrow> relay_transaction_request \<Rightarrow> (('w, 'z) net_scheme, int) js" where
  "getMaxViewableDeployGasLimit N W request =
     bnd (of_result (w3_toBN W (rd_gasPrice (relayData (relayRequest request))))) (\<lambda>gasPrice.
       if gasPrice \<noteq> 0 then
         bnd (walletFactoryEstimateGasOfDeployCall N request) (\<lambda>maxEstimatedGas.
         bnd (getBalance N (rd_relayWorker (relayData (relayRequest request))) ''latest'') (\<lambda>balance.
         bnd (of_result (w3_toBN W balance)) (\<lambda>b.
           ret (if b sdiv gasPrice \<ge> maxEstimatedGas then maxEstimatedGas else 0))))
       else ret 0)"

section \<open>View calls\<close>

record accept_call =
  ac_verifierAccepted :: bool
  ac_reverted :: bool
  ac_returnValue :: "string option"
  ac_revertedInDestination :: bool

text \<open>\<open>e instanceof Error ? e.message : JSON.stringify(e, replaceErrors)\<close>\<close>

definition error_text :: "web3_utils \<Rightarrow> exn \<Rightarrow> string" where
  "error_text W e = (case message e of Some m \<Rightarrow> m | None \<Rightarrow> w3_stringify W e)"

definition lowBalance :: "signed_request \<Rightarrow> string" where
  "lowBalance r = ''relayWorker '' @ rd_relayWorker (relayData r) @
     '' does not have enough balance to cover the maximum possible gas for this transaction''"

definition validateAcceptRelayCall ::
  "'w node \<Rightarrow> web3_utils \<Rightarrow> signed_request \<Rightarrow> string \<Rightarrow> (('w, 'z) interactor_scheme, accept_call) js" where
  "validateAcceptRelayCall N W r signature =
     bnd (gets ci_relayHub) (\<lambda>relayHub.
     bnd (getMaxViewableRelayGasLimit N W r signature) (\<lambda>externalGasLimit.
       if externalGasLimit = num 0 then
         ret \<lparr>ac_verifierAccepted = False, ac_reverted = False, ac_returnValue = Some (lowBalance r),
              ac_revertedInDestination = False\<rparr>
       else
         bnd (catching
           (bnd (gets ci_relayVerifier) (\<lambda>v. bnd (instance_of v) (\<lambda>verifier.
            andthen (io (n_methodCall N verifier (VerifyRelayedCall r signature)
              (fromWorkerOnly (rd_relayWorker (relayData r))) (Some ''pending''))) (ret None))))
           (\<lambda>e. ret (Some (error_text W e)))) (\<lambda>verifierError.
         case verifierError of
           Some m \<Rightarrow> ret \<lparr>ac_verifierAccepted = False, ac_reverted = False,
             ac_returnValue = Some (''view call to 'relayCall' reverted in verifier: '' @ m),
             ac_revertedInDestination = False\<rparr>
         | None \<Rightarrow> catching
             (bnd (instance_of relayHub) (\<lambda>hub.
              bnd (of_result (w3_toHex_num W externalGasLimit)) (\<lambda>gas.
              bnd (io (n_methodCall N hub (RelayCall r signature)
                     ((fromWorker r)\<lparr>cp_gas := Some gas\<rparr>) None)) (\<lambda>res.
              ret \<lparr>ac_verifierAccepted = True, ac_reverted = False, ac_returnValue = Some '''',
                   ac_revertedInDestination = \<not> cr_true res\<rparr>))))
             (\<lambda>e. ret \<lparr>ac_verifierAccepted = True, ac_reverted = True,
               ac_returnValue = Some (''view call to 'relayCall' reverted in client: '' @ error_text W e),
               ac_revertedInDestination = False\<rparr>))))"

definition validateAcceptDeployCall ::
  "'w node \<Rightarrow> web3_utils \<Rightarrow> relay_transaction_request \<Rightarrow> (('w, 'z) interactor_scheme, accept_call) js" where
  "validateAcceptDeployCall N W request =
     (let r = relayRequest request; signature = md_signature (metadata request) in
     bnd (gets ci_relayHub) (\<lambda>relayHub.
     bnd (getMaxViewableDeployGasLimit N W request) (\<lambda>externalGasLimit.
       if externalGasLimit = 0 then
         ret \<lparr>ac_verifierAccepted = False, ac_reverted = False, ac_returnValue = Some (lowBalance r),
              ac_revertedInDestination = False\<rparr>
       else
         bnd (catching
           (bnd (gets ci_deployVerifier) (\<lambda>v. bnd (instance_of v) (\<lambda>verifier.
            andthen (io (n_methodCall N verifier (VerifyRelayedCall r signature)
              (fromWorkerOnly (rd_relayWorker (relayData r))) None)) (ret None))))
           (\<lambda>e. ret (Some (error_text W e)))) (\<lambda>verifierError.
         case verifierError of
           Some m \<Rightarrow> ret \<lparr>ac_verifierAccepted = False, ac_reverted = False,
             ac_returnValue = Some (''view call to 'deploy call' reverted in verifier: '' @ m),
             ac_revertedInDestination = False\<rparr>
         | None \<Rightarrow> catching
             (bnd (instance_of relayHub) (\<lambda>hub.
              bnd (io (n_methodCall N hub (DeployCall r signature)
                     ((fromWorker r)\<lparr>cp_gas := Some (w3_toHex_BN W externalGasLimit)\<rparr>) None)) (\<lambda>res.
              ret \<lparr>ac_verifierAccepted = True, ac_reverted = False, ac_returnValue = cr_returnValue res,
                   ac_revertedInDestination = False\<rparr>)))
             (\<lambda>e. ret \<lparr>ac_verifierAccepted = True, ac_reverted = True,
               ac_returnValue = Some (''view call to 'deployCall' reverted in client: '' @ error_text W e),
               ac_revertedInDestination = False\<rparr>)))))"

end
