(* ===== verification/ServerConfig.thy ===== *)
theory ServerConfig
  imports ContractInteractor
begin

text \<open>
  \<open>src/relayserver/ServerConfigParams.ts\<close>: where the server's configuration comes from, how each
  parameter is converted to its type, and how the address of the relay hub is resolved. Objects are
  association lists in the order of \<open>Object.entries\<close>. The parser of the command line (minimist), the
  file system and \<open>JSON.parse\<close> are parameters.
\<close>

section \<open>Values and objects\<close>

text \<open>
  \<open>VInt\<close> is an integral number, \<open>VDec\<close> any other number by the text \<open>String(n)\<close> gives.
\<close>

datatype config_value =
  VStr string | VBool bool | VInt int | VDec string | VList "string list"

type_synonym obj = "(string \<times> config_value) list"

definition value_text :: "config_value \<Rightarrow> string" where
  "value_text v = (case v of
     VStr s \<Rightarrow> s | VBool b \<Rightarrow> (if b then ''true'' else ''false'') | VInt n \<Rightarrow> int_str n | VDec t \<Rightarrow> t
   | VList xs \<Rightarrow> (case xs of [] \<Rightarrow> '''' | x # r \<Rightarrow> x @ concat (map (\<lambda>y. '','' @ y) r)))"

text \<open>\<open>{...a, ...b}\<close>\<close>

definition spread :: "obj \<Rightarrow> obj \<Rightarrow> obj" where
  "spread a b = foldl (\<lambda>acc (k, v). AList.update k v acc) a b"

definition entriesToObj :: "obj \<Rightarrow> obj" where
  "entriesToObj entries = foldl (\<lambda>acc (k, v). AList.update k v acc) [] entries"

section \<open>Types of the parameters\<close>

datatype param_type = StringParam | NumberParam | BooleanParam

definition ConfigParamsTypes :: "(string \<times> param_type) list" where
  "ConfigParamsTypes =
     [(''config'', StringParam), (''url'', StringParam), (''port'', NumberParam),
      (''versionRegistryAddress'', StringParam), (''versionRegistryDelayPeriod'', NumberParam),
      (''relayHubId'', StringParam), (''relayHubAddress'', StringParam), (''gasPriceFactor'', NumberParam),
      (''rskNodeUrl'', StringParam), (''workdir'', StringParam), (''checkInterval'', NumberParam),
      (''readyTimeout'', NumberParam), (''devMode'', BooleanParam), (''customReplenish'', BooleanParam),
      (''logLevel'', NumberParam), (''registrationBlockRate'', NumberParam),
      (''alertedBlockDelay'', NumberParam), (''workerMinBalance'', NumberParam),
      (''workerTargetBalance'', NumberParam), (''managerMinBalance'', NumberParam),
      (''managerTargetBalance'', NumberParam), (''minHubWithdrawalBalance'', NumberParam),
      (''defaultGasLimit'', NumberParam), (''trustedVerifiers'', StringParam),
      (''relayVerifierAddress'', StringParam), (''deployVerifierAddress'', StringParam)]"

definition type_name :: "param_type \<Rightarrow> string" where
  "type_name t = (case t of StringParam \<Rightarrow> ''string'' | NumberParam \<Rightarrow> ''number'' | BooleanParam \<Rightarrow> ''boolean'')"

definition filterType :: "(string \<times> param_type) list \<Rightarrow> param_type \<Rightarrow> string list" where
  "filterType config type = concat (map (\<lambda>(k, t). if t = type then [k] else []) config)"

text \<open>\<open>config[key]\<close> and \<open>ConfigParamsTypes[key]\<close> are defined for the names every object inherits as well.\<close>

definition filterMembers :: "obj \<Rightarrow> (string \<times> 'a) list \<Rightarrow> obj" where
  "filterMembers env config =
     entriesToObj (filter (\<lambda>(k, v). map_of config k \<noteq> None \<or> k \<in> set objectPrototype) env)"

definition explicitType :: "string \<times> config_value \<Rightarrow> exn + (string \<times> config_value)" where
  "explicitType kv = (case kv of (key, val) \<Rightarrow>
     (case map_of ConfigParamsTypes key of
        None \<Rightarrow> if key \<in> set objectPrototype then Inr (key, val)
          else Inl (Error (''unexpected param '' @ key @ ''='' @ value_text val))
      | Some type \<Rightarrow>
         (let invalid = Inl (Error (''Invalid '' @ type_name type @ '': '' @ key @ '' = '' @ value_text val))
          in case type of
            BooleanParam \<Rightarrow>
              if val = VStr ''true'' \<or> val = VBool True then Inr (key, VBool True)
              else if val = VStr ''false'' \<or> val = VBool False then Inr (key, VBool False)
              else invalid
          | NumberParam \<Rightarrow> (case parseInt (value_text val) of
              NaN \<Rightarrow> invalid | Some v \<Rightarrow> Inr (key, VInt \<lfloor>v\<rfloor>))
          | StringParam \<Rightarrow> Inr (key, val))))"

fun map_result :: "('a \<Rightarrow> exn + 'b) \<Rightarrow> 'a list \<Rightarrow> exn + 'b list" where
  "map_result f [] = Inr []"
| "map_result f (x # xs) = (case f x of Inl e \<Rightarrow> Inl e | Inr y \<Rightarrow> map_sum id ((#) y) (map_result f xs))"

text \<open>
  \<open>parseServerConfig\<close>: \<open>minimist args strings defaults\<close> gives the positional arguments and the named
  ones, \<open>readJson f\<close> is \<open>None\<close> when there is no file \<open>f\<close>.
\<close>

definition parseServerConfig ::
  "(string list \<Rightarrow> string list \<Rightarrow> obj \<Rightarrow> string list \<times> obj) \<Rightarrow> (string \<Rightarrow> (exn + obj) option) \<Rightarrow>
   string list \<Rightarrow> obj \<Rightarrow> exn + obj" where
  "parseServerConfig minimist readJson args env =
     (let envDefaults = filterMembers env ConfigParamsTypes in
      case minimist args (filterType ConfigParamsTypes StringParam) envDefaults of (positional, argv) \<Rightarrow>
        if positional \<noteq> [] then
          Inl (Error (''unexpected param(s) '' @ value_text (VList positional)))
        else
          (let configFile = (case map_of argv ''config'' of
              None \<Rightarrow> Inr []
            | Some v \<Rightarrow> (case readJson (value_text v) of
                None \<Rightarrow> Inl (Error (''unable to read config file '' @ [CHR 0x22] @ value_text v @ [CHR 0x22]))
              | Some r \<Rightarrow> r))
           in case configFile of
             Inl e \<Rightarrow> Inl e
           | Inr c \<Rightarrow> map_sum id entriesToObj (map_result explicitType (spread c argv))))"

section \<open>Defaults\<close>

definition serverDefaultConfiguration :: obj where
  "serverDefaultConfiguration =
     [(''alertedBlockDelay'', VInt 0), (''minAlertedDelayMS'', VInt 0), (''maxAlertedDelayMS'', VInt 0),
      (''relayHubAddress'', VStr ZERO_ADDRESS), (''relayVerifierAddress'', VStr ZERO_ADDRESS),
      (''deployVerifierAddress'', VStr ZERO_ADDRESS), (''trustedVerifiers'', VList []),
      (''gasPriceFactor'', VInt 1), (''registrationBlockRate'', VInt 0),
      (''workerMinBalance'', VInt (10 ^ 15)), (''workerTargetBalance'', VInt (3 * 10 ^ 15)),
      (''managerMinBalance'', VInt (10 ^ 15)), (''managerMinStake'', VStr ''1''),
      (''managerTargetBalance'', VInt (3 * 10 ^ 15)), (''minHubWithdrawalBalance'', VInt (10 ^ 15)),
      (''checkInterval'', VInt 10000), (''readyTimeout'', VInt 30000), (''devMode'', VBool False),
      (''customReplenish'', VBool False), (''logLevel'', VInt 1), (''url'', VStr ''http://localhost:8090''),
      (''rskNodeUrl'', VStr ''''), (''port'', VInt 0), (''versionRegistryAddress'', VStr ZERO_ADDRESS),
      (''workdir'', VStr ''''), (''refreshStateTimeoutBlocks'', VInt 5),
      (''pendingTransactionTimeoutBlocks'', VInt 30), (''successfulRoundsForReady'', VInt 3),
      (''confirmationsNeeded'', VInt 12), (''retryGasPriceFactor'', VDec ''1.2''),
      (''defaultGasLimit'', VInt 500000), (''maxGasPrice'', VStr ''100000000000''),
      (''estimateGasFactor'', VDec ''1.2'')]"

definition configureServer :: "obj \<Rightarrow> obj" where
  "configureServer partialConfig = spread (spread [] serverDefaultConfiguration) partialConfig"

text \<open>
  The members of \<open>ServerConfigParams\<close> as the server's classes read them. A string where a list is
  read is iterated character by character.
\<close>

record server_config =
  sc_url :: string
  sc_port :: int
  sc_relayHubAddress :: string
  sc_relayVerifierAddress :: string
  sc_deployVerifierAddress :: string
  sc_trustedVerifiers :: "string list"
  sc_devMode :: bool
  sc_customReplenish :: bool
  sc_readyTimeout :: int
  sc_registrationBlockRate :: int
  sc_alertedBlockDelay :: int
  sc_minAlertedDelayMS :: int
  sc_maxAlertedDelayMS :: int
  sc_gasPriceFactor :: number
  sc_workerMinBalance :: int
  sc_workerTargetBalance :: int
  sc_managerMinBalance :: int
  sc_managerMinStake :: string
  sc_managerTargetBalance :: int
  sc_refreshStateTimeoutBlocks :: int
  sc_pendingTransactionTimeoutBlocks :: int
  sc_successfulRoundsForReady :: int
  sc_confirmationsNeeded :: int
  sc_retryGasPriceFactor :: number
  sc_maxGasPrice :: string
  sc_defaultGasLimit :: number
  sc_estimateGasFactor :: number

definition member_str :: "obj \<Rightarrow> string \<Rightarrow> string" where
  "member_str c k = (case map_of c k of None \<Rightarrow> ''undefined'' | Some v \<Rightarrow> value_text v)"

definition member_num :: "obj \<Rightarrow> string \<Rightarrow> number" where
  "member_num c k = (case map_of c k of Some (VInt n) \<Rightarrow> num n | Some (VDec t) \<Rightarrow> Number_of t | _ \<Rightarrow> NaN)"

definition member_int :: "obj \<Rightarrow> string \<Rightarrow> int" where
  "member_int c k = (case map_of c k of Some (VInt n) \<Rightarrow> n | _ \<Rightarrow> 0)"

definition member_bool :: "obj \<Rightarrow> string \<Rightarrow> bool" where
  "member_bool c k = (map_of c k = Some (VBool True))"

definition member_list :: "obj \<Rightarrow> string \<Rightarrow> string list" where
  "member_list c k = (case map_of c k of Some (VList xs) \<Rightarrow> xs | Some (VStr s) \<Rightarrow> map (\<lambda>ch. [ch]) s | _ \<Rightarrow> [])"

definition toServerConfig :: "obj \<Rightarrow> server_config" where
  "toServerConfig c =
     \<lparr>sc_url = member_str c ''url'', sc_port = member_int c ''port'',
      sc_relayHubAddress = member_str c ''relayHubAddress'',
      sc_relayVerifierAddress = member_str c ''relayVerifierAddress'',
      sc_deployVerifierAddress = member_str c ''deployVerifierAddress'',
      sc_trustedVerifiers = member_list c ''trustedVerifiers'',
      sc_devMode = member_bool c ''devMode'', sc_customReplenish = member_bool c ''customReplenish'',
      sc_readyTimeout = member_int c ''readyTimeout'',
      sc_registrationBlockRate = member_int c ''registrationBlockRate'',
      sc_alertedBlockDelay = member_int c ''alertedBlockDelay'',
      sc_minAlertedDelayMS = member_int c ''minAlertedDelayMS'',
      sc_maxAlertedDelayMS = member_int c ''maxAlertedDelayMS'',
      sc_gasPriceFactor = member_num c ''gasPriceFactor'',
      sc_workerMinBalance = member_int c ''workerMinBalance'',
      sc_workerTargetBalance = member_int c ''workerTargetBalance'',
      sc_managerMinBalance = member_int c ''managerMinBalance'',
      sc_managerMinStake = member_str c ''managerMinStake'',
      sc_managerTargetBalance = member_int c ''managerTargetBalance'',
      sc_refreshStateTimeoutBlocks = member_int c ''refreshStateTimeoutBlocks'',
      sc_pendingTransactionTimeoutBlocks = member_int c ''pendingTransactionTimeoutBlocks'',
      sc_successfulRoundsForReady = member_int c ''successfulRoundsForReady'',
      sc_confirmationsNeeded = member_int c ''confirmationsNeeded'',
      sc_retryGasPriceFactor = member_num c ''retryGasPriceFactor'',
      sc_maxGasPrice = member_str c ''maxGasPrice'',
      sc_defaultGasLimit = member_num c ''defaultGasLimit'',
      sc_estimateGasFactor = member_num c ''estimateGasFactor''\<rparr>"

definition default_server_config :: server_config where
  "default_server_config = toServerConfig (configureServer [])"

section \<open>Resolving the relay hub\<close>

definition DefaultRegistryDelayPeriod :: int where
  "DefaultRegistryDelayPeriod = 0"

definition resolveServerConfig ::
  "'w node \<Rightarrow> web3_utils \<Rightarrow> obj \<Rightarrow> (('w, 'z) net_scheme, obj) js" where
  "resolveServerConfig N W config0 =
     bnd (case map_of config0 ''versionRegistryAddress'' of
         Some registryValue \<Rightarrow>
           (let registry = value_text registryValue in
            andthen (throw_if (map_of config0 ''relayHubAddress'' \<noteq> None)
              ''missing param: must have either relayHubAddress or versionRegistryAddress'')
            (case map_of config0 ''relayHubId'' of
               None \<Rightarrow> throw (Error ''missing param: relayHubId to read from VersionRegistry'')
             | Some idValue \<Rightarrow>
                (let relayHubId = value_text idValue in
                 andthen (validateAddress W registry ''Invalid param versionRegistryAddress: '')
                 (bnd (isContractDeployed N registry) (\<lambda>deployed.
                  andthen (throw_if (\<not> deployed)
                    (''Invalid param versionRegistryAddress: no contract at address '' @ registry))
                  (bnd (getVersion N registry relayHubId
                      (num (case map_of config0 ''versionRegistryDelayPeriod'' of
                         None \<Rightarrow> DefaultRegistryDelayPeriod | Some _ \<Rightarrow> member_int config0 ''versionRegistryDelayPeriod''))
                      '''') (\<lambda>ver.
                   andthen (validateAddress W (vi_value ver)
                     (''Invalid param relayHubId '' @ relayHubId @ '' @ '' @ vi_version ver @ '': not an address:''))
                   (ret (AList.update ''relayHubAddress'' (VStr (vi_value ver)) config0))))))))) 
       | None \<Rightarrow>
           (case map_of config0 ''relayHubAddress'' of
              None \<Rightarrow> throw (Error ''missing param: must have either relayHubAddress or versionRegistryAddress'')
            | Some hub \<Rightarrow>
                andthen (validateAddress W (value_text hub)
                  ''invalid param: \"relayHubAddress\" is not a valid address:'')
                (ret config0))) (\<lambda>config.
     bnd (isContractDeployed N (member_str config ''relayHubAddress'')) (\<lambda>deployed.
     andthen (throw_if (\<not> deployed)
       (''RelayHub: no contract at address '' @ member_str config ''relayHubAddress''))
     (andthen (throw_if (map_of config ''url'' = None) ''missing param: url'')
     (andthen (throw_if (map_of config ''workdir'' = None) ''missing param: workdir'')
     (ret (spread (spread [] serverDefaultConfiguration) config))))))"

text \<open>
  \<open>runServer.ts\<close>: the trusted verifiers are given as a JSON array in a string, which \<open>parseList\<close>
  (\<open>JSON.parse\<close>) reads; an empty array leaves the string in the configuration.
\<close>

definition runServerConfig ::
  "'w node \<Rightarrow> web3_utils \<Rightarrow> (string \<Rightarrow> exn + string list) \<Rightarrow> exn + obj \<Rightarrow> (('w, 'z) net_scheme, obj) js" where
  "runServerConfig N W parseList parsed =
     bnd (of_result parsed) (\<lambda>conf.
     andthen (throw_if (map_of conf ''rskNodeUrl'' = None) ''missing rskNodeUrl'')
     (bnd (case map_of conf ''trustedVerifiers'' of
        None \<Rightarrow> ret []
      | Some v \<Rightarrow> if v = VStr '''' then ret [] else of_result (parseList (value_text v))) (\<lambda>trustedVerifiers.
      bnd (resolveServerConfig N W conf) (\<lambda>config.
      ret (if trustedVerifiers \<noteq> [] then AList.update ''trustedVerifiers'' (VList trustedVerifiers) config
           else config)))))"

section \<open>Lemmas\<close>

lemma map_of_spread: "map_of (spread a b) k = (case map_of (rev b) k of Some v \<Rightarrow> Some v | None \<Rightarrow> map_of a k)"
  unfolding spread_def
  by (induction b arbitrary: a) (auto simp: update_conv' map_add_def split: option.split)

lemma distinct_keys_update: "distinct (map fst (foldl (\<lambda>acc (k, v). AList.update k v acc) a b)) = distinct (map fst a)"
  if "distinct (map fst a)"
  using that by (induction b arbitrary: a) (auto simp: distinct_update)

lemma distinct_spread: "distinct (map fst a) \<Longrightarrow> distinct (map fst (spread a b))"
  by (simp add: spread_def distinct_keys_update)

lemma map_of_rev_distinct: "distinct (map fst b) \<Longrightarrow> map_of (rev b) k = map_of b k"
proof (induction b)
  case (Cons x b)
  have "fst x \<notin> dom (map_of b)" using Cons.prems by (cases x) (simp add: dom_map_of_conv_image_fst)
  then show ?case using Cons by (cases x) (auto simp: map_add_def split: option.split)
qed simp

text \<open>An explicit member overrides the default, a member left out keeps it.\<close>

lemma configureServer_member:
  assumes "distinct (map fst partialConfig)"
  shows "map_of (configureServer partialConfig) k =
    (case map_of partialConfig k of Some v \<Rightarrow> Some v | None \<Rightarrow> map_of serverDefaultConfiguration k)"
proof -
  have "distinct (map fst serverDefaultConfiguration)"
    by code_simp
  then show ?thesis
    using assms by (simp add: configureServer_def map_of_spread map_of_rev_distinct split: option.split)
qed

lemma map_sum_Inr: "map_sum id h r = Inr ys \<longleftrightarrow> (\<exists>zs. r = Inr zs \<and> ys = h zs)"
  by (cases r) auto

lemma map_result_Inr: "map_result f xs = Inr ys \<longleftrightarrow> list_all2 (\<lambda>x y. f x = Inr y) xs ys"
  by (induction xs arbitrary: ys) (auto simp: list_all2_Cons1 map_sum_Inr split: sum.split)

lemma explicitType_key:
  "explicitType (k, v) = Inr (k', v') \<Longrightarrow> k' = k \<and> (map_of ConfigParamsTypes k \<noteq> None \<or> k \<in> set objectPrototype)"
proof (cases "map_of ConfigParamsTypes k")
  case (Some t)
  assume "explicitType (k, v) = Inr (k', v')"
  then show ?thesis using Some
    by (cases t; cases "parseInt (value_text v)") (simp_all add: explicitType_def split: if_split_asm)
qed (simp add: explicitType_def split: if_splits)

lemma map_of_entriesToObj: "map_of (entriesToObj kvs) k = map_of (rev kvs) k"
  using map_of_spread [of "[]" kvs k] by (simp add: entriesToObj_def spread_def split: option.splits)

text \<open>
  A member of a parsed configuration is the conversion of one that was given: on the command line (or in
  the environment, whose members are the defaults of the command line), or in the configuration file.
\<close>

definition given_file :: "(string \<Rightarrow> (exn + obj) option) \<Rightarrow> obj \<Rightarrow> obj \<Rightarrow> bool" where
  "given_file readJson argv f \<longleftrightarrow> (case map_of argv ''config'' of None \<Rightarrow> f = []
     | Some name \<Rightarrow> readJson (value_text name) = Some (Inr f))"

lemma parsed_member:
  assumes "parseServerConfig minimist readJson args env = Inr cfg" "map_of cfg k = Some v"
  obtains argv f val where
    "minimist args (filterType ConfigParamsTypes StringParam) (filterMembers env ConfigParamsTypes) = ([], argv)"
    "given_file readJson argv f" "(k, val) \<in> set (spread f argv)" "explicitType (k, val) = Inr (k, v)"
proof -
  obtain argv f ys where r: "map_result explicitType (spread f argv) = Inr ys" "cfg = entriesToObj ys"
    and a: "minimist args (filterType ConfigParamsTypes StringParam) (filterMembers env ConfigParamsTypes) = ([], argv)"
      "given_file readJson argv f"
    using assms(1) by (auto simp: parseServerConfig_def given_file_def Let_def map_sum_Inr split: prod.splits if_splits sum.splits option.splits)
  have "(k, v) \<in> set ys" using assms(2) map_of_SomeD [of "rev ys" k v] by (simp add: r(2) map_of_entriesToObj)
  then obtain i where i: "i < length ys" "ys ! i = (k, v)" by (auto simp: in_set_conv_nth)
  then have e: "explicitType (spread f argv ! i) = Inr (k, v)" "i < length (spread f argv)"
    using r(1) list_all2_nthD2 list_all2_lengthD unfolding map_result_Inr by fastforce+
  obtain k' val where "spread f argv ! i = (k', val)" by (cases "spread f argv ! i")
  moreover from this have "k' = k" using e(1) explicitType_key [of k' val k v] by simp
  ultimately show thesis using that [OF a, of val] e nth_mem [OF e(2)] by simp
qed

lemma parsed_known:
  assumes "parseServerConfig minimist readJson args env = Inr cfg" "map_of ConfigParamsTypes k = None" "k \<notin> set objectPrototype"
  shows "map_of cfg k = None"
proof (cases "map_of cfg k")
  case (Some v)
  then obtain val where "explicitType (k, val) = Inr (k, v)" using parsed_member [OF assms(1)] by metis
  then show ?thesis using explicitType_key [of k val k v] assms(2,3) by simp
qed

text \<open>The configuration the server is started with: every default, and what was parsed over it.\<close>

lemma resolveServerConfig_Inr:
  fixes s :: "('w, 'z) net_scheme"
  assumes "resolveServerConfig N W conf s = (Inr c, t)"
  shows "\<exists>conf'. c = spread (spread [] serverDefaultConfiguration) conf' \<and>
    (conf' = conf \<or> (\<exists>v. conf' = AList.update ''relayHubAddress'' v conf))"
proof (cases "map_of conf ''versionRegistryAddress''")
  case None
  show ?thesis using assms unfolding resolveServerConfig_def None option.case
    by (elim bnd_InrE andthen_InrE) (auto split: option.splits elim!: andthen_InrE)
next
  case (Some r)
  show ?thesis
  proof (cases "map_of conf ''relayHubId''")
    case None
    show ?thesis using assms unfolding resolveServerConfig_def Some None option.case Let_def
      by (elim bnd_InrE andthen_InrE) simp
  next
    case i: (Some i)
    show ?thesis using assms unfolding resolveServerConfig_def Some i option.case Let_def
      by (elim bnd_InrE andthen_InrE) auto
  qed
qed

lemma runServerConfig_Inr:
  fixes s :: "('w, 'z) net_scheme"
  assumes "runServerConfig N W parseList (Inr conf) s = (Inr c, t)"
  shows "distinct (map fst c)" and "map_of c ''relayHubAddress'' \<noteq> None"
    and "map_of conf k = None \<Longrightarrow> k \<notin> {''relayHubAddress'', ''trustedVerifiers''} \<Longrightarrow>
      map_of c k = map_of serverDefaultConfiguration k"
proof -
  have d: "distinct (map fst serverDefaultConfiguration)" by code_simp
  have hub: "map_of serverDefaultConfiguration ''relayHubAddress'' \<noteq> None" by code_simp
  obtain c0 and s0 t0 :: "('w, 'z) net_scheme" where c0: "resolveServerConfig N W conf s0 = (Inr c0, t0)" and
    c1: "c = c0 \<or> (\<exists>v. c = AList.update ''trustedVerifiers'' v c0)"
    using assms unfolding runServerConfig_def by (elim bnd_InrE andthen_InrE) (auto split: if_splits)
  obtain conf' where c: "c = c0 \<or> (\<exists>v. c = AList.update ''trustedVerifiers'' v c0)"
    "c0 = spread (spread [] serverDefaultConfiguration) conf'"
    "conf' = conf \<or> (\<exists>v. conf' = AList.update ''relayHubAddress'' v conf)"
    using resolveServerConfig_Inr [OF c0] c1 by blast
  have m: "map_of c0 j = (case map_of (rev conf') j of Some v \<Rightarrow> Some v | None \<Rightarrow> map_of serverDefaultConfiguration j)" for j
    by (simp add: c(2) map_of_spread map_of_rev_distinct [OF d] split: option.split)
  show "distinct (map fst c)" using c(1,2) by (auto simp: distinct_spread distinct_update)
  show "map_of c ''relayHubAddress'' \<noteq> None" using c(1) m hub by (auto simp: update_conv' split: option.splits)
  assume k: "map_of conf k = None" "k \<notin> {''relayHubAddress'', ''trustedVerifiers''}"
  then have "map_of conf' k = None" using c(3) by (auto simp: update_conv')
  then have "map_of (rev conf') k = None" by (simp add: map_of_eq_None_iff)
  then show "map_of c k = map_of serverDefaultConfiguration k" using c(1) m k(2) by (auto simp: update_conv')
qed

end
