(* ===== verification/TxStore.thy ===== *)
theory TxStore
  imports ServerConfig
begin

text \<open>
  \<open>src/relayserver/StoredTransaction.ts\<close> and \<open>src/relayserver/TxStoreManager.ts\<close>: the server's
  record of the transactions it has signed. The document database (nedb) is not in the repository:
  its operations are the parameter \<open>nedb\<close>, what the code relies on is the locale \<open>nedb_laws\<close>, over
  the abstraction \<open>docs\<close> of a database to the set of its documents. Inside the locale each operation
  of the manager is shown to implement an operation on a map from (nonce, signer) to transaction.
\<close>

section \<open>Stored transactions\<close>

datatype server_action =
  REGISTER_SERVER | ADD_WORKER | RELAY_CALL | VALUE_TRANSFER | DEPOSIT_WITHDRAWAL | PENALIZATION

record stored_tx =
  st_to :: string
  st_gas :: int
  st_gasPrice :: int
  st_data :: string
  st_nonce :: int
  st_txId :: string
  st_from :: string
  st_attempts :: int
  st_serverAction :: server_action
  st_creationBlockNumber :: int
  st_boostBlockNumber :: "int option"
  st_minedBlockNumber :: "int option"
  st_nonceSigner :: "(int \<times> string) option"

record tx_metadata =
  tm_from :: string
  tm_attempts :: int
  tm_serverAction :: server_action
  tm_creationBlockNumber :: int
  tm_boostBlockNumber :: "int option"
  tm_minedBlockNumber :: "int option"

definition createStoredTransaction :: "('k, 't) txlib \<Rightarrow> 't \<Rightarrow> tx_metadata \<Rightarrow> stored_tx" where
  "createStoredTransaction T tx m =
     \<lparr>st_to = t_to T tx, st_gas = t_gas T tx, st_gasPrice = t_gasPrice T tx, st_data = t_data T tx,
      st_nonce = t_nonce T tx, st_txId = t_hash T tx,
      st_from = tm_from m, st_attempts = tm_attempts m, st_serverAction = tm_serverAction m,
      st_creationBlockNumber = tm_creationBlockNumber m, st_boostBlockNumber = tm_boostBlockNumber m,
      st_minedBlockNumber = tm_minedBlockNumber m, st_nonceSigner = None\<rparr>"

section \<open>The document database\<close>

record 'd nedb =
  db_findOne :: "(stored_tx \<Rightarrow> bool) \<Rightarrow> 'd \<Rightarrow> stored_tx option"
  db_find :: "(stored_tx \<Rightarrow> bool) \<Rightarrow> 'd \<Rightarrow> stored_tx list"
  db_insert :: "stored_tx \<Rightarrow> 'd \<Rightarrow> exn + 'd"
  db_update :: "(stored_tx \<Rightarrow> bool) \<Rightarrow> (stored_tx \<Rightarrow> stored_tx) \<Rightarrow> 'd \<Rightarrow> exn + 'd"
  db_remove :: "(stored_tx \<Rightarrow> bool) \<Rightarrow> 'd \<Rightarrow> exn + 'd"

text \<open>The two unique indexes of the constructor.\<close>

definition unique_docs :: "stored_tx set \<Rightarrow> bool" where
  "unique_docs D \<longleftrightarrow> inj_on st_txId D \<and> inj_on st_nonceSigner D"

text \<open>
  What nedb documents: \<open>find\<close> returns the matching documents in some order; an insertion or update
  that would break a unique index is rejected and changes nothing; an update without \<open>multi\<close> changes
  one matching document; \<open>remove\<close> with \<open>multi\<close> removes all.
\<close>

locale nedb_laws =
  fixes DB :: "'d nedb" and docs :: "'d \<Rightarrow> stored_tx set" and ok :: "'d \<Rightarrow> bool"
  assumes docs_unique: "ok d \<Longrightarrow> unique_docs (docs d)"
    and find_set: "ok d \<Longrightarrow> set (db_find DB q d) = {x \<in> docs d. q x}"
    and find_distinct: "ok d \<Longrightarrow> distinct (db_find DB q d)"
    and findOne_None: "ok d \<Longrightarrow> db_findOne DB q d = None \<Longrightarrow> x \<in> docs d \<Longrightarrow> \<not> q x"
    and findOne_Some: "ok d \<Longrightarrow> db_findOne DB q d = Some x \<Longrightarrow> x \<in> docs d \<and> q x"
    and insert_Inr: "ok d \<Longrightarrow> db_insert DB x d = Inr d' \<Longrightarrow>
          ok d' \<and> docs d' = insert x (docs d) \<and> x \<notin> docs d"
    and update_Inr: "ok d \<Longrightarrow> x \<in> docs d \<Longrightarrow> q x \<Longrightarrow> (\<forall>y\<in>docs d. q y \<longrightarrow> y = x) \<Longrightarrow>
          db_update DB q f d = Inr d' \<Longrightarrow> ok d' \<and> docs d' = insert (f x) (docs d - {x})"
    and remove_Inr: "ok d \<Longrightarrow> db_remove DB q d = Inr d' \<Longrightarrow> ok d' \<and> docs d' = {x \<in> docs d. \<not> q x}"

section \<open>The transaction store manager\<close>

record ('w, 'd) store_state = "'w interactor" +
  txstore :: 'd

text \<open>The document written by \<open>putTx\<close>: lower-case identifier, and the pair the store is keyed by.\<close>

definition tx_key :: "stored_tx \<Rightarrow> int \<times> string" where
  "tx_key tx = (st_nonce tx, toLowerCase (st_from tx))"

definition store_doc :: "stored_tx \<Rightarrow> stored_tx" where
  "store_doc tx = tx\<lparr>st_txId := toLowerCase (st_txId tx), st_nonceSigner := Some (tx_key tx)\<rparr>"

text \<open>
  \<open>$set\<close>: the members of the new document overwrite, a member it does not have keeps its value. Of
  the optional members the two updates of the transaction manager always have \<open>minedBlockNumber\<close>
  (possibly undefined) and leave out \<open>boostBlockNumber\<close> when the stored document has none.
\<close>

definition set_fields :: "stored_tx \<Rightarrow> stored_tx \<Rightarrow> stored_tx" where
  "set_fields new old = new
     \<lparr>st_boostBlockNumber := (case st_boostBlockNumber new of None \<Rightarrow> st_boostBlockNumber old | v \<Rightarrow> v)\<rparr>"

text \<open>A request to the database: its state changes only when it succeeds.\<close>

definition db_run :: "('d \<Rightarrow> exn + 'd) \<Rightarrow> (('w, 'd, 'z) store_state_scheme, unit) js" where
  "db_run f = (\<lambda>s. case f (txstore s) of Inl e \<Rightarrow> (Inl e, s) | Inr d \<Rightarrow> (Inr (), s\<lparr>txstore := d\<rparr>))"

definition by_nonceSigner :: "int \<times> string \<Rightarrow> stored_tx \<Rightarrow> bool" where
  "by_nonceSigner k x \<longleftrightarrow> st_nonceSigner x = Some k"

definition by_txId :: "string \<Rightarrow> stored_tx \<Rightarrow> bool" where
  "by_txId i x \<longleftrightarrow> st_txId x = i"

definition until_nonce :: "string \<Rightarrow> int \<Rightarrow> stored_tx \<Rightarrow> bool" where
  "until_nonce signer n x \<longleftrightarrow> (case st_nonceSigner x of
     None \<Rightarrow> False | Some (m, a) \<Rightarrow> m \<le> n \<and> a = toLowerCase signer)"

definition by_signer :: "string \<Rightarrow> stored_tx \<Rightarrow> bool" where
  "by_signer signer x \<longleftrightarrow> (case st_nonceSigner x of None \<Rightarrow> False | Some (m, a) \<Rightarrow> a = toLowerCase signer)"

definition putTx :: "'d nedb \<Rightarrow> stored_tx \<Rightarrow> bool \<Rightarrow> (('w, 'd, 'z) store_state_scheme, unit) js" where
  "putTx DB tx updateExisting =
     (if st_txId tx = [] \<or> st_attempts tx = 0 then throw (Error ''Invalid tx:'')
      else (let tx1 = store_doc tx in
        bnd (gets (\<lambda>s. db_findOne DB (by_nonceSigner (tx_key tx)) (txstore s))) (\<lambda>existing.
          case existing of
            Some x \<Rightarrow> if updateExisting
              then db_run (db_update DB (by_txId (st_txId x)) (set_fields tx1))
              else db_run (db_insert DB tx1)
          | None \<Rightarrow> db_run (db_insert DB tx1))))"

definition getTxByNonce ::
  "'d nedb \<Rightarrow> string \<Rightarrow> int \<Rightarrow> (('w, 'd, 'z) store_state_scheme, stored_tx option) js" where
  "getTxByNonce DB signer nonce =
     gets (\<lambda>s. db_findOne DB (by_nonceSigner (nonce, toLowerCase signer)) (txstore s))"

definition getTxById ::
  "'d nedb \<Rightarrow> string \<Rightarrow> (('w, 'd, 'z) store_state_scheme, stored_tx option) js" where
  "getTxById DB txId = gets (\<lambda>s. db_findOne DB (by_txId (toLowerCase txId)) (txstore s))"

definition getTxsUntilNonce ::
  "'d nedb \<Rightarrow> string \<Rightarrow> int \<Rightarrow> (('w, 'd, 'z) store_state_scheme, stored_tx list) js" where
  "getTxsUntilNonce DB signer nonce = gets (\<lambda>s. db_find DB (until_nonce signer nonce) (txstore s))"

definition removeTxsUntilNonce ::
  "'d nedb \<Rightarrow> string \<Rightarrow> int \<Rightarrow> (('w, 'd, 'z) store_state_scheme, unit) js" where
  "removeTxsUntilNonce DB signer nonce = db_run (db_remove DB (until_nonce signer nonce))"

definition clearAll :: "'d nedb \<Rightarrow> (('w, 'd, 'z) store_state_scheme, unit) js" where
  "clearAll DB = db_run (db_remove DB (\<lambda>_. True))"

definition getAllBySigner ::
  "'d nedb \<Rightarrow> string \<Rightarrow> (('w, 'd, 'z) store_state_scheme, stored_tx list) js" where
  "getAllBySigner DB signer = gets (\<lambda>s. sort_key st_nonce (db_find DB (by_signer signer) (txstore s)))"

definition getAll :: "'d nedb \<Rightarrow> (('w, 'd, 'z) store_state_scheme, stored_tx list) js" where
  "getAll DB = gets (\<lambda>s. sort_key st_nonce (db_find DB (\<lambda>_. True) (txstore s)))"

definition isActionPending ::
  "'d nedb \<Rightarrow> server_action \<Rightarrow> string option \<Rightarrow> (('w, 'd, 'z) store_state_scheme, bool) js" where
  "isActionPending DB serverAction destination =
     bnd (getAll DB) (\<lambda>allTransactions.
       ret (find (\<lambda>it. st_minedBlockNumber it = None \<and> st_serverAction it = serverAction \<and>
              (destination = None \<or> isSameAddress (st_to it) (the destination))) allTransactions \<noteq> None))"

section \<open>What the manager implements\<close>

text \<open>
  A stored document is keyed by its own nonce and sender, so the store is a map from keys to
  transactions: \<open>pending DB d\<close>.
\<close>

definition keyed :: "stored_tx \<Rightarrow> bool" where
  "keyed x \<longleftrightarrow> st_nonceSigner x = Some (tx_key x) \<and> st_txId x = toLowerCase (st_txId x)"

definition pending :: "'d nedb \<Rightarrow> 'd \<Rightarrow> (int \<times> string) \<Rightarrow> stored_tx option" where
  "pending DB d = (\<lambda>k. db_findOne DB (by_nonceSigner k) d)"

text \<open>The map after \<open>putTx\<close>, and after \<open>removeTxsUntilNonce\<close>.\<close>

definition put_spec :: "stored_tx \<Rightarrow> (int \<times> string \<Rightarrow> stored_tx option) \<Rightarrow> (int \<times> string \<Rightarrow> stored_tx option)" where
  "put_spec tx m = m(tx_key tx \<mapsto> (case m (tx_key tx) of
     None \<Rightarrow> store_doc tx | Some x \<Rightarrow> set_fields (store_doc tx) x))"

definition remove_spec ::
  "string \<Rightarrow> int \<Rightarrow> (int \<times> string \<Rightarrow> stored_tx option) \<Rightarrow> (int \<times> string \<Rightarrow> stored_tx option)" where
  "remove_spec signer n m = (\<lambda>(k, a). if k \<le> n \<and> a = toLowerCase signer then None else m (k, a))"

lemma tx_key_store_doc [simp]: "tx_key (store_doc tx) = tx_key tx"
  by (simp add: store_doc_def tx_key_def)

lemma keyed_store_doc [simp]: "keyed (store_doc tx)"
  by (simp add: keyed_def) (simp add: store_doc_def)

lemma set_fields_simps [simp]:
  "st_nonceSigner (set_fields a b) = st_nonceSigner a" "st_txId (set_fields a b) = st_txId a"
  "st_nonce (set_fields a b) = st_nonce a" "st_from (set_fields a b) = st_from a"
  "st_to (set_fields a b) = st_to a" "st_gas (set_fields a b) = st_gas a"
  "st_gasPrice (set_fields a b) = st_gasPrice a" "st_data (set_fields a b) = st_data a"
  "st_attempts (set_fields a b) = st_attempts a" "st_serverAction (set_fields a b) = st_serverAction a"
  "st_creationBlockNumber (set_fields a b) = st_creationBlockNumber a"
  "st_minedBlockNumber (set_fields a b) = st_minedBlockNumber a"
  by (simp_all add: set_fields_def)

lemma tx_key_set_fields [simp]: "tx_key (set_fields a b) = tx_key a"
  by (simp add: tx_key_def)

lemma keyed_set_fields [simp]: "keyed (set_fields a b) = keyed a"
  by (simp add: keyed_def)

lemma keyed_nonceSigner: "keyed x \<Longrightarrow> st_nonceSigner x = Some (tx_key x)"
  by (simp add: keyed_def)

lemma nonceSigner_store_doc [simp]: "st_nonceSigner (store_doc tx) = Some (tx_key tx)"
  by (simp add: store_doc_def)

lemma db_run_cases:
  obtains e where "db_run f s = (Inl e, s)"
  | d where "f (txstore s) = Inr d" "db_run f s = (Inr (), s\<lparr>txstore := d\<rparr>)"
  by (cases "f (txstore s)") (auto simp: db_run_def)

context nedb_laws begin

definition wf_store :: "'d \<Rightarrow> bool" where
  "wf_store d \<longleftrightarrow> ok d \<and> (\<forall>x\<in>docs d. keyed x)"

lemma same_key: "ok d \<Longrightarrow> x \<in> docs d \<Longrightarrow> y \<in> docs d \<Longrightarrow> st_nonceSigner x = st_nonceSigner y \<Longrightarrow> x = y"
  using docs_unique [of d] by (auto simp: unique_docs_def dest: inj_onD)

lemma same_txId: "ok d \<Longrightarrow> x \<in> docs d \<Longrightarrow> y \<in> docs d \<Longrightarrow> st_txId x = st_txId y \<Longrightarrow> x = y"
  using docs_unique [of d] by (auto simp: unique_docs_def dest: inj_onD)

lemma pending_Some: "ok d \<Longrightarrow> pending DB d k = Some x \<longleftrightarrow> x \<in> docs d \<and> st_nonceSigner x = Some k"
  unfolding pending_def
proof
  assume ok: "ok d" and m: "x \<in> docs d \<and> st_nonceSigner x = Some k"
  then obtain y where y: "db_findOne DB (by_nonceSigner k) d = Some y"
    using findOne_None [OF ok, of "by_nonceSigner k"] by (cases "db_findOne DB (by_nonceSigner k) d") (auto simp: by_nonceSigner_def)
  moreover have "y = x" using findOne_Some [OF ok y] m same_key [OF ok] by (simp add: by_nonceSigner_def)
  ultimately show "db_findOne DB (by_nonceSigner k) d = Some x" by simp
qed (auto simp: by_nonceSigner_def dest: findOne_Some)

lemma pending_eqI:
  assumes "ok d" "\<And>k x. m k = Some x \<longleftrightarrow> x \<in> docs d \<and> st_nonceSigner x = Some k"
  shows "pending DB d = m"
  by (rule ext) (metis assms pending_Some option.collapse option.distinct(1))

lemma pending_key: "wf_store d \<Longrightarrow> pending DB d k = Some x \<Longrightarrow> tx_key x = k"
  using pending_Some [of d k x] keyed_nonceSigner [of x] by (auto simp: wf_store_def)

lemma docs_pending: "wf_store d \<Longrightarrow> x \<in> docs d \<longleftrightarrow> pending DB d (tx_key x) = Some x"
  using pending_Some [of d "tx_key x" x] keyed_nonceSigner [of x] by (auto simp: wf_store_def)

lemma insert_wf:
  assumes "wf_store d" "keyed x" "db_insert DB x d = Inr d'"
  shows "wf_store d'" and "pending DB d' = (pending DB d)(tx_key x \<mapsto> x)" and "pending DB d (tx_key x) = None"
proof -
  have ok: "ok d" using assms(1) by (simp add: wf_store_def)
  have i: "ok d'" "docs d' = insert x (docs d)" "x \<notin> docs d" using insert_Inr [OF ok assms(3)] by auto
  show w: "wf_store d'" using i assms by (auto simp: wf_store_def)
  have new: "st_nonceSigner y \<noteq> Some (tx_key x)" if "y \<in> docs d" for y
    using same_key [OF i(1), of x y] i that keyed_nonceSigner [OF assms(2)] by auto
  show "pending DB d (tx_key x) = None"
    using new pending_Some [OF ok, of "tx_key x"] by (cases "pending DB d (tx_key x)") auto
  show "pending DB d' = (pending DB d)(tx_key x \<mapsto> x)"
    using new keyed_nonceSigner [OF assms(2)] by (intro pending_eqI [OF i(1)]) (auto simp: i(2) pending_Some [OF ok])
qed

lemma update_wf:
  assumes "wf_store d" "keyed x" "pending DB d (tx_key x) = Some y"
    and "db_update DB (by_txId (st_txId y)) (set_fields x) d = Inr d'"
  shows "wf_store d'" and "pending DB d' = (pending DB d)(tx_key x \<mapsto> set_fields x y)"
proof -
  have ok: "ok d" using assms(1) by (simp add: wf_store_def)
  have y: "y \<in> docs d" "st_nonceSigner y = Some (tx_key x)" using assms(3) pending_Some [OF ok] by auto
  have only: "\<forall>z\<in>docs d. by_txId (st_txId y) z \<longrightarrow> z = y"
    using same_txId [OF ok _ y(1)] by (auto simp: by_txId_def)
  have u: "ok d'" "docs d' = insert (set_fields x y) (docs d - {y})"
    using update_Inr [OF ok y(1) _ only assms(4)] by (auto simp: by_txId_def)
  show "wf_store d'" using u assms by (auto simp: wf_store_def)
  have key: "st_nonceSigner x = Some (tx_key x)" by (rule keyed_nonceSigner [OF assms(2)])
  have other: "st_nonceSigner z \<noteq> Some (tx_key x)" if "z \<in> docs d" "z \<noteq> y" for z
    using same_key [OF ok that(1) y(1)] that y(2) by auto
  show "pending DB d' = (pending DB d)(tx_key x \<mapsto> set_fields x y)"
    using other key y by (intro pending_eqI [OF u(1)]) (auto simp: u(2) pending_Some [OF ok])
qed

text \<open>\<open>putTx\<close> implements \<open>put_spec\<close>; without \<open>updateExisting\<close> it succeeds only on a new key.\<close>

lemma putTx_Inr:
  assumes "wf_store (txstore s)" "putTx DB tx upd s = (Inr u, t)"
  shows "\<exists>d. t = s\<lparr>txstore := d\<rparr> \<and> wf_store d \<and> pending DB d = put_spec tx (pending DB (txstore s)) \<and>
    (\<not> upd \<longrightarrow> pending DB (txstore s) (tx_key tx) = None) \<and> st_txId tx \<noteq> [] \<and> st_attempts tx \<noteq> 0"
proof (cases "pending DB (txstore s) (tx_key tx)")
  case None
  then have "db_run (db_insert DB (store_doc tx)) s = (Inr u, t)" "st_txId tx \<noteq> []" "st_attempts tx \<noteq> 0"
    using assms(2) by (auto simp: putTx_def Let_def bnd_run pending_def split: if_splits)
  moreover from this(1) obtain d where "db_insert DB (store_doc tx) (txstore s) = Inr d" "t = s\<lparr>txstore := d\<rparr>"
    by (auto simp: db_run_def split: sum.splits)
  ultimately show ?thesis
    using insert_wf [OF assms(1) keyed_store_doc, of tx d] None by (auto simp: put_spec_def)
next
  case (Some y)
  have r: "(if upd then db_run (db_update DB (by_txId (st_txId y)) (set_fields (store_doc tx)))
      else db_run (db_insert DB (store_doc tx))) s = (Inr u, t)" "st_txId tx \<noteq> []" "st_attempts tx \<noteq> 0"
    using Some assms(2) by (auto simp: putTx_def Let_def bnd_run pending_def split: if_splits)
  show ?thesis
  proof (cases upd)
    case True
    with r(1) obtain d where d: "db_update DB (by_txId (st_txId y)) (set_fields (store_doc tx)) (txstore s) = Inr d"
      "t = s\<lparr>txstore := d\<rparr>" by (auto simp: db_run_def split: sum.splits)
    show ?thesis
      using update_wf [OF assms(1) keyed_store_doc, of tx y d] Some d r True by (auto simp: put_spec_def)
  next
    case False
    with r(1) obtain d where "db_insert DB (store_doc tx) (txstore s) = Inr d"
      by (auto simp: db_run_def split: sum.splits)
    then show ?thesis using insert_wf(3) [OF assms(1) keyed_store_doc, of tx d] Some by simp
  qed
qed

lemma removeTxsUntilNonce_Inr:
  assumes "wf_store (txstore s)" "removeTxsUntilNonce DB signer n s = (Inr u, t)"
  shows "\<exists>d. t = s\<lparr>txstore := d\<rparr> \<and> wf_store d \<and> pending DB d = remove_spec signer n (pending DB (txstore s))"
proof -
  have ok: "ok (txstore s)" using assms(1) by (simp add: wf_store_def)
  obtain d where d: "db_remove DB (until_nonce signer n) (txstore s) = Inr d" "t = s\<lparr>txstore := d\<rparr>"
    using assms(2) by (auto simp: removeTxsUntilNonce_def db_run_def split: sum.splits)
  have r: "ok d" "docs d = {x \<in> docs (txstore s). \<not> until_nonce signer n x}"
    using remove_Inr [OF ok d(1)] by auto
  have "pending DB d = remove_spec signer n (pending DB (txstore s))"
  proof (rule pending_eqI [OF r(1)])
    fix k x
    show "remove_spec signer n (pending DB (txstore s)) k = Some x \<longleftrightarrow> x \<in> docs d \<and> st_nonceSigner x = Some k"
      using pending_Some [OF ok, of k x]
      by (cases k) (auto simp: remove_spec_def r(2) until_nonce_def)
  qed
  then show ?thesis using assms(1) d(2) r by (auto simp: wf_store_def)
qed

lemma getAll_set:
  "wf_store (txstore s) \<Longrightarrow> set (sort_key st_nonce (db_find DB (\<lambda>_. True) (txstore s))) = ran (pending DB (txstore s))"
proof -
  assume w: "wf_store (txstore s)"
  then have ok: "ok (txstore s)" by (simp add: wf_store_def)
  have "x \<in> docs (txstore s) \<longleftrightarrow> x \<in> ran (pending DB (txstore s))" for x
    using docs_pending [OF w, of x] pending_Some [OF ok, of _ x] by (auto simp: ran_def)
  then show ?thesis using find_set [OF ok, of "\<lambda>_. True"] by auto
qed

lemma getAllBySigner_set:
  assumes "wf_store (txstore s)"
  shows "x \<in> set (sort_key st_nonce (db_find DB (by_signer signer) (txstore s))) \<longleftrightarrow>
    pending DB (txstore s) (tx_key x) = Some x \<and> snd (tx_key x) = toLowerCase signer"
proof -
  have ok: "ok (txstore s)" using assms by (simp add: wf_store_def)
  have "by_signer signer x \<longleftrightarrow> snd (tx_key x) = toLowerCase signer" if "x \<in> docs (txstore s)"
    using assms that keyed_nonceSigner [of x] by (auto simp: wf_store_def by_signer_def split: prod.splits)
  then show ?thesis using find_set [OF ok, of "by_signer signer"] docs_pending [OF assms, of x] by auto
qed

end

text \<open>A rejected request leaves the store as it was.\<close>

lemma putTx_Inl: "putTx DB tx upd s = (Inl e, t) \<Longrightarrow> t = s"
  by (auto simp: putTx_def Let_def bnd_run db_run_def split: if_splits option.splits sum.splits)

lemma removeTxsUntilNonce_Inl: "removeTxsUntilNonce DB signer n s = (Inl e, t) \<Longrightarrow> t = s"
  by (auto simp: removeTxsUntilNonce_def db_run_def split: sum.splits)

end
