(* ===== verification/NedbList.thy ===== *)
theory NedbList
  imports TxStore
begin

text \<open>
  An in-memory document store that obeys \<open>nedb_laws\<close>, with its documents in a list: the store the
  server opens with \<open>inMemory\<close>. It shows that the laws can hold, and the transaction manager's
  operations run on it.
\<close>

definition unique_list :: "stored_tx list \<Rightarrow> bool" where
  "unique_list d \<longleftrightarrow> distinct (map st_txId d) \<and> distinct (map st_nonceSigner d)"

fun update_first :: "('a \<Rightarrow> bool) \<Rightarrow> ('a \<Rightarrow> 'a) \<Rightarrow> 'a list \<Rightarrow> 'a list" where
  "update_first q f [] = []"
| "update_first q f (x # xs) = (if q x then f x # xs else x # update_first q f xs)"

definition checked :: "stored_tx list \<Rightarrow> exn + stored_tx list" where
  "checked d = (if unique_list d then Inr d else Inl (Error ''Can't insert key, it violates the unique constraint''))"

definition list_nedb :: "stored_tx list nedb" where
  "list_nedb = \<lparr>db_findOne = find, db_find = filter,
     db_insert = (\<lambda>x d. checked (d @ [x])),
     db_update = (\<lambda>q f d. checked (update_first q f d)),
     db_remove = (\<lambda>q d. Inr (filter (\<lambda>x. \<not> q x) d))\<rparr>"

lemma unique_list_distinct: "unique_list d \<Longrightarrow> distinct d"
  by (simp add: unique_list_def distinct_map)

lemma unique_list_docs: "unique_list d \<Longrightarrow> unique_docs (set d)"
  by (simp add: unique_list_def unique_docs_def distinct_map)

lemma unique_list_filter: "unique_list d \<Longrightarrow> unique_list (filter q d)"
  by (simp add: unique_list_def distinct_map_filter)

lemma update_first_split: "\<not> (\<exists>y\<in>set us. q y) \<Longrightarrow> q x \<Longrightarrow> update_first q f (us @ x # vs) = us @ f x # vs"
  by (induction us) auto

lemma set_update_first:
  assumes "distinct d" "x \<in> set d" "q x" "\<forall>y\<in>set d. q y \<longrightarrow> y = x"
  shows "set (update_first q f d) = insert (f x) (set d - {x})"
proof -
  obtain us vs where d: "d = us @ x # vs" using split_list [OF assms(2)] by blast
  have n: "x \<notin> set us" "x \<notin> set vs" using assms(1) by (simp_all add: d)
  have "\<not> (\<exists>y\<in>set us. q y)" using assms(4) n(1) by (auto simp: d)
  from update_first_split [OF this assms(3)] show ?thesis using n by (simp add: d)
qed

interpretation list_db: nedb_laws list_nedb set unique_list
proof
  fix d :: "stored_tx list" and q f x d'
  assume u: "unique_list d"
  show "unique_docs (set d)" by (rule unique_list_docs [OF u])
  show "set (db_find list_nedb q d) = {x \<in> set d. q x}" by (simp add: list_nedb_def)
  show "distinct (db_find list_nedb q d)" using unique_list_distinct [OF u] by (simp add: list_nedb_def)
  show "\<not> q x" if "db_findOne list_nedb q d = None" "x \<in> set d"
    using that by (simp add: list_nedb_def find_None_iff)
  show "x \<in> set d \<and> q x" if "db_findOne list_nedb q d = Some x"
    using that by (auto simp: list_nedb_def find_Some_iff)
  show "unique_list d' \<and> set d' = insert x (set d) \<and> x \<notin> set d" if "db_insert list_nedb x d = Inr d'"
    using that unique_list_distinct [of d'] by (auto simp: list_nedb_def checked_def split: if_splits)
  show "unique_list d' \<and> set d' = {x \<in> set d. \<not> q x}" if "db_remove list_nedb q d = Inr d'"
    using that unique_list_filter [OF u] by (auto simp: list_nedb_def)
  show "unique_list d' \<and> set d' = insert (f x) (set d - {x})"
    if "x \<in> set d" "q x" "\<forall>y\<in>set d. q y \<longrightarrow> y = x" "db_update list_nedb q f d = Inr d'"
  proof -
    have "d' = update_first q f d" "unique_list d'"
      using that(4) by (simp_all add: list_nedb_def checked_def split: if_split_asm)
    then show ?thesis
      using set_update_first [OF unique_list_distinct [OF u] that(1,2,3), of f] by simp
  qed
qed

end
