(* ===== verification/Transactions.thy ===== *)
theory Transactions
  imports NedbList
begin

text \<open>
  \<open>src/relayserver/KeyManager.ts\<close> and \<open>src/relayserver/TransactionManager.ts\<close>: the keys of the
  server's accounts, and the sending, storing, boosting and removing of its transactions. The state
  adds to the transaction store the next nonce of every signer (\<open>nonces\<close>; a signer without one is
  \<open>None\<close>, which also stands for \<open>NaN\<close>) and the mutex that guards it. Here a method runs to its end;
  theory Concurrency interleaves them.
\<close>

section \<open>Keys\<close>

record 'k key_manager =
  km_privateKeys :: "(string \<times> 'k) list"
  km_nonces :: "(nat \<times> int) list"

text \<open>
  \<open>derive i\<close> is \<open>hdkey.deriveChild(i).getWallet()\<close>: the address in hexadecimal and the private key.
\<close>

fun generate_from :: "(nat \<Rightarrow> string \<times> 'k) \<Rightarrow> nat \<Rightarrow> nat \<Rightarrow> 'k key_manager \<Rightarrow> 'k key_manager" where
  "generate_from derive index 0 km = km"
| "generate_from derive index (Suc n) km =
     (case derive index of (address, key) \<Rightarrow>
       generate_from derive (Suc index) n
         (km\<lparr>km_privateKeys := AList.update address key (km_privateKeys km),
             km_nonces := AList.update index 0 (km_nonces km)\<rparr>))"

definition generateKeys :: "(nat \<Rightarrow> string \<times> 'k) \<Rightarrow> nat \<Rightarrow> 'k key_manager" where
  "generateKeys derive count = generate_from derive 0 count \<lparr>km_privateKeys = [], km_nonces = []\<rparr>"

definition getAddresses :: "'k key_manager \<Rightarrow> string list" where
  "getAddresses km = map fst (km_privateKeys km)"

definition getAddress :: "'k key_manager \<Rightarrow> nat \<Rightarrow> string option" where
  "getAddress km index = (if index < length (getAddresses km) then Some (getAddresses km ! index) else None)"

definition isSigner :: "'k key_manager \<Rightarrow> string \<Rightarrow> bool" where
  "isSigner km signer \<longleftrightarrow> map_of (km_privateKeys km) signer \<noteq> None"

text \<open>\<open>tx.sign\<close> changes the transaction object, which is returned with its serialization.\<close>

definition signTransaction ::
  "('k, 't) txlib \<Rightarrow> 'k key_manager \<Rightarrow> string \<Rightarrow> 't \<Rightarrow> exn + ('t \<times> string)" where
  "signTransaction T km signer tx = (case map_of (km_privateKeys km) signer of
     None \<Rightarrow> Inl (Error (''Can't sign: signer='' @ signer @ '' is not managed''))
   | Some privateKey \<Rightarrow> (let signed = t_sign T privateKey tx in Inr (signed, t_raw T signed)))"

text \<open>
  The constructor, on a file system of state \<open>'f\<close>: \<open>ke_readSeed\<close> and \<open>ke_writeSeed\<close> are the reading
  and writing of the keystore file with its JSON encoding, \<open>ke_master\<close> is \<open>hdkey.fromMasterSeed\<close>.
\<close>

record ('f, 'seed, 'k) key_env =
  ke_existsSync :: "string \<Rightarrow> ('f, bool) js"
  ke_mkdirSync :: "string \<Rightarrow> ('f, unit) js"
  ke_readSeed :: "string \<Rightarrow> ('f, 'seed) js"
  ke_writeSeed :: "string \<Rightarrow> 'seed \<Rightarrow> ('f, unit) js"
  ke_generate :: "('f, 'seed) js"
  ke_master :: "'seed \<Rightarrow> nat \<Rightarrow> string \<times> 'k"

definition keystoreSeed :: "('f, 'seed, 'k) key_env \<Rightarrow> string \<Rightarrow> ('f, 'seed) js" where
  "keystoreSeed K workdir =
     bnd (ke_existsSync K workdir) (\<lambda>dir.
     andthen (if dir then ret () else ke_mkdirSync K workdir)
     (let keyStorePath = workdir @ ''/keystore'' in
      bnd (ke_existsSync K keyStorePath) (\<lambda>file.
        if file then ke_readSeed K keyStorePath
        else bnd (ke_generate K) (\<lambda>genseed. andthen (ke_writeSeed K keyStorePath genseed) (ret genseed)))))"

definition generateKeys_opt :: "('seed \<Rightarrow> nat \<Rightarrow> string \<times> 'k) \<Rightarrow> 'seed option \<Rightarrow> nat \<Rightarrow> exn + 'k key_manager" where
  "generateKeys_opt master hdkey count = (case hdkey of
     Some seed \<Rightarrow> Inr (generateKeys (master seed) count)
   | None \<Rightarrow> if count = 0 then Inr \<lparr>km_privateKeys = [], km_nonces = []\<rparr>
       else Inl (Error ''Cannot read property 'deriveChild' of undefined''))"

definition newKeyManager ::
  "('f, 'seed, 'k) key_env \<Rightarrow> nat \<Rightarrow> string option \<Rightarrow> 'seed option \<Rightarrow> ('f, 'k key_manager) js" where
  "newKeyManager K count workdir seed =
     andthen (throw_if (seed \<noteq> None \<and> workdir \<noteq> None) ''Can't specify both seed and workdir'')
     (bnd (case workdir of
         Some dir \<Rightarrow> catching (bnd (keystoreSeed K dir) (\<lambda>g. ret (Some g)))
           (\<lambda>e. if has_substring (or_else (message e) '''') ''file already exists'' then ret None else throw e)
       | None \<Rightarrow> (case seed of Some g \<Rightarrow> ret (Some g) | None \<Rightarrow> bnd (ke_generate K) (\<lambda>g. ret (Some g)))) (\<lambda>hdkey.
      of_result (generateKeys_opt (ke_master K) hdkey count)))"

section \<open>Transactions\<close>

record ('w, 'd) tm_state = "('w, 'd) store_state" +
  nonces :: "string \<Rightarrow> int option"
  nonceMutex :: bool

text \<open>\<open>ServerDependencies\<close>, with the libraries and the configuration.\<close>

record ('w, 'd, 'k, 't) deps =
  dp_node :: "'w node"
  dp_web3 :: web3_utils
  dp_db :: "'d nedb"
  dp_tx :: "('k, 't) txlib"
  dp_managerKeys :: "'k key_manager"
  dp_workersKeys :: "'k key_manager"
  dp_config :: server_config

record signed_details =
  sx_transactionHash :: string
  sx_signedTx :: string

record send_details =
  sd_signer :: string
  sd_serverAction :: server_action
  sd_method :: "hub_method option"
  sd_destination :: "string option"
  sd_value :: "string option"
  sd_gasLimit :: number
  sd_gasPrice :: "string option"
  sd_creationBlockNumber :: int

definition initNonces :: "('w, 'd, 'k, 't) deps \<Rightarrow> string \<Rightarrow> int option" where
  "initNonces D = (\<lambda>a. if Some a = getAddress (dp_managerKeys D) 0 \<or> Some a = getAddress (dp_workersKeys D) 0
     then Some 0 else None)"

definition tm_init :: "(('w, 'd, 'z) tm_state_scheme, unit) js" where
  "tm_init = andthen ci_getRawTxOptions (ret ())"

definition attemptEstimateGas ::
  "('w, 'd, 'k, 't) deps \<Rightarrow> string \<times> hub_method \<Rightarrow> string \<Rightarrow> (('w, 'd, 'z) tm_state_scheme, number) js" where
  "attemptEstimateGas D m from = (case m of (contract, call) \<Rightarrow>
     catching (bnd (io (n_methodEstimateGas (dp_node D) contract call (fromWorkerOnly from))) (\<lambda>estimateGas.
         ret (math_round (num_mul (parseInt (int_str estimateGas)) (sc_estimateGasFactor (dp_config D))))))
       (\<lambda>_. ret (sc_defaultGasLimit (dp_config D))))"

definition keysOf :: "('w, 'd, 'k, 't) deps \<Rightarrow> string \<Rightarrow> 'k key_manager" where
  "keysOf D signer = (if isSigner (dp_managerKeys D) signer then dp_managerKeys D else dp_workersKeys D)"

definition pollNonce ::
  "('w, 'd, 'k, 't) deps \<Rightarrow> string \<Rightarrow> (('w, 'd, 'z) tm_state_scheme, int option) js" where
  "pollNonce D signer =
     bnd (io (n_getTransactionCount (dp_node D) signer (Some ''pending''))) (\<lambda>nonce.
     andthen (modify (\<lambda>s. case nonces s signer of
         None \<Rightarrow> s
       | Some n \<Rightarrow> if n < nonce then s\<lparr>nonces := (nonces s)(signer := Some nonce)\<rparr> else s))
     (gets (\<lambda>s. nonces s signer)))"

definition increment_nonce :: "string \<Rightarrow> (('w, 'd, 'z) tm_state_scheme, unit) js" where
  "increment_nonce signer = modify (\<lambda>s. s\<lparr>nonces := (nonces s)(signer := map_option (\<lambda>n. n + 1) (nonces s signer))\<rparr>)"

definition acquire :: "(('w, 'd, 'z) tm_state_scheme, unit) js" where
  "acquire = modify (\<lambda>s. s\<lparr>nonceMutex := True\<rparr>)"

definition release :: "('w, 'd, 'z) tm_state_scheme \<Rightarrow> ('w, 'd, 'z) tm_state_scheme" where
  "release s = s\<lparr>nonceMutex := False\<rparr>"

text \<open>The arguments of \<open>new Transaction\<close> in \<open>sendTransaction\<close>; data is given as hexadecimal text.\<close>

definition encoded_call :: "('w, 'd, 'k, 't) deps \<Rightarrow> send_details \<Rightarrow> string" where
  "encoded_call D d = (case sd_method d of None \<Rightarrow> ''0x'' | Some m \<Rightarrow> w3_encodeABI (dp_web3 D) m)"

definition new_tx_args :: "('w, 'd, 'k, 't) deps \<Rightarrow> send_details \<Rightarrow> number \<Rightarrow> int option \<Rightarrow> tx_args" where
  "new_tx_args D d gasPrice nonce =
     \<lparr>ta_to = sd_destination d, ta_value = Some (or_else (sd_value d) ''0x''), ta_gasLimit = sd_gasLimit d,
      ta_gasPrice = gasPrice, ta_data = ''0x'' @ drop 2 (encoded_call D d), ta_nonce = nonce\<rparr>"

definition first_metadata :: "send_details \<Rightarrow> tx_metadata" where
  "first_metadata d = \<lparr>tm_from = sd_signer d, tm_attempts = 1, tm_serverAction = sd_serverAction d,
     tm_creationBlockNumber = sd_creationBlockNumber d, tm_boostBlockNumber = None, tm_minedBlockNumber = None\<rparr>"

text \<open>The part of \<open>sendTransaction\<close> between the acquisition and the release of the mutex.\<close>

definition sign_and_store ::
  "('w, 'd, 'k, 't) deps \<Rightarrow> send_details \<Rightarrow> number \<Rightarrow> (('w, 'd, 'z) tm_state_scheme, string \<times> stored_tx) js" where
  "sign_and_store D d gasPrice =
     bnd (pollNonce D (sd_signer d)) (\<lambda>nonce.
     bnd (of_result (t_new (dp_tx D) (new_tx_args D d gasPrice nonce))) (\<lambda>txToSign.
     bnd (of_result (signTransaction (dp_tx D) (keysOf D (sd_signer d)) (sd_signer d) txToSign)) (\<lambda>(tx, signedTx).
     let storedTx = createStoredTransaction (dp_tx D) tx (first_metadata d) in
     andthen (increment_nonce (sd_signer d))
     (andthen (putTx (dp_db D) storedTx False)
     (ret (signedTx, storedTx))))))"

definition broadcast_checked ::
  "('w, 'd, 'k, 't) deps \<Rightarrow> string \<Rightarrow> stored_tx \<Rightarrow> (('w, 'd, 'z) tm_state_scheme, signed_details) js" where
  "broadcast_checked D signedTx storedTx =
     bnd (io (n_sendRawTransaction (dp_node D) signedTx)) (\<lambda>transactionHash.
     andthen (throw_if (toLowerCase transactionHash \<noteq> toLowerCase (st_txId storedTx))
       (''txhash mismatch: from receipt: '' @ transactionHash @ '' from txstore:'' @ st_txId storedTx))
     (ret \<lparr>sx_transactionHash = transactionHash, sx_signedTx = signedTx\<rparr>))"

definition resolve_gasPrice ::
  "('w, 'd, 'k, 't) deps \<Rightarrow> string option \<Rightarrow> (('w, 'd, 'z) tm_state_scheme, number) js" where
  "resolve_gasPrice D gasPrice = (case gasPrice of
     Some p \<Rightarrow> ret (parseInt p)
   | None \<Rightarrow> bnd (io (n_getGasPrice (dp_node D))) (\<lambda>p. ret (parseInt p)))"

definition sendTransaction ::
  "('w, 'd, 'k, 't) deps \<Rightarrow> send_details \<Rightarrow> (('w, 'd, 'z) tm_state_scheme, signed_details) js" where
  "sendTransaction D d =
     bnd (resolve_gasPrice D (sd_gasPrice d)) (\<lambda>gasPrice.
     andthen acquire
     (bnd (finally_do (sign_and_store D d gasPrice) release) (\<lambda>(signedTx, storedTx).
      broadcast_checked D signedTx storedTx)))"

definition updateTransactionWithMinedBlock ::
  "('w, 'd, 'k, 't) deps \<Rightarrow> stored_tx \<Rightarrow> int \<Rightarrow> (('w, 'd, 'z) tm_state_scheme, unit) js" where
  "updateTransactionWithMinedBlock D tx minedBlockNumber =
     putTx (dp_db D) (tx\<lparr>st_minedBlockNumber := Some minedBlockNumber\<rparr>) True"

definition updateTransactionWithAttempt ::
  "('w, 'd, 'k, 't) deps \<Rightarrow> 't \<Rightarrow> stored_tx \<Rightarrow> int \<Rightarrow> (('w, 'd, 'z) tm_state_scheme, stored_tx) js" where
  "updateTransactionWithAttempt D txToSign tx currentBlock =
     (let storedTx = createStoredTransaction (dp_tx D) txToSign
        \<lparr>tm_from = st_from tx, tm_attempts = st_attempts tx + 1, tm_serverAction = st_serverAction tx,
         tm_creationBlockNumber = st_creationBlockNumber tx, tm_boostBlockNumber = Some currentBlock,
         tm_minedBlockNumber = st_minedBlockNumber tx\<rparr>
      in andthen (putTx (dp_db D) storedTx True) (ret storedTx))"

text \<open>The transaction that replaces \<open>tx\<close>; no \<open>value\<close> is given.\<close>

definition resend_args :: "stored_tx \<Rightarrow> number \<Rightarrow> tx_args" where
  "resend_args tx newGasPrice =
     \<lparr>ta_to = Some (st_to tx), ta_value = None, ta_gasLimit = num (st_gas tx), ta_gasPrice = newGasPrice,
      ta_data = st_data tx, ta_nonce = Some (st_nonce tx)\<rparr>"

definition resendTransaction ::
  "('w, 'd, 'k, 't) deps \<Rightarrow> stored_tx \<Rightarrow> int \<Rightarrow> number \<Rightarrow> (('w, 'd, 'z) tm_state_scheme, signed_details) js" where
  "resendTransaction D tx currentBlock newGasPrice =
     bnd (of_result (t_new (dp_tx D) (resend_args tx newGasPrice))) (\<lambda>txToSign.
     bnd (of_result (signTransaction (dp_tx D) (keysOf D (st_from tx)) (st_from tx) txToSign)) (\<lambda>(signed, signedTx).
     bnd (updateTransactionWithAttempt D signed tx currentBlock) (\<lambda>storedTx.
     bnd (io (n_getTransactionCount (dp_node D) (st_from tx) None)) (\<lambda>_.
     broadcast_checked D signedTx storedTx))))"

definition resolveNewGasPrice :: "server_config \<Rightarrow> int \<Rightarrow> number \<times> bool" where
  "resolveNewGasPrice cfg oldGasPrice =
     (let newGasPrice = num_mul (num oldGasPrice) (sc_retryGasPriceFactor cfg);
          maxGasPrice = parseInt (sc_maxGasPrice cfg)
      in if num_lt maxGasPrice newGasPrice then (maxGasPrice, True) else (newGasPrice, False))"

text \<open>One round of the loop of \<open>removeConfirmedTransactions\<close>.\<close>

definition should_recheck :: "server_config \<Rightarrow> int \<Rightarrow> stored_tx \<Rightarrow> bool" where
  "should_recheck cfg blockNumber tx \<longleftrightarrow> (case st_minedBlockNumber tx of
     None \<Rightarrow> True | Some m \<Rightarrow> sc_confirmationsNeeded cfg \<le> blockNumber - m)"

definition removeConfirmed ::
  "('w, 'd, 'k, 't) deps \<Rightarrow> int \<Rightarrow> stored_tx \<Rightarrow> (('w, 'd, 'z) tm_state_scheme, unit) js" where
  "removeConfirmed D blockNumber tx =
     (if should_recheck (dp_config D) blockNumber tx then
        bnd (io (n_getTransaction (dp_node D) (st_txId tx))) (\<lambda>found. case found of
          None \<Rightarrow> ret ()
        | Some receipt \<Rightarrow> (case ti_blockNumber receipt of
            None \<Rightarrow> ret ()
          | Some b \<Rightarrow>
              if Some b \<noteq> st_minedBlockNumber tx \<and> blockNumber - b < sc_confirmationsNeeded (dp_config D)
              then updateTransactionWithMinedBlock D tx b
              else removeTxsUntilNonce (dp_db D) (ti_from receipt) (ti_nonce receipt)))
      else ret ())"

definition removeConfirmedTransactions ::
  "('w, 'd, 'k, 't) deps \<Rightarrow> int \<Rightarrow> (('w, 'd, 'z) tm_state_scheme, unit) js" where
  "removeConfirmedTransactions D blockNumber =
     bnd (getAll (dp_db D)) (\<lambda>sortedTxs. for_each (removeConfirmed D blockNumber) sortedTxs)"

text \<open>
  The transactions \<open>boostUnderpricedPendingTransactionsForSigner\<close> resends and their new price, from
  the sorted transactions of the signer and its current nonce.
\<close>

definition underpriced ::
  "server_config \<Rightarrow> stored_tx list \<Rightarrow> int \<Rightarrow> int \<Rightarrow> number \<times> stored_tx list" where
  "underpriced cfg sortedTxs nonce currentBlockHeight = (case sortedTxs of
     [] \<Rightarrow> (NaN, [])
   | oldestPendingTx # _ \<Rightarrow>
       if st_nonce oldestPendingTx < nonce then (NaN, [])
       else if currentBlockHeight - or_else (st_boostBlockNumber oldestPendingTx) (st_creationBlockNumber oldestPendingTx)
                 < sc_pendingTransactionTimeoutBlocks cfg then (NaN, [])
       else (let newGasPrice = fst (resolveNewGasPrice cfg (st_gasPrice oldestPendingTx))
             in (newGasPrice, filter (\<lambda>it. num_lt (num (st_gasPrice it)) newGasPrice) sortedTxs)))"

definition boostUnderpricedPendingTransactionsForSigner ::
  "('w, 'd, 'k, 't) deps \<Rightarrow> string \<Rightarrow> int \<Rightarrow> (('w, 'd, 'z) tm_state_scheme, (string \<times> signed_details) list) js" where
  "boostUnderpricedPendingTransactionsForSigner D signer currentBlockHeight =
     bnd (getAllBySigner (dp_db D) signer) (\<lambda>sortedTxs.
       if sortedTxs = [] then ret []
       else bnd (io (n_getTransactionCount (dp_node D) signer None)) (\<lambda>nonce.
         (case underpriced (dp_config D) sortedTxs nonce currentBlockHeight of (newGasPrice, underpricedTransactions) \<Rightarrow>
           fold_js (\<lambda>transaction boosted.
             bnd (resendTransaction D transaction currentBlockHeight newGasPrice) (\<lambda>details.
               ret (AList.update (st_txId transaction) details boosted))) underpricedTransactions [])))"

section \<open>Keys: lemmas\<close>

lemma isSigner_iff: "isSigner km a \<longleftrightarrow> a \<in> set (getAddresses km)"
  unfolding isSigner_def getAddresses_def by (simp add: map_of_eq_None_iff)

lemma signTransaction_Inr:
  "signTransaction T km a tx = Inr (tx', raw) \<longleftrightarrow>
     (\<exists>k. map_of (km_privateKeys km) a = Some k \<and> tx' = t_sign T k tx \<and> raw = t_raw T tx')"
  by (auto simp: signTransaction_def Let_def split: option.split)

lemma generate_from_keys:
  "distinct (map fst (km_privateKeys km)) \<Longrightarrow>
     distinct (map fst (km_privateKeys (generate_from derive i n km))) \<and>
     set (map fst (km_privateKeys (generate_from derive i n km))) =
       set (map fst (km_privateKeys km)) \<union> (fst \<circ> derive) ` {i..<i + n}"
proof (induction derive i n km rule: generate_from.induct)
  case (2 derive index n km)
  have "{index..<index + Suc n} = insert index {Suc index..<Suc index + n}" by auto
  then show ?case
    using 2 by (cases "derive index") (simp add: distinct_update dom_update)
qed simp

lemma generateKeys_addresses:
  "set (getAddresses (generateKeys derive n)) = (fst \<circ> derive) ` {0..<n}"
  "distinct (getAddresses (generateKeys derive n))"
  using generate_from_keys [of "\<lparr>km_privateKeys = [], km_nonces = []\<rparr>" derive 0 n]
  by (auto simp: generateKeys_def getAddresses_def)

section \<open>The mutex\<close>

text \<open>\<open>finally\<close> releases the mutex on every path.\<close>

definition mutex_kept :: "('w, 'd, 'z) tm_state_scheme \<Rightarrow> ('w, 'd, 'z) tm_state_scheme \<Rightarrow> bool" where
  "mutex_kept s t \<longleftrightarrow> nonceMutex t = nonceMutex s"

lemma broadcast_mutex [simp]: "nonceMutex (snd (broadcast_checked D x y u)) = nonceMutex u"
  by (simp add: broadcast_checked_def bnd_run andthen_run io_run split: prod.split sum.split)

lemma sendTransaction_mutex:
  "nonceMutex (snd (sendTransaction D d s)) = (if fst (resolve_gasPrice D (sd_gasPrice d) s) \<in> range Inl then nonceMutex s else False)"
proof -
  have g: "nonceMutex (snd (resolve_gasPrice D (sd_gasPrice d) s)) = nonceMutex s"
    by (simp add: resolve_gasPrice_def bnd_run io_run split: prod.split sum.split option.split)
  show ?thesis
    using g by (auto simp: sendTransaction_def acquire_def release_def bnd_run andthen_run finally_do_run
        split: prod.splits sum.splits)
qed

section \<open>What a successful send has done\<close>

lemma of_result_InrD: "of_result r s = (Inr x, t) \<Longrightarrow> r = Inr x \<and> t = s"
  by auto

lemma pollNonce_Inr:
  assumes "pollNonce D a s = (Inr r, t)"
  shows "nonces t a = r" and "txstore t = txstore s" and "b \<noteq> a \<Longrightarrow> nonces t b = nonces s b"
    and "nonces s a = Some n \<Longrightarrow> \<exists>c m w. n_getTransactionCount (dp_node D) a (Some ''pending'') (world s) = (Inr c, w) \<and>
           r = Some m \<and> m = max n c"
proof -
  obtain c w where c: "n_getTransactionCount (dp_node D) a (Some ''pending'') (world s) = (Inr c, w)"
  proof (cases "n_getTransactionCount (dp_node D) a (Some ''pending'') (world s)")
    case (Pair x w)
    then show thesis using assms that by (cases x) (simp_all add: pollNonce_def bnd_run io_run)
  qed
  have e: "(Inr r, t) = (let s1 = s\<lparr>world := w\<rparr>; s2 = (case nonces s a of None \<Rightarrow> s1
       | Some n \<Rightarrow> if n < c then s1\<lparr>nonces := (nonces s)(a := Some c)\<rparr> else s1) in (Inr (nonces s2 a), s2))"
    using assms by (cases "nonces s a") (auto simp: pollNonce_def bnd_run andthen_run io_run c Let_def)
  show "nonces t a = r" "txstore t = txstore s" "b \<noteq> a \<Longrightarrow> nonces t b = nonces s b"
    using e by (auto simp: Let_def split: option.splits if_splits)
  show "\<exists>c m w. n_getTransactionCount (dp_node D) a (Some ''pending'') (world s) = (Inr c, w) \<and> r = Some m \<and> m = max n c"
    if "nonces s a = Some n" using e c that by (auto simp: Let_def split: if_splits)
qed

lemma sign_and_store_Inr:
  assumes "sign_and_store D d p s = (Inr (signedTx, stx), t)"
  obtains nonce tx key s1 s2 where
    "pollNonce D (sd_signer d) s = (Inr nonce, s1)"
    "t_new (dp_tx D) (new_tx_args D d p nonce) = Inr tx"
    "map_of (km_privateKeys (keysOf D (sd_signer d))) (sd_signer d) = Some key"
    "signedTx = t_raw (dp_tx D) (t_sign (dp_tx D) key tx)"
    "stx = createStoredTransaction (dp_tx D) (t_sign (dp_tx D) key tx) (first_metadata d)"
    "s2 = s1\<lparr>nonces := (nonces s1)(sd_signer d := map_option (\<lambda>n. n + 1) nonce)\<rparr>"
    "putTx (dp_db D) stx False s2 = (Inr (), t)"
proof -
  from assms obtain nonce s1 tx tx' raw where
    1: "pollNonce D (sd_signer d) s = (Inr nonce, s1)" and
    2: "t_new (dp_tx D) (new_tx_args D d p nonce) = Inr tx" and
    3: "signTransaction (dp_tx D) (keysOf D (sd_signer d)) (sd_signer d) tx = Inr (tx', raw)" and
    4: "andthen (increment_nonce (sd_signer d)) (andthen (putTx (dp_db D)
          (createStoredTransaction (dp_tx D) tx' (first_metadata d)) False)
          (ret (raw, createStoredTransaction (dp_tx D) tx' (first_metadata d)))) s1 = (Inr (signedTx, stx), t)"
    unfolding sign_and_store_def Let_def by (auto elim!: bnd_InrE dest!: of_result_InrD)
  have 5: "nonces s1 (sd_signer d) = nonce" by (rule pollNonce_Inr(1) [OF 1])
  obtain key where key: "map_of (km_privateKeys (keysOf D (sd_signer d))) (sd_signer d) = Some key"
    "tx' = t_sign (dp_tx D) key tx" "raw = t_raw (dp_tx D) tx'"
    using 3 unfolding signTransaction_Inr by blast
  show thesis
    by (rule that [OF 1 2 key(1) _ _ refl])
      (use 4 5 key in \<open>auto simp: increment_nonce_def andthen_run split: sum.splits prod.splits\<close>)
qed

lemma sendTransaction_Inr:
  assumes "sendTransaction D d s = (Inr r, t)"
  obtains p stx s1 t1 where
    "resolve_gasPrice D (sd_gasPrice d) s = (Inr p, s1)" "txstore s1 = txstore s" "nonces s1 = nonces s"
    "sign_and_store D d p (s1\<lparr>nonceMutex := True\<rparr>) = (Inr (sx_signedTx r, stx), t1)"
    "toLowerCase (sx_transactionHash r) = toLowerCase (st_txId stx)"
    "txstore t = txstore t1" "nonces t = nonces t1" "nonceMutex t = False"
proof -
  from assms obtain p s1 signedTx stx u where
    1: "resolve_gasPrice D (sd_gasPrice d) s = (Inr p, s1)" and
    2: "finally_do (sign_and_store D d p) release (s1\<lparr>nonceMutex := True\<rparr>) = (Inr (signedTx, stx), u)" and
    3: "broadcast_checked D signedTx stx u = (Inr r, t)"
    unfolding sendTransaction_def acquire_def by (auto elim!: bnd_InrE andthen_InrE)
  have s1: "txstore s1 = txstore s" "nonces s1 = nonces s"
    using 1 by (auto simp: resolve_gasPrice_def bnd_run io_run split: option.splits sum.splits prod.splits)
  obtain t1 where t1: "sign_and_store D d p (s1\<lparr>nonceMutex := True\<rparr>) = (Inr (signedTx, stx), t1)" "u = release t1"
    using 2 by (cases "sign_and_store D d p (s1\<lparr>nonceMutex := True\<rparr>)") (auto simp: finally_do_run)
  have r: "sx_signedTx r = signedTx" "toLowerCase (sx_transactionHash r) = toLowerCase (st_txId stx)"
    "txstore t = txstore u" "nonces t = nonces u" "nonceMutex t = nonceMutex u"
    using 3 by (auto simp: broadcast_checked_def bnd_run andthen_run io_run split: sum.splits prod.splits if_splits)
  show thesis
    by (rule that [OF 1 s1, of stx t1]) (use t1 r in \<open>simp_all add: release_def\<close>)
qed

section \<open>Relations the manager cannot break\<close>

text \<open>
  A relation that does not look at the node and the store and allows a nonce to grow holds along every
  operation of the transaction manager but the one that takes the mutex; when it does not look at the
  mutex either, along all of them.
\<close>

locale tm_growing = step_relation R for R :: "('w, 'd, 'z) tm_state_scheme \<Rightarrow> ('w, 'd, 'z) tm_state_scheme \<Rightarrow> bool" +
  assumes blind_world: "R s (s\<lparr>world := w\<rparr>)"
    and blind_store: "R s (s\<lparr>txstore := d\<rparr>)"
    and grow_nonce: "nonces s a = Some n \<Longrightarrow> n \<le> m \<Longrightarrow> R s (s\<lparr>nonces := (nonces s)(a := Some m)\<rparr>)"
begin

lemma along_blind_io: "along R (io m)"
  by (simp add: along_def io_run blind_world)

lemma along_blind_db: "along R (db_run f)"
  by (auto simp: along_def db_run_def R_refl blind_store split: sum.split)

lemma along_blind_putTx: "along R (putTx DB tx u)"
  unfolding putTx_def Let_def by (intro along_rules along_blind_db)

lemma along_blind_increment: "along R (increment_nonce a)"
  unfolding increment_nonce_def
proof (rule along_modify)
  fix s :: "('w, 'd, 'z) tm_state_scheme"
  show "R s (s\<lparr>nonces := (nonces s)(a := map_option (\<lambda>n. n + 1) (nonces s a))\<rparr>)"
  proof (cases "nonces s a")
    case None
    then have "(nonces s)(a := None) = nonces s" by auto
    then show ?thesis using None by (simp add: R_refl)
  next
    case (Some n)
    then show ?thesis using grow_nonce [OF Some, of "n + 1"] by simp
  qed
qed

lemma along_blind_poll: "along R (pollNonce D a)"
  unfolding pollNonce_def
  by (intro along_rules along_modify along_blind_io) (auto simp: R_refl grow_nonce split: option.split)

lemmas blind_rules = along_rules along_blind_io along_blind_db along_blind_putTx along_blind_increment along_blind_poll

lemma along_blind_sign: "along R (sign_and_store D d p)"
  unfolding sign_and_store_def by (intro blind_rules) (auto simp: Let_def split: prod.split intro!: blind_rules)

lemma along_blind_broadcast: "along R (broadcast_checked D x y)"
  unfolding broadcast_checked_def by (intro blind_rules)

lemma along_blind_resend: "along R (resendTransaction D tx b p)"
  unfolding resendTransaction_def updateTransactionWithAttempt_def Let_def
  by (intro blind_rules) (auto split: prod.split intro!: blind_rules along_blind_broadcast)

lemma along_blind_boost: "along R (boostUnderpricedPendingTransactionsForSigner D a b)"
  unfolding boostUnderpricedPendingTransactionsForSigner_def getAllBySigner_def
  by (intro blind_rules) (auto split: prod.split intro!: blind_rules along_blind_resend)

lemma along_blind_remove: "along R (removeConfirmedTransactions D b)"
  unfolding removeConfirmedTransactions_def removeConfirmed_def updateTransactionWithMinedBlock_def
    removeTxsUntilNonce_def getAll_def
  by (intro blind_rules)

lemma along_blind_estimate: "along R (attemptEstimateGas D m a)"
  unfolding attemptEstimateGas_def by (cases m) (simp, intro blind_rules)

lemma along_blind_pending: "along R (isActionPending DB a t)"
  unfolding isActionPending_def getAll_def by (intro blind_rules)

lemma along_blind_hub: "along R relayHubInstance"
  unfolding relayHubInstance_def instance_of_def by (intro blind_rules)

lemma along_blind_events: "along R (getPastEventsForHub N W t opts ns)"
  unfolding getPastEventsForHub_def getPastEvents_def Let_def by (intro blind_rules along_blind_hub)

lemma along_blind_stake_events: "along R (getPastEventsForStakeManagement N W ns t opts)"
  unfolding getPastEventsForStakeManagement_def getPastEvents_def Let_def by (intro blind_rules along_blind_hub)

lemma along_blind_stake: "along R (getStakeInfo N a)"
  unfolding getStakeInfo_def by (intro blind_rules along_blind_hub)

lemma along_blind_balance: "along R (getBalance N a b)"
  unfolding getBalance_def by (rule along_blind_io)

lemma along_blind_methods: "along R (getRegisterRelayMethod url)" "along R (getAddRelayWorkersMethod ws)"
  unfolding getRegisterRelayMethod_def getAddRelayWorkersMethod_def by (intro blind_rules along_blind_hub)+

lemmas growing_rules = blind_rules along_blind_sign along_blind_broadcast along_blind_resend along_blind_boost
  along_blind_remove along_blind_estimate along_blind_pending along_blind_hub along_blind_events
  along_blind_stake_events along_blind_stake along_blind_balance along_blind_methods

end

locale tm_blind = tm_growing R for R :: "('w, 'd, 'z) tm_state_scheme \<Rightarrow> ('w, 'd, 'z) tm_state_scheme \<Rightarrow> bool" +
  assumes blind_mutex: "R s (s\<lparr>nonceMutex := b\<rparr>)"
begin

lemma along_blind_send: "along R (sendTransaction D d)"
  unfolding sendTransaction_def resolve_gasPrice_def acquire_def
  by (intro growing_rules along_finally along_modify)
    (auto simp: release_def blind_mutex split: prod.split intro!: growing_rules)

lemmas tm_rules = growing_rules along_blind_send

end

text \<open>The nonce of a signer never decreases, whatever a method returns or throws.\<close>

definition nonces_grow :: "('w, 'd, 'z) tm_state_scheme \<Rightarrow> ('w, 'd, 'z) tm_state_scheme \<Rightarrow> bool" where
  "nonces_grow s t \<longleftrightarrow> (\<forall>a n. nonces s a = Some n \<longrightarrow> (\<exists>m\<ge>n. nonces t a = Some m))"

lemma nonces_grow_trans: "nonces_grow s t \<Longrightarrow> nonces_grow t u \<Longrightarrow> nonces_grow s u"
  unfolding nonces_grow_def by (meson order_trans)

interpretation growing: tm_blind nonces_grow
proof
  show "nonces_grow s u" if "nonces_grow s t" "nonces_grow t u" for s t u by (rule nonces_grow_trans [OF that])
qed (auto simp: nonces_grow_def)

section \<open>What may disappear from the store\<close>

text \<open>
  A transaction of the key \<open>k\<close> is confirmed when the node can report a transaction of the same
  sender with this or a later nonce that is at least \<open>needed\<close> blocks old.
\<close>

definition confirmed_on :: "'w node \<Rightarrow> int \<Rightarrow> int \<Rightarrow> int \<times> string \<Rightarrow> bool" where
  "confirmed_on N needed blockNumber k \<longleftrightarrow> (\<exists>i r b. returns (n_getTransaction N i) (Some r) \<and>
     ti_blockNumber r = Some b \<and> needed \<le> blockNumber - b \<and> fst k \<le> ti_nonce r \<and>
     snd k = toLowerCase (ti_from r))"

lemma returns_io: "returns (io m) x \<Longrightarrow> returns m x"
  by (auto simp: returns_def io_run) (metis prod.collapse)

context nedb_laws begin

text \<open>The store stays well formed, and only keys with the property \<open>E\<close> disappear.\<close>

definition drops_only :: "(int \<times> string \<Rightarrow> bool) \<Rightarrow> ('w, 'd, 'z) store_state_scheme \<Rightarrow> ('w, 'd, 'z) store_state_scheme \<Rightarrow> bool" where
  "drops_only E s t \<longleftrightarrow> (wf_store (txstore s) \<longrightarrow> wf_store (txstore t) \<and>
     (\<forall>k. pending DB (txstore s) k \<noteq> None \<and> pending DB (txstore t) k = None \<longrightarrow> E k))"

lemma drops_refl: "drops_only E s s"
  unfolding drops_only_def by blast

lemma drops_step: "step_relation (drops_only E)"
proof
  show "drops_only E s s" for s by (rule drops_refl)
  show "drops_only E s u" if "drops_only E s t" "drops_only E t u" for s t u
    unfolding drops_only_def
  proof (intro impI conjI allI)
    assume w: "wf_store (txstore s)"
    show "wf_store (txstore u)" using that w by (simp add: drops_only_def)
    fix k assume k: "pending DB (txstore s) k \<noteq> None \<and> pending DB (txstore u) k = None"
    show "E k"
      using that w k unfolding drops_only_def by (cases "pending DB (txstore t) k = None") blast+
  qed
qed

lemmas drops_rules = step_relation.along_rules [OF drops_step]

lemma along_drops_same: "(\<And>s. txstore (snd (m s)) = txstore s) \<Longrightarrow> along (drops_only E) m"
  by (rule alongI) (auto simp: drops_only_def)

lemma along_drops_io: "along (drops_only E) (io m)"
  by (rule along_drops_same) (simp add: io_run)

lemma put_spec_keeps: "put_spec tx m k = None \<Longrightarrow> m k = None"
  by (auto simp: put_spec_def split: if_splits)

lemma along_drops_putTx: "along (drops_only E) (putTx DB tx u)"
proof (rule alongI)
  fix s :: "('w, 'd, 'z) store_state_scheme"
  show "drops_only E s (snd (putTx DB tx u s))"
  proof (cases "putTx DB tx u s")
    case (Pair r t)
    then show ?thesis
    proof (cases r)
      case (Inl e)
      then show ?thesis using Pair putTx_Inl [of DB tx u s e t] by (simp add: drops_refl)
    next
      case (Inr v)
      have "wf_store (txstore s) \<Longrightarrow> wf_store (txstore t) \<and> pending DB (txstore t) = put_spec tx (pending DB (txstore s))"
        using putTx_Inr [of s tx u v t] Pair Inr by auto
      then show ?thesis unfolding drops_only_def Pair snd_conv by (metis put_spec_keeps)
    qed
  qed
qed

lemma along_drops_remove:
  assumes "\<And>k. fst k \<le> n \<Longrightarrow> snd k = toLowerCase a \<Longrightarrow> E k"
  shows "along (drops_only E) (removeTxsUntilNonce DB a n)"
proof (rule alongI)
  fix s :: "('w, 'd, 'z) store_state_scheme"
  show "drops_only E s (snd (removeTxsUntilNonce DB a n s))"
  proof (cases "removeTxsUntilNonce DB a n s")
    case (Pair r t)
    then show ?thesis
    proof (cases r)
      case (Inl e)
      then show ?thesis using Pair removeTxsUntilNonce_Inl [of DB a n s e t] by (simp add: drops_refl)
    next
      case (Inr v)
      have "wf_store (txstore s) \<Longrightarrow> wf_store (txstore t) \<and> pending DB (txstore t) = remove_spec a n (pending DB (txstore s))"
        using removeTxsUntilNonce_Inr [of s a n v t] Pair Inr by auto
      then show ?thesis
        using Pair assms by (auto simp: drops_only_def remove_spec_def split: if_splits)
    qed
  qed
qed

lemma along_drops_increment: "along (drops_only E) (increment_nonce a)"
  by (rule along_drops_same) (simp add: increment_nonce_def)

lemma along_drops_poll: "along (drops_only E) (pollNonce D a)"
  unfolding pollNonce_def
  by (intro drops_rules along_drops_io step_relation.along_modify [OF drops_step])
    (auto simp: drops_only_def split: option.split)

lemmas store_rules = drops_rules along_drops_io along_drops_putTx along_drops_increment along_drops_poll

lemma along_drops_broadcast: "along (drops_only E) (broadcast_checked D x y)"
  unfolding broadcast_checked_def by (intro store_rules)

lemma along_drops_send:
  assumes "dp_db D = DB" shows "along (drops_only E) (sendTransaction D d)"
  unfolding sendTransaction_def resolve_gasPrice_def acquire_def sign_and_store_def assms
  by (intro store_rules step_relation.along_finally [OF drops_step] step_relation.along_modify [OF drops_step])
    (auto simp: drops_only_def release_def Let_def split: prod.split intro!: along_drops_broadcast store_rules)

lemma along_drops_resend:
  assumes "dp_db D = DB" shows "along (drops_only E) (resendTransaction D tx b p)"
  unfolding resendTransaction_def updateTransactionWithAttempt_def Let_def assms
  by (intro store_rules) (auto split: prod.split intro!: store_rules along_drops_broadcast)

lemma along_drops_boost:
  assumes "dp_db D = DB"
  shows "along (drops_only E) (boostUnderpricedPendingTransactionsForSigner D a b)"
  unfolding boostUnderpricedPendingTransactionsForSigner_def getAllBySigner_def assms
  by (intro store_rules) (auto split: prod.split intro!: store_rules along_drops_resend [OF assms])

lemma along_drops_removeConfirmed:
  assumes "dp_db D = DB"
  shows "along (drops_only (confirmed_on (dp_node D) (sc_confirmationsNeeded (dp_config D)) b)) (removeConfirmed D b tx)"
    (is "along (drops_only ?E) _")
proof (cases "should_recheck (dp_config D) b tx")
  case recheck: True
  have "along (drops_only ?E) (case found of None \<Rightarrow> ret ()
        | Some receipt \<Rightarrow> (case ti_blockNumber receipt of None \<Rightarrow> ret ()
          | Some m \<Rightarrow> if Some m \<noteq> st_minedBlockNumber tx \<and> b - m < sc_confirmationsNeeded (dp_config D)
              then updateTransactionWithMinedBlock D tx m
              else removeTxsUntilNonce (dp_db D) (ti_from receipt) (ti_nonce receipt)))"
    if "returns (n_getTransaction (dp_node D) (st_txId tx)) found" for found
  proof (cases found)
    case (Some r)
    show ?thesis
    proof (cases "ti_blockNumber r")
      case None
      then show ?thesis using Some by (simp add: step_relation.along_ret [OF drops_step])
    next
      case m: (Some m)
      show ?thesis
      proof (cases "Some m \<noteq> st_minedBlockNumber tx \<and> b - m < sc_confirmationsNeeded (dp_config D)")
        case True
        then show ?thesis using Some m assms
          by (simp add: updateTransactionWithMinedBlock_def along_drops_putTx)
      next
        case False
        then have "sc_confirmationsNeeded (dp_config D) \<le> b - m"
          using recheck by (cases "st_minedBlockNumber tx") (auto simp: should_recheck_def)
        moreover have "returns (n_getTransaction (dp_node D) (st_txId tx)) (Some r)"
          using that Some by simp
        ultimately have "along (drops_only ?E) (removeTxsUntilNonce DB (ti_from r) (ti_nonce r))"
          using m by (intro along_drops_remove) (auto simp: confirmed_on_def)
        then show ?thesis using Some m False assms by (simp only: option.case if_False)
      qed
    qed
  qed (simp add: step_relation.along_ret [OF drops_step])
  then show ?thesis unfolding removeConfirmed_def using recheck
    by (simp only: if_True) (rule step_relation.along_bnd_returns [OF drops_step along_drops_io], drule returns_io, blast)
qed (simp add: removeConfirmed_def step_relation.along_ret [OF drops_step])

lemma along_drops_removeConfirmedTransactions:
  assumes "dp_db D = DB"
  shows "along (drops_only (confirmed_on (dp_node D) (sc_confirmationsNeeded (dp_config D)) b))
    (removeConfirmedTransactions D b)"
  unfolding removeConfirmedTransactions_def getAll_def
  by (intro drops_rules along_drops_removeConfirmed [OF assms])

text \<open>A successful send adds one transaction, under a key that was free, and advances the nonce.\<close>

lemma send_stores:
  assumes "dp_db D = DB" "wf_store (txstore s)" "sendTransaction D d s = (Inr r, t)"
  obtains nonce tx key p where
    "t_new (dp_tx D) (new_tx_args D d p nonce) = Inr tx"
    "map_of (km_privateKeys (keysOf D (sd_signer d))) (sd_signer d) = Some key"
    "sx_signedTx r = t_raw (dp_tx D) (t_sign (dp_tx D) key tx)"
    "let stx = createStoredTransaction (dp_tx D) (t_sign (dp_tx D) key tx) (first_metadata d)
     in toLowerCase (sx_transactionHash r) = toLowerCase (st_txId stx) \<and>
        pending DB (txstore s) (tx_key stx) = None \<and>
        pending DB (txstore t) = (pending DB (txstore s))(tx_key stx \<mapsto> store_doc stx)"
    "nonces t (sd_signer d) = map_option (\<lambda>n. n + 1) nonce" "wf_store (txstore t)"
    "nonces s (sd_signer d) = Some n \<Longrightarrow> (\<exists>m\<ge>n. nonce = Some m)"
proof -
  obtain p stx s1 t1 where
    "resolve_gasPrice D (sd_gasPrice d) s = (Inr p, s1)" and
    s: "txstore s1 = txstore s" "nonces s1 = nonces s"
      "sign_and_store D d p (s1\<lparr>nonceMutex := True\<rparr>) = (Inr (sx_signedTx r, stx), t1)"
      "toLowerCase (sx_transactionHash r) = toLowerCase (st_txId stx)"
      "txstore t = txstore t1" "nonces t = nonces t1" "nonceMutex t = False"
    by (rule sendTransaction_Inr [OF assms(3)])
  obtain nonce tx key s2 s3 where q:
    "pollNonce D (sd_signer d) (s1\<lparr>nonceMutex := True\<rparr>) = (Inr nonce, s2)"
    "t_new (dp_tx D) (new_tx_args D d p nonce) = Inr tx"
    "map_of (km_privateKeys (keysOf D (sd_signer d))) (sd_signer d) = Some key"
    "sx_signedTx r = t_raw (dp_tx D) (t_sign (dp_tx D) key tx)"
    "stx = createStoredTransaction (dp_tx D) (t_sign (dp_tx D) key tx) (first_metadata d)"
    "s3 = s2\<lparr>nonces := (nonces s2)(sd_signer d := map_option (\<lambda>n. n + 1) nonce)\<rparr>"
    "putTx (dp_db D) stx False s3 = (Inr (), t1)"
    by (rule sign_and_store_Inr [OF s(3)])
  have st3: "txstore s3 = txstore s" using q(6) pollNonce_Inr(2) [OF q(1)] s(1) by simp
  have wf3: "wf_store (txstore s3)" using st3 assms(2) by simp
  obtain d' where d': "t1 = s3\<lparr>txstore := d'\<rparr>" "wf_store d'"
    "pending DB d' = put_spec stx (pending DB (txstore s3))" "pending DB (txstore s3) (tx_key stx) = None"
    using putTx_Inr [OF wf3 q(7) [unfolded assms(1)]] by auto
  show thesis
  proof (rule that [OF q(2) q(3) q(4)])
    show "let stx = createStoredTransaction (dp_tx D) (t_sign (dp_tx D) key tx) (first_metadata d)
     in toLowerCase (sx_transactionHash r) = toLowerCase (st_txId stx) \<and>
        pending DB (txstore s) (tx_key stx) = None \<and>
        pending DB (txstore t) = (pending DB (txstore s))(tx_key stx \<mapsto> store_doc stx)"
      using d' s(4,5) st3 q(5) by (simp add: Let_def put_spec_def)
    show "nonces t (sd_signer d) = map_option (\<lambda>n. n + 1) nonce" using d'(1) s(6) q(6) by simp
    show "wf_store (txstore t)" using d' s(5) by simp
    show "\<exists>m\<ge>n. nonce = Some m" if "nonces s (sd_signer d) = Some n"
      using pollNonce_Inr(4) [OF q(1), of n] s(2) that by auto
  qed
qed

end

end
