(* ===== verification/Concurrency.thy ===== *)
theory Concurrency
  imports Transactions
begin

text \<open>
  \<open>TransactionManager.sendTransaction\<close> and \<open>pollNonce\<close> (\<open>src/relayserver/TransactionManager.ts\<close>)
  interleaved at their \<open>await\<close>s. Any number of calls run on the shared state of the manager; between
  two steps of one call other calls, the polls of \<open>validateMaxNonce\<close> (which do not take the mutex) and
  everything else that leaves the nonces and the mutex alone may happen. Each step runs the piece of
  the sequential definition that lies between two \<open>await\<close>s; \<open>send_steps\<close> shows that a call that runs
  alone does what \<open>sendTransaction\<close> does.
\<close>

section \<open>Steps\<close>

datatype pc =
  Idle
| Start send_details
| Priced send_details number
| Locked send_details number
| Counted send_details number int
| Polled send_details number "int option"
| Storing send_details string stored_tx
| Sending string stored_tx
| Done signed_details
| Failed exn
| Poll string
| PollCounted string int

record ('w, 'd) system =
  shared :: "('w, 'd) tm_state"
  procs :: "nat \<Rightarrow> pc"
  issued :: "(string \<times> int) list"

text \<open>The mutex is held between the acquisition and the storing of the transaction.\<close>

definition holds :: "pc \<Rightarrow> bool" where
  "holds c = (case c of Locked _ _ \<Rightarrow> True | Counted _ _ _ \<Rightarrow> True | Polled _ _ _ \<Rightarrow> True
     | Storing _ _ _ \<Rightarrow> True | _ \<Rightarrow> False)"

text \<open>What \<open>pollNonce\<close> does once the node has answered.\<close>

definition poll_update :: "string \<Rightarrow> int \<Rightarrow> ('w, 'd, 'z) tm_state_scheme \<Rightarrow> ('w, 'd, 'z) tm_state_scheme" where
  "poll_update a nonce s = (case nonces s a of None \<Rightarrow> s
     | Some n \<Rightarrow> if n < nonce then s\<lparr>nonces := (nonces s)(a := Some nonce)\<rparr> else s)"

text \<open>Signing, and counting the nonce, with no \<open>await\<close> in between.\<close>

definition sign_nonce ::
  "('w, 'd, 'k, 't) deps \<Rightarrow> send_details \<Rightarrow> number \<Rightarrow> int option \<Rightarrow> (('w, 'd, 'z) tm_state_scheme, string \<times> stored_tx) js" where
  "sign_nonce D d gasPrice nonce =
     bnd (of_result (t_new (dp_tx D) (new_tx_args D d gasPrice nonce))) (\<lambda>txToSign.
     bnd (of_result (signTransaction (dp_tx D) (keysOf D (sd_signer d)) (sd_signer d) txToSign)) (\<lambda>(tx, signedTx).
     let storedTx = createStoredTransaction (dp_tx D) tx (first_metadata d) in
     andthen (increment_nonce (sd_signer d)) (ret (signedTx, storedTx))))"

definition goes :: "nat \<Rightarrow> pc \<Rightarrow> ('w, 'd) tm_state \<Rightarrow> ('w, 'd) system \<Rightarrow> ('w, 'd) system" where
  "goes i c s y = y\<lparr>shared := s, procs := (procs y)(i := c)\<rparr>"

definition log_nonce :: "send_details \<Rightarrow> int option \<Rightarrow> ('w, 'd) system \<Rightarrow> ('w, 'd) system" where
  "log_nonce d nonce y = (case nonce of None \<Rightarrow> y | Some n \<Rightarrow> y\<lparr>issued := issued y @ [(sd_signer d, n)]\<rparr>)"

inductive step :: "('w, 'd, 'k, 't) deps \<Rightarrow> ('w, 'd) system \<Rightarrow> ('w, 'd) system \<Rightarrow> bool" for D where
  price: "procs y i = Start d \<Longrightarrow> resolve_gasPrice D (sd_gasPrice d) (shared y) = (Inr p, s) \<Longrightarrow>
    step D y (goes i (Priced d p) s y)"
| price_fails: "procs y i = Start d \<Longrightarrow> resolve_gasPrice D (sd_gasPrice d) (shared y) = (Inl e, s) \<Longrightarrow>
    step D y (goes i (Failed e) s y)"
| lock: "procs y i = Priced d p \<Longrightarrow> \<not> nonceMutex (shared y) \<Longrightarrow> acquire (shared y) = (Inr u, s) \<Longrightarrow>
    step D y (goes i (Locked d p) s y)"
| count: "procs y i = Locked d p \<Longrightarrow>
    io (n_getTransactionCount (dp_node D) (sd_signer d) (Some ''pending'')) (shared y) = (Inr c, s) \<Longrightarrow>
    step D y (goes i (Counted d p c) s y)"
| count_fails: "procs y i = Locked d p \<Longrightarrow>
    io (n_getTransactionCount (dp_node D) (sd_signer d) (Some ''pending'')) (shared y) = (Inl e, s) \<Longrightarrow>
    step D y (goes i (Failed e) (release s) y)"
| polled: "procs y i = Counted d p c \<Longrightarrow> s = poll_update (sd_signer d) c (shared y) \<Longrightarrow>
    step D y (goes i (Polled d p (nonces s (sd_signer d))) s y)"
| sign: "procs y i = Polled d p nonce \<Longrightarrow> sign_nonce D d p nonce (shared y) = (Inr (signedTx, stx), s) \<Longrightarrow>
    step D y (log_nonce d nonce (goes i (Storing d signedTx stx) s y))"
| sign_fails: "procs y i = Polled d p nonce \<Longrightarrow> sign_nonce D d p nonce (shared y) = (Inl e, s) \<Longrightarrow>
    step D y (goes i (Failed e) (release s) y)"
| stored: "procs y i = Storing d signedTx stx \<Longrightarrow> putTx (dp_db D) stx False (shared y) = (Inr u, s) \<Longrightarrow>
    step D y (goes i (Sending signedTx stx) (release s) y)"
| store_fails: "procs y i = Storing d signedTx stx \<Longrightarrow> putTx (dp_db D) stx False (shared y) = (Inl e, s) \<Longrightarrow>
    step D y (goes i (Failed e) (release s) y)"
| sent: "procs y i = Sending signedTx stx \<Longrightarrow> broadcast_checked D signedTx stx (shared y) = (Inr r, s) \<Longrightarrow>
    step D y (goes i (Done r) s y)"
| send_fails: "procs y i = Sending signedTx stx \<Longrightarrow> broadcast_checked D signedTx stx (shared y) = (Inl e, s) \<Longrightarrow>
    step D y (goes i (Failed e) s y)"
| poll: "procs y i = Poll a \<Longrightarrow>
    io (n_getTransactionCount (dp_node D) a (Some ''pending'')) (shared y) = (r, s) \<Longrightarrow>
    step D y (goes i (case r of Inl e \<Rightarrow> Failed e | Inr c \<Rightarrow> PollCounted a c) s y)"
| poll_done: "procs y i = PollCounted a c \<Longrightarrow> step D y (goes i Idle (poll_update a c (shared y)) y)"
| call: "procs y i = Idle \<Longrightarrow> c = Start d \<or> c = Poll a \<Longrightarrow> step D y (goes i c (shared y) y)"
| other: "nonces s = nonces (shared y) \<Longrightarrow> nonceMutex s = nonceMutex (shared y) \<Longrightarrow> step D y (y\<lparr>shared := s\<rparr>)"

inductive_cases step_elim: "step D y z"

inductive reachable :: "('w, 'd, 'k, 't) deps \<Rightarrow> ('w, 'd) system \<Rightarrow> bool" for D where
  init: "procs y = (\<lambda>_. Idle) \<Longrightarrow> issued y = [] \<Longrightarrow> \<not> nonceMutex (shared y) \<Longrightarrow> reachable D y"
| step: "reachable D y \<Longrightarrow> step D y z \<Longrightarrow> reachable D z"

section \<open>The invariant\<close>

text \<open>
  One call at most holds the mutex; every nonce issued is below the counter of its signer; a call
  that holds a polled nonce will issue it above all others.
\<close>

definition inv_mutex :: "('w, 'd) system \<Rightarrow> bool" where
  "inv_mutex y \<longleftrightarrow> (\<forall>i j. holds (procs y i) \<longrightarrow> holds (procs y j) \<longrightarrow> i = j) \<and>
     (nonceMutex (shared y) \<longleftrightarrow> (\<exists>i. holds (procs y i)))"

definition inv_issued :: "('w, 'd) system \<Rightarrow> bool" where
  "inv_issued y \<longleftrightarrow> distinct (issued y) \<and>
     (\<forall>(a, n)\<in>set (issued y). \<exists>m. nonces (shared y) a = Some m \<and> n < m) \<and>
     (\<forall>i d p n. procs y i = Polled d p (Some n) \<longrightarrow>
        (\<exists>m\<ge>n. nonces (shared y) (sd_signer d) = Some m) \<and>
        (\<forall>k. (sd_signer d, k) \<in> set (issued y) \<longrightarrow> k < n))"

lemma holds_simps [simp]: "\<not> holds Idle" "\<not> holds (Start d)" "\<not> holds (Priced d p)" "holds (Locked d p)"
  "holds (Counted d p c)" "holds (Polled d p n)" "holds (Storing d x t)" "\<not> holds (Sending x t)"
  "\<not> holds (Done r)" "\<not> holds (Failed e)" "\<not> holds (Poll a)" "\<not> holds (PollCounted a c)"
  by (simp_all add: holds_def)

lemma goes_simps [simp]: "shared (goes i c s y) = s" "procs (goes i c s y) = (procs y)(i := c)" "issued (goes i c s y) = issued y"
  by (simp_all add: goes_def)

lemma log_nonce_simps [simp]: "shared (log_nonce d n y) = shared y" "procs (log_nonce d n y) = procs y"
  "issued (log_nonce d n y) = issued y @ (case n of None \<Rightarrow> [] | Some k \<Rightarrow> [(sd_signer d, k)])"
  by (auto simp: log_nonce_def split: option.split)

text \<open>What the steps do to the mutex and the nonces.\<close>

lemma resolve_frame: "resolve_gasPrice D g s = (r, t) \<Longrightarrow> nonceMutex t = nonceMutex s \<and> nonces t = nonces s"
  by (auto simp: resolve_gasPrice_def bnd_run io_run split: option.splits prod.splits sum.splits)

lemma io_frame: "io m s = (r, t) \<Longrightarrow> nonceMutex t = nonceMutex s \<and> nonces t = nonces s"
  by (auto simp: io_run)

lemma putTx_frame: "putTx DB x u s = (r, t) \<Longrightarrow> nonceMutex t = nonceMutex s \<and> nonces t = nonces s"
  by (auto simp: putTx_def Let_def bnd_run db_run_def split: if_splits option.splits sum.splits)

lemma broadcast_frame: "broadcast_checked D x y s = (r, t) \<Longrightarrow> nonceMutex t = nonceMutex s \<and> nonces t = nonces s"
  by (auto simp: broadcast_checked_def bnd_run andthen_run io_run split: prod.splits sum.splits if_splits)

lemma acquire_frame: "acquire s = (r, t) \<Longrightarrow> nonceMutex t \<and> nonces t = nonces s"
  by (auto simp: acquire_def)

lemma release_frame [simp]: "\<not> nonceMutex (release s)" "nonces (release s) = nonces s"
  by (simp_all add: release_def)

lemma poll_update_frame [simp]: "nonceMutex (poll_update a c s) = nonceMutex s"
  by (auto simp: poll_update_def split: option.split)

lemma poll_update_grow: "nonces s a = Some n \<Longrightarrow> \<exists>m\<ge>n. nonces (poll_update b c s) a = Some m"
  by (auto simp: poll_update_def split: option.split)

lemma sign_nonce_Inr:
  "sign_nonce D d p nonce s = (Inr x, t) \<Longrightarrow> nonceMutex t = nonceMutex s \<and>
     nonces t = (nonces s)(sd_signer d := map_option (\<lambda>n. n + 1) (nonces s (sd_signer d)))"
  by (auto simp: sign_nonce_def bnd_run andthen_run increment_nonce_def split: prod.splits sum.splits)

lemma sign_nonce_Inl: "sign_nonce D d p nonce s = (Inl e, t) \<Longrightarrow> t = s"
  by (auto simp: sign_nonce_def bnd_run andthen_run increment_nonce_def split: prod.splits sum.splits)

lemmas step_frames = resolve_frame io_frame putTx_frame broadcast_frame acquire_frame sign_nonce_Inl sign_nonce_Inr

text \<open>Mutual exclusion, by the three ways a step changes who holds the mutex.\<close>

lemma inv_mutex_same:
  assumes "inv_mutex y" "procs z = (procs y)(i := c)" "holds c = holds (procs y i)"
    and "nonceMutex (shared z) = nonceMutex (shared y)"
  shows "inv_mutex z"
proof -
  have "holds (procs z j) = holds (procs y j)" for j using assms(2,3) by simp
  then show ?thesis using assms(1,4) by (simp add: inv_mutex_def)
qed

lemma inv_mutex_lock:
  assumes "inv_mutex y" "procs z = (procs y)(i := c)" "holds c" "\<not> nonceMutex (shared y)" "nonceMutex (shared z)"
  shows "inv_mutex z"
proof -
  have n: "\<not> holds (procs y j)" for j using assms(1,4) unfolding inv_mutex_def by blast
  have "holds (procs z j) \<longleftrightarrow> j = i" for j using assms(2,3) n [of j] by simp
  then show ?thesis using assms(5) by (simp add: inv_mutex_def)
qed

lemma inv_mutex_release:
  assumes "inv_mutex y" "procs z = (procs y)(i := c)" "holds (procs y i)" "\<not> holds c" "\<not> nonceMutex (shared z)"
  shows "inv_mutex z"
proof -
  have u: "j = i" if "holds (procs y j)" for j using assms(1,3) that unfolding inv_mutex_def by blast
  have "\<not> holds (procs z j)" for j using assms(2,4) u [of j] by (cases "j = i") auto
  then show ?thesis using assms(5) by (simp add: inv_mutex_def)
qed

lemma step_mutex: "step D y z \<Longrightarrow> inv_mutex y \<Longrightarrow> inv_mutex z"
proof (induction rule: step.induct)
  case (price y i d p s)
  show ?case by (rule inv_mutex_same [OF price.prems, where i = i]) (use price in \<open>auto dest: resolve_frame\<close>)
next
  case (price_fails y i d e s)
  show ?case by (rule inv_mutex_same [OF price_fails.prems, where i = i]) (use price_fails in \<open>auto dest: resolve_frame\<close>)
next
  case (lock y i d p u s)
  show ?case by (rule inv_mutex_lock [OF lock.prems, where i = i]) (use lock in \<open>auto dest: acquire_frame\<close>)
next
  case (count y i d p c s)
  show ?case by (rule inv_mutex_same [OF count.prems, where i = i]) (use count in \<open>auto dest: io_frame\<close>)
next
  case (count_fails y i d p e s)
  show ?case by (rule inv_mutex_release [OF count_fails.prems, where i = i]) (use count_fails in auto)
next
  case (polled y i d p c s)
  show ?case by (rule inv_mutex_same [OF polled.prems, where i = i]) (use polled in auto)
next
  case (sign y i d p nonce signedTx stx s)
  show ?case by (rule inv_mutex_same [OF sign.prems, where i = i]) (use sign in \<open>auto dest: sign_nonce_Inr\<close>)
next
  case (sign_fails y i d p nonce e s)
  show ?case by (rule inv_mutex_release [OF sign_fails.prems, where i = i]) (use sign_fails in auto)
next
  case (stored y i d signedTx stx u s)
  show ?case by (rule inv_mutex_release [OF stored.prems, where i = i]) (use stored in auto)
next
  case (store_fails y i d signedTx stx e s)
  show ?case by (rule inv_mutex_release [OF store_fails.prems, where i = i]) (use store_fails in auto)
next
  case (sent y i signedTx stx r s)
  show ?case by (rule inv_mutex_same [OF sent.prems, where i = i]) (use sent in \<open>auto dest: broadcast_frame\<close>)
next
  case (send_fails y i signedTx stx e s)
  show ?case by (rule inv_mutex_same [OF send_fails.prems, where i = i]) (use send_fails in \<open>auto dest: broadcast_frame\<close>)
next
  case (poll y i a r s)
  show ?case
    by (rule inv_mutex_same [OF poll.prems, where i = i]) (use poll in \<open>auto dest: io_frame split: sum.splits\<close>)
next
  case (poll_done y i a c)
  show ?case by (rule inv_mutex_same [OF poll_done.prems, where i = i]) (use poll_done in auto)
next
  case (call y i c d a)
  show ?case by (rule inv_mutex_same [OF call.prems, where i = i]) (use call in auto)
next
  case (other s y)
  then show ?case by (simp add: inv_mutex_def)
qed

text \<open>Nonces: a step that issues and polls nothing, the answer to a poll, and the signing.\<close>

lemma issued_below: "inv_issued y \<Longrightarrow> (a, n) \<in> set (issued y) \<Longrightarrow> \<exists>m. nonces (shared y) a = Some m \<and> n < m"
  unfolding inv_issued_def by blast

lemma inv_issued_grow:
  assumes "inv_issued y" "issued z = issued y"
    and "\<And>a n. nonces (shared y) a = Some n \<Longrightarrow> \<exists>m\<ge>n. nonces (shared z) a = Some m"
    and "\<And>j d p n. procs z j = Polled d p (Some n) \<Longrightarrow> procs y j = Polled d p (Some n)"
  shows "inv_issued z"
proof -
  have "\<exists>m. nonces (shared z) a = Some m \<and> n < m" if "(a, n) \<in> set (issued y)" for a n
  proof -
    from issued_below [OF assms(1) that]
    obtain m where m: "nonces (shared y) a = Some m" "n < m" by blast
    with assms(3) [OF m(1)] show ?thesis by (meson order_less_le_trans)
  qed
  moreover have "(\<exists>m\<ge>n. nonces (shared z) (sd_signer d) = Some m) \<and> (\<forall>k. (sd_signer d, k) \<in> set (issued y) \<longrightarrow> k < n)"
    if "procs z j = Polled d p (Some n)" for j d p n
  proof -
    have "procs y j = Polled d p (Some n)" using that by (rule assms(4))
    then obtain m where m: "m \<ge> n" "nonces (shared y) (sd_signer d) = Some m"
      "\<forall>k. (sd_signer d, k) \<in> set (issued y) \<longrightarrow> k < n"
      using assms(1) unfolding inv_issued_def by blast
    from assms(3) [OF m(2)] show ?thesis using m(1,3) by (meson order_trans)
  qed
  ultimately show ?thesis using assms(1,2) by (auto simp: inv_issued_def)
qed

lemma inv_issued_same:
  assumes "inv_issued y" "issued z = issued y" "nonces (shared z) = nonces (shared y)"
    and "procs z = (procs y)(i := c)" "\<not> holds c \<or> holds c \<and> (\<forall>d p n. c \<noteq> Polled d p n)"
  shows "inv_issued z"
  by (rule inv_issued_grow [OF assms(1,2)]) (use assms(3,4,5) in \<open>auto split: if_splits\<close>)

lemma inv_issued_polled:
  assumes "inv_issued y" "s = poll_update (sd_signer d) c (shared y)"
  shows "inv_issued (goes i (Polled d p (nonces s (sd_signer d))) s y)"
proof -
  have g: "\<exists>m\<ge>n. nonces s a = Some m" if "nonces (shared y) a = Some n" for a n
    using that assms(2) by (simp add: poll_update_grow)
  have "inv_issued (goes i Idle s y)"
    by (rule inv_issued_grow [OF assms(1)]) (use g in \<open>auto split: if_splits\<close>)
  moreover have "k < n" if "(sd_signer d, k) \<in> set (issued y)" "nonces s (sd_signer d) = Some n" for k n
  proof -
    from issued_below [OF assms(1) that(1)]
    obtain m where m: "nonces (shared y) (sd_signer d) = Some m" "k < m" by blast
    from g [OF m(1)] show ?thesis using m(2) that(2) by auto
  qed
  ultimately show ?thesis by (auto simp: inv_issued_def split: if_splits)
qed

lemma inv_issued_sign:
  assumes "inv_issued y" "inv_mutex y" "procs y i = Polled d p nonce"
    and "nonces s = (nonces (shared y))(sd_signer d := map_option (\<lambda>n. n + 1) (nonces (shared y) (sd_signer d)))"
  shows "inv_issued (log_nonce d nonce (goes i (Storing d x stx) s y))"
proof -
  have g: "\<exists>m\<ge>n. nonces s a = Some m" if "nonces (shared y) a = Some n" for a n
    using that assms(4) by auto
  have alone: "j = i" if "holds (procs y j)" for j
    using assms(2) that assms(3) unfolding inv_mutex_def by (metis holds_simps(6))
  have none: "procs (goes i (Storing d x stx) s y) j \<noteq> Polled e q m" for j e q m
    using alone [of j] by (cases "procs y j") auto
  have base: "inv_issued (goes i (Storing d x stx) s y)"
    by (rule inv_issued_grow [OF assms(1)]) (use g none in auto)
  show ?thesis
  proof (cases nonce)
    case (Some n)
    obtain m where m: "m \<ge> n" "nonces (shared y) (sd_signer d) = Some m"
      "\<forall>k. (sd_signer d, k) \<in> set (issued y) \<longrightarrow> k < n"
      using assms(1,3) Some unfolding inv_issued_def by blast
    have "nonces s (sd_signer d) = Some (m + 1)" using assms(4) m(2) by simp
    moreover have "(sd_signer d, n) \<notin> set (issued y)" using m(3) by blast
    ultimately show ?thesis using base m(1) none Some by (auto simp: inv_issued_def)
  qed (use base in \<open>simp add: log_nonce_def\<close>)
qed

lemma step_issued: "step D y z \<Longrightarrow> inv_issued y \<Longrightarrow> inv_mutex y \<Longrightarrow> inv_issued z"
proof (induction rule: step.induct)
  case (price y i d p s)
  show ?case by (rule inv_issued_same [OF price.prems(1), where i = i]) (use price in \<open>auto dest: resolve_frame\<close>)
next
  case (price_fails y i d e s)
  show ?case by (rule inv_issued_same [OF price_fails.prems(1), where i = i]) (use price_fails in \<open>auto dest: resolve_frame\<close>)
next
  case (lock y i d p u s)
  show ?case by (rule inv_issued_same [OF lock.prems(1), where i = i]) (use lock in \<open>auto dest: acquire_frame\<close>)
next
  case (count y i d p c s)
  show ?case by (rule inv_issued_same [OF count.prems(1), where i = i]) (use count in \<open>auto dest: io_frame\<close>)
next
  case (count_fails y i d p e s)
  show ?case by (rule inv_issued_same [OF count_fails.prems(1), where i = i]) (use count_fails in \<open>auto dest: io_frame\<close>)
next
  case (polled y i d p c s)
  show ?case by (rule inv_issued_polled [OF polled.prems(1) polled.hyps(2)])
next
  case (sign y i d p nonce signedTx stx s)
  show ?case using sign by (intro inv_issued_sign) (auto dest: sign_nonce_Inr)
next
  case (sign_fails y i d p nonce e s)
  show ?case by (rule inv_issued_same [OF sign_fails.prems(1), where i = i]) (use sign_fails in \<open>auto dest: sign_nonce_Inl\<close>)
next
  case (stored y i d signedTx stx u s)
  show ?case by (rule inv_issued_same [OF stored.prems(1), where i = i]) (use stored in \<open>auto dest: putTx_frame\<close>)
next
  case (store_fails y i d signedTx stx e s)
  show ?case by (rule inv_issued_same [OF store_fails.prems(1), where i = i]) (use store_fails in \<open>auto dest: putTx_frame\<close>)
next
  case (sent y i signedTx stx r s)
  show ?case by (rule inv_issued_same [OF sent.prems(1), where i = i]) (use sent in \<open>auto dest: broadcast_frame\<close>)
next
  case (send_fails y i signedTx stx e s)
  show ?case by (rule inv_issued_same [OF send_fails.prems(1), where i = i]) (use send_fails in \<open>auto dest: broadcast_frame\<close>)
next
  case (poll y i a r s)
  show ?case
    by (rule inv_issued_same [OF poll.prems(1), where i = i]) (use poll in \<open>auto dest: io_frame split: sum.splits\<close>)
next
  case (poll_done y i a c)
  show ?case
    by (rule inv_issued_grow [OF poll_done.prems(1)]) (auto dest: poll_update_grow split: if_splits)
next
  case (call y i c d a)
  show ?case by (rule inv_issued_same [OF call.prems(1), where i = i]) (use call in auto)
next
  case (other s y)
  then show ?case by (auto simp: inv_issued_def)
qed

lemma reachable_inv: "reachable D y \<Longrightarrow> inv_mutex y \<and> inv_issued y"
proof (induction rule: reachable.induct)
  case (init y)
  then show ?case by (simp add: inv_mutex_def inv_issued_def)
next
  case (step y z)
  then show ?case using step_mutex step_issued by blast
qed

section \<open>The sequential method is one of the interleavings\<close>

lemma pollNonce_update:
  "pollNonce D a s = (Inr nonce, t) \<Longrightarrow> \<exists>c s1. io (n_getTransactionCount (dp_node D) a (Some ''pending'')) s = (Inr c, s1) \<and>
     t = poll_update a c s1 \<and> nonce = nonces t a"
  unfolding pollNonce_def poll_update_def by (auto elim!: bnd_InrE andthen_InrE)

lemma goes_goes [simp]: "goes i c s (goes i c' s' y) = goes i c s y"
  by (simp add: goes_def)

lemma log_goes [simp]: "goes i c s (log_nonce d n (goes i c' s' y)) = log_nonce d n (goes i c s y)"
  by (simp add: goes_def log_nonce_def split: option.split)

lemma send_steps:
  assumes "sendTransaction D d (shared y) = (Inr r, t)" "procs y i = Start d" "\<not> nonceMutex (shared y)"
  shows "\<exists>z. (step D)\<^sup>*\<^sup>* y z \<and> shared z = t \<and> procs z = (procs y)(i := Done r)"
proof -
  obtain p s1 signedTx stx u where
    1: "resolve_gasPrice D (sd_gasPrice d) (shared y) = (Inr p, s1)" and
    2: "finally_do (sign_and_store D d p) release (s1\<lparr>nonceMutex := True\<rparr>) = (Inr (signedTx, stx), u)" and
    3: "broadcast_checked D signedTx stx u = (Inr r, t)"
    using assms(1) unfolding sendTransaction_def acquire_def by (auto elim!: bnd_InrE andthen_InrE)
  obtain t1 where t1: "sign_and_store D d p (s1\<lparr>nonceMutex := True\<rparr>) = (Inr (signedTx, stx), t1)" "u = release t1"
    using 2 by (cases "sign_and_store D d p (s1\<lparr>nonceMutex := True\<rparr>)") (auto simp: finally_do_run)
  obtain nonce tx key s2 s3 where q: "pollNonce D (sd_signer d) (s1\<lparr>nonceMutex := True\<rparr>) = (Inr nonce, s2)"
    "t_new (dp_tx D) (new_tx_args D d p nonce) = Inr tx"
    "map_of (km_privateKeys (keysOf D (sd_signer d))) (sd_signer d) = Some key"
    "signedTx = t_raw (dp_tx D) (t_sign (dp_tx D) key tx)"
    "stx = createStoredTransaction (dp_tx D) (t_sign (dp_tx D) key tx) (first_metadata d)"
    "s3 = s2\<lparr>nonces := (nonces s2)(sd_signer d := map_option (\<lambda>n. n + 1) nonce)\<rparr>"
    "putTx (dp_db D) stx False s3 = (Inr (), t1)"
    by (rule sign_and_store_Inr [OF t1(1)])
  from pollNonce_update [OF q(1)] obtain c s4 where c:
    "io (n_getTransactionCount (dp_node D) (sd_signer d) (Some ''pending'')) (s1\<lparr>nonceMutex := True\<rparr>) = (Inr c, s4)"
    "s2 = poll_update (sd_signer d) c s4" "nonce = nonces s2 (sd_signer d)" by blast
  have sg: "sign_nonce D d p nonce s2 = (Inr (signedTx, stx), s3)"
    using q(2-6) c(3) by (simp add: sign_nonce_def bnd_run andthen_run increment_nonce_def signTransaction_def Let_def)
  have m1: "\<not> nonceMutex s1" using resolve_frame [OF 1] assms(3) by simp
  let ?y1 = "goes i (Priced d p) s1 y" let ?y2 = "goes i (Locked d p) (s1\<lparr>nonceMutex := True\<rparr>) y"
  let ?y3 = "goes i (Counted d p c) s4 y" let ?y4 = "goes i (Polled d p nonce) s2 y"
  let ?y5 = "log_nonce d nonce (goes i (Storing d signedTx stx) s3 y)"
  let ?y6 = "log_nonce d nonce (goes i (Sending signedTx stx) u y)"
  let ?y7 = "log_nonce d nonce (goes i (Done r) t y)"
  have "step D y ?y1" by (rule step.price [OF assms(2) 1])
  moreover have "step D ?y1 ?y2" using step.lock [of ?y1 i d p "()" "s1\<lparr>nonceMutex := True\<rparr>" D] m1
    by (simp add: acquire_def)
  moreover have "step D ?y2 ?y3" using step.count [of ?y2 i d p D c s4] c(1) by simp
  moreover have "step D ?y3 ?y4" using step.polled [of ?y3 i d p c s2 D] c(2,3) by simp
  moreover have "step D ?y4 ?y5" using step.sign [of ?y4 i d p nonce D signedTx stx s3] sg by simp
  moreover have "step D ?y5 ?y6" using step.stored [of ?y5 i d signedTx stx D "()" t1] q(7) t1(2) by simp
  moreover have "step D ?y6 ?y7" using step.sent [of ?y6 i signedTx stx D r t] 3 by simp
  ultimately have "(step D)\<^sup>*\<^sup>* y ?y7" by (meson converse_rtranclp_into_rtranclp rtranclp.rtrancl_refl)
  then show ?thesis by (intro exI [of _ ?y7]) simp
qed

end
