(* ===== verification/Registration.thy ===== *)
theory Registration
  imports Transactions
begin

text \<open>
  \<open>src/relayserver/RegistrationManager.ts\<close>: the manager's stake and balance, the registration of the
  server and its worker on the hub, and the return of all funds to the owner when the stake is
  unlocked or withdrawn. Messages to the log are left out; the event \<open>unstaked\<close> that is emitted to the
  server is the flag \<open>rg_unstaked\<close>.
\<close>

record ('w, 'd) reg_state = "('w, 'd) tm_state" +
  rg_balanceRequired :: amount_required
  rg_stakeRequired :: amount_required
  rg_isStakeLocked :: bool
  rg_isInitialized :: bool
  rg_ownerAddress :: "string option"
  rg_lastMinedRegister :: "event_data option"
  rg_lastWorkerAdded :: "event_data option"
  rg_delayedEvents :: "(string \<times> event_data) list"
  rg_unstaked :: bool

text \<open>The addresses of index 0, which the server's key managers (made with one key) have.\<close>

definition managerAddress :: "('w, 'd, 'k, 't) deps \<Rightarrow> string" where
  "managerAddress D = or_else (getAddress (dp_managerKeys D) 0) ''''"

definition workerAddress :: "('w, 'd, 'k, 't) deps \<Rightarrow> string" where
  "workerAddress D = or_else (getAddress (dp_workersKeys D) 0) ''''"

definition hubAddress :: "('w, 'd, 'k, 't) deps \<Rightarrow> string" where
  "hubAddress D = sc_relayHubAddress (dp_config D)"

section \<open>Balance and stake\<close>

definition refreshBalance :: "('w, 'd, 'k, 't) deps \<Rightarrow> (('w, 'd, 'z) reg_state_scheme, unit) js" where
  "refreshBalance D =
     bnd (getBalance (dp_node D) (managerAddress D) ''latest'') (\<lambda>currentBalance.
     bnd (of_result (w3_toBN (dp_web3 D) currentBalance)) (\<lambda>b.
     modify (\<lambda>s. s\<lparr>rg_balanceRequired := fst (set_currentValue b (rg_balanceRequired s))\<rparr>)))"

definition refreshStake :: "('w, 'd, 'k, 't) deps \<Rightarrow> (('w, 'd, 'z) reg_state_scheme, unit) js" where
  "refreshStake D =
     bnd (getStakeInfo (dp_node D) (managerAddress D)) (\<lambda>stakeInfo.
     bnd (of_result (w3_toBN (dp_web3 D) (si_stake stakeInfo))) (\<lambda>stake.
       if stake = 0 then ret ()
       else modify (\<lambda>s. s\<lparr>rg_isStakeLocked := (si_withdrawBlock stakeInfo = ''0''),
              rg_stakeRequired := fst (set_currentValue stake (rg_stakeRequired s)),
              rg_ownerAddress := (case rg_ownerAddress s of None \<Rightarrow> Some (si_owner stakeInfo) | Some a \<Rightarrow> Some a)\<rparr>)))"

section \<open>Returning the funds\<close>

definition to_owner ::
  "('w, 'd, 'k, 't) deps \<Rightarrow> string \<Rightarrow> string option \<Rightarrow> string \<Rightarrow> int \<Rightarrow> int \<Rightarrow> send_details" where
  "to_owner D signer owner gasPrice value currentBlock =
     \<lparr>sd_signer = signer, sd_serverAction = VALUE_TRANSFER, sd_method = None, sd_destination = owner,
      sd_value = Some (w3_toHex_BN (dp_web3 D) value),
      sd_gasLimit = num (en_mintxgascost defaultEnvironment), sd_gasPrice = Some gasPrice,
      sd_creationBlockNumber = currentBlock\<rparr>"

definition sendManagerEthBalanceToOwner ::
  "('w, 'd, 'k, 't) deps \<Rightarrow> int \<Rightarrow> (('w, 'd, 'z) reg_state_scheme, string list) js" where
  "sendManagerEthBalanceToOwner D currentBlock =
     bnd (io (n_getGasPrice (dp_node D))) (\<lambda>gasPrice.
     bnd (of_result (w3_toBN (dp_web3 D) gasPrice)) (\<lambda>gp.
     bnd (getBalance (dp_node D) (managerAddress D) ''latest'') (\<lambda>balance.
     bnd (of_result (w3_toBN (dp_web3 D) balance)) (\<lambda>managerBalance.
       let txCost = en_mintxgascost defaultEnvironment * gp in
       if txCost \<le> managerBalance then
         bnd (gets rg_ownerAddress) (\<lambda>owner.
         bnd (sendTransaction D (to_owner D (managerAddress D) owner gasPrice (managerBalance - txCost) currentBlock)) (\<lambda>r.
         ret [sx_transactionHash r]))
       else ret []))))"

definition sendWorkersEthBalancesToOwner ::
  "('w, 'd, 'k, 't) deps \<Rightarrow> int \<Rightarrow> (('w, 'd, 'z) reg_state_scheme, string list) js" where
  "sendWorkersEthBalancesToOwner D currentBlock =
     bnd (io (n_getGasPrice (dp_node D))) (\<lambda>gasPrice.
     bnd (of_result (w3_toBN_num (dp_web3 D)
        (num_mul (num (en_mintxgascost defaultEnvironment)) (parseInt gasPrice)))) (\<lambda>txCost.
     bnd (getBalance (dp_node D) (workerAddress D) ''latest'') (\<lambda>balance.
     bnd (of_result (w3_toBN (dp_web3 D) balance)) (\<lambda>workerBalance.
       if txCost \<le> workerBalance then
         bnd (gets rg_ownerAddress) (\<lambda>owner.
         bnd (sendTransaction D (to_owner D (workerAddress D) owner gasPrice (workerBalance - txCost) currentBlock)) (\<lambda>r.
         ret [sx_transactionHash r]))
       else ret []))))"

definition withdrawAllFunds ::
  "('w, 'd, 'k, 't) deps \<Rightarrow> bool \<Rightarrow> int \<Rightarrow> (('w, 'd, 'z) reg_state_scheme, string list) js" where
  "withdrawAllFunds D withdrawManager currentBlock =
     bnd (sendWorkersEthBalancesToOwner D currentBlock) (\<lambda>workerHashes.
     bnd (if withdrawManager then sendManagerEthBalanceToOwner D currentBlock else ret []) (\<lambda>managerHashes.
     andthen (modify (\<lambda>s. s\<lparr>rg_unstaked := True\<rparr>))
     (ret (workerHashes @ managerHashes))))"

definition handleStakeWithdrawnEvent ::
  "('w, 'd, 'k, 't) deps \<Rightarrow> int \<Rightarrow> (('w, 'd, 'z) reg_state_scheme, string list) js" where
  "handleStakeWithdrawnEvent D currentBlock = withdrawAllFunds D True currentBlock"

definition handleStakeUnlockedEvent ::
  "('w, 'd, 'k, 't) deps \<Rightarrow> int \<Rightarrow> (('w, 'd, 'z) reg_state_scheme, string list) js" where
  "handleStakeUnlockedEvent D currentBlock = withdrawAllFunds D False currentBlock"

section \<open>Registration\<close>

definition queryLatestRegistrationEvent ::
  "('w, 'd, 'k, 't) deps \<Rightarrow> (('w, 'd, 'z) reg_state_scheme, event_data option) js" where
  "queryLatestRegistrationEvent D =
     bnd (getPastEventsForHub (dp_node D) (dp_web3 D) [address2topic (managerAddress D)]
            \<lparr>pe_fromBlock = 1, pe_toBlock = None\<rparr> [RelayServerRegistered]) (\<lambda>registerEvents.
     ret (fst (getLatestEventData registerEvents)))"

definition queryLatestWorkerAddedEvent ::
  "('w, 'd, 'k, 't) deps \<Rightarrow> (('w, 'd, 'z) reg_state_scheme, event_data option) js" where
  "queryLatestWorkerAddedEvent D =
     bnd (getPastEventsForHub (dp_node D) (dp_web3 D) [address2topic (managerAddress D)]
            \<lparr>pe_fromBlock = 1, pe_toBlock = None\<rparr> [RelayWorkersAdded]) (\<lambda>workersAddedEvents.
     ret (fst (getLatestEventData workersAddedEvents)))"

definition reg_init :: "('w, 'd, 'k, 't) deps \<Rightarrow> (('w, 'd, 'z) reg_state_scheme, unit) js" where
  "reg_init D =
     bnd (gets rg_lastWorkerAdded) (\<lambda>w.
     andthen (case w of Some _ \<Rightarrow> ret ()
       | None \<Rightarrow> bnd (queryLatestWorkerAddedEvent D) (\<lambda>e. modify (\<lambda>s. s\<lparr>rg_lastWorkerAdded := e\<rparr>)))
     (bnd (gets rg_lastMinedRegister) (\<lambda>r.
     andthen (case r of Some _ \<Rightarrow> ret ()
       | None \<Rightarrow> bnd (queryLatestRegistrationEvent D) (\<lambda>e. modify (\<lambda>s. s\<lparr>rg_lastMinedRegister := e\<rparr>)))
     (modify (\<lambda>s. s\<lparr>rg_isInitialized := True\<rparr>)))))"

definition isRegistrationCorrect :: "('w, 'd, 'k, 't) deps \<Rightarrow> ('w, 'd, 'z) reg_state_scheme \<Rightarrow> bool" where
  "isRegistrationCorrect D s =
     isRegistrationValid (rg_lastMinedRegister s) (sc_url (dp_config D)) (sc_port (dp_config D)) (managerAddress D)"

definition isWorkerValid :: "('w, 'd, 'k, 't) deps \<Rightarrow> ('w, 'd, 'z) reg_state_scheme \<Rightarrow> bool" where
  "isWorkerValid D s = (case rg_lastWorkerAdded s of None \<Rightarrow> False
     | Some e \<Rightarrow> toLowerCase (workerAddress D) \<in> set (map toLowerCase (rv_newRelayWorkers (ev_returnValues e))))"

definition isRegistered :: "('w, 'd, 'k, 't) deps \<Rightarrow> ('w, 'd, 'z) reg_state_scheme \<Rightarrow> bool" where
  "isRegistered D s \<longleftrightarrow> isSatisfied (rg_stakeRequired s) \<and> rg_isStakeLocked s \<and> isRegistrationCorrect D s"

definition hub_call ::
  "('w, 'd, 'k, 't) deps \<Rightarrow> server_action \<Rightarrow> hub_method \<Rightarrow> number \<Rightarrow> int \<Rightarrow> send_details" where
  "hub_call D action m gasLimit currentBlock =
     \<lparr>sd_signer = managerAddress D, sd_serverAction = action, sd_method = Some m,
      sd_destination = Some (hubAddress D), sd_value = None, sd_gasLimit = gasLimit, sd_gasPrice = None,
      sd_creationBlockNumber = currentBlock\<rparr>"

definition addRelayWorker ::
  "('w, 'd, 'k, 't) deps \<Rightarrow> int \<Rightarrow> (('w, 'd, 'z) reg_state_scheme, string) js" where
  "addRelayWorker D currentBlock =
     bnd (getAddRelayWorkersMethod [workerAddress D]) (\<lambda>m.
     bnd (attemptEstimateGas D m (managerAddress D)) (\<lambda>gasLimit.
     bnd (sendTransaction D (hub_call D ADD_WORKER (snd m) gasLimit currentBlock)) (\<lambda>r.
     ret (sx_transactionHash r))))"

text \<open>The URL \<open>attemptRegistration\<close> registers.\<close>

definition registerUrl :: "server_config \<Rightarrow> string" where
  "registerUrl cfg = (let portIncluded = 0 < index_of CHR '':'' (sc_url cfg) in
     sc_url cfg @ (if \<not> portIncluded \<and> 0 < sc_port cfg then '':'' @ int_str (sc_port cfg) else ''''))"

definition allPrerequisitesOk :: "('w, 'd, 'z) reg_state_scheme \<Rightarrow> bool" where
  "allPrerequisitesOk s \<longleftrightarrow> rg_isStakeLocked s \<and> isSatisfied (rg_stakeRequired s) \<and> isSatisfied (rg_balanceRequired s)"

definition attemptRegistration ::
  "('w, 'd, 'k, 't) deps \<Rightarrow> int \<Rightarrow> (('w, 'd, 'z) reg_state_scheme, string list) js" where
  "attemptRegistration D currentBlock =
     bnd (gets allPrerequisitesOk) (\<lambda>prerequisites.
       if \<not> prerequisites then ret []
       else
         bnd (gets (isWorkerValid D)) (\<lambda>workersAdded.
         bnd (isActionPending (dp_db D) ADD_WORKER None) (\<lambda>addWorkersPending.
         bnd (if \<not> (workersAdded \<or> addWorkersPending)
              then bnd (addRelayWorker D currentBlock) (\<lambda>txHash. ret [txHash]) else ret []) (\<lambda>transactions.
         bnd (getRegisterRelayMethod (registerUrl (dp_config D))) (\<lambda>m.
         bnd (attemptEstimateGas D m (managerAddress D)) (\<lambda>gasLimit.
         bnd (sendTransaction D (hub_call D REGISTER_SERVER (snd m) gasLimit currentBlock)) (\<lambda>r.
         ret (transactions @ [sx_transactionHash r]))))))))"

section \<open>Past events\<close>

text \<open>
  \<open>_extractDuePendingEvents\<close>; the block is a string that the comparisons convert to a number, so an
  event whose block is no number is in neither list.
\<close>

definition extractDuePendingEvents ::
  "int \<Rightarrow> (string \<times> event_data) list \<Rightarrow> event_data list \<times> (string \<times> event_data) list" where
  "extractDuePendingEvents currentBlock delayedEvents =
     (map snd (filter (\<lambda>(block, _). num_lt (Number_of block) (num currentBlock) \<or> Number_of block = num currentBlock) delayedEvents),
      filter (\<lambda>(block, _). num_lt (num currentBlock) (Number_of block)) delayedEvents)"

text \<open>One event of the stake.\<close>

definition handle_stake_event ::
  "('w, 'd, 'k, 't) deps \<Rightarrow> int \<Rightarrow> event_data \<Rightarrow> string list \<Rightarrow> (('w, 'd, 'z) reg_state_scheme, string list) js" where
  "handle_stake_event D currentBlock eventData transactionHashes =
     (if ev_event eventData = StakeAdded then andthen (refreshStake D) (ret transactionHashes)
      else if ev_event eventData = StakeUnlocked then
        andthen (refreshStake D)
        (andthen (modify (\<lambda>s. s\<lparr>rg_delayedEvents :=
            rg_delayedEvents s @ [(rv_withdrawBlock (ev_returnValues eventData), eventData)]\<rparr>))
        (ret transactionHashes))
      else if ev_event eventData = StakeWithdrawn then
        andthen (refreshStake D)
        (bnd (handleStakeWithdrawnEvent D currentBlock) (\<lambda>hashes. ret (transactionHashes @ hashes)))
      else ret transactionHashes)"

definition later_event :: "event_data option \<Rightarrow> event_data \<Rightarrow> event_data option" where
  "later_event known eventData = (case known of None \<Rightarrow> Some eventData
     | Some l \<Rightarrow> if isSecondEventLater l eventData then Some eventData else known)"

definition handle_hub_event :: "event_data \<Rightarrow> ('w, 'd, 'z) reg_state_scheme \<Rightarrow> ('w, 'd, 'z) reg_state_scheme" where
  "handle_hub_event eventData s =
     (if ev_event eventData = RelayServerRegistered
      then s\<lparr>rg_lastMinedRegister := later_event (rg_lastMinedRegister s) eventData\<rparr>
      else if ev_event eventData = RelayWorkersAdded
      then s\<lparr>rg_lastWorkerAdded := later_event (rg_lastWorkerAdded s) eventData\<rparr>
      else s)"

definition handle_due_event ::
  "('w, 'd, 'k, 't) deps \<Rightarrow> int \<Rightarrow> event_data \<Rightarrow> string list \<Rightarrow> (('w, 'd, 'z) reg_state_scheme, string list) js" where
  "handle_due_event D currentBlock eventData transactionHashes =
     (if ev_event eventData = StakeUnlocked
      then bnd (handleStakeUnlockedEvent D currentBlock) (\<lambda>hashes. ret (transactionHashes @ hashes))
      else ret transactionHashes)"

definition handlePastEvents ::
  "('w, 'd, 'k, 't) deps \<Rightarrow> event_data list \<Rightarrow> int \<Rightarrow> int \<Rightarrow> bool \<Rightarrow> (('w, 'd, 'z) reg_state_scheme, string list) js" where
  "handlePastEvents D hubEventsSinceLastScan lastScannedBlock currentBlock forceRegistration =
     bnd (gets rg_isInitialized) (\<lambda>i. andthen (throw_if (\<not> i) ''RegistrationManager not initialized'')
     (bnd (getPastEventsForStakeManagement (dp_node D) (dp_web3 D) [StakeAdded, StakeUnlocked, StakeWithdrawn]
         [address2topic (managerAddress D)]
         \<lparr>pe_fromBlock = lastScannedBlock + 1, pe_toBlock = Some ''latest''\<rparr>) (\<lambda>decodedEvents.
      bnd (fold_js (handle_stake_event D currentBlock) decodedEvents []) (\<lambda>hashes.
      andthen (modify (\<lambda>s. foldl (\<lambda>t e. handle_hub_event e t) s hubEventsSinceLastScan))
      (bnd (gets (\<lambda>s. fst (extractDuePendingEvents currentBlock (rg_delayedEvents s)))) (\<lambda>due.
      andthen (modify (\<lambda>s. s\<lparr>rg_delayedEvents := snd (extractDuePendingEvents currentBlock (rg_delayedEvents s))\<rparr>))
      (bnd (fold_js (handle_due_event D currentBlock) due hashes) (\<lambda>hashes2.
      bnd (gets (isRegistrationCorrect D)) (\<lambda>registrationCorrect.
      bnd (isActionPending (dp_db D) REGISTER_SERVER None) (\<lambda>isRegistrationPending.
        if \<not> (isRegistrationPending \<or> registrationCorrect) \<or> forceRegistration
        then bnd (attemptRegistration D currentBlock) (\<lambda>hashes3. ret (hashes2 @ hashes3))
        else ret hashes2))))))))))"

section \<open>Lemmas\<close>

text \<open>Nothing is registered unless the stake is locked and both amounts are there.\<close>

lemma attemptRegistration_prerequisites:
  "\<not> allPrerequisitesOk s \<Longrightarrow> attemptRegistration D b s = (Inr [], s)"
  by (simp add: attemptRegistration_def bnd_run)

text \<open>The URL that is registered is the one \<open>isRegistrationValid\<close> looks for.\<close>

lemma registerUrl_valid:
  "isRegistrationValid (Some e) (sc_url cfg) (sc_port cfg) m \<longleftrightarrow>
     isSameAddress (rv_relayManager (ev_returnValues e)) m \<and> rv_relayUrl (ev_returnValues e) = registerUrl cfg"
  by (simp add: isRegistrationValid_def registrationUrl_def registerUrl_def)

text \<open>The latest of a sequence of events of one kind.\<close>

lemma isSecondEventLater_irrefl [simp]: "\<not> isSecondEventLater e e"
  by (simp add: isSecondEventLater_def)

lemma isSecondEventLater_asym: "isSecondEventLater a b \<Longrightarrow> \<not> isSecondEventLater b a"
  by (auto simp: isSecondEventLater_def split: if_splits)

lemma later_event_max:
  "\<exists>l. later_event known e = Some l \<and> \<not> isSecondEventLater l e \<and> (\<forall>k. known = Some k \<longrightarrow> \<not> isSecondEventLater l k) \<and>
     (l = e \<or> known = Some l)"
proof (cases known)
  case (Some k)
  then show ?thesis
    by (cases "isSecondEventLater k e") (simp_all add: later_event_def isSecondEventLater_asym)
qed (simp add: later_event_def)

lemma handle_hub_event_simps:
  "rg_lastMinedRegister (handle_hub_event e s) = (if ev_event e = RelayServerRegistered
     then later_event (rg_lastMinedRegister s) e else rg_lastMinedRegister s)"
  "rg_lastWorkerAdded (handle_hub_event e s) = (if ev_event e = RelayWorkersAdded
     then later_event (rg_lastWorkerAdded s) e else rg_lastWorkerAdded s)"
  by (auto simp: handle_hub_event_def RelayServerRegistered_def RelayWorkersAdded_def)

lemma later_events:
  "foldl later_event known es = None \<longleftrightarrow> known = None \<and> es = []"
  "foldl later_event known es = Some l \<Longrightarrow> (l \<in> set es \<or> known = Some l) \<and>
     (\<forall>e\<in>set es. \<not> isSecondEventLater l e) \<and> (\<forall>k. known = Some k \<longrightarrow> \<not> isSecondEventLater l k)"
proof (induction es arbitrary: known)
  case (Cons e es)
  { case 1 show ?case using Cons.IH(1) [of "later_event known e"] later_event_max [of known e] by auto }
  { case 2
    obtain k where k: "later_event known e = Some k" "\<not> isSecondEventLater k e"
      "\<forall>j. known = Some j \<longrightarrow> \<not> isSecondEventLater k j" "k = e \<or> known = Some k" using later_event_max [of known e] by blast
    have "(l \<in> set es \<or> Some k = Some l) \<and> (\<forall>e\<in>set es. \<not> isSecondEventLater l e) \<and> \<not> isSecondEventLater l k"
      using Cons.IH(2) [of "later_event known e"] 2 k(1) by simp
    moreover from this have "\<not> isSecondEventLater l j" if "\<not> isSecondEventLater k j" for j
      using that by (auto simp: isSecondEventLater_iff not_less)
    ultimately show ?case using k by auto }
qed simp_all

lemma foldl_hub_events:
  "rg_lastMinedRegister (foldl (\<lambda>t e. handle_hub_event e t) s es) =
     foldl later_event (rg_lastMinedRegister s) (filter (\<lambda>e. ev_event e = RelayServerRegistered) es)"
  "rg_lastWorkerAdded (foldl (\<lambda>t e. handle_hub_event e t) s es) =
     foldl later_event (rg_lastWorkerAdded s) (filter (\<lambda>e. ev_event e = RelayWorkersAdded) es)"
  by (induction es arbitrary: s) (simp_all add: handle_hub_event_simps)

text \<open>An event whose block is a number is due, or stays until it is.\<close>

lemma extractDue_partition:
  assumes "Number_of b = Some n" "(b, e) \<in> set delayed"
  shows "(n \<le> of_int c \<longrightarrow> e \<in> set (fst (extractDuePendingEvents c delayed))) \<and>
    (of_int c < n \<longrightarrow> (b, e) \<in> set (snd (extractDuePendingEvents c delayed)))"
  using assms by (force simp: extractDuePendingEvents_def num_lt_def num_def)

text \<open>A relation that does not look at the manager's state either.\<close>

locale reg_blind = tm_blind R for R :: "('w, 'd, 'z) reg_state_scheme \<Rightarrow> ('w, 'd, 'z) reg_state_scheme \<Rightarrow> bool" +
  assumes blind_balance: "R s (s\<lparr>rg_balanceRequired := a\<rparr>)"
    and blind_stake: "R s (s\<lparr>rg_isStakeLocked := l, rg_stakeRequired := a, rg_ownerAddress := w\<rparr>)"
    and blind_initialized: "R s (s\<lparr>rg_isInitialized := i\<rparr>)"
    and blind_register: "R s (s\<lparr>rg_lastMinedRegister := e\<rparr>)"
    and blind_worker: "R s (s\<lparr>rg_lastWorkerAdded := e\<rparr>)"
    and blind_delayed: "R s (s\<lparr>rg_delayedEvents := d\<rparr>)"
    and blind_unstaked: "R s (s\<lparr>rg_unstaked := u\<rparr>)"
begin

lemma along_reg_refreshBalance: "along R (refreshBalance D)"
  unfolding refreshBalance_def by (intro tm_rules along_modify blind_balance)

lemma along_reg_refreshStake: "along R (refreshStake D)"
  unfolding refreshStake_def by (intro tm_rules along_modify blind_stake)

lemma along_reg_withdraw: "along R (withdrawAllFunds D m b)"
  unfolding withdrawAllFunds_def sendWorkersEthBalancesToOwner_def sendManagerEthBalanceToOwner_def Let_def
  by (intro tm_rules along_modify blind_unstaked)

lemma along_reg_attempt: "along R (attemptRegistration D b)"
  unfolding attemptRegistration_def addRelayWorker_def by (intro tm_rules)

lemma along_reg_init: "along R (reg_init D)"
  unfolding reg_init_def queryLatestRegistrationEvent_def queryLatestWorkerAddedEvent_def
  by (intro tm_rules along_modify blind_initialized blind_register blind_worker)

lemma blind_hub_events: "R s (foldl (\<lambda>t e. handle_hub_event e t) s es)"
proof (induction es arbitrary: s)
  case (Cons e es)
  have "R s (handle_hub_event e s)"
    by (simp add: handle_hub_event_def R_refl blind_register blind_worker)
  then show ?case using Cons.IH R_trans by simp
qed (simp add: R_refl)

lemma along_reg_past: "along R (handlePastEvents D es l c f)"
  unfolding handlePastEvents_def handle_stake_event_def handle_due_event_def
    handleStakeUnlockedEvent_def handleStakeWithdrawnEvent_def
  by (intro tm_rules along_modify along_reg_refreshStake along_reg_withdraw along_reg_attempt
      blind_delayed blind_hub_events)

lemmas reg_rules = tm_rules along_reg_refreshBalance along_reg_refreshStake along_reg_withdraw
  along_reg_attempt along_reg_init along_reg_past

end

text \<open>The owner, once known, does not change.\<close>

definition owner_kept :: "('w, 'd, 'z) reg_state_scheme \<Rightarrow> ('w, 'd, 'z) reg_state_scheme \<Rightarrow> bool" where
  "owner_kept s t \<longleftrightarrow> (\<forall>a. rg_ownerAddress s = Some a \<longrightarrow> rg_ownerAddress t = Some a)"

interpretation owner: tm_blind owner_kept
  by unfold_locales (auto simp: owner_kept_def)

lemma along_owner_refreshStake: "along owner_kept (refreshStake D)"
  unfolding refreshStake_def
  by (intro owner.tm_rules owner.along_modify) (auto simp: owner_kept_def)

lemma along_owner_withdraw: "along owner_kept (withdrawAllFunds D m b)"
  unfolding withdrawAllFunds_def sendWorkersEthBalancesToOwner_def sendManagerEthBalanceToOwner_def Let_def
  by (intro owner.tm_rules owner.along_modify) (auto simp: owner_kept_def)

lemma along_owner_register: "along owner_kept (attemptRegistration D b)"
  unfolding attemptRegistration_def addRelayWorker_def by (intro owner.tm_rules)

lemma foldl_hub_events_owner: "rg_ownerAddress (foldl (\<lambda>t e. handle_hub_event e t) s es) = rg_ownerAddress s"
  by (induction es arbitrary: s) (simp_all add: handle_hub_event_def)

lemma along_owner_past: "along owner_kept (handlePastEvents D es l c f)"
  unfolding handlePastEvents_def handle_stake_event_def handle_due_event_def
    handleStakeUnlockedEvent_def handleStakeWithdrawnEvent_def
  by (intro owner.tm_rules owner.along_modify along_owner_refreshStake along_owner_withdraw along_owner_register)
    (auto simp: owner_kept_def foldl_hub_events_owner)

text \<open>A stake that has been withdrawn leaves what is known of it unchanged.\<close>

lemma getStakeInfo_frame: "getStakeInfo N a s = (r, t) \<Longrightarrow> t = s\<lparr>world := world t\<rparr>"
  by (auto simp: getStakeInfo_def relayHubInstance_def instance_of_def bnd_run io_run split: option.splits)

lemma refreshStake_Inr:
  assumes "refreshStake D s = (Inr u, t)"
  obtains info :: stake_info and n where "w3_toBN (dp_web3 D) (si_stake info) = Inr n"
    and "n = 0 \<Longrightarrow> t = s\<lparr>world := world t\<rparr>"
    and "n \<noteq> 0 \<Longrightarrow> rg_isStakeLocked t = (si_withdrawBlock info = ''0'') \<and>
        am_currentValue (rg_stakeRequired t) = n \<and> rg_ownerAddress t = Some (or_else (rg_ownerAddress s) (si_owner info))"
proof -
  obtain info t1 n where 1: "getStakeInfo (dp_node D) (managerAddress D) s = (Inr info, t1)"
    "w3_toBN (dp_web3 D) (si_stake info) = Inr n"
    "(if n = 0 then ret () else modify (\<lambda>s. s\<lparr>rg_isStakeLocked := (si_withdrawBlock info = ''0''),
              rg_stakeRequired := fst (set_currentValue n (rg_stakeRequired s)),
              rg_ownerAddress := (case rg_ownerAddress s of None \<Rightarrow> Some (si_owner info) | Some a \<Rightarrow> Some a)\<rparr>)) t1 = (Inr u, t)"
    using assms unfolding refreshStake_def by (auto elim!: bnd_InrE dest!: of_result_InrD)
  have "rg_ownerAddress t1 = rg_ownerAddress s" by (subst getStakeInfo_frame [OF 1(1)]) simp
  then show thesis
    using that [OF 1(2)] 1(3) getStakeInfo_frame [OF 1(1)] by (cases "n = 0") (auto split: option.split)
qed

end
