(* ===== verification/Server.thy ===== *)
theory Server
  imports Registration
begin

text \<open>
  \<open>src/relayserver/RelayServer.ts\<close>, \<open>src/relayserver/ReplenishFunction.ts\<close> and
  \<open>src/relayserver/HttpServer.ts\<close>: the worker that follows the chain and decides whether the server is
  ready, and the handler of relay requests. Here a handler runs to its end; the timer that fires while
  a worker is busy is the step \<open>ready_timeout\<close>. The counter of successful rounds is unbounded (it
  starts at the largest safe integer and is only compared).
\<close>

record ('w, 'd) server_state = "('w, 'd) reg_state" +
  sv_lastScannedBlock :: int
  sv_lastRefreshBlock :: int
  sv_ready :: bool
  sv_lastSuccessfulRounds :: int
  sv_gasPrice :: number
  sv_workerSemaphoreOn :: bool
  sv_alerted :: bool
  sv_alertedBlock :: int
  sv_initialized :: bool
  sv_lastMinedActive :: "event_data option"
  sv_chainId :: int
  sv_networkId :: int
  sv_relayHubContract :: "string option"
  sv_trustedVerifiers :: "string list"
  sv_workerBalanceRequired :: amount_required
  sv_workerTask :: bool
  sv_polling :: bool

section \<open>Readiness\<close>

definition isReady :: "('w, 'd, 'k, 't) deps \<Rightarrow> ('w, 'd, 'z) server_state_scheme \<Rightarrow> bool" where
  "isReady D s = (if sv_lastSuccessfulRounds s < sc_successfulRoundsForReady (dp_config D) then False
     else sv_ready s)"

definition setReadyState :: "bool \<Rightarrow> (('w, 'd, 'z) server_state_scheme, unit) js" where
  "setReadyState b = modify (\<lambda>s. s\<lparr>sv_ready := b\<rparr>)"

definition shouldRefreshState :: "('w, 'd, 'k, 't) deps \<Rightarrow> int \<Rightarrow> ('w, 'd, 'z) server_state_scheme \<Rightarrow> bool" where
  "shouldRefreshState D currentBlock s \<longleftrightarrow>
     sc_refreshStateTimeoutBlocks (dp_config D) \<le> currentBlock - sv_lastRefreshBlock s \<or> \<not> isReady D s"

definition isTrustedVerifier :: "string \<Rightarrow> ('w, 'd, 'z) server_state_scheme \<Rightarrow> bool" where
  "isTrustedVerifier verifier s \<longleftrightarrow> toLowerCase verifier \<in> set (sv_trustedVerifiers s)"

section \<open>Initialization\<close>

definition initTrustedVerifiers :: "server_config \<Rightarrow> string list" where
  "initTrustedVerifiers cfg =
     (let given = foldl (\<lambda>acc v. set_add (toLowerCase v) acc) [] (sc_trustedVerifiers cfg);
          addUnlessZero = (\<lambda>a acc. if a \<noteq> ZERO_ADDRESS \<and> toLowerCase a \<notin> set acc then set_add (toLowerCase a) acc else acc)
      in addUnlessZero (sc_deployVerifierAddress cfg) (addUnlessZero (sc_relayVerifierAddress cfg) given))"

definition newRegistrationManager :: "('w, 'd, 'k, 't) deps \<Rightarrow> (('w, 'd, 'z) server_state_scheme, unit) js" where
  "newRegistrationManager D =
     bnd (of_result (w3_toBN (dp_web3 D) (sc_managerMinStake (dp_config D)))) (\<lambda>minStake.
     modify (\<lambda>s. s\<lparr>rg_balanceRequired := newAmountRequired ''Balance'' (sc_managerMinBalance (dp_config D)),
       rg_stakeRequired := newAmountRequired ''Stake'' minStake, rg_isStakeLocked := False,
       rg_isInitialized := False, rg_ownerAddress := None, rg_lastMinedRegister := None,
       rg_lastWorkerAdded := None, rg_delayedEvents := []\<rparr>))"

text \<open>\<open>fatal\<close> ends the process; here it is an error that nothing catches before \<open>runServer\<close>.\<close>

definition sv_init :: "('w, 'd, 'k, 't) deps \<Rightarrow> (('w, 'd, 'z) server_state_scheme, unit) js" where
  "sv_init D =
     bnd (gets sv_initialized) (\<lambda>i. andthen (throw_if i ''_init was already called'')
     (andthen tm_init
     (andthen (modify (\<lambda>s. s\<lparr>sv_trustedVerifiers := initTrustedVerifiers (dp_config D)\<rparr>))
     (andthen (modify (\<lambda>s. s\<lparr>sv_relayHubContract := ci_relayHub s\<rparr>))
     (bnd relayHubInstance (\<lambda>relayHubAddress.
      bnd (io (n_getCode (dp_node D) relayHubAddress)) (\<lambda>code.
      andthen (throw_if (length code < 10) (''No RelayHub deployed at address '' @ relayHubAddress @ ''.''))
      (andthen (newRegistrationManager D)
      (andthen (reg_init D)
      (bnd (gets ci_chainId) (\<lambda>chainId.
       andthen (modify (\<lambda>s. s\<lparr>sv_chainId := chainId\<rparr>))
       (bnd getNetworkId (\<lambda>networkId.
        andthen (modify (\<lambda>s. s\<lparr>sv_networkId := networkId\<rparr>))
        (bnd (io (n_getBlock (dp_node D) ''latest'')) (\<lambda>_.
         modify (\<lambda>s. s\<lparr>sv_initialized := True\<rparr>))))))))))))))))"

section \<open>Balances\<close>

definition getManagerBalance :: "('w, 'd, 'k, 't) deps \<Rightarrow> (('w, 'd, 'z) server_state_scheme, int) js" where
  "getManagerBalance D =
     bnd (getBalance (dp_node D) (managerAddress D) ''pending'') (\<lambda>b. of_result (w3_toBN (dp_web3 D) b))"

definition getWorkerBalance :: "('w, 'd, 'k, 't) deps \<Rightarrow> (('w, 'd, 'z) server_state_scheme, int) js" where
  "getWorkerBalance D =
     bnd (getBalance (dp_node D) (workerAddress D) ''pending'') (\<lambda>b. of_result (w3_toBN (dp_web3 D) b))"

definition refill_details :: "('w, 'd, 'k, 't) deps \<Rightarrow> int \<Rightarrow> int \<Rightarrow> send_details" where
  "refill_details D refill currentBlock =
     \<lparr>sd_signer = managerAddress D, sd_serverAction = VALUE_TRANSFER, sd_method = None,
      sd_destination = Some (workerAddress D), sd_value = Some (w3_toHex_BN (dp_web3 D) refill),
      sd_gasLimit = num (en_mintxgascost defaultEnvironment), sd_gasPrice = None,
      sd_creationBlockNumber = currentBlock\<rparr>"

definition defaultReplenishFunction ::
  "('w, 'd, 'k, 't) deps \<Rightarrow> int \<Rightarrow> (('w, 'd, 'z) server_state_scheme, string list) js" where
  "defaultReplenishFunction D currentBlock =
     bnd (getManagerBalance D) (\<lambda>managerEthBalance.
     bnd (getWorkerBalance D) (\<lambda>workerBalance.
     andthen (modify (\<lambda>s. s\<lparr>sv_workerBalanceRequired := fst (set_currentValue workerBalance (sv_workerBalanceRequired s))\<rparr>))
     (bnd (gets sv_workerBalanceRequired) (\<lambda>required.
       if sc_managerTargetBalance (dp_config D) \<le> managerEthBalance \<and> isSatisfied required then ret []
       else
         bnd (getManagerBalance D) (\<lambda>managerEthBalance2.
         bnd (isActionPending (dp_db D) VALUE_TRANSFER (Some (workerAddress D))) (\<lambda>isReplenishPendingForWorker.
           if \<not> isSatisfied required \<and> \<not> isReplenishPendingForWorker then
             (let refill = sc_workerTargetBalance (dp_config D) - am_currentValue required in
              if refill < managerEthBalance2 - sc_managerMinBalance (dp_config D) then
                bnd (sendTransaction D (refill_details D refill currentBlock)) (\<lambda>r. ret [sx_transactionHash r])
              else ret [])
           else ret []))))))"

definition replenishServer ::
  "('w, 'd, 'k, 't) deps \<Rightarrow> int \<Rightarrow> (('w, 'd, 'z) server_state_scheme, string list) js" where
  "replenishServer D currentBlock =
     (if sc_customReplenish (dp_config D)
      then throw (Error ''No custom replenish function found, to remove this error please add the custom replenish implementation here deleting this line.'')
      else defaultReplenishFunction D currentBlock)"

section \<open>The worker\<close>

definition refreshGasPrice :: "('w, 'd, 'k, 't) deps \<Rightarrow> (('w, 'd, 'z) server_state_scheme, unit) js" where
  "refreshGasPrice D =
     bnd (io (n_getGasPrice (dp_node D))) (\<lambda>gasPriceString.
     let p = math_floor (num_mul (parseInt gasPriceString) (sc_gasPriceFactor (dp_config D))) in
     andthen (modify (\<lambda>s. s\<lparr>sv_gasPrice := p\<rparr>))
     (throw_if (p = num 0) ''Could not get gasPrice from node''))"

definition getAllHubEventsSinceLastScan ::
  "('w, 'd, 'k, 't) deps \<Rightarrow> (('w, 'd, 'z) server_state_scheme, event_data list) js" where
  "getAllHubEventsSinceLastScan D =
     bnd (gets sv_lastScannedBlock) (\<lambda>l.
       getPastEventsForHub (dp_node D) (dp_web3 D) [address2topic (managerAddress D)]
         \<lparr>pe_fromBlock = l + 1, pe_toBlock = Some ''latest''\<rparr> ActiveManagerEvents)"

definition queryLatestActiveEvent ::
  "('w, 'd, 'k, 't) deps \<Rightarrow> (('w, 'd, 'z) server_state_scheme, event_data option) js" where
  "queryLatestActiveEvent D =
     bnd (getPastEventsForHub (dp_node D) (dp_web3 D) [address2topic (managerAddress D)]
            \<lparr>pe_fromBlock = 1, pe_toBlock = None\<rparr> ActiveManagerEvents) (\<lambda>events.
     ret (fst (getLatestEventData events)))"

text \<open>Returns the events as the sorting leaves them.\<close>

definition updateLatestTxBlockNumber ::
  "('w, 'd, 'k, 't) deps \<Rightarrow> event_data list \<Rightarrow> (('w, 'd, 'z) server_state_scheme, event_data list) js" where
  "updateLatestTxBlockNumber D eventsSinceLastScan =
     (case getLatestEventData eventsSinceLastScan of (latest, events) \<Rightarrow>
        andthen (case latest of None \<Rightarrow> ret () | Some e \<Rightarrow> modify (\<lambda>s. s\<lparr>sv_lastMinedActive := Some e\<rparr>))
        (bnd (gets sv_lastMinedActive) (\<lambda>known.
         andthen (case known of Some _ \<Rightarrow> ret ()
           | None \<Rightarrow> bnd (queryLatestActiveEvent D) (\<lambda>e. modify (\<lambda>s. s\<lparr>sv_lastMinedActive := e\<rparr>)))
         (ret events))))"

definition getLatestTxBlockNumber :: "('w, 'd, 'z) server_state_scheme \<Rightarrow> int" where
  "getLatestTxBlockNumber s = (case sv_lastMinedActive s of None \<Rightarrow> - 1 | Some e \<Rightarrow> ev_blockNumber e)"

definition shouldRegisterAgain ::
  "('w, 'd, 'k, 't) deps \<Rightarrow> int \<Rightarrow> (('w, 'd, 'z) server_state_scheme, bool) js" where
  "shouldRegisterAgain D currentBlock =
     bnd (isActionPending (dp_db D) RELAY_CALL None) (\<lambda>relayPending.
     bnd (if relayPending then ret True else isActionPending (dp_db D) REGISTER_SERVER None) (\<lambda>isPendingActivityTransaction.
       if sc_registrationBlockRate (dp_config D) = 0 \<or> isPendingActivityTransaction then ret False
       else gets (\<lambda>s. sc_registrationBlockRate (dp_config D) \<le> currentBlock - getLatestTxBlockNumber s)))"

definition handleTransactionRejectedByRecipientEvent :: "int \<Rightarrow> (('w, 'd, 'z) server_state_scheme, unit) js" where
  "handleTransactionRejectedByRecipientEvent blockNumber =
     modify (\<lambda>s. s\<lparr>sv_alerted := True, sv_alertedBlock := blockNumber\<rparr>)"

definition handlePastHubEvents :: "int \<Rightarrow> event_data list \<Rightarrow> (('w, 'd, 'z) server_state_scheme, unit) js" where
  "handlePastHubEvents currentBlockNumber events =
     for_each (\<lambda>e. if ev_event e = TransactionRejectedByRecipient
       then handleTransactionRejectedByRecipientEvent currentBlockNumber else ret ()) events"

definition boostStuckPendingTransactions ::
  "('w, 'd, 'k, 't) deps \<Rightarrow> int \<Rightarrow> (('w, 'd, 'z) server_state_scheme, (string \<times> signed_details) list) js" where
  "boostStuckPendingTransactions D blockNumber =
     bnd (boostUnderpricedPendingTransactionsForSigner D (managerAddress D) blockNumber) (\<lambda>m.
     bnd (boostUnderpricedPendingTransactionsForSigner D (workerAddress D) blockNumber) (\<lambda>w.
     ret (foldl (\<lambda>acc (h, d). AList.update h d acc) (foldl (\<lambda>acc (h, d). AList.update h d acc) [] m) w)))"

definition exit_alerted :: "('w, 'd, 'k, 't) deps \<Rightarrow> int \<Rightarrow> ('w, 'd, 'z) server_state_scheme \<Rightarrow> ('w, 'd, 'z) server_state_scheme" where
  "exit_alerted D currentBlockNumber s =
     (if sv_alerted s \<and> sv_alertedBlock s + sc_alertedBlockDelay (dp_config D) < currentBlockNumber
      then s\<lparr>sv_alerted := False\<rparr> else s)"

text \<open>The second half of \<open>_handleChanges\<close>, once the block has been scanned.\<close>

definition decideReady ::
  "('w, 'd, 'k, 't) deps \<Rightarrow> int \<Rightarrow> event_data list \<Rightarrow> string list \<Rightarrow> (('w, 'd, 'z) server_state_scheme, string list) js" where
  "decideReady D currentBlockNumber events transactionHashes =
     bnd (gets (isRegistered D)) (\<lambda>registered.
       if \<not> registered then andthen (setReadyState False) (ret transactionHashes)
       else
         andthen (handlePastHubEvents currentBlockNumber events)
         (bnd (replenishServer D currentBlockNumber) (\<lambda>hashes.
          bnd (getWorkerBalance D) (\<lambda>workerBalance.
            if workerBalance < sc_workerMinBalance (dp_config D)
            then andthen (setReadyState False) (ret (transactionHashes @ hashes))
            else andthen (setReadyState True)
              (andthen (modify (exit_alerted D currentBlockNumber)) (ret (transactionHashes @ hashes)))))))"

definition handleChanges ::
  "('w, 'd, 'k, 't) deps \<Rightarrow> int \<Rightarrow> (('w, 'd, 'z) server_state_scheme, string list) js" where
  "handleChanges D currentBlockNumber =
     bnd (getAllHubEventsSinceLastScan D) (\<lambda>found.
     bnd (updateLatestTxBlockNumber D found) (\<lambda>events.
     bnd (shouldRegisterAgain D currentBlockNumber) (\<lambda>again.
     bnd (gets sv_lastScannedBlock) (\<lambda>l.
     bnd (handlePastEvents D events l currentBlockNumber again) (\<lambda>hashes.
     andthen (removeConfirmedTransactions D currentBlockNumber)
     (bnd (boostStuckPendingTransactions D currentBlockNumber) (\<lambda>_.
      andthen (modify (\<lambda>s. s\<lparr>sv_lastScannedBlock := currentBlockNumber\<rparr>))
      (decideReady D currentBlockNumber events hashes))))))))"

definition worker :: "('w, 'd, 'k, 't) deps \<Rightarrow> int \<Rightarrow> (('w, 'd, 'z) server_state_scheme, string list) js" where
  "worker D blockNumber =
     bnd (gets sv_initialized) (\<lambda>i. andthen (if i then ret () else sv_init D)
     (bnd (gets sv_lastScannedBlock) (\<lambda>l.
      andthen (throw_if (blockNumber \<le> l) ''Attempt to scan older block, aborting'')
      (bnd (gets (shouldRefreshState D blockNumber)) (\<lambda>refresh.
        if \<not> refresh then ret []
        else
          andthen (modify (\<lambda>s. s\<lparr>sv_lastRefreshBlock := blockNumber\<rparr>))
          (andthen (refreshGasPrice D)
          (andthen (refreshBalance D)
          (bnd (gets (\<lambda>s. isSatisfied (rg_balanceRequired s))) (\<lambda>funded.
            if \<not> funded then andthen (setReadyState False) (ret [])
            else handleChanges D blockNumber)))))))))"

definition workerSemaphore :: "('w, 'd, 'k, 't) deps \<Rightarrow> int \<Rightarrow> (('w, 'd, 'z) server_state_scheme, unit) js" where
  "workerSemaphore D blockNumber =
     bnd (gets sv_workerSemaphoreOn) (\<lambda>busy.
       if busy then ret ()
       else
         andthen (modify (\<lambda>s. s\<lparr>sv_workerSemaphoreOn := True\<rparr>))
         (finally_do
           (bnd (worker D blockNumber) (\<lambda>_.
              modify (\<lambda>s. s\<lparr>sv_lastSuccessfulRounds := sv_lastSuccessfulRounds s + 1\<rparr>)))
           (\<lambda>s. s\<lparr>sv_workerSemaphoreOn := False\<rparr>)))"

definition intervalHandler :: "('w, 'd, 'k, 't) deps \<Rightarrow> (('w, 'd, 'z) server_state_scheme, unit) js" where
  "intervalHandler D =
     catching
       (bnd (io (n_getBlock (dp_node D) ''latest'')) (\<lambda>block.
        bnd (gets sv_lastScannedBlock) (\<lambda>l.
          if l < bl_number block then workerSemaphore D (bl_number block) else ret ())))
       (\<lambda>_. modify (\<lambda>s. s\<lparr>sv_lastSuccessfulRounds := 0\<rparr>))"

text \<open>What the timer of \<open>intervalHandler\<close> does when a round takes longer than \<open>readyTimeout\<close>.\<close>

definition ready_timeout :: "('w, 'd, 'k, 't) deps \<Rightarrow> ('w, 'd, 'z) server_state_scheme \<Rightarrow> ('w, 'd, 'z) server_state_scheme" where
  "ready_timeout D s = (if \<not> sc_devMode (dp_config D) then s\<lparr>sv_lastSuccessfulRounds := 0\<rparr> else s)"

text \<open>\<open>sv_workerTask\<close>: a timer has been made; \<open>sv_polling\<close>: it has not been cleared.\<close>

definition start :: "(('w, 'd, 'z) server_state_scheme, unit) js" where
  "start = modify (\<lambda>s. s\<lparr>sv_workerTask := True, sv_polling := True\<rparr>)"

definition stop :: "(('w, 'd, 'z) server_state_scheme, unit) js" where
  "stop = bnd (gets sv_workerTask) (\<lambda>t.
     andthen (throw_if (\<not> t) ''Server not started'') (modify (\<lambda>s. s\<lparr>sv_polling := False\<rparr>)))"

section \<open>Lemmas\<close>

text \<open>The semaphore: a busy worker is not entered again, and it is released on every path.\<close>

lemma workerSemaphore_busy: "sv_workerSemaphoreOn s \<Longrightarrow> workerSemaphore D b s = (Inr (), s)"
  by (simp add: workerSemaphore_def bnd_run)

lemma workerSemaphore_released:
  "\<not> sv_workerSemaphoreOn s \<Longrightarrow> \<not> sv_workerSemaphoreOn (snd (workerSemaphore D b s))"
  by (simp add: workerSemaphore_def bnd_run andthen_run finally_do_run)

text \<open>The parts of the server's state that the replenishing of the worker does not touch.\<close>

definition untouched :: "(('w, 'd, 'z) server_state_scheme \<Rightarrow> 'a) \<Rightarrow>
  ('w, 'd, 'z) server_state_scheme \<Rightarrow> ('w, 'd, 'z) server_state_scheme \<Rightarrow> bool" where
  "untouched f s t \<longleftrightarrow> f t = f s"

lemma along_same: "(\<And>s. f (snd (m s)) = f s) \<Longrightarrow> along (untouched f) m"
  by (simp add: along_def untouched_def)

interpretation same: step_relation "untouched f" for f
  by unfold_locales (auto simp: untouched_def)

definition registration_view ::
  "('w, 'd, 'z) server_state_scheme \<Rightarrow> event_data option \<times> amount_required \<times> bool" where
  "registration_view s = (rg_lastMinedRegister s, rg_stakeRequired s, rg_isStakeLocked s)"

interpretation registration: tm_blind "untouched registration_view"
  by unfold_locales (simp_all add: untouched_def registration_view_def)

lemma isRegistered_view: "registration_view t = registration_view s \<Longrightarrow> isRegistered D t = isRegistered D s"
  by (simp add: registration_view_def isRegistered_def isRegistrationCorrect_def)

lemma along_view_replenish: "along (untouched registration_view) (replenishServer D b)"
  unfolding replenishServer_def defaultReplenishFunction_def getManagerBalance_def getWorkerBalance_def Let_def
  by (intro registration.tm_rules same.along_modify) (simp add: untouched_def registration_view_def)

lemma along_view_hub: "along (untouched registration_view) (handlePastHubEvents b es)"
  unfolding handlePastHubEvents_def handleTransactionRejectedByRecipientEvent_def
  by (intro registration.tm_rules same.along_modify) (simp add: untouched_def registration_view_def)

lemma along_view_balance: "along (untouched registration_view) (getWorkerBalance D)"
  unfolding getWorkerBalance_def by (intro registration.tm_rules)

text \<open>The server becomes ready only when it is registered and the worker has its balance.\<close>

definition worker_funded :: "('w, 'd, 'k, 't) deps \<Rightarrow> bool" where
  "worker_funded D \<longleftrightarrow> (\<exists>b balance. returns (n_getBalance (dp_node D) (workerAddress D) ''pending'') b \<and>
     w3_toBN (dp_web3 D) b = Inr balance \<and> sc_workerMinBalance (dp_config D) \<le> balance)"

lemma getWorkerBalance_Inr:
  "getWorkerBalance D s = (Inr balance, t) \<Longrightarrow> sc_workerMinBalance (dp_config D) \<le> balance \<Longrightarrow> worker_funded D"
  unfolding getWorkerBalance_def getBalance_def worker_funded_def
  by (auto elim!: bnd_InrE dest!: of_result_InrD simp del: of_result_run) (metis returns_def returns_io)

lemma decideReady_ready:
  assumes "decideReady D b es hs s = (Inr hs', t)" "sv_ready t"
  shows "isRegistered D t \<and> worker_funded D"
proof (cases "isRegistered D s")
  case False
  then have "t = s\<lparr>sv_ready := False\<rparr>"
    using assms(1) by (auto simp: decideReady_def bnd_run andthen_run setReadyState_def)
  then show ?thesis using assms(2) by simp
next
  case True
  obtain u1 s1 hashes s2 balance s3 where 1: "handlePastHubEvents b es s = (Inr u1, s1)"
    "replenishServer D b s1 = (Inr hashes, s2)" "getWorkerBalance D s2 = (Inr balance, s3)" and
    2: "(if balance < sc_workerMinBalance (dp_config D) then andthen (setReadyState False) (ret (hs @ hashes))
       else andthen (setReadyState True) (andthen (modify (exit_alerted D b)) (ret (hs @ hashes)))) s3 = (Inr hs', t)"
    using assms(1) True unfolding decideReady_def by (auto elim!: bnd_InrE andthen_InrE)
  have bal: "sc_workerMinBalance (dp_config D) \<le> balance"
    using 2 assms(2) by (auto simp: andthen_run setReadyState_def split: if_splits)
  then have t: "t = exit_alerted D b (s3\<lparr>sv_ready := True\<rparr>)"
    using 2 by (auto simp: andthen_run setReadyState_def)
  have "registration_view s3 = registration_view s"
    using alongD [OF along_view_hub, of s b es] alongD [OF along_view_replenish, of s1 D b]
      alongD [OF along_view_balance, of s2 D] 1 by (simp add: untouched_def)
  then have "registration_view t = registration_view s"
    by (simp add: t exit_alerted_def registration_view_def)
  then have "isRegistered D t" using True isRegistered_view by blast
  then show ?thesis using getWorkerBalance_Inr [OF 1(3) bal] by blast
qed

lemma handleChanges_ready:
  assumes "handleChanges D b s = (Inr hs, t)" "sv_ready t"
  shows "isRegistered D t \<and> worker_funded D"
  using assms unfolding handleChanges_def by (elim bnd_InrE andthen_InrE) (rule decideReady_ready)

text \<open>A relation that does not look at what a scan of the block \<open>b\<close> changes holds along the scan.\<close>

locale scan_blind = reg_blind R for R :: "('w, 'd, 'z) server_state_scheme \<Rightarrow> ('w, 'd, 'z) server_state_scheme \<Rightarrow> bool" +
  fixes b :: int
  assumes blind_required: "R s (s\<lparr>sv_workerBalanceRequired := a\<rparr>)"
    and blind_ready: "R s (s\<lparr>sv_ready := r\<rparr>)"
    and blind_alerted: "R s (s\<lparr>sv_alerted := l\<rparr>)"
    and blind_alertedBlock: "R s (s\<lparr>sv_alertedBlock := n\<rparr>)"
    and blind_active: "R s (s\<lparr>sv_lastMinedActive := e\<rparr>)"
    and blind_scanned: "R s (s\<lparr>sv_lastScannedBlock := b\<rparr>)"
begin

lemma along_scan_replenish: "along R (replenishServer D c)"
  unfolding replenishServer_def defaultReplenishFunction_def getManagerBalance_def getWorkerBalance_def Let_def
  by (intro reg_rules along_modify blind_required)

lemma along_scan_hub: "along R (handlePastHubEvents c es)"
proof -
  have "R s (s\<lparr>sv_alerted := True, sv_alertedBlock := c\<rparr>)" for s
    using R_trans [OF blind_alerted [of s True] blind_alertedBlock [of "s\<lparr>sv_alerted := True\<rparr>" c]] by simp
  then show ?thesis
    unfolding handlePastHubEvents_def handleTransactionRejectedByRecipientEvent_def
    by (intro reg_rules along_modify)
qed

lemma along_scan_setReady: "along R (setReadyState r)"
  unfolding setReadyState_def by (intro along_modify blind_ready)

lemma along_scan_decide: "along R (decideReady D c es hs)"
  unfolding decideReady_def getWorkerBalance_def
  by (intro reg_rules along_modify along_scan_replenish along_scan_hub along_scan_setReady)
    (simp add: exit_alerted_def blind_alerted R_refl)

lemma along_scan_latest: "along R (updateLatestTxBlockNumber D es)"
  unfolding updateLatestTxBlockNumber_def queryLatestActiveEvent_def
  by (cases "getLatestEventData es") (simp, intro reg_rules along_modify blind_active)

lemma along_scan_changes: "along R (handleChanges D b)"
  unfolding handleChanges_def getAllHubEventsSinceLastScan_def shouldRegisterAgain_def boostStuckPendingTransactions_def
  by (intro reg_rules along_modify along_scan_latest along_scan_decide blind_scanned)

end

text \<open>What a round does to the block scanned last and to the counter of successful rounds.\<close>

definition round_frame :: "int \<Rightarrow> ('w, 'd, 'z) server_state_scheme \<Rightarrow> ('w, 'd, 'z) server_state_scheme \<Rightarrow> bool" where
  "round_frame b s t \<longleftrightarrow> (sv_lastScannedBlock t = sv_lastScannedBlock s \<or> sv_lastScannedBlock t = b) \<and>
     sv_lastSuccessfulRounds t = sv_lastSuccessfulRounds s \<and> sv_workerSemaphoreOn t = sv_workerSemaphoreOn s"

interpretation round: scan_blind "round_frame b" b for b
  by unfold_locales (auto simp: round_frame_def)

lemma along_round_tm_init: "along (round_frame b) tm_init"
  unfolding tm_init_def ci_getRawTxOptions_def by (intro round.reg_rules)

lemma along_round_init: "along (round_frame b) (sv_init D)"
  unfolding sv_init_def newRegistrationManager_def getNetworkId_def
  by (intro round.reg_rules round.along_modify along_round_tm_init) (simp_all add: round_frame_def)

lemma worker_frame: "round_frame b s (snd (worker D b s))"
proof -
  have "along (round_frame b) (worker D b)"
    unfolding worker_def refreshGasPrice_def setReadyState_def Let_def
    by (intro round.reg_rules round.along_modify along_round_init round.along_scan_changes)
      (simp_all add: round_frame_def)
  then show ?thesis by (rule alongD)
qed

lemma worker_Inr_cases:
  assumes "worker D b s = (Inr hs, t)" "sv_initialized s"
  shows "sv_lastScannedBlock s < b"
  using assms by (auto simp: worker_def bnd_run andthen_run split: if_splits)

lemma worker_scanned: "sv_initialized s \<Longrightarrow> sv_lastScannedBlock s \<le> sv_lastScannedBlock (snd (worker D b s))"
proof (cases "b \<le> sv_lastScannedBlock s")
  case True
  assume "sv_initialized s"
  then show ?thesis using True by (simp add: worker_def bnd_run andthen_run)
next
  case False
  then show ?thesis using worker_frame [of b s D] by (auto simp: round_frame_def)
qed

text \<open>A round counts only when the worker has returned, and an error sets the counter to zero.\<close>

lemma workerSemaphore_rounds:
  "workerSemaphore D b s = (r, t) \<Longrightarrow>
     sv_lastSuccessfulRounds t = sv_lastSuccessfulRounds s \<or>
     r = Inr () \<and> sv_lastSuccessfulRounds t = sv_lastSuccessfulRounds s + 1"
proof (cases "sv_workerSemaphoreOn s")
  case False
  assume "workerSemaphore D b s = (r, t)"
  moreover obtain q u where w: "worker D b (s\<lparr>sv_workerSemaphoreOn := True\<rparr>) = (q, u)" by fastforce
  moreover have "sv_lastSuccessfulRounds u = sv_lastSuccessfulRounds s"
    using worker_frame [of b "s\<lparr>sv_workerSemaphoreOn := True\<rparr>" D] w by (simp add: round_frame_def)
  ultimately show ?thesis using False
    by (cases q) (auto simp: workerSemaphore_def bnd_run andthen_run finally_do_run)
qed (simp add: workerSemaphore_busy)

lemma intervalHandler_rounds:
  "sv_lastSuccessfulRounds (snd (intervalHandler D s)) \<le> max 0 (sv_lastSuccessfulRounds s + 1)"
proof -
  obtain r t where m: "(bnd (io (n_getBlock (dp_node D) ''latest'')) (\<lambda>block.
        bnd (gets sv_lastScannedBlock) (\<lambda>l.
          if l < bl_number block then workerSemaphore D (bl_number block) else ret ()))) s = (r, t)" by fastforce
  have "sv_lastSuccessfulRounds t \<le> sv_lastSuccessfulRounds s + 1"
  proof (cases "n_getBlock (dp_node D) ''latest'' (world s)")
    case (Pair x w)
    then show ?thesis
    proof (cases x)
      case (Inl e)
      then show ?thesis using m Pair by (auto simp: bnd_run io_run)
    next
      case (Inr bl)
      then show ?thesis
        using m Pair workerSemaphore_rounds [of D "bl_number bl" "s\<lparr>world := w\<rparr>" r t]
        by (auto simp: bnd_run io_run split: if_splits)
    qed
  qed
  then show ?thesis using m by (cases r) (simp_all add: intervalHandler_def catching_run)
qed

text \<open>Several ticks of the timer, one after the other.\<close>

primrec ticks :: "('w, 'd, 'k, 't) deps \<Rightarrow> nat \<Rightarrow> ('w, 'd, 'z) server_state_scheme \<Rightarrow> ('w, 'd, 'z) server_state_scheme" where
  "ticks D 0 s = s"
| "ticks D (Suc n) s = snd (intervalHandler D (ticks D n s))"

lemma ticks_rounds: "sv_lastSuccessfulRounds s \<le> 0 \<Longrightarrow> sv_lastSuccessfulRounds (ticks D n s) \<le> int n"
proof (induction n)
  case (Suc n)
  then show ?case using intervalHandler_rounds [of D "ticks D n s"] by simp
qed simp

end
