(* ===== verification/ServerRequests.thy ===== *)
theory ServerRequests
  imports Server
begin

text \<open>
  The requests the server answers: the validation, signing and sending of a relay transaction, the
  ping, token and verifier handlers (\<open>src/relayserver/RelayServer.ts\<close>) and the HTTP handlers around them
  (\<open>src/relayserver/HttpServer.ts\<close>).
\<close>

section \<open>Validation\<close>

definition validateInputTypes :: "('w, 'd, 'k, 't) deps \<Rightarrow> relay_transaction_request \<Rightarrow> ('s, unit) js" where
  "validateInputTypes D req = of_result (w3_ow (dp_web3 D)
     (if isDeploy (relayRequest req) then DeployTransactionRequestShape else RelayTransactionRequestShape) req)"

definition validateInput ::
  "('w, 'd, 'k, 't) deps \<Rightarrow> relay_transaction_request \<Rightarrow> (('w, 'd, 'z) server_state_scheme, unit) js" where
  "validateInput D req =
     bnd (gets sv_relayHubContract) (\<lambda>h. bnd (instance_of h) (\<lambda>hub.
     andthen (throw_if (toLowerCase (md_relayHubAddress (metadata req)) \<noteq> toLowerCase hub)
        (''Wrong hub address.'' @ nl @ ''Relay server's hub address: '' @ hub @ '', request's hub address: '' @
         md_relayHubAddress (metadata req) @ nl))
     (andthen (throw_if (toLowerCase (rd_relayWorker (relayData (relayRequest req))) \<noteq> toLowerCase (workerAddress D))
        (''Wrong worker address: '' @ rd_relayWorker (relayData (relayRequest req)) @ nl))
     (bnd (gets sv_gasPrice) (\<lambda>gasPrice.
      throw_if (num_lt (parseInt (rd_gasPrice (relayData (relayRequest req)))) gasPrice)
        (''Unacceptable gasPrice: relayServer's gasPrice:'' @ number_str gasPrice @ '' request's gasPrice: '' @
         rd_gasPrice (relayData (relayRequest req))))))))"

definition validateVerifier :: "relay_transaction_request \<Rightarrow> (('w, 'd, 'z) server_state_scheme, unit) js" where
  "validateVerifier req =
     bnd (gets (isTrustedVerifier (rd_callVerifier (relayData (relayRequest req))))) (\<lambda>trusted.
     throw_if (\<not> trusted) (''Invalid verifier: '' @ rd_callVerifier (relayData (relayRequest req))))"

definition validateMaxNonce :: "('w, 'd, 'k, 't) deps \<Rightarrow> int \<Rightarrow> (('w, 'd, 'z) server_state_scheme, unit) js" where
  "validateMaxNonce D relayMaxNonce =
     bnd (pollNonce D (workerAddress D)) (\<lambda>nonce.
     throw_if (case nonce of None \<Rightarrow> False | Some n \<Rightarrow> relayMaxNonce < n)
       (''Unacceptable relayMaxNonce: '' @ int_str relayMaxNonce @ ''. current nonce: '' @
        (case nonce of None \<Rightarrow> ''undefined'' | Some n \<Rightarrow> int_str n)))"

definition verifier_error :: "string \<Rightarrow> exn \<Rightarrow> exn" where
  "verifier_error verifier e = (case message e of
     None \<Rightarrow> Error ''Cannot read property 'includes' of undefined''
   | Some m \<Rightarrow> Error
       (if has_substring m ''Returned values aren't valid, did it run Out of Gas?''
        then ''incompatible verifier contract: '' @ verifier
        else if has_substring m ''no code at address''
        then [CHR 0x27] @ ''non-existent verifier contract: '' @ verifier
        else ''unknown verifier error: '' @ m))"

definition gasFromRequestMaxAgreed :: "int \<Rightarrow> number" where
  "gasFromRequestMaxAgreed gasFromRequest =
     math_ceil (num_mul (num gasFromRequest) (num_add (num 1) MAX_ESTIMATED_GAS_DEVIATION))"

definition maxPossibleGasOf ::
  "('w, 'd, 'k, 't) deps \<Rightarrow> relay_transaction_request \<Rightarrow> (('w, 'd, 'z) server_state_scheme, int) js" where
  "maxPossibleGasOf D req = (case relayRequest req of
     DeployRequest _ _ \<Rightarrow> walletFactoryEstimateGasOfDeployCall (dp_node D) req
   | RelayRequest q rd \<Rightarrow>
       bnd (estimateDestinationContractCallGas (dp_node D)
              \<lparr>cp_from = rd_callForwarder rd, cp_to = Some (fr_to q), cp_data = Some (fr_data q),
               cp_gasPrice = Some (rd_gasPrice rd), cp_gas = None\<rparr> True) (\<lambda>estimatedDesinationGasCost.
       bnd (of_result (w3_toBN (dp_web3 D) (fr_gas q))) (\<lambda>gas.
       bnd (of_result (bn_toNumber gas)) (\<lambda>gasFromRequest.
       andthen (throw_if (num_lt (gasFromRequestMaxAgreed gasFromRequest) estimatedDesinationGasCost)
         ''Request payload's gas parameters deviate too much fom the estimated gas for this transaction'')
       (bnd (estimateRelayTransactionMaxPossibleGasWithTransactionRequest (dp_node D) req) (\<lambda>g.
        of_result (w3_toBN_num (dp_web3 D) g)))))))"

definition validateRequestWithVerifier ::
  "('w, 'd, 'k, 't) deps \<Rightarrow> relay_transaction_request \<Rightarrow> (('w, 'd, 'z) server_state_scheme, int) js" where
  "validateRequestWithVerifier D req =
     (let r = relayRequest req; verifier = rd_callVerifier (relayData r) in
      bnd (gets (isTrustedVerifier verifier)) (\<lambda>trusted.
      andthen (throw_if (\<not> trusted) ''Invalid verifier'')
      (bnd (catching (createContract (dp_node D) (if isDeploy r then ''IDeployVerifier'' else ''IRelayVerifier'') verifier)
             (\<lambda>e. throw (verifier_error verifier e))) (\<lambda>verifierContract.
       bnd (maxPossibleGasOf D req) (\<lambda>maxPossibleGas.
       andthen (catching
         (andthen (io (n_methodCall (dp_node D) verifierContract (VerifyRelayedCall r (md_signature (metadata req)))
            (fromWorkerOnly (workerAddress D)) (Some ''pending''))) (ret ()))
         (\<lambda>e. throw (Error (''Verification by verifier failed: '' @ or_else (message e) ''undefined''))))
       (ret maxPossibleGas))))))"

definition validateViewCallSucceeds ::
  "('w, 'd, 'k, 't) deps \<Rightarrow> string \<Rightarrow> hub_method \<Rightarrow> relay_transaction_request \<Rightarrow> int \<Rightarrow> (('w, 'd, 'z) server_state_scheme, unit) js" where
  "validateViewCallSucceeds D hub m req maxPossibleGas =
     catching
       (andthen (io (n_methodCall (dp_node D) hub m
          ((fromWorkerOnly (workerAddress D))\<lparr>cp_gasPrice := Some (rd_gasPrice (relayData (relayRequest req))),
             cp_gas := Some (int_str maxPossibleGas)\<rparr>) (Some ''pending''))) (ret ()))
       (\<lambda>e. throw (Error (''relayCall (local call) reverted in server: '' @ or_else (message e) ''undefined'')))"

section \<open>Relaying\<close>

definition relay_method :: "relay_transaction_request \<Rightarrow> hub_method" where
  "relay_method req = (let r = relayRequest req; signature = md_signature (metadata req) in
     if isDeploy r then DeployCall r signature else RelayCall r signature)"

definition relay_details :: "('w, 'd, 'k, 't) deps \<Rightarrow> relay_transaction_request \<Rightarrow> int \<Rightarrow> int \<Rightarrow> send_details" where
  "relay_details D req gasLimit currentBlock =
     \<lparr>sd_signer = workerAddress D, sd_serverAction = RELAY_CALL, sd_method = Some (relay_method req),
      sd_destination = Some (md_relayHubAddress (metadata req)), sd_value = None, sd_gasLimit = num gasLimit,
      sd_gasPrice = Some (rd_gasPrice (relayData (relayRequest req))), sd_creationBlockNumber = currentBlock\<rparr>"

definition alerted_delay :: "('w, 'd, 'k, 't) deps \<Rightarrow> (('w, 'd, 'z) server_state_scheme, unit) js" where
  "alerted_delay D =
     bnd (gets sv_alerted) (\<lambda>alerted.
       if alerted then
         bnd (io (n_random (dp_node D))) (\<lambda>r.
         io (n_sleep (dp_node D) (case randomInRange r (sc_minAlertedDelayMS (dp_config D)) (sc_maxAlertedDelayMS (dp_config D))
           of NaN \<Rightarrow> 0 | Some ms \<Rightarrow> ms)))
       else ret ())"

definition createRelayTransaction ::
  "('w, 'd, 'k, 't) deps \<Rightarrow> relay_transaction_request \<Rightarrow> (('w, 'd, 'z) server_state_scheme, signed_details) js" where
  "createRelayTransaction D req =
     bnd (gets (isReady D)) (\<lambda>ready. andthen (throw_if (\<not> ready) ''relay not ready'')
     (andthen (validateInputTypes D req)
     (andthen (alerted_delay D)
     (andthen (validateInput D req)
     (andthen (validateMaxNonce D (md_relayMaxNonce (metadata req)))
     (bnd (validateRequestWithVerifier D req) (\<lambda>maxPossibleGas.
      bnd (gets sv_relayHubContract) (\<lambda>h. bnd (instance_of h) (\<lambda>hub.
      andthen (validateViewCallSucceeds D hub (relay_method req) req maxPossibleGas)
      (bnd (io (n_getBlockNumber (dp_node D))) (\<lambda>currentBlock.
       bnd (of_result (bn_toNumber maxPossibleGas)) (\<lambda>gasLimit.
       bnd (sendTransaction D (relay_details D req gasLimit currentBlock)) (\<lambda>txDetails.
       andthen (replenishServer D currentBlock)
       (ret txDetails))))))))))))))"

section \<open>Other requests\<close>

definition sv_pingHandler ::
  "('w, 'd, 'k, 't) deps \<Rightarrow> ('w, 'd, 'z) server_state_scheme \<Rightarrow> ping_response" where
  "sv_pingHandler D s =
     \<lparr>pr_relayWorkerAddress = workerAddress D, pr_relayManagerAddress = managerAddress D,
      pr_relayHubAddress = or_else (sv_relayHubContract s) '''', pr_minGasPrice = number_str (sv_gasPrice s),
      pr_networkId = Some (int_str (sv_networkId s)), pr_chainId = Some (int_str (sv_chainId s)),
      pr_ready = isReady D s, pr_version = ''2.0.1''\<rparr>"

definition sv_tokenHandler ::
  "('w, 'd, 'k, 't) deps \<Rightarrow> string option \<Rightarrow> (('w, 'd, 'z) server_state_scheme, (string \<times> string list) list) js" where
  "sv_tokenHandler D verifier =
     bnd (gets sv_trustedVerifiers) (\<lambda>trusted.
     bnd (case verifier of
         Some v \<Rightarrow> andthen (throw_if (toLowerCase v \<notin> set trusted) ''supplied verifier is not trusted'') (ret [v])
       | None \<Rightarrow> ret trusted) (\<lambda>verifiersToQuery.
     fold_js (\<lambda>v res.
       bnd (createContract (dp_node D) ''ITokenHandler'' v) (\<lambda>tokenHandlerInstance.
       bnd (io (n_getAcceptedTokens (dp_node D) tokenHandlerInstance)) (\<lambda>acceptedTokens.
       ret (AList.update (w3_toChecksumAddress (dp_web3 D) v None) acceptedTokens res)))) verifiersToQuery []))"

definition sv_verifierHandler :: "('w, 'd, 'z) server_state_scheme \<Rightarrow> string list" where
  "sv_verifierHandler s = sv_trustedVerifiers s"

section \<open>HTTP handlers\<close>

text \<open>What is written to the response; \<open>message\<close> of a rejected value may be undefined.\<close>

datatype http_response =
  PingBody ping_response
| SignedTxBody string
| TokensBody "(string \<times> string list) list"
| VerifiersBody "string list"
| MessageBody "string option"
| ErrorBody "string option"
| NoContent

definition http_handler :: "('s, http_response) js \<Rightarrow> (exn \<Rightarrow> http_response) \<Rightarrow> 's \<Rightarrow> http_response \<times> 's" where
  "http_handler m onError s = (case m s of (Inl e, t) \<Rightarrow> (onError e, t) | (Inr r, t) \<Rightarrow> (r, t))"

definition relayHandler ::
  "('w, 'd, 'k, 't) deps \<Rightarrow> relay_transaction_request \<Rightarrow> ('w, 'd, 'z) server_state_scheme \<Rightarrow>
   http_response \<times> ('w, 'd, 'z) server_state_scheme" where
  "relayHandler D body = http_handler
     (bnd (createRelayTransaction D body) (\<lambda>r. ret (SignedTxBody (sx_signedTx r)))) (\<lambda>e. ErrorBody (message e))"

definition http_pingHandler ::
  "('w, 'd, 'k, 't) deps \<Rightarrow> ('w, 'd, 'z) server_state_scheme \<Rightarrow>
   http_response \<times> ('w, 'd, 'z) server_state_scheme" where
  "http_pingHandler D = http_handler
     (bnd (gets (sv_pingHandler D)) (\<lambda>r. ret (PingBody r))) (\<lambda>e. MessageBody (message e))"

definition statusHandler :: "'s \<Rightarrow> http_response \<times> 's" where
  "statusHandler s = (NoContent, s)"

definition http_tokenHandler ::
  "('w, 'd, 'k, 't) deps \<Rightarrow> string option \<Rightarrow> ('w, 'd, 'z) server_state_scheme \<Rightarrow>
   http_response \<times> ('w, 'd, 'z) server_state_scheme" where
  "http_tokenHandler D verifier = http_handler
     (bnd (sv_tokenHandler D verifier) (\<lambda>r. ret (TokensBody r))) (\<lambda>e. MessageBody (message e))"

definition http_verifierHandler ::
  "('w, 'd, 'z) server_state_scheme \<Rightarrow> http_response \<times> ('w, 'd, 'z) server_state_scheme" where
  "http_verifierHandler = http_handler
     (bnd (gets sv_verifierHandler) (\<lambda>r. ret (VerifiersBody r))) (\<lambda>e. MessageBody (message e))"

text \<open>
  The JSON-RPC root: \<open>backend\<close> gives the members of the server by their names, each called with the
  parameters of the request; a method that returns nothing is answered with \<open>code200\<close>, the object \<open>code: 200\<close>. The
  text of an error is its stack up to the line that names \<open>rootHandler\<close>; \<open>shown\<close> is the text of the parameters.
\<close>

datatype ('i, 'v) rpc_answer = RpcSuccess 'i 'v | RpcError 'i string int

fun cut_stack :: "string \<Rightarrow> string" where
  "cut_stack [] = []"
| "cut_stack (c # s) = (if startsWith (c # s) ''rootHandler'' then takeWhile (\<lambda>d. d \<noteq> CHR 0x0A \<and> d \<noteq> CHR 0x0D) (c # s)
     else c # cut_stack s)"

definition rootHandler ::
  "(string \<Rightarrow> ('v \<Rightarrow> ('s, 'v option) js) option) \<Rightarrow> (exn \<Rightarrow> string) \<Rightarrow> ('v \<Rightarrow> string) \<Rightarrow> 'v \<Rightarrow> 'i \<Rightarrow> string \<Rightarrow> 'v \<Rightarrow>
   ('s, ('i, 'v) rpc_answer) js" where
  "rootHandler backend stack shown code200 i method params = catching
     (bnd (case backend method of
         Some func \<Rightarrow> func params
       | None \<Rightarrow> throw (Error (''Implementation of method '' @ shown params @ '' not found on backend!''))) (\<lambda>res.
      ret (RpcSuccess i (or_else res code200))))
     (\<lambda>e. ret (RpcError i (cut_stack (stack e)) (- 125)))"

definition close :: "(('w, 'd, 'z) server_state_scheme, unit) js" where
  "close = stop"

section \<open>Lemmas\<close>

text \<open>What the validation looks at does not change while the request is validated.\<close>

definition request_view :: "('w, 'd, 'z) server_state_scheme \<Rightarrow> string option \<times> number \<times> string list" where
  "request_view s = (sv_relayHubContract s, sv_gasPrice s, sv_trustedVerifiers s)"

interpretation request: tm_blind "untouched request_view"
  by unfold_locales (simp_all add: untouched_def request_view_def)

lemma view_alerted: "request_view (snd (alerted_delay D s)) = request_view s"
proof -
  have "along (untouched request_view) (alerted_delay D)"
    unfolding alerted_delay_def by (intro request.tm_rules)
  from alongD [OF this] show ?thesis by (simp add: untouched_def)
qed

lemma view_maxNonce: "request_view (snd (validateMaxNonce D n s)) = request_view s"
proof -
  have "along (untouched request_view) (validateMaxNonce D n)"
    unfolding validateMaxNonce_def by (intro request.tm_rules)
  from alongD [OF this] show ?thesis by (simp add: untouched_def)
qed

definition acceptable :: "('w, 'd, 'k, 't) deps \<Rightarrow> relay_transaction_request \<Rightarrow> ('w, 'd, 'z) server_state_scheme \<Rightarrow> bool" where
  "acceptable D req s \<longleftrightarrow> isReady D s \<and>
     w3_ow (dp_web3 D) (if isDeploy (relayRequest req) then DeployTransactionRequestShape else RelayTransactionRequestShape) req = Inr () \<and>
     (\<exists>hub. sv_relayHubContract s = Some hub \<and> isSameAddress (md_relayHubAddress (metadata req)) hub) \<and>
     isSameAddress (rd_relayWorker (relayData (relayRequest req))) (workerAddress D) \<and>
     \<not> num_lt (parseInt (rd_gasPrice (relayData (relayRequest req)))) (sv_gasPrice s) \<and>
     isTrustedVerifier (rd_callVerifier (relayData (relayRequest req))) s"

lemma validateInput_Inr:
  "validateInput D req s = (Inr u, t) \<Longrightarrow> t = s \<and>
     (\<exists>hub. sv_relayHubContract s = Some hub \<and> isSameAddress (md_relayHubAddress (metadata req)) hub) \<and>
     isSameAddress (rd_relayWorker (relayData (relayRequest req))) (workerAddress D) \<and>
     \<not> num_lt (parseInt (rd_gasPrice (relayData (relayRequest req)))) (sv_gasPrice s)"
  by (auto simp: validateInput_def bnd_run andthen_run instance_of_def isSameAddress_def
      split: option.splits if_splits)

lemma validateRequestWithVerifier_trusted:
  "validateRequestWithVerifier D req s = (Inr g, t) \<Longrightarrow> isTrustedVerifier (rd_callVerifier (relayData (relayRequest req))) s"
  unfolding validateRequestWithVerifier_def Let_def by (auto elim!: bnd_InrE andthen_InrE dest!: throw_if_InrD simp del: throw_if_run)

lemma validateMaxNonce_Inr:
  assumes "validateMaxNonce D n s = (Inr u, t)"
  shows "\<forall>m. nonces t (workerAddress D) = Some m \<longrightarrow> m \<le> n"
proof -
  obtain r where r: "pollNonce D (workerAddress D) s = (Inr r, t)" "\<not> (case r of None \<Rightarrow> False | Some m \<Rightarrow> n < m)"
    using assms unfolding validateMaxNonce_def
    by (auto elim!: bnd_InrE dest!: throw_if_InrD simp del: throw_if_run)
  then show ?thesis using pollNonce_Inr(1) [OF r(1)] by auto
qed

lemma createRelayTransaction_Inr:
  fixes s :: "('w, 'd, 'z) server_state_scheme" and D :: "('w, 'd, 'k, 't) deps"
  assumes "createRelayTransaction D req s = (Inr r, t)"
  shows "acceptable D req s" and "\<exists>gasLimit block (s1 :: ('w, 'd, 'z) server_state_scheme) s2. sendTransaction D (relay_details D req gasLimit block) s1 = (Inr r, s2)"
proof -
  obtain u1 u2 u3 u4 and s1 s2 s3 s4 s5 s6 s7 :: "('w, 'd, 'z) server_state_scheme" and g gl bl where
    1: "isReady D s" "validateInputTypes D req s = (Inr u1, s1)" "alerted_delay D s1 = (Inr u2, s2)"
      "validateInput D req s2 = (Inr u3, s3)" "validateMaxNonce D (md_relayMaxNonce (metadata req)) s3 = (Inr u4, s4)"
      "validateRequestWithVerifier D req s4 = (Inr g, s5)" and
    2: "sendTransaction D (relay_details D req gl bl) s6 = (Inr r, s7)"
    using assms unfolding createRelayTransaction_def
    by (elim bnd_InrE andthen_InrE) (auto simp: throw_if_def split: if_splits)
  show "\<exists>gasLimit block (s1 :: ('w, 'd, 'z) server_state_scheme) s2.
      sendTransaction D (relay_details D req gasLimit block) s1 = (Inr r, s2)"
    using 2 by blast
  have s1: "s1 = s" and shape: "w3_ow (dp_web3 D) (if isDeploy (relayRequest req) then DeployTransactionRequestShape
      else RelayTransactionRequestShape) req = Inr ()"
    using 1(2) by (auto simp: validateInputTypes_def)
  have v2: "request_view s2 = request_view s" using view_alerted [of D s1] 1(3) s1 by simp
  note i = validateInput_Inr [OF 1(4)]
  have v4: "request_view s4 = request_view s" using view_maxNonce [of D _ s3] 1(5) i v2 by (metis snd_conv)
  have "isTrustedVerifier (rd_callVerifier (relayData (relayRequest req))) s"
    using validateRequestWithVerifier_trusted [OF 1(6)] v4 by (simp add: isTrustedVerifier_def request_view_def)
  then show "acceptable D req s" using 1(1) shape i v2 by (simp add: acceptable_def request_view_def)
qed

text \<open>What the client's HTTP request is answered with.\<close>

lemma relayHandler_cases:
  "relayHandler D req s = (case createRelayTransaction D req s of
     (Inl e, t) \<Rightarrow> (ErrorBody (message e), t) | (Inr r, t) \<Rightarrow> (SignedTxBody (sx_signedTx r), t))"
  by (simp add: relayHandler_def http_handler_def bnd_run split: prod.split sum.split)

text \<open>The validation of a request, up to the verifier's verdict.\<close>

definition validated_request ::
  "('w, 'd, 'k, 't) deps \<Rightarrow> relay_transaction_request \<Rightarrow> (('w, 'd, 'z) server_state_scheme, int) js" where
  "validated_request D req =
     bnd (gets (isReady D)) (\<lambda>ready. andthen (throw_if (\<not> ready) ''relay not ready'')
     (andthen (validateInputTypes D req)
     (andthen (alerted_delay D)
     (andthen (validateInput D req)
     (andthen (validateMaxNonce D (md_relayMaxNonce (metadata req)))
     (validateRequestWithVerifier D req))))))"

lemma bnd_bnd: "bnd (bnd m f) g = bnd m (\<lambda>x. bnd (f x) g)"
  by (rule ext) (simp add: bnd_def split: prod.split sum.split)

lemma bnd_andthen: "bnd (andthen m n) g = andthen m (bnd n g)"
  by (simp add: andthen_def bnd_bnd)

lemma createRelayTransaction_validated:
  "createRelayTransaction D req = bnd (validated_request D req) (\<lambda>maxPossibleGas.
      bnd (gets sv_relayHubContract) (\<lambda>h. bnd (instance_of h) (\<lambda>hub.
      andthen (validateViewCallSucceeds D hub (relay_method req) req maxPossibleGas)
      (bnd (io (n_getBlockNumber (dp_node D))) (\<lambda>currentBlock.
       bnd (of_result (bn_toNumber maxPossibleGas)) (\<lambda>gasLimit.
       bnd (sendTransaction D (relay_details D req gasLimit currentBlock)) (\<lambda>txDetails.
       andthen (replenishServer D currentBlock)
       (ret txDetails))))))))"
  unfolding createRelayTransaction_def validated_request_def bnd_bnd bnd_andthen ..

lemma createRelayTransaction_rejected:
  "validated_request D req s = (Inl e, t) \<Longrightarrow> createRelayTransaction D req s = (Inl e, t)"
  by (simp add: createRelayTransaction_validated bnd_run)

lemma validated_request_acceptable:
  fixes s :: "('w, 'd, 'z) server_state_scheme"
  assumes "validated_request D req s = (Inr g, t)" shows "acceptable D req s"
proof -
  obtain u1 u2 u3 u4 and s1 s2 s3 s4 :: "('w, 'd, 'z) server_state_scheme" where
    1: "isReady D s" "validateInputTypes D req s = (Inr u1, s1)" "alerted_delay D s1 = (Inr u2, s2)"
      "validateInput D req s2 = (Inr u3, s3)" "validateMaxNonce D (md_relayMaxNonce (metadata req)) s3 = (Inr u4, s4)"
      "validateRequestWithVerifier D req s4 = (Inr g, t)"
    using assms unfolding validated_request_def
    by (elim bnd_InrE andthen_InrE) (auto simp: throw_if_def split: if_splits)
  have s1: "s1 = s" and shape: "w3_ow (dp_web3 D) (if isDeploy (relayRequest req) then DeployTransactionRequestShape
      else RelayTransactionRequestShape) req = Inr ()"
    using 1(2) by (auto simp: validateInputTypes_def)
  have v2: "request_view s2 = request_view s" using view_alerted [of D s1] 1(3) s1 by simp
  note i = validateInput_Inr [OF 1(4)]
  have v4: "request_view s4 = request_view s" using view_maxNonce [of D _ s3] 1(5) i v2 by (metis snd_conv)
  have "isTrustedVerifier (rd_callVerifier (relayData (relayRequest req))) s"
    using validateRequestWithVerifier_trusted [OF 1(6)] v4 by (simp add: isTrustedVerifier_def request_view_def)
  then show "acceptable D req s" using 1(1) shape i v2 by (simp add: acceptable_def request_view_def)
qed

end
