(* ===== verification/HttpClient.thy ===== *)
theory HttpClient
  imports Configurator
begin

text \<open>
  \<open>src/relayclient/HttpClient.ts\<close>: what the client asks a relay server over HTTP. The transport
  (\<open>HttpWrapper\<close>, axios) is the parameter \<open>http\<close>: a GET whose body may be missing, and a POST whose
  answer has the members \<open>signedTx\<close> and \<open>error\<close>, both optional.
\<close>

record 'w http =
  h_get :: "string \<Rightarrow> ('w, ping_response option) js"
  h_post :: "string \<Rightarrow> relay_transaction_request \<Rightarrow> ('w, string option \<times> string option) js"

definition getPingResponse :: "'w http \<Rightarrow> string \<Rightarrow> string option \<Rightarrow> (('w, 'z) net_scheme, ping_response) js" where
  "getPingResponse H relayUrl verifier =
     (let verifierSuffix = (case verifier of None \<Rightarrow> '''' | Some v \<Rightarrow> ''?verifier='' @ v) in
      bnd (io (h_get H (relayUrl @ ''/getaddr'' @ verifierSuffix))) (\<lambda>pingResponse.
        case pingResponse of None \<Rightarrow> throw (Error ''Relay responded without a body'') | Some p \<Rightarrow> ret p))"

definition relayTransaction ::
  "'w http \<Rightarrow> string \<Rightarrow> relay_transaction_request \<Rightarrow> (('w, 'z) net_scheme, string) js" where
  "relayTransaction H relayUrl request =
     bnd (io (h_post H (relayUrl @ ''/relay'') request)) (\<lambda>(signedTx, error).
       case error of
         Some e \<Rightarrow> throw (Error (''Got error response from relay: '' @ e))
       | None \<Rightarrow> (case signedTx of
           None \<Rightarrow> throw (Error ''body.signedTx field missing.'')
         | Some tx \<Rightarrow> ret tx))"

lemma getPingResponse_Inr:
  "getPingResponse H url v s = (Inr p, t) \<Longrightarrow> returns (h_get H (url @ ''/getaddr'' @ (case v of None \<Rightarrow> '''' | Some a \<Rightarrow> ''?verifier='' @ a))) (Some p)"
  by (auto simp: getPingResponse_def Let_def bnd_run io_run returns_def split: option.splits sum.splits)
    (metis prod.collapse)+

lemma relayTransaction_Inr:
  "relayTransaction H url req s = (Inr tx, t) \<Longrightarrow> returns (h_post H (url @ ''/relay'') req) (Some tx, None)"
  by (auto simp: relayTransaction_def bnd_run io_run returns_def split: option.splits sum.splits prod.splits)
    (metis prod.collapse)+

end
