(* ===== verification/KnownRelays.thy ===== *)
theory KnownRelays
  imports ContractInteractor HttpClient
begin

text \<open>
  \<open>src/relayclient/KnownRelaysManager.ts\<close>: the relays the client knows, found from the events of the
  hub in a window of blocks that is split when the node finds too many, and scored by their recent
  failures. A manager's filter and score calculator are parameters with the source's defaults.
\<close>

record 'w relays_state = "'w interactor" +
  kr_latestScannedBlock :: int
  kr_relayFailures :: "(string \<times> relay_failure_info list) list"
  kr_relayLookupWindowParts :: int
  kr_preferredRelayers :: "relay_info_url list"
  kr_allRelayers :: "relay_info_url list"

definition EmptyFilter :: "relay_info_url \<Rightarrow> bool" where
  "EmptyFilter r = True"

text \<open>\<open>Math.pow(0.9, n)\<close>, rounded once.\<close>

definition DefaultRelayScore :: "relay_info_url \<Rightarrow> transaction_details \<Rightarrow> relay_failure_info list \<Rightarrow> rat" where
  "DefaultRelayScore relay txDetails failures = rnd (rnd (9 / 10) ^ length failures)"

section \<open>Windows of blocks\<close>

text \<open>The loop of \<open>splitRange\<close>; it does not end when the size is not positive.\<close>

function split_from :: "int \<Rightarrow> int \<Rightarrow> int \<Rightarrow> (int \<times> int) list" where
  "split_from splitSize toBlock b =
     (if b < toBlock \<and> 0 < splitSize
      then (b, min toBlock (b + splitSize - 1)) # split_from splitSize toBlock (b + splitSize) else [])"
  by pat_completeness auto
termination
  by (relation "measure (\<lambda>(n, t, b). nat (t - b))") auto

declare split_from.simps [simp del]

definition splitSize :: "int \<Rightarrow> int \<Rightarrow> int \<Rightarrow> int" where
  "splitSize fromBlock toBlock splits = \<lceil>of_int (toBlock - fromBlock + 1) / (of_int splits :: rat)\<rceil>"

definition splitRange :: "int \<Rightarrow> int \<Rightarrow> int \<Rightarrow> (int \<times> int) list" where
  "splitRange fromBlock toBlock splits = split_from (splitSize fromBlock toBlock splits) toBlock fromBlock"

text \<open>\<open>Promise.all\<close>: the requests are answered in order.\<close>

definition request_parts ::
  "'w node \<Rightarrow> web3_utils \<Rightarrow> (int \<times> int) list \<Rightarrow> (('w, 'z) interactor_scheme, event_data list) js" where
  "request_parts N W rangeParts =
     fold_js (\<lambda>(fromBlock, toBlock) events.
       bnd (ContractInteractor.getPastEventsForHub N W []
              \<lparr>pe_fromBlock = fromBlock, pe_toBlock = Some (int_str toBlock)\<rparr> ActiveManagerEvents) (\<lambda>more.
       ret (events @ more))) rangeParts []"

definition too_many :: "exn \<Rightarrow> bool" where
  "too_many e = has_substring (or_else (message e) '''') ''query returned more than''"

text \<open>
  The loop of \<open>getPastEventsForHub\<close>: \<open>n\<close> bounds the number of its rounds; three are enough from one
  part (\<open>past_events_more_fuel\<close>).
\<close>

primrec past_events_loop ::
  "'w node \<Rightarrow> web3_utils \<Rightarrow> enveloping_config \<Rightarrow> int \<Rightarrow> int \<Rightarrow> nat \<Rightarrow> (('w, 'z) relays_state_scheme, event_data list) js" where
  "past_events_loop N W cfg fromBlock toBlock 0 = throw (Error ''out of fuel'')"
| "past_events_loop N W cfg fromBlock toBlock (Suc n) =
     bnd (gets kr_relayLookupWindowParts) (\<lambda>parts.
       catching (request_parts N W (splitRange fromBlock toBlock parts))
         (\<lambda>e. if too_many e \<and> parts < ec_relayLookupWindowBlocks cfg then
             (if 16 \<le> parts then throw (Error (''Too many events after splitting by '' @ int_str parts))
              else andthen (modify (\<lambda>s. s\<lparr>kr_relayLookupWindowParts := kr_relayLookupWindowParts s * 4\<rparr>))
                (past_events_loop N W cfg fromBlock toBlock n))
           else throw e))"

definition kr_getPastEventsForHub ::
  "'w node \<Rightarrow> web3_utils \<Rightarrow> enveloping_config \<Rightarrow> int \<Rightarrow> int \<Rightarrow> (('w, 'z) relays_state_scheme, event_data list) js" where
  "kr_getPastEventsForHub N W cfg fromBlock toBlock = past_events_loop N W cfg fromBlock toBlock 3"

definition fetchRecentlyActiveRelayManagers ::
  "'w node \<Rightarrow> web3_utils \<Rightarrow> enveloping_config \<Rightarrow> (('w, 'z) relays_state_scheme, string list) js" where
  "fetchRecentlyActiveRelayManagers N W cfg =
     bnd (io (n_getBlockNumber N)) (\<lambda>toBlock.
     let fromBlock = max 0 (toBlock - ec_relayLookupWindowBlocks cfg) in
     bnd (kr_getPastEventsForHub N W cfg fromBlock toBlock) (\<lambda>relayEvents.
     andthen (modify (\<lambda>s. s\<lparr>kr_latestScannedBlock := toBlock\<rparr>))
     (ret (set_of_list (map (\<lambda>e. rv_relayManager (ev_returnValues e)) relayEvents)))))"

section \<open>Active relays\<close>

definition chronological :: "event_data list \<Rightarrow> event_data list" where
  "chronological events = sort_key (\<lambda>e. (ev_blockNumber e, ev_transactionIndex e)) events"

definition eventInfo :: "event_data \<Rightarrow> relay_info_url" where
  "eventInfo e = \<lparr>ri_relayUrl = rv_relayUrl (ev_returnValues e), ri_relayManager = Some (rv_relayManager (ev_returnValues e))\<rparr>"

definition activate :: "event_data \<Rightarrow> (string \<times> relay_info_url) list \<Rightarrow> (string \<times> relay_info_url) list" where
  "activate event activeRelays =
     (if ev_event event = RelayServerRegistered
      then AList.update (rv_relayManager (ev_returnValues event)) (eventInfo event) activeRelays
      else AList.delete (rv_relayManager (ev_returnValues event)) activeRelays)"

definition activeRelays :: "event_data list \<Rightarrow> event_data list \<Rightarrow> (string \<times> relay_info_url) list" where
  "activeRelays exitEvents registeredEvents =
     foldl (\<lambda>acc e. activate e acc) [] (chronological (exitEvents @ registeredEvents))"

definition getRelayInfoForManagers ::
  "'w node \<Rightarrow> web3_utils \<Rightarrow> (relay_info_url \<Rightarrow> bool) \<Rightarrow> string list \<Rightarrow> (('w, 'z) interactor_scheme, relay_info_url list) js" where
  "getRelayInfoForManagers N W relayFilter relayManagers =
     (if relayManagers = [] then ret []
      else (let topics = addresses2topics relayManagers in
        bnd (ContractInteractor.getPastEventsForHub N W topics \<lparr>pe_fromBlock = 1, pe_toBlock = None\<rparr> [RelayServerRegistered])
          (\<lambda>relayServerRegisteredEvents.
        bnd (getPastEventsForStakeManagement N W [StakeUnlocked, StakePenalized] topics \<lparr>pe_fromBlock = 1, pe_toBlock = None\<rparr>)
          (\<lambda>relayManagerExitEvents.
        ret (filter relayFilter (map snd (activeRelays relayManagerExitEvents relayServerRegisteredEvents)))))))"

section \<open>Failures and scores\<close>

definition refreshFailures :: "'w node \<Rightarrow> enveloping_config \<Rightarrow> (('w, 'z) relays_state_scheme, unit) js" where
  "refreshFailures N cfg =
     bnd (io (n_now N)) (\<lambda>now.
     modify (\<lambda>s. s\<lparr>kr_relayFailures := map (\<lambda>(url, fs).
       (url, filter (\<lambda>f. now - rf_lastErrorTime f < ec_relayTimeoutGrace cfg * 1000) fs)) (kr_relayFailures s)\<rparr>))"

definition refresh ::
  "'w node \<Rightarrow> web3_utils \<Rightarrow> enveloping_config \<Rightarrow> (relay_info_url \<Rightarrow> bool) \<Rightarrow> (('w, 'z) relays_state_scheme, unit) js" where
  "refresh N W cfg relayFilter =
     andthen (refreshFailures N cfg)
     (bnd (fetchRecentlyActiveRelayManagers N W cfg) (\<lambda>recentlyActiveRelayManagers.
      andthen (modify (\<lambda>s. s\<lparr>kr_preferredRelayers :=
        map (\<lambda>u. \<lparr>ri_relayUrl = u, ri_relayManager = None\<rparr>) (ec_preferredRelays cfg)\<rparr>))
      (bnd (getRelayInfoForManagers N W relayFilter recentlyActiveRelayManagers) (\<lambda>infos.
       modify (\<lambda>s. s\<lparr>kr_allRelayers := infos\<rparr>)))))"

definition failuresOf :: "string \<Rightarrow> (string \<times> relay_failure_info list) list \<Rightarrow> relay_failure_info list" where
  "failuresOf url failures = or_else (map_of failures url) []"

definition relayScores ::
  "(relay_info_url \<Rightarrow> transaction_details \<Rightarrow> relay_failure_info list \<Rightarrow> rat) \<Rightarrow> transaction_details \<Rightarrow>
   (string \<times> relay_failure_info list) list \<Rightarrow> relay_info_url list \<Rightarrow> (string \<times> rat) list" where
  "relayScores scoreCalculator txDetails failures relays =
     foldl (\<lambda>scores r. case ri_relayManager r of None \<Rightarrow> scores
       | Some m \<Rightarrow> AList.update m (scoreCalculator r txDetails (failuresOf (ri_relayUrl r) failures)) scores) [] relays"

definition sortRelaysInternal ::
  "(relay_info_url \<Rightarrow> transaction_details \<Rightarrow> relay_failure_info list \<Rightarrow> rat) \<Rightarrow> transaction_details \<Rightarrow>
   (string \<times> relay_failure_info list) list \<Rightarrow> relay_info_url list \<Rightarrow> relay_info_url list" where
  "sortRelaysInternal scoreCalculator txDetails failures relays =
     (let scores = relayScores scoreCalculator txDetails failures relays in
      sort_key (\<lambda>r. - or_else (map_of scores (or_else (ri_relayManager r) '''')) 0) (filter isInfoFromEvent relays))"

definition getRelaysSortedForTransaction ::
  "(relay_info_url \<Rightarrow> transaction_details \<Rightarrow> relay_failure_info list \<Rightarrow> rat) \<Rightarrow> transaction_details \<Rightarrow>
   ('w, 'z) relays_state_scheme \<Rightarrow> relay_info_url list list" where
  "getRelaysSortedForTransaction scoreCalculator txDetails s =
     [kr_preferredRelayers s, sortRelaysInternal scoreCalculator txDetails (kr_relayFailures s) (kr_allRelayers s)]"

definition saveRelayFailure :: "int \<Rightarrow> string \<Rightarrow> string \<Rightarrow> ('w, 'z) relays_state_scheme \<Rightarrow> ('w, 'z) relays_state_scheme" where
  "saveRelayFailure lastErrorTime relayManager relayUrl s =
     s\<lparr>kr_relayFailures := AList.update relayUrl
       (failuresOf relayUrl (kr_relayFailures s) @
         [\<lparr>rf_lastErrorTime = lastErrorTime, rf_relayManager = relayManager, rf_relayUrl = relayUrl\<rparr>])
       (kr_relayFailures s)\<rparr>"

section \<open>Lemmas\<close>

text \<open>Which blocks the parts cover: the last one is left out when it would start a part of its own.\<close>

lemma split_from_Nil: "\<not> (b < t \<and> 0 < n) \<Longrightarrow> split_from n t b = []"
  by (subst split_from.simps) simp

lemma split_from_Cons:
  "b < t \<Longrightarrow> 0 < n \<Longrightarrow> split_from n t b = (b, min t (b + n - 1)) # split_from n t (b + n)"
  by (subst split_from.simps) simp

lemma split_from_bounds:
  "(x, y) \<in> set (split_from n t b) \<Longrightarrow> b \<le> x \<and> x < t \<and> x \<le> y \<and> y \<le> t \<and> y < x + n"
proof (induction n t b rule: split_from.induct)
  case (1 n t b)
  show ?case
  proof (cases "b < t \<and> 0 < n")
    case True
    then show ?thesis using 1 split_from_Cons [of b t n] by auto
  next
    case False
    then show ?thesis using 1(2) split_from_Nil [of b t n] by simp
  qed
qed

lemma split_from_covers:
  assumes "0 < n"
  shows "\<Union> ((\<lambda>(x, y). {x..y}) ` set (split_from n t b)) =
    (if b < t then (if n dvd (t - b) then {b..<t} else {b..t}) else {})"
  using assms
proof (induction n t b rule: split_from.induct)
  case (1 n t b)
  show ?case
  proof (cases "b < t")
    case True
    have s: "split_from n t b = (b, min t (b + n - 1)) # split_from n t (b + n)"
      using True 1 by (intro split_from_Cons) auto
    have IH: "\<Union> ((\<lambda>(x, y). {x..y}) ` set (split_from n t (b + n))) =
      (if b + n < t then (if n dvd (t - (b + n)) then {b + n..<t} else {b + n..t}) else {})"
      using 1 True by simp
    have d: "n dvd (t - (b + n)) \<longleftrightarrow> n dvd (t - b)"
      by (metis diff_diff_eq dvd_minus_mod dvd_refl dvd_diff_right_iff dvd_diff_left_iff)
    show ?thesis
    proof (cases "b + n < t")
      case True
      then show ?thesis using s IH d \<open>b < t\<close> 1(2) by auto
    next
      case False
      have "n dvd (t - b) \<longleftrightarrow> t = b + n"
        using False True zdvd_imp_le [of n "t - b"] by auto
      then show ?thesis using s IH False True by (auto simp: min_def)
    qed
  qed (simp add: split_from_Nil)
qed

lemma split_from_disjoint:
  "0 < n \<Longrightarrow> (x, y) \<in> set (split_from n t b) \<Longrightarrow> (x', y') \<in> set (split_from n t b) \<Longrightarrow>
     x \<noteq> x' \<Longrightarrow> {x..y} \<inter> {x'..y'} = {}"
proof (induction n t b rule: split_from.induct)
  case (1 n t b)
  show ?case
  proof (cases "b < t")
    case True
    have s: "split_from n t b = (b, min t (b + n - 1)) # split_from n t (b + n)"
      using True 1 by (intro split_from_Cons) auto
    have later: "b + n \<le> u" if "(u, v) \<in> set (split_from n t (b + n))" for u v
      using split_from_bounds [OF that] by simp
    show ?thesis using 1 True s later [of x y] later [of x' y'] by (auto split: if_splits)
  qed (use 1 in \<open>simp add: split_from_Nil\<close>)
qed

lemma splitSize_pos: "fromBlock \<le> toBlock \<Longrightarrow> 0 < splits \<Longrightarrow> 0 < splitSize fromBlock toBlock splits"
  by (simp add: splitSize_def)

text \<open>The rounds of the request: from one part on, the third cannot be followed by another.\<close>

lemma past_events_16:
  "16 \<le> kr_relayLookupWindowParts s \<Longrightarrow>
     past_events_loop N W cfg a b (Suc m) s = past_events_loop N W cfg a b (Suc n) s"
  by (simp add: bnd_run catching_run split: prod.split sum.split)

definition parts_kept :: "('w, 'z) relays_state_scheme \<Rightarrow> ('w, 'z) relays_state_scheme \<Rightarrow> bool" where
  "parts_kept s t \<longleftrightarrow> kr_relayLookupWindowParts t = kr_relayLookupWindowParts s"

interpretation parts: step_relation parts_kept
  by unfold_locales (simp_all add: parts_kept_def)

lemma along_parts_io: "along parts_kept (io m)"
  by (rule along_io) (simp add: parts_kept_def)

lemma along_parts_request: "along parts_kept (request_parts N W ps)"
  unfolding request_parts_def ContractInteractor.getPastEventsForHub_def getPastEvents_def relayHubInstance_def
    instance_of_def Let_def
  by (intro parts.along_rules) (auto split: prod.split intro!: parts.along_rules along_parts_io)

lemma past_events_round:
  "request_parts N W (splitRange a b (kr_relayLookupWindowParts s)) s = (r, t) \<Longrightarrow>
     past_events_loop N W cfg a b (Suc n) s = (case r of Inr x \<Rightarrow> (Inr x, t)
       | Inl e \<Rightarrow> if too_many e \<and> kr_relayLookupWindowParts s < ec_relayLookupWindowBlocks cfg
           then (if 16 \<le> kr_relayLookupWindowParts s
             then (Inl (Error (''Too many events after splitting by '' @ int_str (kr_relayLookupWindowParts s))), t)
             else past_events_loop N W cfg a b n (t\<lparr>kr_relayLookupWindowParts := kr_relayLookupWindowParts t * 4\<rparr>))
           else (Inl e, t))"
  by (cases r) (simp_all add: bnd_run catching_run andthen_run)

lemma past_events_more_fuel:
  "16 \<le> kr_relayLookupWindowParts s * 4 ^ n \<Longrightarrow>
     past_events_loop N W cfg a b (Suc n + k) s = past_events_loop N W cfg a b (Suc n) s"
proof (induction n arbitrary: s)
  case 0
  then show ?case using past_events_16 [of s N W cfg a b k 0] by simp
next
  case (Suc n)
  obtain r t where r: "request_parts N W (splitRange a b (kr_relayLookupWindowParts s)) s = (r, t)" by fastforce
  have "kr_relayLookupWindowParts t = kr_relayLookupWindowParts s"
    using alongD [OF along_parts_request, of s N W "splitRange a b (kr_relayLookupWindowParts s)"] r
    by (simp add: parts_kept_def)
  then have "16 \<le> kr_relayLookupWindowParts (t\<lparr>kr_relayLookupWindowParts := kr_relayLookupWindowParts t * 4\<rparr>) * 4 ^ n"
    using Suc.prems by (simp add: mult.assoc)
  note IH = Suc.IH [OF this]
  show ?case
  proof (cases r)
    case (Inl e)
    then show ?thesis
      using past_events_round [OF r, of cfg "Suc n + k"] past_events_round [OF r, of cfg "Suc n"] IH
      by (simp del: past_events_loop.simps)
  next
    case (Inr x)
    then show ?thesis
      using past_events_round [OF r, of cfg "Suc n + k"] past_events_round [OF r, of cfg "Suc n"]
      by (simp del: past_events_loop.simps)
  qed
qed

text \<open>A manager is active when the last of its events is a registration.\<close>

definition events_of :: "string \<Rightarrow> event_data list \<Rightarrow> event_data list" where
  "events_of m es = filter (\<lambda>e. rv_relayManager (ev_returnValues e) = m) es"

lemma map_of_activate: "map_of (activate e acc) m = (if rv_relayManager (ev_returnValues e) = m
   then (if ev_event e = RelayServerRegistered then Some (eventInfo e) else None) else map_of acc m)"
  by (auto simp: activate_def update_conv' delete_conv')

lemma map_of_activations:
  "map_of (foldl (\<lambda>acc e. activate e acc) [] es) m =
     (if events_of m es = [] \<or> ev_event (last (events_of m es)) \<noteq> RelayServerRegistered then None
      else Some (eventInfo (last (events_of m es))))"
  by (induction es rule: rev_induct) (auto simp: events_of_def map_of_activate)

lemma distinct_activate: "distinct (map fst acc) \<Longrightarrow> distinct (map fst (activate e acc))"
  by (simp add: activate_def distinct_update distinct_delete)

lemma distinct_activations: "distinct (map fst (foldl (\<lambda>acc e. activate e acc) [] es))"
  by (induction es rule: rev_induct) (simp_all add: distinct_activate)

text \<open>The relays from events, by descending score.\<close>

lemma sortRelays_set: "set (sortRelaysInternal sc d fs rs) = {r \<in> set rs. isInfoFromEvent r}"
  by (simp add: sortRelaysInternal_def Let_def)

end
