(* ===== verification/RelaySelection.thy ===== *)
theory RelaySelection
  imports KnownRelays "HOL-Library.Multiset"
begin

text \<open>
  \<open>src/relayclient/RelaySelectionManager.ts\<close>: choosing, for one transaction, the next relay that
  answers a ping. The pings of a slice are sent at once; the order in which they settle is the
  parameter \<open>order\<close>, any permutation of the slice. A promise that never settles is the result \<open>Never\<close>;
  \<open>Spinning\<close> is the result of a loop whose rounds are used up, which \<open>selectNextRelay_returns\<close> shows
  does not happen with one round per remaining relay.
\<close>

record partial_relay_info =
  pi_relayInfo :: relay_info_url
  pi_pingResponse :: ping_response

record race_result =
  ra_winner :: "partial_relay_info option"
  ra_errors :: "(string \<times> exn) list"

datatype 'a settles = Never | Spinning | Result 'a

record 'w selection_state = "'w relays_state" +
  rs_remainingRelays :: "relay_info_url list list"
  rs_isInitialized :: bool
  rs_errors :: "(string \<times> exn) list"

text \<open>The collaborators of the manager and the transaction it chooses a relay for.\<close>

record 'w selector =
  se_node :: "'w node"
  se_web3 :: web3_utils
  se_http :: "'w http"
  se_config :: enveloping_config
  se_relayFilter :: "relay_info_url \<Rightarrow> bool"
  se_scoreCalculator :: "relay_info_url \<Rightarrow> transaction_details \<Rightarrow> relay_failure_info list \<Rightarrow> rat"
  se_pingFilter :: "ping_response \<Rightarrow> transaction_details \<Rightarrow> exn + unit"
  se_pingText :: "ping_response \<Rightarrow> string"
  se_order :: "relay_info_url list \<Rightarrow> relay_info_url list"

definition rs_init :: "'w selector \<Rightarrow> transaction_details \<Rightarrow> (('w, 'z) selection_state_scheme, unit) js" where
  "rs_init S d = modify (\<lambda>s. s\<lparr>
     rs_remainingRelays := getRelaysSortedForTransaction (se_scoreCalculator S) d s, rs_isInitialized := True\<rparr>)"

definition relaysLeft :: "('w, 'z) selection_state_scheme \<Rightarrow> relay_info_url list" where
  "relaysLeft s = concat (rs_remainingRelays s)"

definition slice :: "int \<Rightarrow> relay_info_url list \<Rightarrow> relay_info_url list" where
  "slice sliceSize relays = (let bulkSize = min sliceSize (int (length relays)) in
     take (nat (if bulkSize < 0 then int (length relays) + bulkSize else bulkSize)) relays)"

fun firstSlice :: "int \<Rightarrow> relay_info_url list list \<Rightarrow> relay_info_url list" where
  "firstSlice n [] = []"
| "firstSlice n (relays # rest) = (if slice n relays = [] then firstSlice n rest else slice n relays)"

definition getNextSlice :: "'w selector \<Rightarrow> (('w, 'z) selection_state_scheme, relay_info_url list) js" where
  "getNextSlice S =
     bnd (gets rs_isInitialized) (\<lambda>i. andthen (throw_if (\<not> i) ''init() not called'')
     (gets (\<lambda>s. firstSlice (ec_sliceSize (se_config S)) (rs_remainingRelays s))))"

definition getPreferredRelaysNextSlice ::
  "'w selector \<Rightarrow> nat \<Rightarrow> (('w, 'z) selection_state_scheme, relay_info_url list) js" where
  "getPreferredRelaysNextSlice S index =
     bnd (gets rs_isInitialized) (\<lambda>i. andthen (throw_if (\<not> i) ''init() not called'')
     (gets (\<lambda>s. let relays0 = hd (rs_remainingRelays s) in
        if index + 1 \<le> length relays0 then slice (ec_sliceSize (se_config S)) (drop index relays0) else [])))"

definition getRelayAddressPing ::
  "'w selector \<Rightarrow> transaction_details \<Rightarrow> relay_info_url \<Rightarrow> (('w, 'z) selection_state_scheme, partial_relay_info) js" where
  "getRelayAddressPing S d relayInfo =
     bnd (getPingResponse (se_http S) (ri_relayUrl relayInfo) (td_callVerifier d)) (\<lambda>pingResponse.
     andthen (throw_if (\<not> pr_ready pingResponse) (''Relay not ready '' @ se_pingText S pingResponse))
     (andthen (of_result (se_pingFilter S pingResponse d))
     (ret \<lparr>pi_relayInfo = relayInfo, pi_pingResponse = pingResponse\<rparr>)))"

text \<open>
  The handlers of the pings in the order they settle; \<open>n\<close> is the number of relays of the slice. The
  errors are keyed by URL.
\<close>

primrec settle ::
  "'w selector \<Rightarrow> transaction_details \<Rightarrow> nat \<Rightarrow> relay_info_url list \<Rightarrow> (string \<times> exn) list \<Rightarrow>
   (('w, 'z) selection_state_scheme, race_result settles) js" where
  "settle S d n [] errors = ret Never"
| "settle S d n (relay # rest) errors =
     bnd (catching (bnd (getRelayAddressPing S d relay) (\<lambda>w. ret (Inr w))) (\<lambda>e. ret (Inl e))) (\<lambda>outcome.
       case outcome of
         Inr winner \<Rightarrow> ret (Result \<lparr>ra_winner = Some winner, ra_errors = errors\<rparr>)
       | Inl err \<Rightarrow> (let errors' = AList.update (ri_relayUrl relay) err errors in
           if length errors' = n then ret (Result \<lparr>ra_winner = None, ra_errors = errors'\<rparr>)
           else settle S d n rest errors'))"

definition raceToSuccess ::
  "'w selector \<Rightarrow> transaction_details \<Rightarrow> relay_info_url list \<Rightarrow> (('w, 'z) selection_state_scheme, race_result settles) js" where
  "raceToSuccess S d relays = settle S d (length relays) (se_order S relays) []"

definition handleRaceResults :: "race_result \<Rightarrow> (('w, 'z) selection_state_scheme, unit) js" where
  "handleRaceResults raceResult =
     bnd (gets rs_isInitialized) (\<lambda>i. andthen (throw_if (\<not> i) ''init() not called'')
     (modify (\<lambda>s. s\<lparr>
        rs_errors := foldl (\<lambda>acc (u, e). AList.update u e acc) (rs_errors s) (ra_errors raceResult),
        rs_remainingRelays := map (\<lambda>relays.
          filter (\<lambda>r. ri_relayUrl r \<notin> set (map fst (ra_errors raceResult)))
            (filter (\<lambda>r. Some (ri_relayUrl r) \<noteq> map_option (\<lambda>w. ri_relayUrl (pi_relayInfo w)) (ra_winner raceResult)) relays))
          (rs_remainingRelays s)\<rparr>)))"

definition nextRelayInternal ::
  "'w selector \<Rightarrow> transaction_details \<Rightarrow> relay_info_url list \<Rightarrow> (('w, 'z) selection_state_scheme, partial_relay_info option settles) js" where
  "nextRelayInternal S d relays =
     bnd (raceToSuccess S d relays) (\<lambda>race. case race of
       Never \<Rightarrow> ret Never
     | Spinning \<Rightarrow> ret Spinning
     | Result raceResult \<Rightarrow>
         andthen (handleRaceResults raceResult)
         (case ra_winner raceResult of
            None \<Rightarrow> ret (Result None)
          | Some winner \<Rightarrow>
              if isInfoFromEvent (pi_relayInfo winner) then ret (Result (Some winner))
              else bnd (getRelayInfoForManagers (se_node S) (se_web3 S) (se_relayFilter S)
                     [pr_relayManagerAddress (pi_pingResponse winner)]) (\<lambda>events.
                case events of
                  [relayInfo] \<Rightarrow> ret (Result (Some \<lparr>pi_relayInfo = relayInfo\<lparr>ri_relayUrl := ri_relayUrl (pi_relayInfo winner)\<rparr>,
                      pi_pingResponse = pi_pingResponse winner\<rparr>))
                | _ \<Rightarrow> throw (Error ''Could not find register event for the winning preferred relay''))))"

text \<open>The two loops of \<open>selectNextRelay\<close>, with a bound on the rounds.\<close>

primrec nextOfAll ::
  "'w selector \<Rightarrow> transaction_details \<Rightarrow> nat \<Rightarrow> (('w, 'z) selection_state_scheme, partial_relay_info option settles) js" where
  "nextOfAll S d 0 = ret Spinning"
| "nextOfAll S d (Suc n) =
     bnd (getNextSlice S) (\<lambda>relays.
       if relays = [] then ret (Result None)
       else bnd (nextRelayInternal S d relays) (\<lambda>relayInfo. case relayInfo of
           Result None \<Rightarrow> nextOfAll S d n
         | r \<Rightarrow> ret r))"

primrec nextOfPreferred ::
  "'w selector \<Rightarrow> transaction_details \<Rightarrow> nat \<Rightarrow> nat \<Rightarrow> (('w, 'z) selection_state_scheme, partial_relay_info option settles) js" where
  "nextOfPreferred S d 0 index = ret Spinning"
| "nextOfPreferred S d (Suc n) index =
     bnd (getPreferredRelaysNextSlice S index) (\<lambda>relays.
       if relays = [] then ret (Result None)
       else bnd (nextRelayInternal S d relays) (\<lambda>relayInfo. case relayInfo of
           Result None \<Rightarrow> nextOfPreferred S d n (index + length relays)
         | r \<Rightarrow> ret r))"

definition selectNextRelay ::
  "'w selector \<Rightarrow> transaction_details \<Rightarrow> (('w, 'z) selection_state_scheme, partial_relay_info option settles) js" where
  "selectNextRelay S d =
     bnd (gets (\<lambda>s. Suc (length (relaysLeft s)))) (\<lambda>fuel.
       if or_else (td_onlyPreferredRelays d) False then nextOfPreferred S d fuel 0 else nextOfAll S d fuel)"

section \<open>Lemmas\<close>

text \<open>Requests leave the relays that remain alone.\<close>

definition rs_kept :: "('w, 'z) selection_state_scheme \<Rightarrow> ('w, 'z) selection_state_scheme \<Rightarrow> bool" where
  "rs_kept s t \<longleftrightarrow> rs_remainingRelays t = rs_remainingRelays s \<and> rs_isInitialized t = rs_isInitialized s"

interpretation kept: step_relation rs_kept
  by unfold_locales (simp_all add: rs_kept_def)

lemma along_kept_io: "along rs_kept (io m)"
  by (rule along_io) (simp add: rs_kept_def)

lemma along_kept_ping: "along rs_kept (getRelayAddressPing S d r)"
  unfolding getRelayAddressPing_def getPingResponse_def Let_def by (intro kept.along_rules along_kept_io)

lemma along_kept_settle: "along rs_kept (settle S d n rs errs)"
proof (induction rs arbitrary: errs)
  case (Cons r rs)
  show ?case
    by (simp add: Let_def, intro kept.along_rules along_kept_ping)
      (auto simp: Let_def intro!: kept.along_rules Cons.IH split: sum.split)
qed (simp add: kept.along_ret)

lemma along_kept_info: "along rs_kept (getRelayInfoForManagers N W f ms)"
  unfolding getRelayInfoForManagers_def getPastEventsForStakeManagement_def
    ContractInteractor.getPastEventsForHub_def getPastEvents_def relayHubInstance_def instance_of_def Let_def
  by (intro kept.along_rules along_kept_io)

text \<open>One settled ping.\<close>

lemma settle_round:
  "getRelayAddressPing S d r s = (q, t) \<Longrightarrow> settle S d n (r # rs) errs s =
     (case q of Inr w \<Rightarrow> (Inr (Result \<lparr>ra_winner = Some w, ra_errors = errs\<rparr>), t)
      | Inl e \<Rightarrow> if length (AList.update (ri_relayUrl r) e errs) = n
          then (Inr (Result \<lparr>ra_winner = None, ra_errors = AList.update (ri_relayUrl r) e errs\<rparr>), t)
          else settle S d n rs (AList.update (ri_relayUrl r) e errs) t)"
  by (cases q) (simp_all add: bnd_run catching_run Let_def)

text \<open>The result of a race: its errors belong to relays of the race, a winner is one of them.\<close>

definition race_ok :: "nat \<Rightarrow> relay_info_url list \<Rightarrow> (string \<times> exn) list \<Rightarrow> race_result \<Rightarrow> bool" where
  "race_ok n rs errs rr \<longleftrightarrow> distinct (map fst (ra_errors rr)) \<and>
     set (map fst (ra_errors rr)) \<subseteq> set (map fst errs) \<union> ri_relayUrl ` set rs \<and>
     (ra_winner rr = None \<longrightarrow> length (ra_errors rr) = n) \<and>
     (\<forall>w. ra_winner rr = Some w \<longrightarrow> pi_relayInfo w \<in> set rs)"

lemma ping_relay: "getRelayAddressPing S d r u = (Inr v, u') \<Longrightarrow> pi_relayInfo v = r"
  unfolding getRelayAddressPing_def by (auto elim!: bnd_InrE andthen_InrE)

lemma update_length_new: "k \<notin> set (map fst errs) \<Longrightarrow> length (AList.update k e errs) = Suc (length errs)"
  by (induction errs) auto

lemma settle_result:
  assumes "settle S d n rs errs s = (Inr (Result rr), t)" "distinct (map fst errs)"
  shows "race_ok n rs errs rr"
  using assms
proof (induction rs arbitrary: errs s)
  case (Cons r rs)
  obtain q u where q: "getRelayAddressPing S d r s = (q, u)" by fastforce
  note round = settle_round [OF q, of n rs errs]
  let ?e = "\<lambda>e. AList.update (ri_relayUrl r) e errs"
  show ?case
  proof (cases q)
    case (Inr w)
    then have "rr = \<lparr>ra_winner = Some w, ra_errors = errs\<rparr>" using Cons.prems(1) round by simp
    then show ?thesis using Cons.prems(2) ping_relay [of S d r s w u] q Inr by (auto simp: race_ok_def)
  next
    case (Inl e)
    have dk: "distinct (map fst (?e e))" using Cons.prems(2) by (simp add: distinct_update)
    have ks: "set (map fst (?e e)) = insert (ri_relayUrl r) (set (map fst errs))" by (simp add: dom_update)
    show ?thesis
    proof (cases "length (?e e) = n")
      case True
      then have "rr = \<lparr>ra_winner = None, ra_errors = ?e e\<rparr>" using Cons.prems(1) round Inl by simp
      then show ?thesis using True dk ks by (auto simp: race_ok_def)
    next
      case False
      then have "settle S d n rs (?e e) u = (Inr (Result rr), t)" using Cons.prems(1) round Inl by simp
      from Cons.IH [OF this dk] show ?thesis using ks unfolding race_ok_def by auto
    qed
  qed
qed simp

text \<open>With one URL per relay a race settles: either one wins, or all have failed.\<close>

lemma settle_settles:
  assumes "distinct (map ri_relayUrl rs)" "\<forall>r\<in>set rs. ri_relayUrl r \<notin> set (map fst errs)"
    and "n = length errs + length rs" "rs \<noteq> []" "distinct (map fst errs)"
  shows "\<exists>rr t. settle S d n rs errs s = (Inr (Result rr), t)"
  using assms
proof (induction rs arbitrary: errs s)
  case (Cons r rs)
  obtain q t where q: "getRelayAddressPing S d r s = (q, t)" by fastforce
  show ?case
  proof (cases q)
    case (Inl e)
    let ?e = "AList.update (ri_relayUrl r) e errs"
    have len: "length ?e = Suc (length errs)"
      using Cons.prems(2) by (intro update_length_new) simp
    note round = settle_round [OF q, of n rs errs]
    show ?thesis
    proof (cases "rs = []")
      case True
      then show ?thesis using round Inl len Cons.prems(3) by simp
    next
      case False
      have "ri_relayUrl ra \<notin> set (map fst ?e)" if "ra \<in> set rs" for ra
      proof -
        have "ri_relayUrl ra \<noteq> ri_relayUrl r" using Cons.prems(1) that by (metis distinct.simps(2) imageI list.simps(9) list.set_map)
        then show ?thesis using Cons.prems(2) that by (simp add: dom_update)
      qed
      then have "\<exists>rr u. settle S d n rs ?e t = (Inr (Result rr), u)"
        using Cons.prems False len by (intro Cons.IH) (auto simp: distinct_update)
      then show ?thesis using round Inl False len Cons.prems(3) by simp
    qed
  qed (use settle_round [OF q, of n rs errs] in simp)
qed simp

text \<open>What remains after a race.\<close>

definition remains :: "race_result \<Rightarrow> relay_info_url \<Rightarrow> bool" where
  "remains rr r \<longleftrightarrow> Some (ri_relayUrl r) \<noteq> map_option (\<lambda>w. ri_relayUrl (pi_relayInfo w)) (ra_winner rr) \<and>
     ri_relayUrl r \<notin> set (map fst (ra_errors rr))"

definition remaining_after :: "race_result \<Rightarrow> relay_info_url list list \<Rightarrow> relay_info_url list list" where
  "remaining_after rr rss = map (filter (remains rr)) rss"

lemma concat_remaining: "concat (remaining_after rr rss) = filter (remains rr) (concat rss)"
  by (simp add: remaining_after_def filter_concat)

lemma remaining_after_smaller:
  "r \<in> set (concat rss) \<Longrightarrow> ri_relayUrl r \<in> set (map fst (ra_errors rr)) \<Longrightarrow>
     length (concat (remaining_after rr rss)) < length (concat rss)"
  unfolding concat_remaining by (rule length_filter_less) (auto simp: remains_def)

lemma handleRaceResults_Inr:
  "handleRaceResults rr s = (Inr u, t) \<Longrightarrow> rs_remainingRelays t = remaining_after rr (rs_remainingRelays s) \<and>
     rs_isInitialized t = rs_isInitialized s"
  by (auto simp: handleRaceResults_def remaining_after_def remains_def [abs_def] bnd_run andthen_run split: if_splits)

lemma nextRelayInternal_Result:
  assumes "nextRelayInternal S d rel s = (Inr (Result x), t)" "mset (se_order S rel) = mset rel"
  obtains rr where "race_ok (length rel) rel [] rr" "rs_remainingRelays t = remaining_after rr (rs_remainingRelays s)"
    "rs_isInitialized t = rs_isInitialized s"
    "x = None \<longleftrightarrow> ra_winner rr = None"
    "\<And>r. x = Some r \<Longrightarrow> \<exists>w. ra_winner rr = Some w \<and> ri_relayUrl (pi_relayInfo r) = ri_relayUrl (pi_relayInfo w)"
proof -
  obtain rr s1 s2 where r: "settle S d (length rel) (se_order S rel) [] s = (Inr (Result rr), s1)"
    "handleRaceResults rr s1 = (Inr (), s2)" and
    f: "(case ra_winner rr of None \<Rightarrow> ret (Result None)
          | Some winner \<Rightarrow>
              if isInfoFromEvent (pi_relayInfo winner) then ret (Result (Some winner))
              else bnd (getRelayInfoForManagers (se_node S) (se_web3 S) (se_relayFilter S)
                     [pr_relayManagerAddress (pi_pingResponse winner)]) (\<lambda>events.
                case events of
                  [relayInfo] \<Rightarrow> ret (Result (Some \<lparr>pi_relayInfo = relayInfo\<lparr>ri_relayUrl := ri_relayUrl (pi_relayInfo winner)\<rparr>,
                      pi_pingResponse = pi_pingResponse winner\<rparr>))
                | _ \<Rightarrow> throw (Error ''Could not find register event for the winning preferred relay''))) s2 = (Inr (Result x), t)"
    using assms(1) unfolding nextRelayInternal_def raceToSuccess_def
    by (auto elim!: bnd_InrE andthen_InrE split: settles.splits)
  have ok: "race_ok (length rel) rel [] rr"
    using settle_result [OF r(1)] mset_eq_setD [OF assms(2)] by (simp add: race_ok_def)
  have s1: "rs_remainingRelays s1 = rs_remainingRelays s" "rs_isInitialized s1 = rs_isInitialized s"
    using alongD [OF along_kept_settle, of s S d "length rel" "se_order S rel" "[]"] r(1) by (simp_all add: rs_kept_def)
  have s2: "rs_remainingRelays s2 = remaining_after rr (rs_remainingRelays s1)" "rs_isInitialized s2 = rs_isInitialized s1"
    using handleRaceResults_Inr [OF r(2)] by simp_all
  have t: "rs_kept s2 t"
  proof (cases "ra_winner rr")
    case None then show ?thesis using f by (simp add: rs_kept_def)
  next
    case (Some w)
    show ?thesis
    proof (cases "isInfoFromEvent (pi_relayInfo w)")
      case True then show ?thesis using f Some by (simp add: rs_kept_def)
    next
      case False
      then obtain evs where "getRelayInfoForManagers (se_node S) (se_web3 S) (se_relayFilter S)
                     [pr_relayManagerAddress (pi_pingResponse w)] s2 = (Inr evs, t)"
        using f Some by (auto elim!: bnd_InrE split: list.splits)
      then show ?thesis using alongD [OF along_kept_info] by (metis snd_conv)
    qed
  qed
  have "x = None \<longleftrightarrow> ra_winner rr = None"
    using f by (cases "ra_winner rr"; cases x) (auto elim!: bnd_InrE split: if_splits list.splits)
  moreover have "\<exists>w. ra_winner rr = Some w \<and> ri_relayUrl (pi_relayInfo y) = ri_relayUrl (pi_relayInfo w)" if "x = Some y" for y
    using f that by (cases "ra_winner rr") (auto elim!: bnd_InrE split: if_splits list.splits)
  ultimately show thesis using that [OF ok] s1 s2 t by (simp add: rs_kept_def)
qed

text \<open>A slice is taken from the relays that remain.\<close>

lemma set_slice: "set (slice n rs) \<subseteq> set rs"
  by (simp add: slice_def Let_def set_take_subset)

lemma set_firstSlice: "set (firstSlice n rss) \<subseteq> set (concat rss)"
  using set_slice by (induction n rss rule: firstSlice.induct) fastforce+

lemma preferredSlice_subset:
  "getPreferredRelaysNextSlice S i s = (Inr rel, t) \<Longrightarrow> t = s \<and> (rs_remainingRelays s \<noteq> [] \<longrightarrow> set rel \<subseteq> set (relaysLeft s))"
proof -
  assume a: "getPreferredRelaysNextSlice S i s = (Inr rel, t)"
  have "set (slice n (drop i (hd rss))) \<subseteq> set (concat rss)" if "rss \<noteq> []" for n rss
    using that set_slice [of n "drop i (hd rss)"] set_drop_subset [of i "hd rss"] by (cases rss) auto
  then show ?thesis using a
    by (auto simp: getPreferredRelaysNextSlice_def relaysLeft_def bnd_run andthen_run Let_def split: if_splits)
qed

lemma nextSlice_subset: "getNextSlice S s = (Inr rel, t) \<Longrightarrow> t = s \<and> set rel \<subseteq> set (relaysLeft s)"
  using set_firstSlice by (auto simp: getNextSlice_def relaysLeft_def bnd_run andthen_run split: if_splits)

text \<open>One round of either loop: a failed one leaves fewer relays, a successful one removes the winner.\<close>

definition order_ok :: "'w selector \<Rightarrow> bool" where
  "order_ok S \<longleftrightarrow> (\<forall>rs. mset (se_order S rs) = mset rs)"

lemma round_None:
  assumes "nextRelayInternal S d rel s = (Inr (Result None), t)" "order_ok S" "rel \<noteq> []" "set rel \<subseteq> set (relaysLeft s)"
  shows "length (relaysLeft t) < length (relaysLeft s)" and "set (relaysLeft t) \<subseteq> set (relaysLeft s)"
    and "length (rs_remainingRelays t) = length (rs_remainingRelays s)"
    and "distinct (map ri_relayUrl (relaysLeft s)) \<Longrightarrow> distinct (map ri_relayUrl (relaysLeft t))"
proof -
  obtain rr where rr: "race_ok (length rel) rel [] rr" "rs_remainingRelays t = remaining_after rr (rs_remainingRelays s)"
    "ra_winner rr = None"
    by (rule nextRelayInternal_Result [OF assms(1)]) (use assms(2) in \<open>auto simp: order_ok_def\<close>)
  then have "ra_errors rr \<noteq> []" using assms(3) by (auto simp: race_ok_def)
  then obtain u where u: "u \<in> set (map fst (ra_errors rr))" by (cases "ra_errors rr") auto
  then obtain r where "r \<in> set rel" "ri_relayUrl r = u" using rr(1) by (auto simp: race_ok_def)
  then show "length (relaysLeft t) < length (relaysLeft s)"
    using remaining_after_smaller [of r "rs_remainingRelays s" rr] assms(4) u rr(2) by (auto simp: relaysLeft_def)
  show "set (relaysLeft t) \<subseteq> set (relaysLeft s)" using rr(2) by (auto simp: relaysLeft_def concat_remaining)
  show "length (rs_remainingRelays t) = length (rs_remainingRelays s)" using rr(2) by (simp add: remaining_after_def)
  show "distinct (map ri_relayUrl (relaysLeft s)) \<Longrightarrow> distinct (map ri_relayUrl (relaysLeft t))"
    using rr(2) by (simp add: relaysLeft_def concat_remaining distinct_map_filter)
qed

lemma round_Some:
  assumes "nextRelayInternal S d rel s = (Inr (Result (Some r)), t)" "order_ok S" "set rel \<subseteq> set (relaysLeft s)"
  shows "ri_relayUrl (pi_relayInfo r) \<in> ri_relayUrl ` set (relaysLeft s)"
    and "ri_relayUrl (pi_relayInfo r) \<notin> ri_relayUrl ` set (relaysLeft t)" and "set (relaysLeft t) \<subseteq> set (relaysLeft s)"
proof -
  obtain rr w where rr: "race_ok (length rel) rel [] rr" "rs_remainingRelays t = remaining_after rr (rs_remainingRelays s)"
    "ra_winner rr = Some w" "ri_relayUrl (pi_relayInfo r) = ri_relayUrl (pi_relayInfo w)"
    by (rule nextRelayInternal_Result [OF assms(1)]) (use assms(2) in \<open>auto simp: order_ok_def\<close>)
  then have "pi_relayInfo w \<in> set rel" by (simp add: race_ok_def)
  then show "ri_relayUrl (pi_relayInfo r) \<in> ri_relayUrl ` set (relaysLeft s)" using rr(4) assms(3) by auto
  show "ri_relayUrl (pi_relayInfo r) \<notin> ri_relayUrl ` set (relaysLeft t)"
    using rr(2,3,4) by (auto simp: relaysLeft_def concat_remaining remains_def)
  show "set (relaysLeft t) \<subseteq> set (relaysLeft s)" using rr(2) by (auto simp: relaysLeft_def concat_remaining)
qed

definition selected :: "partial_relay_info option settles \<Rightarrow> ('w, 'z) selection_state_scheme \<Rightarrow> ('w, 'z) selection_state_scheme \<Rightarrow> bool" where
  "selected x s t \<longleftrightarrow> x \<noteq> Spinning \<and> (\<forall>r. x = Result (Some r) \<longrightarrow>
     ri_relayUrl (pi_relayInfo r) \<in> ri_relayUrl ` set (relaysLeft s) \<and>
     ri_relayUrl (pi_relayInfo r) \<notin> ri_relayUrl ` set (relaysLeft t) \<and> set (relaysLeft t) \<subseteq> set (relaysLeft s))"

lemma race_not_spinning: "settle S d n rs errs s = (Inr x, t) \<Longrightarrow> x \<noteq> Spinning"
proof (induction rs arbitrary: errs s)
  case (Cons r rs)
  obtain q u where "getRelayAddressPing S d r s = (q, u)" by fastforce
  from Cons settle_round [OF this, of n rs errs] show ?case by (cases q) (auto split: if_splits)
qed simp

lemma internal_not_spinning: "nextRelayInternal S d rel s = (Inr x, t) \<Longrightarrow> x \<noteq> Spinning"
  unfolding nextRelayInternal_def raceToSuccess_def
  by (auto elim!: bnd_InrE andthen_InrE dest: race_not_spinning split: settles.splits option.splits if_splits list.splits)

lemma selected_weaken:
  "selected x u t \<Longrightarrow> set (relaysLeft u) \<subseteq> set (relaysLeft s) \<Longrightarrow> selected x s t"
  unfolding selected_def by blast

lemma nextOfAll_selected:
  "nextOfAll S d n s = (Inr x, t) \<Longrightarrow> order_ok S \<Longrightarrow> length (relaysLeft s) < n \<Longrightarrow> selected x s t"
proof (induction n arbitrary: s)
  case (Suc n)
  then obtain rel s1 where rel: "getNextSlice S s = (Inr rel, s1)" by (auto elim!: bnd_InrE)
  then have s1: "s1 = s" "set rel \<subseteq> set (relaysLeft s)" using nextSlice_subset by blast+
  show ?case
  proof (cases "rel = []")
    case True
    then have "x = Result None" using Suc.prems(1) rel by (simp add: bnd_run)
    then show ?thesis by (simp add: selected_def)
  next
    case False
    then obtain y u where y: "nextRelayInternal S d rel s = (Inr y, u)"
      "(case y of Result None \<Rightarrow> nextOfAll S d n | r \<Rightarrow> ret r) u = (Inr x, t)"
      using Suc.prems(1) rel s1(1) by (auto simp: bnd_run [of "getNextSlice S"] elim!: bnd_InrE)
    show ?thesis
    proof (cases "y = Result None")
      case True
      note r = round_None [OF y(1) [unfolded True] Suc.prems(2) False s1(2)]
      have "selected x u t" using y(2) True Suc.prems(2,3) r(1) by (intro Suc.IH) auto
      then show ?thesis using r(2) by (rule selected_weaken)
    next
      case other: False
      then have "x = y" "u = t" using y(2) by (auto split: settles.splits option.splits)
      then show ?thesis
        using internal_not_spinning [OF y(1)] round_Some [of S d rel s _ t] y(1) Suc.prems(2) s1(2)
        by (auto simp: selected_def)
    qed
  qed
qed simp

lemma nextOfPreferred_selected:
  "nextOfPreferred S d n i s = (Inr x, t) \<Longrightarrow> order_ok S \<Longrightarrow> rs_remainingRelays s \<noteq> [] \<Longrightarrow>
     length (relaysLeft s) < n \<Longrightarrow> selected x s t"
proof (induction n arbitrary: s i)
  case (Suc n)
  then obtain rel s1 where rel: "getPreferredRelaysNextSlice S i s = (Inr rel, s1)" by (auto elim!: bnd_InrE)
  then have s1: "s1 = s" "set rel \<subseteq> set (relaysLeft s)" using preferredSlice_subset Suc.prems(3) by blast+
  show ?case
  proof (cases "rel = []")
    case True
    then have "x = Result None" using Suc.prems(1) rel by (simp add: bnd_run)
    then show ?thesis by (simp add: selected_def)
  next
    case False
    then obtain y u where y: "nextRelayInternal S d rel s = (Inr y, u)"
      "(case y of Result None \<Rightarrow> nextOfPreferred S d n (i + length rel) | r \<Rightarrow> ret r) u = (Inr x, t)"
      using Suc.prems(1) rel s1(1) by (auto simp: bnd_run [of "getPreferredRelaysNextSlice S i"] elim!: bnd_InrE)
    show ?thesis
    proof (cases "y = Result None")
      case True
      note r = round_None [OF y(1) [unfolded True] Suc.prems(2) False s1(2)]
      have "rs_remainingRelays u \<noteq> []" using r(3) Suc.prems(3) by (metis length_0_conv)
      then have "selected x u t" using y(2) True Suc.prems(2,4) r(1) by (intro Suc.IH [of "i + length rel"]) auto
      then show ?thesis using r(2) by (rule selected_weaken)
    next
      case other: False
      then have "x = y" "u = t" using y(2) by (auto split: settles.splits option.splits)
      then show ?thesis
        using internal_not_spinning [OF y(1)] round_Some [of S d rel s _ t] y(1) Suc.prems(2) s1(2)
        by (auto simp: selected_def)
    qed
  qed
qed simp

lemma selectNextRelay_selected:
  assumes "selectNextRelay S d s = (Inr x, t)" "order_ok S" "rs_remainingRelays s \<noteq> []"
  shows "selected x s t"
proof (cases "or_else (td_onlyPreferredRelays d) False")
  case True
  then show ?thesis using assms by (intro nextOfPreferred_selected) (auto simp: selectNextRelay_def bnd_run)
next
  case False
  then show ?thesis using assms by (intro nextOfAll_selected) (auto simp: selectNextRelay_def bnd_run)
qed


text \<open>With one URL per relay every race settles, so the selection does.\<close>

lemma distinct_slice: "distinct (map f relays) \<Longrightarrow> distinct (map f (slice n relays))"
  by (simp add: slice_def Let_def take_map [symmetric] distinct_take)

lemma distinct_firstSlice: "distinct (map f (concat rss)) \<Longrightarrow> distinct (map f (firstSlice n rss))"
  by (induction n rss rule: firstSlice.induct) (simp_all add: distinct_slice)

lemma nextSlice_distinct:
  "getNextSlice S s = (Inr rel, t) \<Longrightarrow> distinct (map ri_relayUrl (relaysLeft s)) \<Longrightarrow> distinct (map ri_relayUrl rel)"
  by (auto simp: getNextSlice_def relaysLeft_def bnd_run andthen_run distinct_firstSlice split: if_splits)

lemma preferredSlice_distinct:
  assumes "getPreferredRelaysNextSlice S i s = (Inr rel, t)" "distinct (map ri_relayUrl (relaysLeft s))" "rs_remainingRelays s \<noteq> []"
  shows "distinct (map ri_relayUrl rel)"
proof -
  have "distinct (map ri_relayUrl (hd (rs_remainingRelays s)))" using assms(2,3) by (cases "rs_remainingRelays s") (auto simp: relaysLeft_def)
  then have "distinct (map ri_relayUrl (drop i (hd (rs_remainingRelays s))))" by (simp add: drop_map [symmetric])
  from distinct_slice [OF this] show ?thesis using assms(1)
    by (auto simp: getPreferredRelaysNextSlice_def bnd_run andthen_run Let_def split: if_splits)
qed

lemma internal_answers:
  assumes "nextRelayInternal S d rel s = (Inr x, t)" "order_ok S" "distinct (map ri_relayUrl rel)" "rel \<noteq> []"
  shows "x \<noteq> Never"
proof -
  have m: "mset (se_order S rel) = mset rel" using assms(2) by (simp add: order_ok_def)
  then have "distinct (map ri_relayUrl (se_order S rel))"
    using assms(3) by (metis distinct_map mset_eq_imp_distinct_iff mset_eq_setD)
  moreover have "length (se_order S rel) = length rel" using m by (metis size_mset)
  moreover from this have "se_order S rel \<noteq> []" using assms(4) by auto
  ultimately obtain rr u where "settle S d (length rel) (se_order S rel) [] s = (Inr (Result rr), u)"
    using settle_settles [of "se_order S rel" "[]" "length rel" S d s] by auto
  then show ?thesis using assms(1)
    by (auto simp: nextRelayInternal_def raceToSuccess_def bnd_run [of "settle S d n rs e" for n rs e]
        elim!: bnd_InrE andthen_InrE split: option.splits if_splits list.splits)
qed

lemma nextOfAll_answers:
  "nextOfAll S d n s = (Inr x, t) \<Longrightarrow> order_ok S \<Longrightarrow> distinct (map ri_relayUrl (relaysLeft s)) \<Longrightarrow> x \<noteq> Never"
proof (induction n arbitrary: s)
  case (Suc n)
  then obtain rel s1 where rel: "getNextSlice S s = (Inr rel, s1)" by (auto elim!: bnd_InrE)
  then have s1: "s1 = s" "set rel \<subseteq> set (relaysLeft s)" using nextSlice_subset by blast+
  show ?case
  proof (cases "rel = []")
    case True
    then have "x = Result None" using Suc.prems(1) rel by (simp add: bnd_run)
    then show ?thesis by simp
  next
    case False
    then obtain y u where y: "nextRelayInternal S d rel s = (Inr y, u)"
      "(case y of Result None \<Rightarrow> nextOfAll S d n | r \<Rightarrow> ret r) u = (Inr x, t)"
      using Suc.prems(1) rel s1(1) by (auto simp: bnd_run [of "getNextSlice S"] elim!: bnd_InrE)
    have "y \<noteq> Never" by (rule internal_answers [OF y(1) Suc.prems(2) nextSlice_distinct [OF rel Suc.prems(3)] False])
    moreover have "x \<noteq> Never" if "y = Result None"
      using y that Suc.IH [of u] Suc.prems(2,3) round_None(4) [OF _ Suc.prems(2) False s1(2)] by simp
    ultimately show ?thesis using y(2) by (cases "y = Result None") (auto split: settles.splits option.splits)
  qed
qed simp

lemma nextOfPreferred_answers:
  "nextOfPreferred S d n i s = (Inr x, t) \<Longrightarrow> order_ok S \<Longrightarrow> rs_remainingRelays s \<noteq> [] \<Longrightarrow>
     distinct (map ri_relayUrl (relaysLeft s)) \<Longrightarrow> x \<noteq> Never"
proof (induction n arbitrary: s i)
  case (Suc n)
  then obtain rel s1 where rel: "getPreferredRelaysNextSlice S i s = (Inr rel, s1)" by (auto elim!: bnd_InrE)
  then have s1: "s1 = s" "set rel \<subseteq> set (relaysLeft s)" using preferredSlice_subset Suc.prems(3) by blast+
  show ?case
  proof (cases "rel = []")
    case True
    then have "x = Result None" using Suc.prems(1) rel by (simp add: bnd_run)
    then show ?thesis by simp
  next
    case False
    then obtain y u where y: "nextRelayInternal S d rel s = (Inr y, u)"
      "(case y of Result None \<Rightarrow> nextOfPreferred S d n (i + length rel) | r \<Rightarrow> ret r) u = (Inr x, t)"
      using Suc.prems(1) rel s1(1) by (auto simp: bnd_run [of "getPreferredRelaysNextSlice S i"] elim!: bnd_InrE)
    have "y \<noteq> Never"
      by (rule internal_answers [OF y(1) Suc.prems(2) preferredSlice_distinct [OF rel Suc.prems(4,3)] False])
    moreover have "x \<noteq> Never" if "y = Result None"
    proof (rule Suc.IH [of "i + length rel" u])
      note r = round_None [OF y(1) [unfolded that] Suc.prems(2) False s1(2)]
      show "nextOfPreferred S d n (i + length rel) u = (Inr x, t)" using y(2) that by simp
      show "rs_remainingRelays u \<noteq> []" using r(3) Suc.prems(3) by (metis length_0_conv)
      show "distinct (map ri_relayUrl (relaysLeft u))" by (rule r(4) [OF Suc.prems(4)])
    qed (rule Suc.prems(2))
    ultimately show ?thesis using y(2) by (cases "y = Result None") (auto split: settles.splits option.splits)
  qed
qed simp

lemma selectNextRelay_answers:
  assumes "selectNextRelay S d s = (Inr x, t)" "order_ok S" "rs_remainingRelays s \<noteq> []" "distinct (map ri_relayUrl (relaysLeft s))"
  shows "\<exists>r. x = Result r"
proof -
  have "x \<noteq> Never"
  proof (cases "or_else (td_onlyPreferredRelays d) False")
    case True
    then have "nextOfPreferred S d (Suc (length (relaysLeft s))) 0 s = (Inr x, t)"
      using assms(1) by (simp add: selectNextRelay_def bnd_run del: nextOfPreferred.simps)
    then show ?thesis using assms(2-4) by (rule nextOfPreferred_answers)
  next
    case False
    then have "nextOfAll S d (Suc (length (relaysLeft s))) s = (Inr x, t)"
      using assms(1) by (simp add: selectNextRelay_def bnd_run del: nextOfAll.simps)
    then show ?thesis using assms(2,4) by (rule nextOfAll_answers)
  qed
  moreover have "x \<noteq> Spinning" using selectNextRelay_selected [OF assms(1-3)] by (simp add: selected_def)
  ultimately show ?thesis by (cases x) auto
qed

end
