(* ===== verification/Signing.thy ===== *)
theory Signing
  imports RelaySelection
begin

text \<open>
  What is signed and how it is checked: the typed data of EIP-712
  (\<open>src/common/EIP712/TypedRequestData.ts\<close>), the accounts of the client
  (\<open>src/relayclient/AccountManager.ts\<close>) and the validation of the transaction a relay returns
  (\<open>src/relayclient/RelayedTransactionValidator.ts\<close>). Signing and recovering (eth-sig-util), wallets
  and the provider's signature are parameters.
\<close>

section \<open>Typed data\<close>

type_synonym type_property = "string \<times> string"

definition EIP712DomainType :: "type_property list" where
  "EIP712DomainType = [(''name'', ''string''), (''version'', ''string''), (''chainId'', ''uint256''),
     (''verifyingContract'', ''address'')]"

definition RelayDataType :: "type_property list" where
  "RelayDataType = [(''gasPrice'', ''uint256''), (''domainSeparator'', ''bytes32''), (''relayWorker'', ''address''),
     (''callForwarder'', ''address''), (''callVerifier'', ''address'')]"

definition ForwardRequestType :: "type_property list" where
  "ForwardRequestType = [(''relayHub'', ''address''), (''from'', ''address''), (''to'', ''address''),
     (''tokenContract'', ''address''), (''value'', ''uint256''), (''gas'', ''uint256''), (''nonce'', ''uint256''),
     (''tokenAmount'', ''uint256''), (''tokenGas'', ''uint256''), (''data'', ''bytes'')]"

definition DeployRequestDataType :: "type_property list" where
  "DeployRequestDataType = [(''relayHub'', ''address''), (''from'', ''address''), (''to'', ''address''),
     (''tokenContract'', ''address''), (''recoverer'', ''address''), (''value'', ''uint256''), (''nonce'', ''uint256''),
     (''tokenAmount'', ''uint256''), (''tokenGas'', ''uint256''), (''index'', ''uint256''), (''data'', ''bytes'')]"

definition RelayRequestType :: "type_property list" where
  "RelayRequestType = ForwardRequestType @ [(''relayData'', ''RelayData'')]"

definition DeployRequestType :: "type_property list" where
  "DeployRequestType = DeployRequestDataType @ [(''relayData'', ''RelayData'')]"

definition ENVELOPING_PARAMS :: string where
  "ENVELOPING_PARAMS = ''address relayHub,address from,address to,address tokenContract,uint256 value,uint256 gas,uint256 nonce,uint256 tokenAmount,uint256 tokenGas,bytes data''"

definition DEPLOY_PARAMS :: string where
  "DEPLOY_PARAMS = ''address relayHub,address from,address to,address tokenContract,address recoverer,uint256 value,uint256 nonce,uint256 tokenAmount,uint256 tokenGas,uint256 index,bytes data''"

definition RequestType_typeSuffix :: string where
  "RequestType_typeSuffix = ''RelayData relayData)RelayData(uint256 gasPrice,bytes32 domainSeparator,address relayWorker,address callForwarder,address callVerifier)''"

record eip712_domain =
  dm_name :: string
  dm_version :: string
  dm_chainId :: int
  dm_verifyingContract :: string

definition getDomainSeparator :: "string \<Rightarrow> int \<Rightarrow> eip712_domain" where
  "getDomainSeparator verifyingContract chainId =
     \<lparr>dm_name = ''RSK Enveloping Transaction'', dm_version = ''2'', dm_chainId = chainId,
      dm_verifyingContract = verifyingContract\<rparr>"

text \<open>\<open>getDomainSeparatorHash\<close>: the hash of the domain is a parameter.\<close>

definition getDomainSeparatorHash :: "web3_utils \<Rightarrow> string \<Rightarrow> int \<Rightarrow> string" where
  "getDomainSeparatorHash W verifier chainId = w3_domainHash W verifier chainId"

text \<open>
  The objects of a message are finite maps: each place that builds a request lists the members in an order
  of its own, and they are encoded in the order of the type. Only the text \<open>JSON.stringify\<close> makes of a message
  shows the order, and that function is a parameter.
\<close>

datatype message_value = Field string | Nested "string \<rightharpoonup> string"

record typed_data =
  ty_types :: "(string \<times> type_property list) list"
  ty_domain :: eip712_domain
  ty_primaryType :: string
  ty_message :: "string \<rightharpoonup> message_value"

definition relayData_members :: "relay_data \<Rightarrow> string \<rightharpoonup> string" where
  "relayData_members d = [''gasPrice'' \<mapsto> rd_gasPrice d, ''domainSeparator'' \<mapsto> rd_domainSeparator d,
     ''relayWorker'' \<mapsto> rd_relayWorker d, ''callForwarder'' \<mapsto> rd_callForwarder d, ''callVerifier'' \<mapsto> rd_callVerifier d]"

definition request_members :: "signed_request \<Rightarrow> string \<rightharpoonup> string" where
  "request_members r = (case r of
     RelayRequest q _ \<Rightarrow> [''relayHub'' \<mapsto> fr_relayHub q, ''from'' \<mapsto> fr_from q, ''to'' \<mapsto> fr_to q,
       ''tokenContract'' \<mapsto> fr_tokenContract q, ''value'' \<mapsto> fr_value q, ''gas'' \<mapsto> fr_gas q, ''nonce'' \<mapsto> fr_nonce q,
       ''tokenAmount'' \<mapsto> fr_tokenAmount q, ''tokenGas'' \<mapsto> fr_tokenGas q, ''data'' \<mapsto> fr_data q]
   | DeployRequest q _ \<Rightarrow> [''relayHub'' \<mapsto> dr_relayHub q, ''from'' \<mapsto> dr_from q, ''to'' \<mapsto> dr_to q,
       ''tokenContract'' \<mapsto> dr_tokenContract q, ''recoverer'' \<mapsto> dr_recoverer q, ''value'' \<mapsto> dr_value q,
       ''nonce'' \<mapsto> dr_nonce q, ''tokenAmount'' \<mapsto> dr_tokenAmount q, ''tokenGas'' \<mapsto> dr_tokenGas q,
       ''index'' \<mapsto> dr_index q, ''data'' \<mapsto> dr_data q])"

text \<open>\<open>TypedRequestData\<close> and \<open>TypedDeployRequestData\<close>\<close>

definition typedRequestData :: "int \<Rightarrow> string \<Rightarrow> signed_request \<Rightarrow> typed_data" where
  "typedRequestData chainId verifier r =
     \<lparr>ty_types = [(''EIP712Domain'', EIP712DomainType),
        (''RelayRequest'', if isDeploy r then DeployRequestType else RelayRequestType), (''RelayData'', RelayDataType)],
      ty_domain = getDomainSeparator verifier chainId,
      ty_primaryType = ''RelayRequest'',
      ty_message = (map_option Field \<circ> request_members r)(''relayData'' \<mapsto> Nested (relayData_members (relayData r)))\<rparr>"

text \<open>The type string of a list of members, as the contracts register it.\<close>

definition encode_members :: "type_property list \<Rightarrow> string" where
  "encode_members ms = (case map (\<lambda>(n, t). t @ '' '' @ n) ms of [] \<Rightarrow> ''''
     | x # r \<Rightarrow> x @ concat (map (\<lambda>y. '','' @ y) r))"

section \<open>Accounts\<close>

record ('w, 'k) account_state = "'w selection_state" +
  ac_accounts :: "(string \<times> 'k) list"

record ('w, 'k) signer =
  sg_address :: "'k \<Rightarrow> string"
  sg_generate :: "('w, 'k) js"
  sg_signTypedData :: "'k \<Rightarrow> typed_data \<Rightarrow> exn + string"
  sg_recover :: "typed_data \<Rightarrow> string \<Rightarrow> exn + string"
  sg_signWithProvider :: "typed_data \<Rightarrow> ('w, string) js"
  sg_chainId :: int

definition addAccount :: "('w, 'k) signer \<Rightarrow> string \<Rightarrow> 'k \<Rightarrow> (('w, 'k, 'z) account_state_scheme, unit) js" where
  "addAccount G address privateKey =
     andthen (throw_if (\<not> isSameAddress (sg_address G privateKey) address) ''invalid keypair'')
     (modify (\<lambda>s. s\<lparr>ac_accounts := ac_accounts s @ [(address, privateKey)]\<rparr>))"

definition newAccount :: "('w, 'k) signer \<Rightarrow> (('w, 'k, 'z) account_state_scheme, string \<times> 'k) js" where
  "newAccount G = bnd (io (sg_generate G)) (\<lambda>k.
     andthen (addAccount G (sg_address G k) k) (ret (sg_address G k, k)))"

definition getAccounts :: "('w, 'k, 'z) account_state_scheme \<Rightarrow> string list" where
  "getAccounts s = map fst (ac_accounts s)"

text \<open>An error in a template string.\<close>

definition exn_text :: "web3_utils \<Rightarrow> exn \<Rightarrow> string" where
  "exn_text W e = (case message e of Some m \<Rightarrow> ''Error: '' @ m | None \<Rightarrow> w3_stringify W e)"

definition sign ::
  "web3_utils \<Rightarrow> ('w, 'k) signer \<Rightarrow> signed_request \<Rightarrow> (('w, 'k, 'z) account_state_scheme, string) js" where
  "sign W G r =
     (let signedData = typedRequestData (sg_chainId G) (rd_callForwarder (relayData r)) r in
      bnd (gets (\<lambda>s. find (\<lambda>(address, _). isSameAddress address (request_from r)) (ac_accounts s))) (\<lambda>keypair.
      bnd (catching
        (bnd (case keypair of
            Some (_, privateKey) \<Rightarrow> of_result (sg_signTypedData G privateKey signedData)
          | None \<Rightarrow> io (sg_signWithProvider G signedData)) (\<lambda>signature.
         bnd (of_result (sg_recover G signedData signature)) (\<lambda>recovered. ret (signature, recovered))))
        (\<lambda>e. throw (Error (''Failed to sign relayed transaction for '' @ request_from r @ '': '' @ exn_text W e))))
        (\<lambda>(signature, recovered).
      andthen (throw_if (\<not> isSameAddress (toLowerCase (request_from r)) recovered)
        (''Internal RelayClient exception: signature is not correct: sender='' @ request_from r @ '', recovered='' @ recovered))
      (ret signature))))"

section \<open>The relay's response\<close>

definition encodeCall :: "web3_utils \<Rightarrow> relay_transaction_request \<Rightarrow> string" where
  "encodeCall W request = (let r = relayRequest request; signature = md_signature (metadata request) in
     w3_encodeABI W (if isDeploy r then DeployCall r signature else RelayCall r signature))"

definition validateRelayResponse ::
  "('k, 't) txlib \<Rightarrow> web3_utils \<Rightarrow> enveloping_config \<Rightarrow> relay_transaction_request \<Rightarrow> string \<Rightarrow>
   (('w, 'z) interactor_scheme, bool) js" where
  "validateRelayResponse T W cfg request returnedTx =
     andthen ci_getRawTxOptions
     (bnd (of_result (t_decode T returnedTx)) (\<lambda>transaction.
      bnd (of_result (t_sender T transaction)) (\<lambda>signer.
        if isSameAddress (t_to T transaction) (ec_relayHubAddress cfg) \<and>
           encodeCall W request = t_data T transaction \<and>
           isSameAddress (rd_relayWorker (relayData (relayRequest request))) signer
        then andthen (throw_if (md_relayMaxNonce (metadata request) < t_nonce T transaction)
              (''Relay used a tx nonce higher than requested. Requested '' @
               int_str (md_relayMaxNonce (metadata request)) @ '' got '' @ int_str (t_nonce T transaction)))
            (ret True)
        else ret False)))"

section \<open>Lemmas\<close>

text \<open>The strings registered with the contracts are those of the types that are signed.\<close>

lemma type_strings:
  "encode_members ForwardRequestType = ENVELOPING_PARAMS"
  "encode_members DeployRequestDataType = DEPLOY_PARAMS"
  "''RelayData relayData)RelayData('' @ encode_members RelayDataType @ '')'' = RequestType_typeSuffix"
  by (simp_all add: encode_members_def ForwardRequestType_def DeployRequestDataType_def RelayDataType_def
      ENVELOPING_PARAMS_def DEPLOY_PARAMS_def RequestType_typeSuffix_def)

text \<open>
  What a signature over typed data covers, as EIP-712 encodes it: the members of the primary type in the order of the
  type, each with its type and value, and in place of an object the members of the type of that object. A request and
  what is signed of it determine each other: no member of a request is left out.
\<close>

definition member_values ::
  "(string \<times> type_property list) list \<Rightarrow> type_property \<Rightarrow> message_value option \<Rightarrow> (type_property \<times> string option) list" where
  "member_values types p v = (case v of
     Some (Nested f) \<Rightarrow> map (\<lambda>q. (q, f (fst q))) (case map_of types (snd p) of None \<Rightarrow> [] | Some ms \<Rightarrow> ms)
   | Some (Field x) \<Rightarrow> [(p, Some x)]
   | None \<Rightarrow> [(p, None)])"

definition signed_members :: "typed_data \<Rightarrow> (type_property \<times> string option) list" where
  "signed_members d = (case map_of (ty_types d) (ty_primaryType d) of None \<Rightarrow> []
     | Some ms \<Rightarrow> concat (map (\<lambda>p. member_values (ty_types d) p (ty_message d (fst p))) ms))"

lemmas signed_defs = signed_members_def member_values_def typedRequestData_def request_members_def relayData_members_def
  RelayRequestType_def ForwardRequestType_def DeployRequestType_def DeployRequestDataType_def RelayDataType_def

lemma signed_members_iff:
  "signed_members (typedRequestData c v r) = signed_members (typedRequestData c' v' r') \<longleftrightarrow> r = r'"
proof (cases r; cases r')
  fix q d q' d' assume r: "r = RelayRequest q d" "r' = RelayRequest q' d'"
  show ?thesis unfolding r by (cases q; cases q'; cases d; cases d') (auto simp: signed_defs)
next
  fix q d q' d' assume r: "r = DeployRequest q d" "r' = DeployRequest q' d'"
  show ?thesis unfolding r by (cases q; cases q'; cases d; cases d') (auto simp: signed_defs)
qed (simp_all add: signed_defs)

lemma signed_members_defined:
  "map fst (signed_members (typedRequestData c v r)) =
     (if isDeploy r then DeployRequestDataType else ForwardRequestType) @ RelayDataType"
  "None \<notin> snd ` set (signed_members (typedRequestData c v r))"
  by (cases r; simp add: signed_defs)+

text \<open>A signature that is returned recovers to the sender.\<close>

lemma sign_Inr:
  assumes "sign W G r s = (Inr signature, t)"
  shows "\<exists>a. sg_recover G (typedRequestData (sg_chainId G) (rd_callForwarder (relayData r)) r) signature = Inr a \<and>
    isSameAddress (request_from r) a"
proof -
  let ?d = "typedRequestData (sg_chainId G) (rd_callForwarder (relayData r)) r"
  obtain p s1 where p: "(\<lambda>(signature, recovered). sg_recover G ?d signature = Inr recovered) p"
    and r: "(\<lambda>(signature, recovered).
      andthen (throw_if (\<not> isSameAddress (toLowerCase (request_from r)) recovered)
        (''Internal RelayClient exception: signature is not correct: sender='' @ request_from r @ '', recovered='' @ recovered))
      (ret signature)) p s1 = (Inr signature, t)"
    using assms
    by (auto simp: sign_def Let_def catching_run elim!: bnd_InrE split: prod.splits sum.splits)
  show ?thesis using p r
    by (auto simp: isSameAddress_def elim!: andthen_InrE dest!: throw_if_InrD split: prod.splits)
qed

text \<open>Which responses the client accepts.\<close>

lemma validateRelayResponse_True:
  "validateRelayResponse T W cfg request tx s = (Inr True, t) \<longleftrightarrow> t = s \<and> ci_rawTxOptions s \<noteq> None \<and>
     (\<exists>x a. t_decode T tx = Inr x \<and> t_sender T x = Inr a \<and> isSameAddress (t_to T x) (ec_relayHubAddress cfg) \<and>
       encodeCall W request = t_data T x \<and> isSameAddress (rd_relayWorker (relayData (relayRequest request))) a \<and>
       t_nonce T x \<le> md_relayMaxNonce (metadata request))"
  by (auto simp: validateRelayResponse_def ci_getRawTxOptions_def andthen_run bnd_run split: option.splits sum.splits if_splits)

end
