(* ===== verification/RelayClient.thy ===== *)
theory RelayClient
  imports Signing
begin

text \<open>
  \<open>src/relayclient/RelayClient.ts\<close>: building, signing and checking a request and handing it to one
  relay after the other. \<open>client\<close> holds the collaborators; the state adds whether the contract
  interactor is initialized. The details of the transaction are the caller's object, which the code
  updates in place; the model passes the updated record on. Events for listeners and logging are
  left out. A promise that never settles is \<open>Never\<close>, as in relay selection.
\<close>

record ('w, 'k) client_state = "('w, 'k) account_state" +
  cl_initialized :: bool

record ('w, 'k, 'q, 't) client =
  cl_selector :: "'w selector"
  cl_signer :: "('w, 'k) signer"
  cl_txlib :: "('q, 't) txlib"

abbreviation cl_node :: "('w, 'k, 'q, 't) client \<Rightarrow> 'w node" where
  "cl_node C \<equiv> se_node (cl_selector C)"
abbreviation cl_web3 :: "('w, 'k, 'q, 't) client \<Rightarrow> web3_utils" where
  "cl_web3 C \<equiv> se_web3 (cl_selector C)"
abbreviation cl_config :: "('w, 'k, 'q, 't) client \<Rightarrow> enveloping_config" where
  "cl_config C \<equiv> se_config (cl_selector C)"

definition GasPricePingFilter :: "ping_response \<Rightarrow> transaction_details \<Rightarrow> exn + unit" where
  "GasPricePingFilter pingResponse d = (case td_gasPrice d of
     None \<Rightarrow> Inr ()
   | Some g \<Rightarrow> if num_lt (parseInt g) (parseInt (pr_minGasPrice pingResponse))
       then Inl (Error (''Proposed gas price: '' @ g @ ''; relay's MinGasPrice: '' @ pr_minGasPrice pingResponse))
       else Inr ())"

section \<open>Broadcasting\<close>

text \<open>\<open>Promise.all\<close> of two requests: both are sent, and the first one's rejection is the result.\<close>

definition both :: "('s, 'a) js \<Rightarrow> ('s, 'b) js \<Rightarrow> ('s, 'a \<times> 'b) js" where
  "both m n = (\<lambda>s. case m s of (r, t) \<Rightarrow> (case n t of (q, u) \<Rightarrow>
     (case r of Inl e \<Rightarrow> Inl e | Inr x \<Rightarrow> map_sum id (Pair x) q, u)))"

record broadcast_result =
  br_hasReceipt :: bool
  br_broadcastError :: "exn option"
  br_wrongNonce :: "bool option"

definition isAlreadySubmitted :: "'w node \<Rightarrow> string \<Rightarrow> (('w, 'z) net_scheme, bool) js" where
  "isAlreadySubmitted N txHash =
     bnd (both (io (n_getTransactionReceipt N txHash)) (io (n_getTransaction N txHash)))
       (\<lambda>(txMinedReceipt, pendingTransaction). ret (txMinedReceipt \<noteq> None \<or> pendingTransaction \<noteq> None))"

definition broadcastRawTx ::
  "'w node \<Rightarrow> ('q, 't) txlib \<Rightarrow> 't \<Rightarrow> (('w, 'z) net_scheme, broadcast_result) js" where
  "broadcastRawTx N T transaction =
     catching
       (bnd (isAlreadySubmitted N (t_hash T transaction)) (\<lambda>submitted.
          if submitted then ret \<lparr>br_hasReceipt = True, br_broadcastError = None, br_wrongNonce = None\<rparr>
          else andthen (io (n_sendSignedTransaction N (t_raw T transaction)))
            (ret \<lparr>br_hasReceipt = True, br_broadcastError = None, br_wrongNonce = None\<rparr>)))
       (\<lambda>broadcastError. case message broadcastError of
          None \<Rightarrow> throw (Error ''Cannot read property 'match' of undefined'')
        | Some m \<Rightarrow>
            if has_substring m ''the tx doesn't have the correct nonce'' \<or> has_substring m ''known transaction''
            then ret \<lparr>br_hasReceipt = False, br_broadcastError = Some broadcastError, br_wrongNonce = Some True\<rparr>
            else ret \<lparr>br_hasReceipt = False, br_broadcastError = Some broadcastError, br_wrongNonce = None\<rparr>)"

definition rc_init :: "('w, 'k, 'q, 't) client \<Rightarrow> (('w, 'k, 'z) client_state_scheme, unit) js" where
  "rc_init C = bnd (gets cl_initialized) (\<lambda>i. if i then ret ()
     else andthen (ci_init (cl_node C) (cl_web3 C) (cl_config C)) (modify (\<lambda>s. s\<lparr>cl_initialized := True\<rparr>)))"

section \<open>Gas\<close>

definition calculateGasPrice :: "('w, 'k, 'q, 't) client \<Rightarrow> (('w, 'z) net_scheme, string) js" where
  "calculateGasPrice C =
     bnd (io (n_getGasPrice (cl_node C))) (\<lambda>networkGasPrice.
       let pct = ec_gasPriceFactorPercent (cl_config C);
           gasPrice = math_round (num_div (num_mul (parseInt networkGasPrice) (num (pct + 100))) 100);
           gasPrice = (if num_lt gasPrice (num (ec_minGasPrice (cl_config C)))
             then num (ec_minGasPrice (cl_config C)) else gasPrice)
       in ret (case gasPrice of None \<Rightarrow> ''0xNaN''
            | Some x \<Rightarrow> if x < 0 then ''0x-'' @ digits_in 16 (nat \<lfloor>- x\<rfloor>) else hex_str \<lfloor>x\<rfloor>))"

definition resolveForwarder :: "transaction_details \<Rightarrow> exn + string" where
  "resolveForwarder d = (let forwarderAddress = or_else (td_callForwarder d) ZERO_ADDRESS in
     if forwarderAddress = ZERO_ADDRESS then Inl (Error ''No callForwarder address configured'')
     else Inr forwarderAddress)"

definition getEstimateGasParams :: "transaction_details \<Rightarrow> exn + call_params" where
  "getEstimateGasParams d = map_sum id (\<lambda>forwarder.
     \<lparr>cp_from = forwarder, cp_to = Some (td_to d), cp_data = Some (td_data d), cp_gasPrice = td_gasPrice d,
      cp_gas = None\<rparr>) (resolveForwarder d)"

text \<open>Whose balance of the token is moved; \<open>None\<close> when there is no token payment to estimate.\<close>

definition tokenOrigin :: "web3_utils \<Rightarrow> transaction_details \<Rightarrow> exn + string option" where
  "tokenOrigin W d =
     (if or_else (td_tokenContract d) ZERO_ADDRESS = ZERO_ADDRESS then Inr None
      else case w3_toBN W (or_else (td_tokenAmount d) ''0'') of
        Inl e \<Rightarrow> Inl e
      | Inr amount \<Rightarrow>
          if amount \<le> 0 then Inr None
          else if or_else (td_isSmartWalletDeploy d) False then
            (let smartWalletAddress = or_else (td_smartWalletAddress d) ZERO_ADDRESS in
             if smartWalletAddress = ZERO_ADDRESS
             then Inl (Error ''In a deploy, if tokenGas is not defined, then the calculated SmartWallet address is needed to estimate the tokenGas value'')
             else Inr (Some smartWalletAddress))
          else map_sum id Some (resolveForwarder d))"

definition estimateTokenTransferGas ::
  "('w, 'k, 'q, 't) client \<Rightarrow> transaction_details \<Rightarrow> string \<Rightarrow> (('w, 'z) net_scheme, number) js" where
  "estimateTokenTransferGas C d relayWorker =
     bnd (of_result (tokenOrigin (cl_web3 C) d)) (\<lambda>origin.
     bnd (case origin of
         None \<Rightarrow> ret 0
       | Some a \<Rightarrow> if a = ZERO_ADDRESS then ret 0
           else io (n_estimateGas (cl_node C)
             \<lparr>cp_from = a, cp_to = Some (or_else (td_tokenContract d) ZERO_ADDRESS),
              cp_data = Some (w3_encodeTransfer (cl_web3 C) relayWorker (or_else (td_tokenAmount d) ''0'')),
              cp_gasPrice = td_gasPrice d, cp_gas = None\<rparr>)) (\<lambda>gasCost.
     let internalCallCost = (if gasCost > INTERNAL_TRANSACTION_ESTIMATE_CORRECTION
           then gasCost - INTERNAL_TRANSACTION_ESTIMATE_CORRECTION else gasCost)
     in ret (num_mul (num internalCallCost) ESTIMATED_GAS_CORRECTION_FACTOR)))"

section \<open>Requests\<close>

definition addressOrZero :: "string option \<Rightarrow> string" where
  "addressOrZero a = or_else a ZERO_ADDRESS"

text \<open>\<open>parseInt(hex, 16).toString()\<close> of a string that must start with \<open>0x\<close>\<close>

definition decimal_of_hex :: "string \<Rightarrow> string \<Rightarrow> exn + string" where
  "decimal_of_hex name hex = (if \<not> startsWith hex ''0x''
     then Inl (Error (''Invalid '' @ name @ '' hex string: '' @ hex)) else Inr (number_str (parseInt16 hex)))"

text \<open>The signature and the metadata, which both kinds of requests share.\<close>

definition signAndComplete ::
  "('w, 'k, 'q, 't) client \<Rightarrow> signed_request \<Rightarrow> (('w, 'k, 'z) account_state_scheme, relay_transaction_request) js" where
  "signAndComplete C r =
     bnd (sign (cl_web3 C) (cl_signer C) r) (\<lambda>signature.
     bnd (io (n_getTransactionCount (cl_node C) (rd_relayWorker (relayData r)) None)) (\<lambda>transactionCount.
     ret \<lparr>relayRequest = r, metadata =
       \<lparr>md_relayHubAddress = ec_relayHubAddress (cl_config C),
        md_relayMaxNonce = transactionCount + ec_maxRelayNonceGap (cl_config C), md_signature = signature\<rparr>\<rparr>))"

definition prepareDeployHttpRequest ::
  "('w, 'k, 'q, 't) client \<Rightarrow> string \<Rightarrow> transaction_details \<Rightarrow>
   (('w, 'k, 'z) account_state_scheme, relay_transaction_request) js" where
  "prepareDeployHttpRequest C relayWorker d =
     bnd (of_result (resolveForwarder d)) (\<lambda>forwarderAddress.
     bnd (getFactoryNonce (cl_node C) forwarderAddress (td_from d)) (\<lambda>senderNonce.
     case td_gasPrice d of
       None \<Rightarrow> throw (Error ''RelayClient internal exception. Gas price not calculated. Cannot happen.'')
     | Some gasPriceHex \<Rightarrow>
         bnd (of_result (decimal_of_hex ''gasPrice'' gasPriceHex)) (\<lambda>gasPrice.
         signAndComplete C (DeployRequest
           \<lparr>dr_relayHub = addressOrZero (td_relayHub d), dr_from = td_from d, dr_to = td_to d,
            dr_tokenContract = addressOrZero (td_tokenContract d), dr_recoverer = addressOrZero (td_recoverer d),
            dr_value = or_else (td_value d) ''0'', dr_nonce = senderNonce,
            dr_tokenAmount = or_else (td_tokenAmount d) ''0x00'', dr_tokenGas = or_else (td_tokenGas d) ''0x00'',
            dr_index = or_else (td_index d) ''0'', dr_data = td_data d\<rparr>
           \<lparr>rd_gasPrice = gasPrice,
            rd_domainSeparator = getDomainSeparatorHash (cl_web3 C) forwarderAddress (sg_chainId (cl_signer C)),
            rd_relayWorker = relayWorker, rd_callForwarder = forwarderAddress,
            rd_callVerifier = or_else (td_callVerifier d) (ec_deployVerifierAddress (cl_config C))\<rparr>))))"

definition prepareRelayHttpRequest ::
  "('w, 'k, 'q, 't) client \<Rightarrow> string \<Rightarrow> transaction_details \<Rightarrow>
   (('w, 'k, 'z) account_state_scheme, relay_transaction_request) js" where
  "prepareRelayHttpRequest C relayWorker d =
     bnd (of_result (resolveForwarder d)) (\<lambda>forwarderAddress.
     bnd (getSenderNonce (cl_node C) forwarderAddress) (\<lambda>senderNonce.
     case (td_gasPrice d, td_gas d) of
       (Some gasPriceHex, Some gasLimitHex) \<Rightarrow>
         bnd (of_result (decimal_of_hex ''gasPrice'' gasPriceHex)) (\<lambda>gasPrice.
         bnd (of_result (decimal_of_hex ''gasLimit'' gasLimitHex)) (\<lambda>gasLimit.
         signAndComplete C (RelayRequest
           \<lparr>fr_relayHub = addressOrZero (td_relayHub d), fr_from = td_from d, fr_to = td_to d,
            fr_tokenContract = addressOrZero (td_tokenContract d), fr_value = or_else (td_value d) ''0'',
            fr_gas = gasLimit, fr_nonce = senderNonce, fr_tokenAmount = or_else (td_tokenAmount d) ''0x00'',
            fr_tokenGas = or_else (td_tokenGas d) ''0x00'', fr_data = td_data d\<rparr>
           \<lparr>rd_gasPrice = gasPrice,
            rd_domainSeparator = getDomainSeparatorHash (cl_web3 C) forwarderAddress (sg_chainId (cl_signer C)),
            rd_relayWorker = relayWorker, rd_callForwarder = forwarderAddress,
            rd_callVerifier = or_else (td_callVerifier d) (ec_relayVerifierAddress (cl_config C))\<rparr>)))
     | _ \<Rightarrow> throw (Error ''RelayClient internal exception. Gas price or gas limit still not calculated. Cannot happen.'')))"

text \<open>The deploy request with which the gas of a deployment is estimated: no token is paid.\<close>

definition prepareFactoryGasEstimationRequest ::
  "('w, 'k, 'q, 't) client \<Rightarrow> transaction_details \<Rightarrow> string \<Rightarrow>
   (('w, 'k, 'z) account_state_scheme, relay_transaction_request) js" where
  "prepareFactoryGasEstimationRequest C d relayWorker =
     andthen (throw_if (\<not> or_else (td_isSmartWalletDeploy d) False) ''Request type is not for SmartWallet deploy'')
     (bnd (of_result (resolveForwarder d)) (\<lambda>callForwarder.
      bnd (getFactoryNonce (cl_node C) callForwarder (td_from d)) (\<lambda>senderNonce.
      bnd (of_result (BigInt_of (or_else (td_gasPrice d) ''0x00''))) (\<lambda>gasPrice.
      bnd (of_result (BigInt_of (or_else (td_value d) ''0''))) (\<lambda>v.
      let r = DeployRequest
           \<lparr>dr_relayHub = or_else (td_relayHub d) (ec_relayHubAddress (cl_config C)), dr_from = td_from d,
            dr_to = td_to d, dr_tokenContract = addressOrZero (td_tokenContract d),
            dr_recoverer = addressOrZero (td_recoverer d), dr_value = int_str v, dr_nonce = senderNonce,
            dr_tokenAmount = ''0'', dr_tokenGas = ''0'', dr_index = or_else (td_index d) ''0'', dr_data = td_data d\<rparr>
           \<lparr>rd_gasPrice = int_str gasPrice,
            rd_domainSeparator = getDomainSeparatorHash (cl_web3 C) callForwarder (sg_chainId (cl_signer C)),
            rd_relayWorker = relayWorker, rd_callForwarder = callForwarder,
            rd_callVerifier = addressOrZero (td_callVerifier d)\<rparr>
      in bnd (sign (cl_web3 C) (cl_signer C) r) (\<lambda>signature.
         ret \<lparr>relayRequest = r, metadata = \<lparr>md_relayHubAddress = ec_relayHubAddress (cl_config C),
           md_relayMaxNonce = 0, md_signature = signature\<rparr>\<rparr>))))))"

definition calculateDeployCallGas ::
  "('w, 'k, 'q, 't) client \<Rightarrow> relay_transaction_request \<Rightarrow> (('w, 'z) net_scheme, int) js" where
  "calculateDeployCallGas C deployRequest = walletFactoryEstimateGasOfDeployCall (cl_node C) deployRequest"

definition calculateSmartWalletRelayGas ::
  "('w, 'k, 'q, 't) client \<Rightarrow> transaction_details \<Rightarrow> string \<Rightarrow> (('w, 'k, 'z) account_state_scheme, number) js" where
  "calculateSmartWalletRelayGas C d relayWorker =
     bnd (prepareRelayHttpRequest C relayWorker (d\<lparr>td_tokenAmount := Some ''0''\<rparr>)) (\<lambda>testInfo.
     andthen (throw_if (or_else (td_relayHub d) ZERO_ADDRESS = ZERO_ADDRESS)
       ''calculateSmartWalletDeployGasNewWay: RelayHub must be defined'')
     (estimateRelayTransactionMaxPossibleGasWithTransactionRequest (cl_node C) testInfo))"

definition priced ::
  "('w, 'k, 'q, 't) client \<Rightarrow> transaction_details \<Rightarrow> (('w, 'z) net_scheme, transaction_details) js" where
  "priced C d = bnd (case td_forceGasPrice d of Some g \<Rightarrow> ret g | None \<Rightarrow> calculateGasPrice C)
     (\<lambda>g. ret (d\<lparr>td_gasPrice := Some g\<rparr>))"

text \<open>The estimate of a deployment, which both estimates share.\<close>

definition estimateDeploy ::
  "('w, 'k, 'q, 't) client \<Rightarrow> transaction_details \<Rightarrow> string \<Rightarrow> string \<Rightarrow> (('w, 'k, 'z) account_state_scheme, int) js" where
  "estimateDeploy C d relayWorker tokenGas =
     bnd (prepareFactoryGasEstimationRequest C (d\<lparr>td_gas := Some ''0x00'', td_tokenGas := Some tokenGas\<rparr>) relayWorker)
       (\<lambda>testRequest.
     bnd (calculateDeployCallGas C testRequest) (\<lambda>deployCallGas.
     bnd (of_result (calculateDeployTransactionMaxPossibleGas (cl_web3 C)
            (number_str (num_add (num deployCallGas) (Number_of tokenGas))) (Some tokenGas))) (\<lambda>maxPossibleGas.
     of_result (bn_toNumber maxPossibleGas))))"

definition estimateMaxPossibleRelayGasWithLinearFit ::
  "('w, 'k, 'q, 't) client \<Rightarrow> transaction_details \<Rightarrow> string \<Rightarrow> (('w, 'k, 'z) account_state_scheme, number) js" where
  "estimateMaxPossibleRelayGasWithLinearFit C d0 relayWorker =
     bnd (priced C d0) (\<lambda>d.
     bnd (case td_tokenGas d of
        None \<Rightarrow> bnd (estimateTokenTransferGas C d relayWorker) (\<lambda>tokenGas.
          bnd (of_result (w3_toHex_num (cl_web3 C) tokenGas)) (\<lambda>hex. ret (tokenGas, hex)))
      | Some hex \<Rightarrow> bnd (of_result (w3_toBN (cl_web3 C) hex)) (\<lambda>b.
          bnd (of_result (bn_toNumber b)) (\<lambda>tokenGas. ret (num tokenGas, hex)))) (\<lambda>(tokenGas, tokenGasHex).
     if or_else (td_isSmartWalletDeploy d) False then
       bnd (estimateDeploy C d relayWorker tokenGasHex) (\<lambda>g. ret (num g))
     else
       bnd (case td_gas d of
          None \<Rightarrow> estimateDestinationContractCallGas (cl_node C)
            \<lparr>cp_from = td_from d, cp_to = Some (td_to d), cp_data = Some (td_data d), cp_gasPrice = td_gasPrice d,
             cp_gas = None\<rparr> True
        | Some gas \<Rightarrow> bnd (of_result (w3_toBN (cl_web3 C) gas)) (\<lambda>b.
            bnd (of_result (bn_toNumber b)) (\<lambda>destinationGas. ret (num destinationGas)))) (\<lambda>destinationGas.
       of_result (estimateMaxPossibleRelayCallWithLinearFit (cl_web3 C) destinationGas tokenGas False))))"

definition estimateMaxPossibleRelayGas ::
  "('w, 'k, 'q, 't) client \<Rightarrow> transaction_details \<Rightarrow> string \<Rightarrow> (('w, 'k, 'z) account_state_scheme, int) js" where
  "estimateMaxPossibleRelayGas C d0 relayWorker =
     bnd (priced C d0) (\<lambda>d.
     bnd (case td_tokenGas d of
        Some g \<Rightarrow> ret g
      | None \<Rightarrow> bnd (estimateTokenTransferGas C d relayWorker) (\<lambda>tokenGas. ret (number_str tokenGas))) (\<lambda>tokenGas.
     if or_else (td_isSmartWalletDeploy d) False then estimateDeploy C d relayWorker tokenGas
     else
       bnd (calculateSmartWalletRelayGas C (d\<lparr>td_tokenGas := Some tokenGas\<rparr>) relayWorker) (\<lambda>relayGas.
       bnd (of_result (w3_toBN_num (cl_web3 C)
              (math_ceil (num_mul (num_add relayGas (Number_of tokenGas)) ESTIMATED_GAS_CORRECTION_FACTOR)))) (\<lambda>b.
       of_result (bn_toNumber b)))))"

section \<open>Relaying\<close>

record 't relaying_attempt =
  at_transaction :: "'t option"
  at_error :: "exn option"

text \<open>An attempt that failed without a thrown error.\<close>

abbreviation failed_with :: "exn \<Rightarrow> 't relaying_attempt" where
  "failed_with e \<equiv> \<lparr>at_transaction = None, at_error = Some e\<rparr>"

record 't relaying_result =
  re_transaction :: "'t option"
  re_pingErrors :: "(string \<times> exn) list"
  re_relayingErrors :: "(string \<times> exn) list"

text \<open>A \<open>null\<close> reason in a template string.\<close>

definition reasonText :: "string option \<Rightarrow> string" where
  "reasonText r = or_else r ''null''"

definition saveFailure :: "'w node \<Rightarrow> partial_relay_info \<Rightarrow> (('w, 'z) relays_state_scheme, unit) js" where
  "saveFailure N r = bnd (io (n_now N)) (\<lambda>now.
     modify (saveRelayFailure now (or_else (ri_relayManager (pi_relayInfo r)) '''') (ri_relayUrl (pi_relayInfo r))))"

text \<open>Sending the request and checking the answer.\<close>

definition sendToRelay ::
  "('w, 'k, 'q, 't) client \<Rightarrow> partial_relay_info \<Rightarrow> relay_transaction_request \<Rightarrow>
   (('w, 'z) relays_state_scheme, 't relaying_attempt) js" where
  "sendToRelay C r httpRequest =
     bnd (catching
       (bnd (relayTransaction (se_http (cl_selector C)) (ri_relayUrl (pi_relayInfo r)) httpRequest) (\<lambda>tx. ret (Inr tx)))
       (\<lambda>e. andthen (if (case message e of None \<Rightarrow> True | Some m \<Rightarrow> has_substring m ''timeout'')
              then saveFailure (cl_node C) r else ret ()) (ret (Inl e)))) (\<lambda>answer.
     case answer of
       Inl e \<Rightarrow> ret (failed_with e)
     | Inr hexTransaction \<Rightarrow>
         andthen ci_getRawTxOptions
         (bnd (of_result (t_decode (cl_txlib C) hexTransaction)) (\<lambda>transaction.
          bnd (validateRelayResponse (cl_txlib C) (cl_web3 C) (cl_config C) httpRequest hexTransaction) (\<lambda>valid.
          if \<not> valid then
            andthen (saveFailure (cl_node C) r)
            (ret (failed_with (Error ''Returned transaction did not pass validation'')))
          else andthen (broadcastRawTx (cl_node C) (cl_txlib C) transaction)
            (ret \<lparr>at_transaction = Some transaction, at_error = None\<rparr>)))))"

text \<open>What the view calls say against a request, if anything.\<close>

definition acceptError :: "web3_utils \<Rightarrow> bool \<Rightarrow> accept_call \<Rightarrow> exn + exn option" where
  "acceptError W deploy a =
     (let failure = (\<lambda>msg v. map_sum id (\<lambda>reason. Some (Error (msg @ '': '' @ reasonText reason)))
            (decodeRevertReason W v False))
      in if \<not> deploy \<and> ac_revertedInDestination a
         then failure ''Destination contract method reverted in local view call '' (Some (or_else (ac_returnValue a) ''''))
         else if ac_reverted a then failure ''local view call reverted'' (ac_returnValue a)
         else if \<not> ac_verifierAccepted a
         then failure ''verifier rejected in local view call '' (Some (or_else (ac_returnValue a) ''''))
         else Inr None)"

definition attemptRelay ::
  "('w, 'k, 'q, 't) client \<Rightarrow> partial_relay_info \<Rightarrow> transaction_details \<Rightarrow>
   (('w, 'k, 'z) account_state_scheme, 't relaying_attempt) js" where
  "attemptRelay C r d =
     (let worker = pr_relayWorkerAddress (pi_pingResponse r); deploy = or_else (td_isSmartWalletDeploy d) False in
     bnd (if deploy then prepareDeployHttpRequest C worker d else prepareRelayHttpRequest C worker d) (\<lambda>httpRequest.
     bnd (if deploy then validateAcceptDeployCall (cl_node C) (cl_web3 C) httpRequest
          else validateAcceptRelayCall (cl_node C) (cl_web3 C) (relayRequest httpRequest)
            (md_signature (metadata httpRequest))) (\<lambda>acceptCallResult.
     bnd (of_result (acceptError (cl_web3 C) deploy acceptCallResult)) (\<lambda>err.
     case err of
       Some e \<Rightarrow> ret (failed_with e)
     | None \<Rightarrow> sendToRelay C r httpRequest))))"

text \<open>
  The loop of \<open>relayTransaction\<close>; \<open>n\<close> bounds its rounds, one more than there are relays is enough
  (\<open>relay_rounds_returns\<close>).
\<close>

primrec relay_rounds ::
  "('w, 'k, 'q, 't) client \<Rightarrow> bool \<Rightarrow> nat \<Rightarrow> transaction_details \<Rightarrow> (string \<times> exn) list \<Rightarrow>
   (('w, 'k, 'z) account_state_scheme, 't relaying_result settles) js" where
  "relay_rounds C estimateTokenGas 0 d relayingErrors = ret Spinning"
| "relay_rounds C estimateTokenGas (Suc n) d relayingErrors =
     bnd (selectNextRelay (cl_selector C) d) (\<lambda>activeRelay. case activeRelay of
       Never \<Rightarrow> ret Never
     | Spinning \<Rightarrow> ret Spinning
     | Result None \<Rightarrow> bnd (gets rs_errors) (\<lambda>pingErrors.
         ret (Result \<lparr>re_transaction = None, re_pingErrors = pingErrors, re_relayingErrors = relayingErrors\<rparr>))
     | Result (Some r) \<Rightarrow>
         bnd (if estimateTokenGas
              then bnd (estimateTokenTransferGas C d (pr_relayWorkerAddress (pi_pingResponse r)))
                (\<lambda>g. ret (d\<lparr>td_tokenGas := Some (number_str g)\<rparr>))
              else ret d) (\<lambda>d'.
         bnd (catching (attemptRelay C r d') (\<lambda>e. ret (failed_with e))) (\<lambda>relayingAttempt.
         case at_transaction relayingAttempt of
           None \<Rightarrow> relay_rounds C estimateTokenGas n d'
             (AList.update (ri_relayUrl (pi_relayInfo r))
               (or_else (at_error relayingAttempt) (Error ''No error reason was given'')) relayingErrors)
         | Some tx \<Rightarrow> bnd (gets rs_errors) (\<lambda>pingErrors.
             ret (Result \<lparr>re_transaction = Some tx, re_pingErrors = pingErrors, re_relayingErrors = relayingErrors\<rparr>)))))"

definition newRelaySelectionManager ::
  "('w, 'k, 'q, 't) client \<Rightarrow> transaction_details \<Rightarrow> (('w, 'z) selection_state_scheme, unit) js" where
  "newRelaySelectionManager C d =
     andthen (modify (\<lambda>s. s\<lparr>rs_remainingRelays := [], rs_isInitialized := False, rs_errors := []\<rparr>))
     (rs_init (cl_selector C) d)"

definition needsTokenGas :: "transaction_details \<Rightarrow> bool" where
  "needsTokenGas d \<longleftrightarrow> td_tokenGas d = None \<and>
     (case td_tokenAmount d of None \<Rightarrow> False | Some a \<Rightarrow> num_lt (num 0) (Number_of a))"

definition gassed ::
  "('w, 'k, 'q, 't) client \<Rightarrow> transaction_details \<Rightarrow> (('w, 'z) net_scheme, transaction_details) js" where
  "gassed C d =
     (if or_else (td_isSmartWalletDeploy d) False then ret (d\<lparr>td_gas := Some ''0x00''\<rparr>)
      else case td_gas d of
        Some _ \<Rightarrow> ret d
      | None \<Rightarrow> bnd (of_result (getEstimateGasParams d)) (\<lambda>params.
          bnd (estimateDestinationContractCallGas (cl_node C) params True) (\<lambda>internalCallCost.
          bnd (of_result (w3_toHex_num (cl_web3 C) internalCallCost)) (\<lambda>hex.
          ret (d\<lparr>td_gas := Some hex\<rparr>)))))"

definition rc_relayTransaction ::
  "('w, 'k, 'q, 't) client \<Rightarrow> transaction_details \<Rightarrow> (('w, 'k, 'z) client_state_scheme, 't relaying_result settles) js" where
  "rc_relayTransaction C d0 =
     andthen (rc_init C)
     (andthen (refresh (cl_node C) (cl_web3 C) (cl_config C) (se_relayFilter (cl_selector C)))
     (bnd (priced C d0) (\<lambda>d1.
      bnd (gassed C d1) (\<lambda>d.
      andthen (newRelaySelectionManager C d)
      (bnd (gets (\<lambda>s. length (relaysLeft s))) (\<lambda>count.
       andthen (throw_if (count = 0) ''no registered relayers'')
       (relay_rounds C (needsTokenGas d1) (Suc count) d [])))))))"

definition rc_getTransactionReceipt ::
  "('w, 'k, 'q, 't) client \<Rightarrow> string \<Rightarrow> int option \<Rightarrow> int option \<Rightarrow> (('w, 'z) net_scheme, receipt) js" where
  "rc_getTransactionReceipt C transactionHash retries initialBackoff =
     getTransactionReceipt (cl_node C) transactionHash retries initialBackoff"

definition dumpRelayingResult :: "web3_utils \<Rightarrow> 't relaying_result \<Rightarrow> string" where
  "dumpRelayingResult W r =
     (let err = (\<lambda>e. or_else (message e) (w3_stringify W e)) in
      (if re_pingErrors r = [] then '''' else
         ''Ping errors ('' @ int_str (int (length (re_pingErrors r))) @ ''):'' @
         concat (map (\<lambda>(u, e). nl @ u @ '' => '' @ err e @ nl) (re_pingErrors r))) @
      (if re_relayingErrors r = [] then '''' else
         ''Relaying errors ('' @ int_str (int (length (re_relayingErrors r))) @ ''):'' @ nl @
         concat (map (\<lambda>(u, e). u @ '' => '' @ err e) (re_relayingErrors r))))"

section \<open>Lemmas\<close>

text \<open>The gas price is printed in hexadecimal and is at least the configured minimum.\<close>

lemma rnd_half_floor: "math_round a = Some x \<Longrightarrow> x = of_int \<lfloor>x\<rfloor>"
  by (auto simp: math_round_def)

text \<open>The price the node reports, with the configured percentage on top.\<close>

definition raisedGasPrice :: "enveloping_config \<Rightarrow> string \<Rightarrow> number" where
  "raisedGasPrice cfg q = math_round (num_div (num_mul (parseInt q) (num (ec_gasPriceFactorPercent cfg + 100))) 100)"

lemma calculateGasPrice_Inr:
  assumes "calculateGasPrice C s = (Inr p, t)" and "0 \<le> ec_minGasPrice (cl_config C)"
    and "\<And>q. returns (n_getGasPrice (cl_node C)) q \<Longrightarrow> parseInt q \<noteq> NaN"
  shows "\<exists>q x. returns (n_getGasPrice (cl_node C)) q \<and> raisedGasPrice (cl_config C) q = num x \<and>
    p = hex_str (max x (ec_minGasPrice (cl_config C)))"
proof -
  let ?min = "ec_minGasPrice (cl_config C)"
  obtain q s1 where q: "io (n_getGasPrice (cl_node C)) s = (Inr q, s1)"
    and p: "p = (case (let gasPrice = raisedGasPrice (cl_config C) q
      in if num_lt gasPrice (num ?min) then num ?min else gasPrice) of None \<Rightarrow> ''0xNaN''
            | Some x \<Rightarrow> if x < 0 then ''0x-'' @ digits_in 16 (nat \<lfloor>- x\<rfloor>) else hex_str \<lfloor>x\<rfloor>)"
    using assms(1) by (auto simp: calculateGasPrice_def raisedGasPrice_def Let_def elim!: bnd_InrE)
  have r: "returns (n_getGasPrice (cl_node C)) q"
    using q by (rule io_returns)
  then obtain n where n: "parseInt q = Some n" using assms(3) by blast
  obtain x :: int where x: "raisedGasPrice (cl_config C) q = num x"
    by (auto simp: raisedGasPrice_def n math_round_def num_div_def num_mul_def num_def)
  have "p = hex_str (max x ?min)"
    using p assms(2) unfolding x by (cases "x < ?min") (simp_all add: num_def num_lt_def Let_def max_def)
  then show ?thesis using r x by blast
qed

text \<open>A request that is built: its parts come from the details, its signature is the sender's.\<close>

lemma signAndComplete_Inr:
  assumes "signAndComplete C r s = (Inr req, t)"
  shows "relayRequest req = r"
    and "md_relayHubAddress (metadata req) = ec_relayHubAddress (cl_config C)"
    and "\<exists>n. returns (n_getTransactionCount (cl_node C) (rd_relayWorker (relayData r)) None) n \<and>
      md_relayMaxNonce (metadata req) = n + ec_maxRelayNonceGap (cl_config C)"
    and "\<exists>a. sg_recover (cl_signer C) (typedRequestData (sg_chainId (cl_signer C)) (rd_callForwarder (relayData r)) r)
        (md_signature (metadata req)) = Inr a \<and> isSameAddress (request_from r) a"
proof -
  obtain signature s1 n s2 where sig: "sign (cl_web3 C) (cl_signer C) r s = (Inr signature, s1)"
    and n: "io (n_getTransactionCount (cl_node C) (rd_relayWorker (relayData r)) None) s1 = (Inr n, s2)"
    and req: "req = \<lparr>relayRequest = r, metadata =
       \<lparr>md_relayHubAddress = ec_relayHubAddress (cl_config C),
        md_relayMaxNonce = n + ec_maxRelayNonceGap (cl_config C), md_signature = signature\<rparr>\<rparr>"
    using assms by (auto simp: signAndComplete_def elim!: bnd_InrE)
  show "relayRequest req = r" "md_relayHubAddress (metadata req) = ec_relayHubAddress (cl_config C)"
    by (simp_all add: req)
  have "returns (n_getTransactionCount (cl_node C) (rd_relayWorker (relayData r)) None) n"
    using n by (rule io_returns)
  then show "\<exists>n. returns (n_getTransactionCount (cl_node C) (rd_relayWorker (relayData r)) None) n \<and>
      md_relayMaxNonce (metadata req) = n + ec_maxRelayNonceGap (cl_config C)"
    by (auto simp: req)
  show "\<exists>a. sg_recover (cl_signer C) (typedRequestData (sg_chainId (cl_signer C)) (rd_callForwarder (relayData r)) r)
        (md_signature (metadata req)) = Inr a \<and> isSameAddress (request_from r) a"
    using sign_Inr [OF sig] by (simp add: req)
qed

text \<open>Handing a request to a relay does not touch the relays that remain.\<close>

lemma along_kept_along_estimate:
  "along rs_kept (estimateTokenTransferGas C d w)"
  "along rs_kept (walletFactoryEstimateGasOfDeployCall N req)"
  "along rs_kept (estimateRelayTransactionMaxPossibleGas N W r sig)"
  unfolding estimateTokenTransferGas_def walletFactoryEstimateGasOfDeployCall_def createContract_def
    estimateRelayTransactionMaxPossibleGas_def relayHubInstance_def instance_of_def Let_def
  by (intro kept.along_rules along_kept_io)+

lemma along_kept_sign: "along rs_kept (sign W G r)"
  unfolding sign_def Let_def
  by (intro kept.along_rules along_kept_io) (auto intro!: kept.along_rules split: prod.split)

lemma along_kept_prepare:
  "along rs_kept (prepareDeployHttpRequest C w d)" "along rs_kept (prepareRelayHttpRequest C w d)"
  unfolding prepareDeployHttpRequest_def prepareRelayHttpRequest_def signAndComplete_def getFactoryNonce_def
    getSenderNonce_def createContract_def
  by (auto intro!: kept.along_rules along_kept_io along_kept_sign split: prod.split option.split)

lemma along_kept_accept:
  "along rs_kept (validateAcceptDeployCall N W req)" "along rs_kept (validateAcceptRelayCall N W r sig)"
  unfolding validateAcceptDeployCall_def validateAcceptRelayCall_def getMaxViewableDeployGasLimit_def
    getMaxViewableRelayGasLimit_def getBalance_def instance_of_def Let_def
  by (intro kept.along_rules along_kept_io along_kept_along_estimate)+

lemma along_kept_both: "along rs_kept m \<Longrightarrow> along rs_kept n \<Longrightarrow> along rs_kept (both m n)"
  unfolding along_def both_def by (auto intro: kept.R_trans split: prod.split)
    (metis kept.R_trans snd_conv)

lemma along_kept_broadcast: "along rs_kept (broadcastRawTx N T tx)"
  unfolding broadcastRawTx_def isAlreadySubmitted_def
  by (intro kept.along_rules along_kept_io along_kept_both) (auto intro!: kept.along_rules split: prod.split option.split)

lemma along_kept_sendToRelay: "along rs_kept (sendToRelay C r req)"
proof -
  have "rs_kept s (saveRelayFailure now m u s)" for now m u and s :: "('a, 'b) selection_state_scheme"
    by (simp add: saveRelayFailure_def rs_kept_def)
  then show ?thesis
    unfolding sendToRelay_def relayTransaction_def validateRelayResponse_def saveFailure_def ci_getRawTxOptions_def
    by (intro kept.along_rules along_kept_io along_kept_broadcast kept.along_modify)
      (auto intro!: kept.along_rules along_kept_io along_kept_broadcast kept.along_modify split: sum.split option.split)
qed

lemma along_kept_attemptRelay: "along rs_kept (attemptRelay C r d)"
  unfolding attemptRelay_def Let_def
  by (intro kept.along_rules along_kept_prepare along_kept_accept along_kept_sendToRelay)

text \<open>
  What the client promises of a transaction it returns for the details \<open>d\<close>: it is the call of the hub
  with a request that carries the details and that the sender has signed, it is signed by the
  worker, and its nonce is not above the agreed one.
\<close>

definition carries :: "transaction_details \<Rightarrow> signed_request \<Rightarrow> bool" where
  "carries d r = (case r of
     RelayRequest q _ \<Rightarrow> \<not> or_else (td_isSmartWalletDeploy d) False \<and> fr_from q = td_from d \<and> fr_to q = td_to d \<and>
       fr_data q = td_data d \<and> fr_value q = or_else (td_value d) ''0'' \<and>
       fr_tokenContract q = addressOrZero (td_tokenContract d) \<and> fr_tokenAmount q = or_else (td_tokenAmount d) ''0x00''
   | DeployRequest q _ \<Rightarrow> or_else (td_isSmartWalletDeploy d) False \<and> dr_from q = td_from d \<and> dr_to q = td_to d \<and>
       dr_data q = td_data d \<and> dr_value q = or_else (td_value d) ''0'' \<and>
       dr_tokenContract q = addressOrZero (td_tokenContract d) \<and> dr_tokenAmount q = or_else (td_tokenAmount d) ''0x00'')"

definition signed_by_sender :: "('w, 'k, 'q, 't) client \<Rightarrow> relay_transaction_request \<Rightarrow> bool" where
  "signed_by_sender C req = (case sg_recover (cl_signer C)
       (typedRequestData (sg_chainId (cl_signer C)) (rd_callForwarder (relayData (relayRequest req))) (relayRequest req))
       (md_signature (metadata req)) of Inl _ \<Rightarrow> False | Inr a \<Rightarrow> isSameAddress (request_from (relayRequest req)) a)"

definition accepted_response :: "('w, 'k, 'q, 't) client \<Rightarrow> relay_transaction_request \<Rightarrow> 't \<Rightarrow> bool" where
  "accepted_response C req x \<longleftrightarrow>
     isSameAddress (t_to (cl_txlib C) x) (ec_relayHubAddress (cl_config C)) \<and>
     t_data (cl_txlib C) x = encodeCall (cl_web3 C) req \<and>
     (\<exists>a. t_sender (cl_txlib C) x = Inr a \<and> isSameAddress (rd_relayWorker (relayData (relayRequest req))) a) \<and>
     t_nonce (cl_txlib C) x \<le> md_relayMaxNonce (metadata req)"

text \<open>The highest nonce the client agrees to: the worker's own, as the node has reported it, and the configured gap.\<close>

definition agreed_nonce :: "('w, 'k, 'q, 't) client \<Rightarrow> relay_transaction_request \<Rightarrow> bool" where
  "agreed_nonce C req \<longleftrightarrow> (\<exists>n. returns (n_getTransactionCount (cl_node C) (rd_relayWorker (relayData (relayRequest req))) None) n \<and>
     md_relayMaxNonce (metadata req) = n + ec_maxRelayNonceGap (cl_config C))"

lemma prepareRelay_Inr:
  assumes "prepareRelayHttpRequest C w d s = (Inr req, t)" "\<not> or_else (td_isSmartWalletDeploy d) False"
  shows "carries d (relayRequest req) \<and> rd_relayWorker (relayData (relayRequest req)) = w \<and> signed_by_sender C req \<and>
    agreed_nonce C req"
proof -
  obtain q rd u where r: "signAndComplete C (RelayRequest q rd) u = (Inr req, t)"
    and c: "carries d (RelayRequest q rd)" "rd_relayWorker rd = w"
    using assms by (auto simp: prepareRelayHttpRequest_def carries_def elim!: bnd_InrE split: option.splits)
  show ?thesis using signAndComplete_Inr(1,3,4) [OF r] c by (auto simp: signed_by_sender_def agreed_nonce_def)
qed

lemma prepareDeploy_Inr:
  assumes "prepareDeployHttpRequest C w d s = (Inr req, t)" "or_else (td_isSmartWalletDeploy d) False"
  shows "carries d (relayRequest req) \<and> rd_relayWorker (relayData (relayRequest req)) = w \<and> signed_by_sender C req \<and>
    agreed_nonce C req"
proof -
  obtain q rd u where r: "signAndComplete C (DeployRequest q rd) u = (Inr req, t)"
    and c: "carries d (DeployRequest q rd)" "rd_relayWorker rd = w"
    using assms by (auto simp: prepareDeployHttpRequest_def carries_def elim!: bnd_InrE split: option.splits)
  show ?thesis using signAndComplete_Inr(1,3,4) [OF r] c by (auto simp: signed_by_sender_def agreed_nonce_def)
qed

lemma validated:
  "validateRelayResponse (cl_txlib C) (cl_web3 C) (cl_config C) req hex u = (Inr True, v) \<Longrightarrow>
     t_decode (cl_txlib C) hex = Inr x \<Longrightarrow> accepted_response C req x"
  by (drule validateRelayResponse_True [THEN iffD1]) (auto simp: accepted_response_def)

lemma sendToRelay_transaction:
  "sendToRelay C r req s = (Inr a, t) \<Longrightarrow> at_transaction a = Some x \<Longrightarrow> accepted_response C req x"
  by (auto simp: sendToRelay_def catching_run elim!: bnd_InrE andthen_InrE
      split: sum.splits if_splits prod.splits) (erule (1) validated)

definition relayed_as :: "('w, 'k, 'q, 't) client \<Rightarrow> partial_relay_info \<Rightarrow> transaction_details \<Rightarrow> 't \<Rightarrow> relay_transaction_request \<Rightarrow> bool" where
  "relayed_as C r d x req \<longleftrightarrow> carries d (relayRequest req) \<and> signed_by_sender C req \<and> agreed_nonce C req \<and>
     accepted_response C req x \<and>
     rd_relayWorker (relayData (relayRequest req)) = pr_relayWorkerAddress (pi_pingResponse r)"

lemma attemptRelay_transaction:
  assumes "attemptRelay C r d s = (Inr a, t)" "at_transaction a = Some x"
  shows "\<exists>req. relayed_as C r d x req"
proof -
  let ?w = "pr_relayWorkerAddress (pi_pingResponse r)" and ?deploy = "or_else (td_isSmartWalletDeploy d) False"
  obtain req u v where req: "(if ?deploy then prepareDeployHttpRequest C ?w d else prepareRelayHttpRequest C ?w d) s = (Inr req, u)"
    and a: "sendToRelay C r req v = (Inr a, t)"
    using assms by (auto simp: attemptRelay_def Let_def elim!: bnd_InrE split: option.splits)
  have "carries d (relayRequest req) \<and> rd_relayWorker (relayData (relayRequest req)) = ?w \<and> signed_by_sender C req \<and> agreed_nonce C req"
    using req prepareDeploy_Inr [of C ?w d s req u] prepareRelay_Inr [of C ?w d s req u] by (auto split: if_splits)
  with sendToRelay_transaction [OF a assms(2)] show ?thesis unfolding relayed_as_def by blast
qed

text \<open>
  Selecting a relay keeps the number of groups of relays (the preferred ones and all others), and relays
  with different URLs stay so.
\<close>

definition groups_kept :: "('w, 'z) selection_state_scheme \<Rightarrow> ('w, 'z) selection_state_scheme \<Rightarrow> bool" where
  "groups_kept s t \<longleftrightarrow> length (rs_remainingRelays t) = length (rs_remainingRelays s) \<and>
     (distinct (map ri_relayUrl (relaysLeft s)) \<longrightarrow> distinct (map ri_relayUrl (relaysLeft t)))"

interpretation groups: step_relation groups_kept
  by unfold_locales (simp_all add: groups_kept_def)

lemma along_kept_groups: "along rs_kept m \<Longrightarrow> along groups_kept m"
  by (simp add: along_def rs_kept_def groups_kept_def relaysLeft_def)

lemma along_groups_handle: "along groups_kept (handleRaceResults rr)"
proof -
  have "groups_kept s t" if r: "handleRaceResults rr s = (r, t)" for r and s t :: "('w, 'z) selection_state_scheme"
  proof (cases r)
    case (Inl e)
    then have "t = s" using r by (auto simp: handleRaceResults_def bnd_run andthen_run split: if_splits)
    then show ?thesis by (simp add: groups_kept_def)
  next
    case (Inr u)
    then show ?thesis using handleRaceResults_Inr [of rr s u t] r
      by (simp add: groups_kept_def relaysLeft_def concat_remaining distinct_map_filter) (simp add: remaining_after_def)
  qed
  then show ?thesis unfolding along_def by (metis prod.collapse)
qed

lemma along_groups_internal: "along groups_kept (nextRelayInternal S d rel)"
  unfolding nextRelayInternal_def raceToSuccess_def
  by (intro groups.along_bnd along_kept_groups [OF along_kept_settle])
    (auto intro!: groups.along_rules along_groups_handle along_kept_groups [OF along_kept_info]
      split: settles.split option.split list.split)

lemma along_groups_all: "along groups_kept (nextOfAll S d n)"
proof (induction n)
  case (Suc n)
  then show ?case
    by (auto simp: getNextSlice_def intro!: groups.along_rules along_groups_internal
        split: settles.split option.split)
qed (simp add: along_def groups_kept_def)

lemma along_groups_preferred: "along groups_kept (nextOfPreferred S d n i)"
proof (induction n arbitrary: i)
  case (Suc n)
  then show ?case
    by (auto simp: getPreferredRelaysNextSlice_def intro!: groups.along_rules along_groups_internal
        split: settles.split option.split)
qed (simp add: along_def groups_kept_def)

lemma along_groups_select: "along groups_kept (selectNextRelay S d)"
  unfolding selectNextRelay_def by (intro groups.along_rules along_groups_all along_groups_preferred)

text \<open>One round of the loop, once a relay is selected.\<close>

lemma relay_round:
  assumes "selectNextRelay (cl_selector C) d s = (Inr (Result (Some r)), u)"
  shows "relay_rounds C g (Suc n) d errs s =
    (case (if g then bnd (estimateTokenTransferGas C d (pr_relayWorkerAddress (pi_pingResponse r)))
          (\<lambda>k. ret (d\<lparr>td_tokenGas := Some (number_str k)\<rparr>)) else ret d) u of
       (Inl e, v) \<Rightarrow> (Inl e, v)
     | (Inr d', v) \<Rightarrow> (case catching (attemptRelay C r d') (\<lambda>e. ret (failed_with e)) v of
         (Inl e, w) \<Rightarrow> (Inl e, w)
       | (Inr a, w) \<Rightarrow> (case at_transaction a of
           None \<Rightarrow> relay_rounds C g n d' (AList.update (ri_relayUrl (pi_relayInfo r))
               (or_else (at_error a) (Error ''No error reason was given'')) errs) w
         | Some tx \<Rightarrow> (Inr (Result \<lparr>re_transaction = Some tx, re_pingErrors = rs_errors w, re_relayingErrors = errs\<rparr>), w))))"
  using assms by (auto simp: bnd_run split: prod.split sum.split option.split)

definition urlsLeft :: "('w, 'z) selection_state_scheme \<Rightarrow> string set" where
  "urlsLeft s = ri_relayUrl ` set (relaysLeft s)"

lemma selected_urls:
  assumes "selectNextRelay S d s = (Inr (Result (Some r)), t)" "order_ok S" "rs_remainingRelays s \<noteq> []"
  shows "ri_relayUrl (pi_relayInfo r) \<in> urlsLeft s - urlsLeft t" "urlsLeft t \<subseteq> urlsLeft s" "rs_remainingRelays t \<noteq> []"
    and "distinct (map ri_relayUrl (relaysLeft s)) \<Longrightarrow> distinct (map ri_relayUrl (relaysLeft t))"
proof -
  from selectNextRelay_selected [OF assms]
  show "ri_relayUrl (pi_relayInfo r) \<in> urlsLeft s - urlsLeft t" "urlsLeft t \<subseteq> urlsLeft s"
    unfolding selected_def urlsLeft_def by (blast, blast)
  have "groups_kept s (snd (selectNextRelay S d s))" by (rule alongD [OF along_groups_select])
  then show "rs_remainingRelays t \<noteq> []" "distinct (map ri_relayUrl (relaysLeft s)) \<Longrightarrow> distinct (map ri_relayUrl (relaysLeft t))"
    using assms(1,3) by (auto simp: groups_kept_def)
qed

text \<open>What happens between two selections leaves the relays that remain alone.\<close>

definition rest_of_round ::
  "('w, 'k, 'q, 't) client \<Rightarrow> bool \<Rightarrow> partial_relay_info \<Rightarrow> transaction_details \<Rightarrow>
   (('w, 'k, 'z) account_state_scheme, transaction_details \<times> 't relaying_attempt) js" where
  "rest_of_round C g r d =
     bnd (if g then bnd (estimateTokenTransferGas C d (pr_relayWorkerAddress (pi_pingResponse r)))
          (\<lambda>k. ret (d\<lparr>td_tokenGas := Some (number_str k)\<rparr>)) else ret d) (\<lambda>d'.
     bnd (catching (attemptRelay C r d') (\<lambda>e. ret (failed_with e))) (\<lambda>a. ret (d', a)))"

lemma relay_round':
  assumes "selectNextRelay (cl_selector C) d s = (Inr (Result (Some r)), u)"
  shows "relay_rounds C g (Suc n) d errs s =
    (case rest_of_round C g r d u of
       (Inl e, v) \<Rightarrow> (Inl e, v)
     | (Inr (d', a), w) \<Rightarrow> (case at_transaction a of
           None \<Rightarrow> relay_rounds C g n d' (AList.update (ri_relayUrl (pi_relayInfo r))
               (or_else (at_error a) (Error ''No error reason was given'')) errs) w
         | Some tx \<Rightarrow> (Inr (Result \<lparr>re_transaction = Some tx, re_pingErrors = rs_errors w, re_relayingErrors = errs\<rparr>), w)))"
  unfolding relay_round [OF assms] rest_of_round_def
  by (auto simp: bnd_run split: prod.split sum.split option.split)

lemma relay_round_failed:
  assumes "selectNextRelay (cl_selector C) d s = (Inr (Result (Some r)), u)"
    and "rest_of_round C g r d u = (Inr (d', a), w)" and "at_transaction a = None"
  shows "relay_rounds C g (Suc n) d errs s = relay_rounds C g n d' (AList.update (ri_relayUrl (pi_relayInfo r))
      (or_else (at_error a) (Error ''No error reason was given'')) errs) w"
  unfolding relay_round' [OF assms(1)] assms(2) by (simp add: assms(3) del: relay_rounds.simps)

lemma relay_round_done:
  assumes "selectNextRelay (cl_selector C) d s = (Inr (Result (Some r)), u)"
    and "rest_of_round C g r d u = (Inr (d', a), w)" and "at_transaction a = Some tx"
  shows "relay_rounds C g (Suc n) d errs s =
    (Inr (Result \<lparr>re_transaction = Some tx, re_pingErrors = rs_errors w, re_relayingErrors = errs\<rparr>), w)"
  unfolding relay_round' [OF assms(1)] assms(2) by (simp add: assms(3) del: relay_rounds.simps)

lemma along_kept_rest: "along rs_kept (rest_of_round C g r d)"
  unfolding rest_of_round_def by (intro kept.along_rules along_kept_along_estimate along_kept_attemptRelay)

lemma rest_of_round_Inr:
  assumes "rest_of_round C g r d u = (Inr (d', a), w)"
  shows "urlsLeft w = urlsLeft u" "rs_remainingRelays w = rs_remainingRelays u"
    and "\<exists>k. d' = d\<lparr>td_tokenGas := k\<rparr>" and "at_transaction a = Some x \<Longrightarrow> \<exists>req. relayed_as C r d' x req"
proof -
  have "rs_kept u (snd (rest_of_round C g r d u))" by (rule alongD [OF along_kept_rest])
  then show "urlsLeft w = urlsLeft u" "rs_remainingRelays w = rs_remainingRelays u"
    using assms by (auto simp: rs_kept_def urlsLeft_def relaysLeft_def)
  show "\<exists>k. d' = d\<lparr>td_tokenGas := k\<rparr>"
    using assms by (auto simp: rest_of_round_def elim!: bnd_InrE split: if_splits intro: exI [of _ "td_tokenGas d"])
  assume "at_transaction a = Some x"
  then show "\<exists>req. relayed_as C r d' x req"
    using assms by (auto simp: rest_of_round_def catching_run elim!: bnd_InrE split: prod.splits sum.splits
        dest: attemptRelay_transaction)
qed

text \<open>
  The loop ends. Its result names each relay that failed once, all of them relays that were left; a
  transaction in it was relayed for the details, up to the gas for the token, by one of them.
\<close>

definition rounds_ok ::
  "('w, 'k, 'q, 't) client \<Rightarrow> transaction_details \<Rightarrow> string set \<Rightarrow> (string \<times> exn) list \<Rightarrow> 't relaying_result settles \<Rightarrow> bool" where
  "rounds_ok C d urls errs x \<longleftrightarrow> x \<noteq> Spinning \<and> (\<forall>res. x = Result res \<longrightarrow>
     distinct (map fst (re_relayingErrors res)) \<and> fst ` set (re_relayingErrors res) \<subseteq> fst ` set errs \<union> urls \<and>
     (\<forall>tx. re_transaction res = Some tx \<longrightarrow>
       (\<exists>r k req. ri_relayUrl (pi_relayInfo r) \<in> urls \<and> relayed_as C r (d\<lparr>td_tokenGas := k\<rparr>) tx req)))"

lemma rounds_ok_step:
  assumes "rounds_ok C (d\<lparr>td_tokenGas := k\<rparr>) urls' (AList.update u e errs) x" "urls' \<subseteq> urls" "u \<in> urls"
  shows "rounds_ok C d urls errs x"
proof -
  have keys: "fst ` set (AList.update u e errs) = insert u (fst ` set errs)"
    using dom_update [of u e errs] by (simp add: image_image)
  have *: "fst ` set (re_relayingErrors res) \<subseteq> fst ` set errs \<union> urls"
    if "fst ` set (re_relayingErrors res) \<subseteq> fst ` set (AList.update u e errs) \<union> urls'" for res :: "'d relaying_result"
    using that assms(2,3) unfolding keys by blast
  show ?thesis
    using assms(1,2) * unfolding rounds_ok_def by (auto; blast)
qed

lemma relay_rounds_ok:
  assumes "relay_rounds C g n d errs s = (Inr x, t)" "order_ok (cl_selector C)" "rs_remainingRelays s \<noteq> []"
    and "card (urlsLeft s) < n" "distinct (map fst errs)"
  shows "rounds_ok C d (urlsLeft s) errs x"
  using assms
proof (induction n arbitrary: s d errs)
  case (Suc n)
  obtain y u where y: "selectNextRelay (cl_selector C) d s = (Inr y, u)"
    using Suc.prems(1) by (auto elim!: bnd_InrE)
  show ?case
  proof (cases "\<exists>r. y = Result (Some r)")
    case False
    have "y \<noteq> Spinning" using selectNextRelay_selected [OF y Suc.prems(2,3)] by (simp add: selected_def)
    then show ?thesis using Suc.prems(1,5) y False
      by (auto simp: bnd_run rounds_ok_def split: settles.splits option.splits)
  next
    case True
    then obtain r where r: "y = Result (Some r)" by blast
    note sel = selected_urls [OF y [unfolded r] Suc.prems(2,3)]
    obtain d' a w where rest: "rest_of_round C g r d u = (Inr (d', a), w)"
      using Suc.prems(1) [unfolded relay_round' [OF y [unfolded r]]] by (auto split: prod.splits sum.splits)
    note rest_facts = rest_of_round_Inr [OF rest]
    obtain k where k: "d' = d\<lparr>td_tokenGas := k\<rparr>" using rest_facts(3) by blast
    show ?thesis
    proof (cases "at_transaction a")
      case (Some tx)
      then have x: "x = Result \<lparr>re_transaction = Some tx, re_pingErrors = rs_errors w, re_relayingErrors = errs\<rparr>"
        using Suc.prems(1) unfolding relay_round_done [OF y [unfolded r] rest Some] by auto
      show ?thesis using rest_facts(4) [OF Some] sel(1) Suc.prems(5) unfolding x k by (auto simp: rounds_ok_def)
    next
      case None
      let ?errs = "AList.update (ri_relayUrl (pi_relayInfo r)) (or_else (at_error a) (Error ''No error reason was given'')) errs"
      have next_round: "relay_rounds C g n d' ?errs w = (Inr x, t)"
        using Suc.prems(1) unfolding relay_round_failed [OF y [unfolded r] rest None] .
      have "finite (urlsLeft s)" by (simp add: urlsLeft_def)
      then have "card (urlsLeft u) < card (urlsLeft s)"
        using sel(1,2) by (intro psubset_card_mono) auto
      then have card: "card (urlsLeft w) < n" using Suc.prems(4) rest_facts(1) by simp
      have left: "rs_remainingRelays w \<noteq> []" using sel(3) rest_facts(2) by simp
      have ok: "rounds_ok C d' (urlsLeft w) ?errs x"
        by (rule Suc.IH [OF next_round Suc.prems(2) left card distinct_update [OF Suc.prems(5)]])
      have "urlsLeft w \<subseteq> urlsLeft s" "ri_relayUrl (pi_relayInfo r) \<in> urlsLeft s"
        using rest_facts(1) sel(1,2) by auto
      then show ?thesis by (rule rounds_ok_step [OF ok [unfolded k]])
    qed
  qed
qed simp

text \<open>With one URL per relay no race hangs, so the loop has a result.\<close>

lemma relay_rounds_answer:
  assumes "relay_rounds C g n d errs s = (Inr x, t)" "order_ok (cl_selector C)" "rs_remainingRelays s \<noteq> []"
    and "card (urlsLeft s) < n" "distinct (map ri_relayUrl (relaysLeft s))"
  shows "\<exists>res. x = Result res"
  using assms
proof (induction n arbitrary: s d errs)
  case (Suc n)
  obtain y u where y: "selectNextRelay (cl_selector C) d s = (Inr y, u)"
    using Suc.prems(1) by (auto elim!: bnd_InrE)
  obtain z where z: "y = Result z" using selectNextRelay_answers [OF y Suc.prems(2,3,5)] by blast
  show ?case
  proof (cases z)
    case None
    then show ?thesis using Suc.prems(1) y z by (auto simp: bnd_run)
  next
    case r: (Some r)
    note sel = selected_urls [OF y [unfolded z r] Suc.prems(2,3)]
    obtain d' a w where rest: "rest_of_round C g r d u = (Inr (d', a), w)"
      using Suc.prems(1) [unfolded relay_round' [OF y [unfolded z r]]] by (auto split: prod.splits sum.splits)
    note rest_facts = rest_of_round_Inr [OF rest]
    show ?thesis
    proof (cases "at_transaction a")
      case (Some tx)
      then show ?thesis using Suc.prems(1) unfolding relay_round_done [OF y [unfolded z r] rest Some] by auto
    next
      case None
      have "finite (urlsLeft s)" by (simp add: urlsLeft_def)
      then have "card (urlsLeft u) < card (urlsLeft s)"
        using sel(1,2) by (intro psubset_card_mono) auto
      then have card: "card (urlsLeft w) < n" using Suc.prems(4) rest_facts(1) by simp
      have left: "rs_remainingRelays w \<noteq> []" "distinct (map ri_relayUrl (relaysLeft w))"
        using sel(3,4) Suc.prems(5) rest_facts(2) by (simp_all add: relaysLeft_def)
      show ?thesis
        by (rule Suc.IH [OF Suc.prems(1) [unfolded relay_round_failed [OF y [unfolded z r] rest None]] Suc.prems(2) left(1) card left(2)])
    qed
  qed
qed simp

text \<open>The whole of \<open>relayTransaction\<close>: only the gas, its price and the gas for the token are filled in.\<close>

lemma carries_upd [simp]:
  "carries (d\<lparr>td_tokenGas := k\<rparr>) r = carries d r" "carries (d\<lparr>td_gas := g\<rparr>) r = carries d r"
  "carries (d\<lparr>td_gasPrice := p\<rparr>) r = carries d r"
  by (cases r; simp add: carries_def)+

lemma priced_Inr: "priced C d s = (Inr d', t) \<Longrightarrow> \<exists>p. d' = d\<lparr>td_gasPrice := Some p\<rparr>"
  by (auto simp: priced_def elim!: bnd_InrE)

lemma gassed_Inr: "gassed C d s = (Inr d', t) \<Longrightarrow> carries d' r = carries d r"
  by (auto simp: gassed_def elim!: bnd_InrE split: if_splits option.splits)

definition relayed_for ::
  "('w, 'k, 'q, 't) client \<Rightarrow> transaction_details \<Rightarrow> 't \<Rightarrow> bool" where
  "relayed_for C d tx \<longleftrightarrow> (\<exists>req n. carries d (relayRequest req) \<and> signed_by_sender C req \<and> accepted_response C req tx \<and>
     returns (n_getTransactionCount (cl_node C) (rd_relayWorker (relayData (relayRequest req))) None) n \<and>
     t_nonce (cl_txlib C) tx \<le> n + ec_maxRelayNonceGap (cl_config C))"

lemma rc_relayTransaction_Inr:
  fixes C :: "('w, 'k, 'q, 't) client" and s :: "('w, 'k, 'z) client_state_scheme"
  assumes "rc_relayTransaction C d0 s = (Inr x, t)" "order_ok (cl_selector C)"
  shows "x \<noteq> Spinning \<and> (\<forall>res. x = Result res \<longrightarrow> distinct (map fst (re_relayingErrors res)) \<and>
    (\<forall>tx. re_transaction res = Some tx \<longrightarrow> relayed_for C d0 tx))"
proof -
  obtain d1 d and v s1 s2 s3 :: "('w, 'k, 'z) client_state_scheme"
    where d1: "priced C d0 s1 = (Inr d1, v)" and d: "gassed C d1 v = (Inr d, s2)"
      and new: "newRelaySelectionManager C d s2 = (Inr (), s3)"
      and rounds: "relay_rounds C (needsTokenGas d1) (Suc (length (relaysLeft s3))) d [] s3 = (Inr x, t)"
    using assms(1) by (auto simp: rc_relayTransaction_def simp del: relay_rounds.simps elim!: bnd_InrE andthen_InrE dest!: throw_if_InrD)
  have left: "rs_remainingRelays s3 \<noteq> []"
    using new by (auto simp: newRelaySelectionManager_def rs_init_def getRelaysSortedForTransaction_def andthen_run)
  have "card (urlsLeft s3) < Suc (length (relaysLeft s3))"
    unfolding urlsLeft_def using card_image_le [of "set (relaysLeft s3)" ri_relayUrl] card_length [of "relaysLeft s3"] by simp
  from relay_rounds_ok [OF rounds assms(2) left this]
  have ok: "rounds_ok C d (urlsLeft s3) [] x" by simp
  have cd: "carries d r = carries d0 r" for r using priced_Inr [OF d1] gassed_Inr [OF d] by auto
  have "relayed_for C d0 tx" if r: "relayed_as C r (d\<lparr>td_tokenGas := k\<rparr>) tx req" for r k req tx
  proof -
    obtain n where "returns (n_getTransactionCount (cl_node C) (rd_relayWorker (relayData (relayRequest req))) None) n"
      "md_relayMaxNonce (metadata req) = n + ec_maxRelayNonceGap (cl_config C)"
      using r by (auto simp: relayed_as_def agreed_nonce_def)
    moreover have "t_nonce (cl_txlib C) tx \<le> md_relayMaxNonce (metadata req)" using r by (simp add: relayed_as_def accepted_response_def)
    ultimately show ?thesis using r unfolding relayed_for_def relayed_as_def
      by (intro exI [of _ req] exI [of _ n]) (simp add: cd)
  qed
  then show ?thesis using ok unfolding rounds_ok_def by blast
qed

end
