(* ===== verification/Example.thy ===== *)
theory Example
  imports Concurrency ServerRequests RelayClient
begin

text \<open>
  A concrete deployment: a node that answers every request with a constant, web3's functions on short
  strings, transactions that are their own arguments, a server with one manager and one worker key
  and a client that knows one relay. The properties that have hypotheses are applied to it.
\<close>

section \<open>Libraries\<close>

definition toBN_ex :: "string \<Rightarrow> exn + int" where
  "toBN_ex s = (case parse_int 0 s of None \<Rightarrow> Inl (Error ''not a number'') | Some n \<Rightarrow> Inr n)"

definition toBN_num_ex :: "number \<Rightarrow> exn + int" where
  "toBN_num_ex a = (case a of None \<Rightarrow> Inl (Error ''not a number'') | Some x \<Rightarrow> Inr \<lfloor>x\<rfloor>)"

definition encodeABI_ex :: "hub_method \<Rightarrow> string" where
  "encodeABI_ex m = (case m of RegisterRelayServer u \<Rightarrow> ''0x01'' | AddRelayWorkers ws \<Rightarrow> ''0x02'' | RelayCall r s \<Rightarrow> ''0x03''
     | DeployCall r s \<Rightarrow> ''0x04'' | VerifyRelayedCall r s \<Rightarrow> ''0x05'' | RelayedUserSmartWalletCreation r a b c \<Rightarrow> ''0x06'')"

definition web3_ex :: web3_utils where
  "web3_ex = \<lparr>w3_toBN = toBN_ex, w3_toBN_num = toBN_num_ex, w3_toHex_BN = hex_str,
     w3_toHex_num = (\<lambda>a. map_sum id hex_str (toBN_num_ex a)), w3_toHex_str = Inr,
     w3_isAddress = (\<lambda>_. True), w3_toChecksumAddress = (\<lambda>a _. a), w3_soliditySha3 = (\<lambda>_. Some ''0xhash''),
     w3_decodeString = Inr, w3_encodeEventSignature = id, w3_encodeABI = encodeABI_ex,
     w3_encodeTransfer = (\<lambda>_ _. ''0x''), w3_domainHash = (\<lambda>_ _. ''0xdomain''), w3_ow = (\<lambda>_ _. Inr ()),
     w3_hubInterface = None, w3_stringify = (\<lambda>_. ''{}''), w3_semver_valid = (\<lambda>_. True),
     w3_semver_satisfies = (\<lambda>_ _. True)\<rparr>"

definition block_ex :: block where
  "block_ex = \<lparr>bl_number = 100, bl_timestamp = 1000, bl_gasLimit = 6800000\<rparr>"

definition receipt_ex :: receipt where
  "receipt_ex = \<lparr>rc_transactionHash = ''0xhash'', rc_status = True, rc_logs = Some []\<rparr>"

definition register_event_ex :: event_data where
  "register_event_ex = \<lparr>ev_event = RelayServerRegistered, ev_blockNumber = 10, ev_transactionIndex = 0,
     ev_transactionHash = ''0xreg'', ev_returnValues = \<lparr>rv_relayManager = ''0xm'', rv_relayUrl = ''http://relay'',
       rv_newRelayWorkers = [], rv_withdrawBlock = ''''\<rparr>\<rparr>"

text \<open>The node knows one registration of a relay and one mined transaction of the worker, of nonce 3 in block 80.\<close>

definition node_ex :: "unit node" where
  "node_ex = \<lparr>n_getTransactionCount = (\<lambda>_ _. ret 4), n_getGasPrice = ret ''100'', n_getBalance = (\<lambda>_ _. ret ''100000000''),
     n_getBlockNumber = ret 100, n_getBlock = (\<lambda>_. ret block_ex),
     n_getTransaction = (\<lambda>_. ret (Some \<lparr>ti_blockNumber = Some 80, ti_nonce = 3, ti_from = ''0xw''\<rparr>)),
     n_getTransactionReceipt = (\<lambda>_. ret (Some receipt_ex)), n_getCode = (\<lambda>_. ret ''0x6080604052''), n_getChainId = ret 33,
     n_getNetworkId = ret 33, n_getNetworkType = ret ''private'', n_estimateGas = (\<lambda>_. ret 50000),
     n_call = (\<lambda>_. ret None), n_sendSignedTransaction = (\<lambda>_. ret receipt_ex),
     n_sendRawTransaction = (\<lambda>_. ret ''0xhash''), n_getPastEvents = (\<lambda>_ topics _. ret (if RelayServerRegistered \<in> set (hd topics) then [register_event_ex] else [])),
     n_getStakeInfo = (\<lambda>_ _. ret \<lparr>si_stake = ''1'', si_unstakeDelay = ''1000'', si_withdrawBlock = ''0'', si_owner = ''0xo''\<rparr>),
     n_contractAt = (\<lambda>_ _. ret ()), n_versionHub = (\<lambda>_. ret ''2.0.1''), n_forwarderNonce = (\<lambda>_. ret ''0''),
     n_factoryNonce = (\<lambda>_ _. ret ''0''), n_getAcceptedTokens = (\<lambda>_. ret []),
     n_methodCall = (\<lambda>_ _ _ _. ret \<lparr>cr_true = True, cr_returnValue = None\<rparr>), n_methodEstimateGas = (\<lambda>_ _ _. ret 60000),
     n_registryEvents = (\<lambda>_ _ _. ret []), n_registrySend = (\<lambda>_ _ _. ret ()), n_now = ret 0, n_random = ret 0,
     n_sleep = (\<lambda>_. ret ())\<rparr>"

text \<open>A transaction is its arguments; there is one key, the worker's. What is decoded is \<open>sent_ex\<close>.\<close>

definition sent_ex :: tx_args where
  "sent_ex = \<lparr>ta_to = Some ''0xhub'', ta_value = Some ''0x'', ta_gasLimit = num 60000, ta_gasPrice = num 100,
     ta_data = ''0x04'', ta_nonce = Some 4\<rparr>"

definition tx_ex :: "(unit, tx_args) txlib" where
  "tx_ex = \<lparr>t_new = Inr, t_sign = (\<lambda>_ x. x), t_raw = (\<lambda>_. ''0xraw''), t_decode = (\<lambda>_. Inr sent_ex),
     t_sender = (\<lambda>_. Inr ''0xw''), t_hash = (\<lambda>_. ''0xhash''), t_to = (\<lambda>a. or_else (ta_to a) ''0x''),
     t_gas = (\<lambda>a. case ta_gasLimit a of None \<Rightarrow> 0 | Some x \<Rightarrow> \<lfloor>x\<rfloor>),
     t_gasPrice = (\<lambda>a. case ta_gasPrice a of None \<Rightarrow> 0 | Some x \<Rightarrow> \<lfloor>x\<rfloor>),
     t_data = ta_data, t_nonce = (\<lambda>a. or_else (ta_nonce a) 0)\<rparr>"

section \<open>The server\<close>

definition config_ex :: server_config where
  "config_ex = \<lparr>sc_url = ''http://relay'', sc_port = 8090, sc_relayHubAddress = ''0xhub'',
     sc_relayVerifierAddress = ''0xrv'', sc_deployVerifierAddress = ''0xdv'', sc_trustedVerifiers = [],
     sc_devMode = False, sc_customReplenish = False, sc_readyTimeout = 30000, sc_registrationBlockRate = 0,
     sc_alertedBlockDelay = 0, sc_minAlertedDelayMS = 0, sc_maxAlertedDelayMS = 0, sc_gasPriceFactor = num 1,
     sc_workerMinBalance = 1000, sc_workerTargetBalance = 3000, sc_managerMinBalance = 1000, sc_managerMinStake = ''1'',
     sc_managerTargetBalance = 3000, sc_refreshStateTimeoutBlocks = 5, sc_pendingTransactionTimeoutBlocks = 30,
     sc_successfulRoundsForReady = 3, sc_confirmationsNeeded = 12, sc_retryGasPriceFactor = num 2,
     sc_maxGasPrice = ''150'', sc_defaultGasLimit = num 500000, sc_estimateGasFactor = num 1\<rparr>"

definition deps_ex :: "(unit, stored_tx list, unit, tx_args) deps" where
  "deps_ex = \<lparr>dp_node = node_ex, dp_web3 = web3_ex, dp_db = list_nedb, dp_tx = tx_ex,
     dp_managerKeys = \<lparr>km_privateKeys = [(''0xm'', ())], km_nonces = [(0, 0)]\<rparr>,
     dp_workersKeys = \<lparr>km_privateKeys = [(''0xw'', ())], km_nonces = [(0, 0)]\<rparr>, dp_config = config_ex\<rparr>"

definition manager_ex :: "(unit, stored_tx list) tm_state" where
  "manager_ex = \<lparr>world = (), ci_relayHub = Some ''0xhub'', ci_relayVerifier = Some ''0xrv'', ci_deployVerifier = Some ''0xdv'',
     ci_rawTxOptions = Some (getRawTxOptions 33 33 None), ci_chainId = 33, ci_networkId = Some 33,
     ci_networkType = Some ''private'', txstore = [], nonces = (\<lambda>_. Some 0), nonceMutex = False\<rparr>"

definition amount_ex :: amount_required where
  "amount_ex = \<lparr>am_name = ''Balance'', am_currentValue = 1000000, am_requiredValue = 1\<rparr>"

definition server_ex :: "(unit, stored_tx list) server_state" where
  "server_ex = \<lparr>world = (), ci_relayHub = Some ''0xhub'', ci_relayVerifier = Some ''0xrv'', ci_deployVerifier = Some ''0xdv'',
     ci_rawTxOptions = Some (getRawTxOptions 33 33 None), ci_chainId = 33, ci_networkId = Some 33,
     ci_networkType = Some ''private'', txstore = [], nonces = (\<lambda>_. Some 0), nonceMutex = False,
     rg_balanceRequired = amount_ex, rg_stakeRequired = amount_ex, rg_isStakeLocked = True, rg_isInitialized = True,
     rg_ownerAddress = Some ''0xo'', rg_lastMinedRegister = Some register_event_ex, rg_lastWorkerAdded = None,
     rg_delayedEvents = [], rg_unstaked = False, sv_lastScannedBlock = 50, sv_lastRefreshBlock = 50, sv_ready = True,
     sv_lastSuccessfulRounds = 3, sv_gasPrice = num 100, sv_workerSemaphoreOn = False, sv_alerted = False,
     sv_alertedBlock = 0, sv_initialized = True, sv_lastMinedActive = Some register_event_ex, sv_chainId = 33, sv_networkId = 33,
     sv_relayHubContract = Some ''0xhub'', sv_trustedVerifiers = [''0xrv'', ''0xdv''],
     sv_workerBalanceRequired = amount_ex, sv_workerTask = True, sv_polling = True\<rparr>"

text \<open>A request to deploy a smart wallet, as the server receives it.\<close>

definition relay_data_ex :: relay_data where
  "relay_data_ex = \<lparr>rd_gasPrice = ''100'', rd_domainSeparator = ''0xdomain'', rd_relayWorker = ''0xw'',
     rd_callForwarder = ''0xfactory'', rd_callVerifier = ''0xdv''\<rparr>"

definition deploy_ex :: deploy_request_struct where
  "deploy_ex = \<lparr>dr_relayHub = ''0xhub'', dr_from = ''0xuser'', dr_to = ''0xto'', dr_tokenContract = ZERO_ADDRESS,
     dr_recoverer = ZERO_ADDRESS, dr_value = ''0'', dr_nonce = ''0'', dr_tokenAmount = ''0x00'', dr_tokenGas = ''0x00'',
     dr_index = ''0'', dr_data = ''0x''\<rparr>"

definition request_ex :: relay_transaction_request where
  "request_ex = \<lparr>relayRequest = DeployRequest deploy_ex relay_data_ex,
     metadata = \<lparr>md_relayHubAddress = ''0xhub'', md_relayMaxNonce = 7, md_signature = ''0xsig''\<rparr>\<rparr>"

section \<open>The client\<close>

definition relay_ex :: relay_info_url where
  "relay_ex = \<lparr>ri_relayUrl = ''http://relay'', ri_relayManager = Some ''0xm''\<rparr>"

definition ping_ex :: ping_response where
  "ping_ex = \<lparr>pr_relayWorkerAddress = ''0xw'', pr_relayManagerAddress = ''0xm'', pr_relayHubAddress = ''0xhub'',
     pr_minGasPrice = ''100'', pr_networkId = Some ''33'', pr_chainId = Some ''33'', pr_ready = True, pr_version = ''2.0.1''\<rparr>"

definition http_ex :: "unit http" where
  "http_ex = \<lparr>h_get = (\<lambda>_. ret (Some ping_ex)), h_post = (\<lambda>_ _. ret (Some ''0xraw'', None))\<rparr>"

definition client_config_ex :: enveloping_config where
  "client_config_ex = defaultEnvelopingConfig\<lparr>ec_relayHubAddress := ''0xhub'', ec_minGasPrice := 60,
     ec_deployVerifierAddress := ''0xdv'', ec_relayVerifierAddress := ''0xrv''\<rparr>"

definition selector_ex :: "unit selector" where
  "selector_ex = \<lparr>se_node = node_ex, se_web3 = web3_ex, se_http = http_ex, se_config = client_config_ex,
     se_relayFilter = EmptyFilter, se_scoreCalculator = DefaultRelayScore, se_pingFilter = GasPricePingFilter,
     se_pingText = (\<lambda>_. ''{}''), se_order = id\<rparr>"

definition signer_ex :: "(unit, unit) signer" where
  "signer_ex = \<lparr>sg_address = (\<lambda>_. ''0xuser''), sg_generate = ret (), sg_signTypedData = (\<lambda>_ _. Inr ''0xsig''),
     sg_recover = (\<lambda>_ _. Inr ''0xuser''), sg_signWithProvider = (\<lambda>_. ret ''0xsig''), sg_chainId = 33\<rparr>"

definition client_ex :: "(unit, unit, unit, tx_args) client" where
  "client_ex = \<lparr>cl_selector = selector_ex, cl_signer = signer_ex, cl_txlib = tx_ex\<rparr>"

definition client_state_ex :: "(unit, unit) client_state" where
  "client_state_ex = \<lparr>world = (), ci_relayHub = Some ''0xhub'', ci_relayVerifier = Some ''0xrv'', ci_deployVerifier = Some ''0xdv'',
     ci_rawTxOptions = Some (getRawTxOptions 33 33 None), ci_chainId = 33, ci_networkId = Some 33,
     ci_networkType = Some ''private'', kr_latestScannedBlock = 0, kr_relayFailures = [], kr_relayLookupWindowParts = 1,
     kr_preferredRelayers = [], kr_allRelayers = [relay_ex], rs_remainingRelays = [[], [relay_ex]], rs_isInitialized = True,
     rs_errors = [], ac_accounts = [(''0xuser'', ())], cl_initialized = True\<rparr>"

definition details_ex :: transaction_details where
  "details_ex = \<lparr>td_from = ''0xuser'', td_data = ''0x'', td_to = ''0xto'', td_tokenContract = None, td_tokenAmount = None,
     td_tokenGas = None, td_recoverer = None, td_index = None, td_value = None, td_gas = None, td_gasPrice = Some ''0x64'',
     td_relayHub = Some ''0xhub'', td_callForwarder = Some ''0xfactory'', td_callVerifier = None,
     td_isSmartWalletDeploy = Some True, td_smartWalletAddress = None, td_clientId = None, td_useEnveloping = None,
     td_forceGasPrice = Some ''0x64'', td_forceGas = None, td_onlyPreferredRelays = None, td_retries = None,
     td_initialBackoff = None\<rparr>"

section \<open>Members\<close>

lemma web3_ex_simps [simp]:
  "w3_toBN web3_ex = toBN_ex"
  "w3_toBN_num web3_ex = toBN_num_ex"
  "w3_toHex_BN web3_ex = hex_str"
  "w3_toHex_num web3_ex = (\<lambda>a. map_sum id hex_str (toBN_num_ex a))"
  "w3_toHex_str web3_ex = Inr"
  "w3_isAddress web3_ex = (\<lambda>_. True)"
  "w3_toChecksumAddress web3_ex = (\<lambda>a _. a)"
  "w3_soliditySha3 web3_ex = (\<lambda>_. Some ''0xhash'')"
  "w3_decodeString web3_ex = Inr"
  "w3_encodeEventSignature web3_ex = id"
  "w3_encodeABI web3_ex = encodeABI_ex"
  "w3_encodeTransfer web3_ex = (\<lambda>_ _. ''0x'')"
  "w3_domainHash web3_ex = (\<lambda>_ _. ''0xdomain'')"
  "w3_ow web3_ex = (\<lambda>_ _. Inr ())"
  "w3_hubInterface web3_ex = None"
  "w3_stringify web3_ex = (\<lambda>_. ''{}'')"
  "w3_semver_valid web3_ex = (\<lambda>_. True)"
  "w3_semver_satisfies web3_ex = (\<lambda>_ _. True)"
  by (simp_all add: web3_ex_def)

lemma node_ex_simps [simp]:
  "n_getTransactionCount node_ex = (\<lambda>_ _. ret 4)"
  "n_getGasPrice node_ex = ret ''100''"
  "n_getBalance node_ex = (\<lambda>_ _. ret ''100000000'')"
  "n_getBlockNumber node_ex = ret 100"
  "n_getBlock node_ex = (\<lambda>_. ret block_ex)"
  "n_getTransaction node_ex = (\<lambda>_. ret (Some \<lparr>ti_blockNumber = Some 80, ti_nonce = 3, ti_from = ''0xw''\<rparr>))"
  "n_getTransactionReceipt node_ex = (\<lambda>_. ret (Some receipt_ex))"
  "n_getCode node_ex = (\<lambda>_. ret ''0x6080604052'')"
  "n_getChainId node_ex = ret 33"
  "n_getNetworkId node_ex = ret 33"
  "n_getNetworkType node_ex = ret ''private''"
  "n_estimateGas node_ex = (\<lambda>_. ret 50000)"
  "n_call node_ex = (\<lambda>_. ret None)"
  "n_sendSignedTransaction node_ex = (\<lambda>_. ret receipt_ex)"
  "n_sendRawTransaction node_ex = (\<lambda>_. ret ''0xhash'')"
  "n_getPastEvents node_ex = (\<lambda>_ topics _. ret (if RelayServerRegistered \<in> set (hd topics) then [register_event_ex] else []))"
  "n_getStakeInfo node_ex = (\<lambda>_ _. ret \<lparr>si_stake = ''1'', si_unstakeDelay = ''1000'', si_withdrawBlock = ''0'', si_owner = ''0xo''\<rparr>)"
  "n_contractAt node_ex = (\<lambda>_ _. ret ())"
  "n_versionHub node_ex = (\<lambda>_. ret ''2.0.1'')"
  "n_forwarderNonce node_ex = (\<lambda>_. ret ''0'')"
  "n_factoryNonce node_ex = (\<lambda>_ _. ret ''0'')"
  "n_getAcceptedTokens node_ex = (\<lambda>_. ret [])"
  "n_methodCall node_ex = (\<lambda>_ _ _ _. ret \<lparr>cr_true = True, cr_returnValue = None\<rparr>)"
  "n_methodEstimateGas node_ex = (\<lambda>_ _ _. ret 60000)"
  "n_registryEvents node_ex = (\<lambda>_ _ _. ret [])"
  "n_registrySend node_ex = (\<lambda>_ _ _. ret ())"
  "n_now node_ex = ret 0"
  "n_random node_ex = ret 0"
  "n_sleep node_ex = (\<lambda>_. ret ())"
  by (simp_all add: node_ex_def)

lemma tx_ex_simps [simp]:
  "t_new tx_ex = Inr"
  "t_sign tx_ex = (\<lambda>_ x. x)"
  "t_raw tx_ex = (\<lambda>_. ''0xraw'')"
  "t_decode tx_ex = (\<lambda>_. Inr sent_ex)"
  "t_sender tx_ex = (\<lambda>_. Inr ''0xw'')"
  "t_hash tx_ex = (\<lambda>_. ''0xhash'')"
  "t_to tx_ex = (\<lambda>a. or_else (ta_to a) ''0x'')"
  "t_gas tx_ex = (\<lambda>a. case ta_gasLimit a of None \<Rightarrow> 0 | Some x \<Rightarrow> \<lfloor>x\<rfloor>)"
  "t_gasPrice tx_ex = (\<lambda>a. case ta_gasPrice a of None \<Rightarrow> 0 | Some x \<Rightarrow> \<lfloor>x\<rfloor>)"
  "t_data tx_ex = ta_data"
  "t_nonce tx_ex = (\<lambda>a. or_else (ta_nonce a) 0)"
  by (simp_all add: tx_ex_def)

lemma config_ex_simps [simp]:
  "sc_url config_ex = ''http://relay''"
  "sc_port config_ex = 8090"
  "sc_relayHubAddress config_ex = ''0xhub''"
  "sc_relayVerifierAddress config_ex = ''0xrv''"
  "sc_deployVerifierAddress config_ex = ''0xdv''"
  "sc_trustedVerifiers config_ex = []"
  "sc_devMode config_ex = False"
  "sc_customReplenish config_ex = False"
  "sc_readyTimeout config_ex = 30000"
  "sc_registrationBlockRate config_ex = 0"
  "sc_alertedBlockDelay config_ex = 0"
  "sc_minAlertedDelayMS config_ex = 0"
  "sc_maxAlertedDelayMS config_ex = 0"
  "sc_gasPriceFactor config_ex = num 1"
  "sc_workerMinBalance config_ex = 1000"
  "sc_workerTargetBalance config_ex = 3000"
  "sc_managerMinBalance config_ex = 1000"
  "sc_managerMinStake config_ex = ''1''"
  "sc_managerTargetBalance config_ex = 3000"
  "sc_refreshStateTimeoutBlocks config_ex = 5"
  "sc_pendingTransactionTimeoutBlocks config_ex = 30"
  "sc_successfulRoundsForReady config_ex = 3"
  "sc_confirmationsNeeded config_ex = 12"
  "sc_retryGasPriceFactor config_ex = num 2"
  "sc_maxGasPrice config_ex = ''150''"
  "sc_defaultGasLimit config_ex = num 500000"
  "sc_estimateGasFactor config_ex = num 1"
  by (simp_all add: config_ex_def)

lemma deps_ex_simps [simp]:
  "dp_node deps_ex = node_ex"
  "dp_web3 deps_ex = web3_ex"
  "dp_db deps_ex = list_nedb"
  "dp_tx deps_ex = tx_ex"
  "dp_managerKeys deps_ex = \<lparr>km_privateKeys = [(''0xm'', ())], km_nonces = [(0, 0)]\<rparr>"
  "dp_workersKeys deps_ex = \<lparr>km_privateKeys = [(''0xw'', ())], km_nonces = [(0, 0)]\<rparr>"
  "dp_config deps_ex = config_ex"
  by (simp_all add: deps_ex_def)

lemma server_ex_simps [simp]:
  "world server_ex = ()"
  "ci_relayHub server_ex = Some ''0xhub''"
  "ci_relayVerifier server_ex = Some ''0xrv''"
  "ci_deployVerifier server_ex = Some ''0xdv''"
  "ci_rawTxOptions server_ex = Some (getRawTxOptions 33 33 None)"
  "ci_chainId server_ex = 33"
  "ci_networkId server_ex = Some 33"
  "ci_networkType server_ex = Some ''private''"
  "txstore server_ex = []"
  "nonces server_ex = (\<lambda>_. Some 0)"
  "nonceMutex server_ex = False"
  "rg_balanceRequired server_ex = amount_ex"
  "rg_stakeRequired server_ex = amount_ex"
  "rg_isStakeLocked server_ex = True"
  "rg_isInitialized server_ex = True"
  "rg_ownerAddress server_ex = Some ''0xo''"
  "rg_lastMinedRegister server_ex = Some register_event_ex"
  "rg_lastWorkerAdded server_ex = None"
  "rg_delayedEvents server_ex = []"
  "rg_unstaked server_ex = False"
  "sv_lastScannedBlock server_ex = 50"
  "sv_lastRefreshBlock server_ex = 50"
  "sv_ready server_ex = True"
  "sv_lastSuccessfulRounds server_ex = 3"
  "sv_gasPrice server_ex = num 100"
  "sv_workerSemaphoreOn server_ex = False"
  "sv_alerted server_ex = False"
  "sv_alertedBlock server_ex = 0"
  "sv_initialized server_ex = True"
  "sv_lastMinedActive server_ex = Some register_event_ex"
  "sv_chainId server_ex = 33"
  "sv_networkId server_ex = 33"
  "sv_relayHubContract server_ex = Some ''0xhub''"
  "sv_trustedVerifiers server_ex = [''0xrv'', ''0xdv'']"
  "sv_workerBalanceRequired server_ex = amount_ex"
  "sv_workerTask server_ex = True"
  "sv_polling server_ex = True"
  by (simp_all add: server_ex_def)

lemma manager_ex_simps [simp]:
  "world manager_ex = ()"
  "ci_relayHub manager_ex = Some ''0xhub''"
  "ci_relayVerifier manager_ex = Some ''0xrv''"
  "ci_deployVerifier manager_ex = Some ''0xdv''"
  "ci_rawTxOptions manager_ex = Some (getRawTxOptions 33 33 None)"
  "ci_chainId manager_ex = 33"
  "ci_networkId manager_ex = Some 33"
  "ci_networkType manager_ex = Some ''private''"
  "txstore manager_ex = []"
  "nonces manager_ex = (\<lambda>_. Some 0)"
  "nonceMutex manager_ex = False"
  by (simp_all add: manager_ex_def)

lemma selector_ex_simps [simp]:
  "se_node selector_ex = node_ex"
  "se_web3 selector_ex = web3_ex"
  "se_http selector_ex = http_ex"
  "se_config selector_ex = client_config_ex"
  "se_relayFilter selector_ex = EmptyFilter"
  "se_scoreCalculator selector_ex = DefaultRelayScore"
  "se_pingFilter selector_ex = GasPricePingFilter"
  "se_pingText selector_ex = (\<lambda>_. ''{}'')"
  "se_order selector_ex = id"
  by (simp_all add: selector_ex_def)

lemma http_ex_simps [simp]:
  "h_get http_ex = (\<lambda>_. ret (Some ping_ex))"
  "h_post http_ex = (\<lambda>_ _. ret (Some ''0xraw'', None))"
  by (simp_all add: http_ex_def)

lemma signer_ex_simps [simp]:
  "sg_address signer_ex = (\<lambda>_. ''0xuser'')"
  "sg_generate signer_ex = ret ()"
  "sg_signTypedData signer_ex = (\<lambda>_ _. Inr ''0xsig'')"
  "sg_recover signer_ex = (\<lambda>_ _. Inr ''0xuser'')"
  "sg_signWithProvider signer_ex = (\<lambda>_. ret ''0xsig'')"
  "sg_chainId signer_ex = 33"
  by (simp_all add: signer_ex_def)

lemma client_ex_simps [simp]:
  "cl_selector client_ex = selector_ex"
  "cl_signer client_ex = signer_ex"
  "cl_txlib client_ex = tx_ex"
  by (simp_all add: client_ex_def)

lemma client_state_ex_simps [simp]:
  "world client_state_ex = ()"
  "ci_relayHub client_state_ex = Some ''0xhub''"
  "ci_relayVerifier client_state_ex = Some ''0xrv''"
  "ci_deployVerifier client_state_ex = Some ''0xdv''"
  "ci_rawTxOptions client_state_ex = Some (getRawTxOptions 33 33 None)"
  "ci_chainId client_state_ex = 33"
  "ci_networkId client_state_ex = Some 33"
  "ci_networkType client_state_ex = Some ''private''"
  "kr_latestScannedBlock client_state_ex = 0"
  "kr_relayFailures client_state_ex = []"
  "kr_relayLookupWindowParts client_state_ex = 1"
  "kr_preferredRelayers client_state_ex = []"
  "kr_allRelayers client_state_ex = [relay_ex]"
  "rs_remainingRelays client_state_ex = [[], [relay_ex]]"
  "rs_isInitialized client_state_ex = True"
  "rs_errors client_state_ex = []"
  "ac_accounts client_state_ex = [(''0xuser'', ())]"
  "cl_initialized client_state_ex = True"
  by (simp_all add: client_state_ex_def)

lemma ping_ex_simps [simp]:
  "pr_relayWorkerAddress ping_ex = ''0xw''"
  "pr_relayManagerAddress ping_ex = ''0xm''"
  "pr_relayHubAddress ping_ex = ''0xhub''"
  "pr_minGasPrice ping_ex = ''100''"
  "pr_networkId ping_ex = Some ''33''"
  "pr_chainId ping_ex = Some ''33''"
  "pr_ready ping_ex = True"
  "pr_version ping_ex = ''2.0.1''"
  by (simp_all add: ping_ex_def)

lemma relay_ex_simps [simp]:
  "ri_relayUrl relay_ex = ''http://relay''"
  "ri_relayManager relay_ex = Some ''0xm''"
  by (simp_all add: relay_ex_def)

text \<open>The numbers that occur, as the libraries read them.\<close>

lemmas parse_ex = parse_int_def split_sign_def is_white_def strip_hex_def is_digit_in_def digit_value_def
  digits_value_def Let_def

lemma numbers_ex [simp]:
  "parse_int 0 ''100'' = Some 100" "parse_int 0 ''100000000'' = Some 100000000" "parse_int 0 ''0'' = Some 0"
  "parse_int 0 ''1'' = Some 1" "parse_int 0 ''150'' = Some 150" "parse_int 16 ''0x64'' = Some 100"
  "parse_int 0 ''0x64'' = Some 100"
  by (simp_all add: parse_ex)

lemma parseInt_ex [simp]:
  "parseInt ''100'' = num 100" "parseInt ''150'' = num 150" "parseInt16 ''0x64'' = num 100" "parseInt ''0x64'' = num 100"
  by (simp_all add: parseInt_def parseInt16_def num_def)

lemma lower_ex [simp]:
  "toLowerCase ''0xhub'' = ''0xhub''" "toLowerCase ''0xw'' = ''0xw''" "toLowerCase ''0xdv'' = ''0xdv''"
  "toLowerCase ''0xrv'' = ''0xrv''" "toLowerCase ''0xhash'' = ''0xhash''" "toLowerCase ''0xuser'' = ''0xuser''"
  "toLowerCase ''0xm'' = ''0xm''"
  by code_simp+

lemma addresses_ex [simp]: "workerAddress deps_ex = ''0xw''" "managerAddress deps_ex = ''0xm''"
  by (simp_all add: workerAddress_def managerAddress_def getAddress_def getAddresses_def)

section \<open>Runs\<close>

lemmas send_defs = sendTransaction_def resolve_gasPrice_def acquire_def finally_do_run sign_and_store_def pollNonce_def
  new_tx_args_def encoded_call_def signTransaction_def keysOf_def isSigner_def createStoredTransaction_def
  first_metadata_def increment_nonce_def putTx_def broadcast_checked_def list_nedb_def by_nonceSigner_def
  checked_def unique_list_def db_run_def store_doc_def tx_key_def release_def Let_def

lemmas relay_defs = createRelayTransaction_def validateInputTypes_def alerted_delay_def validateInput_def
  validateMaxNonce_def validateRequestWithVerifier_def createContract_def maxPossibleGasOf_def
  walletFactoryEstimateGasOfDeployCall_def validateViewCallSucceeds_def bn_toNumber_def relay_method_def isReady_def
  isTrustedVerifier_def instance_of_def relay_details_def replenishServer_def defaultReplenishFunction_def
  getManagerBalance_def getWorkerBalance_def getBalance_def set_currentValue_def isSatisfied_def toBN_ex_def

lemma send_ex:
  "\<exists>r t. sendTransaction deps_ex (relay_details deps_ex request_ex 60000 100) manager_ex = (Inr r, t)"
  by (simp add: send_defs js_run relay_details_def relay_method_def request_ex_def relay_data_ex_def encodeABI_ex_def)

lemma serve_ex: "\<exists>r t. createRelayTransaction deps_ex request_ex server_ex = (Inr r, t)"
  by (simp add: relay_defs send_defs js_run ZERO_ADDRESS_def request_ex_def relay_data_ex_def deploy_ex_def
      amount_ex_def encodeABI_ex_def)

lemmas client_run_defs = rc_relayTransaction_def rc_init_def refresh_def refreshFailures_def
  fetchRecentlyActiveRelayManagers_def kr_getPastEventsForHub_def request_parts_def splitRange_def splitSize_def
  split_from.simps ContractInteractor.getPastEventsForHub_def getPastEvents_def relayHubInstance_def instance_of_def
  event2topic_def ActiveManagerEvents_def event_name_defs getRelayInfoForManagers_def
  getPastEventsForStakeManagement_def activeRelays_def chronological_def activate_def eventInfo_def EmptyFilter_def
  priced_def gassed_def newRelaySelectionManager_def rs_init_def getRelaysSortedForTransaction_def
  sortRelaysInternal_def relayScores_def isInfoFromEvent_def relaysLeft_def needsTokenGas_def selectNextRelay_def
  getNextSlice_def slice_def nextRelayInternal_def raceToSuccess_def getRelayAddressPing_def getPingResponse_def
  GasPricePingFilter_def handleRaceResults_def

lemmas attempt_defs = attemptRelay_def prepareDeployHttpRequest_def resolveForwarder_def getFactoryNonce_def createContract_def
  decimal_of_hex_def signAndComplete_def sign_def isSameAddress_def request_from_def validateAcceptDeployCall_def
  getMaxViewableDeployGasLimit_def walletFactoryEstimateGasOfDeployCall_def getBalance_def acceptError_def sendToRelay_def
  HttpClient.relayTransaction_def ci_getRawTxOptions_def validateRelayResponse_def encodeCall_def broadcastRawTx_def
  isAlreadySubmitted_def both_def startsWith_def

lemma relay_run_ex: "\<exists>res t. rc_relayTransaction client_ex details_ex client_state_ex = (Inr (Result res), t) \<and>
    re_transaction res = Some sent_ex"
  by (simp add: client_run_defs attempt_defs js_run Let_def details_ex_def client_config_ex_def defaultEnvelopingConfig_def
      register_event_ex_def ZERO_ADDRESS_def toBN_ex_def encodeABI_ex_def sent_ex_def set_of_list_def set_add_def fromWorker_def
      numeral_3_eq_3)

section \<open>Stores\<close>

lemma list_laws: "nedb_laws list_nedb set unique_list"
  by (rule list_db.nedb_laws_axioms)

lemma wf_list_Nil: "nedb_laws.wf_store set unique_list []"
  by (simp add: list_db.wf_store_def unique_list_def)

text \<open>A transaction of the worker that was never seen in a block, as the store keeps it.\<close>

definition stored_ex :: stored_tx where
  "stored_ex = \<lparr>st_to = ''0xhub'', st_gas = 60000, st_gasPrice = 100, st_data = ''0x04'', st_nonce = 3,
     st_txId = ''0xhash'', st_from = ''0xw'', st_attempts = 1, st_serverAction = RELAY_CALL,
     st_creationBlockNumber = 60, st_boostBlockNumber = None, st_minedBlockNumber = None,
     st_nonceSigner = Some (3, ''0xw'')\<rparr>"

lemma wf_stored_ex: "nedb_laws.wf_store set unique_list [stored_ex]"
  by (simp add: list_db.wf_store_def unique_list_def keyed_def tx_key_def stored_ex_def)

end
