(* ===== verification/ServerProperties.thy ===== *)
theory ServerProperties
  imports Example
begin

text \<open>
  What the transaction manager guarantees: what a send stores, what is removed, the nonces, their mutex
  and the interleaving of sends. Each property is one theorem; those with hypotheses are applied to the
  deployment of theory Example.
\<close>

section \<open>Properties\<close>

text \<open>
  C7. A successful \<open>sendTransaction\<close> adds exactly one transaction to the store, signed with the
  signer's key under a nonce not below the one counted, in a place that was free; the stored
  transactions of all others stay, and the signer's counter is one above the nonce used.
\<close>

theorem sendTransaction_stores_one:
  assumes "nedb_laws DB docs ok" "dp_db D = DB" "nedb_laws.wf_store docs ok (txstore s)"
    and "nonces s (sd_signer d) = Some n" "sendTransaction D d s = (Inr r, t)"
  shows "\<exists>m tx key p. n \<le> m \<and> t_new (dp_tx D) (new_tx_args D d p (Some m)) = Inr tx \<and>
    map_of (km_privateKeys (keysOf D (sd_signer d))) (sd_signer d) = Some key \<and>
    sx_signedTx r = t_raw (dp_tx D) (t_sign (dp_tx D) key tx) \<and>
    (let stx = createStoredTransaction (dp_tx D) (t_sign (dp_tx D) key tx) (first_metadata d) in
      pending DB (txstore s) (tx_key stx) = None \<and>
      pending DB (txstore t) = (pending DB (txstore s))(tx_key stx \<mapsto> store_doc stx)) \<and>
    nonces t (sd_signer d) = Some (m + 1) \<and> nedb_laws.wf_store docs ok (txstore t)"
proof -
  obtain nonce tx key p where *: "t_new (dp_tx D) (new_tx_args D d p nonce) = Inr tx"
    "map_of (km_privateKeys (keysOf D (sd_signer d))) (sd_signer d) = Some key"
    "sx_signedTx r = t_raw (dp_tx D) (t_sign (dp_tx D) key tx)"
    "let stx = createStoredTransaction (dp_tx D) (t_sign (dp_tx D) key tx) (first_metadata d)
     in toLowerCase (sx_transactionHash r) = toLowerCase (st_txId stx) \<and>
        pending DB (txstore s) (tx_key stx) = None \<and>
        pending DB (txstore t) = (pending DB (txstore s))(tx_key stx \<mapsto> store_doc stx)"
    "nonces t (sd_signer d) = map_option (\<lambda>n. n + 1) nonce" "nedb_laws.wf_store docs ok (txstore t)"
    "\<exists>m\<ge>n. nonce = Some m"
    by (rule nedb_laws.send_stores [OF assms(1,2,3,5)]) (use assms(4) in blast)
  then obtain m where "n \<le> m" "nonce = Some m" by blast
  then show ?thesis using * by (auto simp: Let_def)
qed

theorem sendTransaction_stores_one_witness:
  "\<exists>r t. sendTransaction deps_ex (relay_details deps_ex request_ex 60000 100) manager_ex = (Inr r, t) \<and>
     nedb_laws.wf_store set unique_list (txstore t)"
proof -
  obtain r t where run: "sendTransaction deps_ex (relay_details deps_ex request_ex 60000 100) manager_ex = (Inr r, t)"
    using send_ex by blast
  have db: "dp_db deps_ex = list_nedb" by simp
  have wf: "nedb_laws.wf_store set unique_list (txstore manager_ex)" by (simp add: wf_list_Nil)
  have n: "nonces manager_ex (sd_signer (relay_details deps_ex request_ex 60000 100)) = Some 0" by simp
  show ?thesis using sendTransaction_stores_one [OF list_laws db wf n run] run by blast
qed

text \<open>
  C11. A transaction disappears from the store only when the node has reported a transaction of the same
  sender with this or a later nonce that is old enough, by the number of confirmations required.
\<close>

theorem removal_needs_confirmation:
  assumes "nedb_laws DB docs ok" "dp_db D = DB" "nedb_laws.wf_store docs ok (txstore s)"
    and "pending DB (txstore s) k \<noteq> None"
    and "pending DB (txstore (snd (removeConfirmedTransactions D b s))) k = None"
  shows "confirmed_on (dp_node D) (sc_confirmationsNeeded (dp_config D)) b k"
proof -
  have "nedb_laws.drops_only DB docs ok (confirmed_on (dp_node D) (sc_confirmationsNeeded (dp_config D)) b) s
      (snd (removeConfirmedTransactions D b s))"
    using nedb_laws.along_drops_removeConfirmedTransactions [OF assms(1,2)] by (rule alongD)
  then show ?thesis using assms(3-5) unfolding nedb_laws.drops_only_def [OF assms(1)] by blast
qed

theorem removal_needs_confirmation_witness: "confirmed_on node_ex 12 100 (3, ''0xw'')"
proof -
  let ?s = "manager_ex\<lparr>txstore := [stored_ex]\<rparr>"
  have wf: "nedb_laws.wf_store set unique_list (txstore ?s)" by (simp add: wf_stored_ex)
  have before: "pending list_nedb (txstore ?s) (3, ''0xw'') \<noteq> None"
    by (simp add: pending_def list_nedb_def by_nonceSigner_def stored_ex_def)
  have after: "pending list_nedb (txstore (snd (removeConfirmedTransactions deps_ex 100 ?s))) (3, ''0xw'') = None"
    by (simp add: removeConfirmedTransactions_def getAll_def removeConfirmed_def should_recheck_def stored_ex_def js_run
        removeTxsUntilNonce_def db_run_def list_nedb_def until_nonce_def pending_def)
  have "dp_db deps_ex = list_nedb" by simp
  from removal_needs_confirmation [OF list_laws this wf before after] show ?thesis by simp
qed

text \<open>No operation of the transaction manager ever lowers the nonce of a signer, whether it returns or throws.\<close>

theorem nonces_never_decrease:
  "nonces_grow s (snd (sendTransaction D d s)) \<and> nonces_grow s (snd (resendTransaction D tx b p s)) \<and>
   nonces_grow s (snd (boostUnderpricedPendingTransactionsForSigner D a b s)) \<and>
   nonces_grow s (snd (removeConfirmedTransactions D b s))"
  by (intro conjI; rule alongD) (rule growing.along_blind_send growing.along_blind_resend growing.along_blind_boost growing.along_blind_remove)+

text \<open>The nonce mutex is free after every send that got as far as taking it, however it ends.\<close>

theorem nonce_mutex_released:
  "nonceMutex (snd (sendTransaction D d s)) =
     (case fst (resolve_gasPrice D (sd_gasPrice d) s) of Inl _ \<Rightarrow> nonceMutex s | Inr _ \<Rightarrow> False)"
  by (simp add: sendTransaction_mutex split: sum.split) (metis rangeI Inl_not_Inr rangeE)

text \<open>
  C10. In every interleaving of concurrent sends and polls, at most one call is between the acquisition
  and the release of the mutex, and no nonce is issued twice for a signer.
\<close>

theorem issued_nonces_distinct:
  assumes "reachable D y"
  shows "distinct (issued y) \<and> (holds (procs y i) \<and> holds (procs y j) \<longrightarrow> i = j)"
  using reachable_inv [OF assms] unfolding inv_mutex_def inv_issued_def by blast

lemma reachable_rtranclp: "(step D)\<^sup>*\<^sup>* y z \<Longrightarrow> reachable D y \<Longrightarrow> reachable D z"
  by (induction rule: rtranclp_induct) (auto intro: reachable.step)

theorem issued_nonces_distinct_witness:
  "\<exists>z r. reachable deps_ex z \<and> procs z 0 = Done r \<and> distinct (issued z)"
proof -
  let ?d = "relay_details deps_ex request_ex 60000 100"
  let ?idle = "\<lparr>shared = manager_ex, procs = (\<lambda>_. Idle), issued = []\<rparr>"
  let ?y = "goes 0 (Start ?d) (shared ?idle) ?idle"
  obtain r t where run: "sendTransaction deps_ex ?d (shared ?y) = (Inr r, t)" using send_ex by (auto simp: goes_def)
  have "reachable deps_ex ?idle" by (rule reachable.init) simp_all
  moreover have "step deps_ex ?idle ?y" by (rule step.call) auto
  ultimately have y: "reachable deps_ex ?y" by (rule reachable.step)
  have "procs ?y 0 = Start ?d" "\<not> nonceMutex (shared ?y)" by (simp_all add: goes_def)
  from send_steps [OF run this] obtain z where z: "(step deps_ex)\<^sup>*\<^sup>* ?y z" "procs z = (procs ?y)(0 := Done r)" by blast
  have "reachable deps_ex z" by (rule reachable_rtranclp [OF z(1) y])
  then show ?thesis using issued_nonces_distinct [of deps_ex z] z(2) by auto
qed

text \<open>
  The sequential \<open>sendTransaction\<close> is one of the interleavings: a call that finds the mutex free and
  is not disturbed reaches, step by step, the state and the result the sequential definition gives.
\<close>

theorem sequential_send_is_an_interleaving:
  assumes "sendTransaction D d (shared y) = (Inr r, t)" "procs y i = Start d" "\<not> nonceMutex (shared y)"
  shows "\<exists>z. (step D)\<^sup>*\<^sup>* y z \<and> shared z = t \<and> procs z = (procs y)(i := Done r)"
  using assms by (rule send_steps)

theorem sequential_send_is_an_interleaving_witness:
  "\<exists>z r. (step deps_ex)\<^sup>*\<^sup>* \<lparr>shared = manager_ex, procs = (\<lambda>_. Start (relay_details deps_ex request_ex 60000 100)), issued = []\<rparr> z \<and>
     procs z 0 = Done r"
proof -
  let ?d = "relay_details deps_ex request_ex 60000 100"
  let ?y = "\<lparr>shared = manager_ex, procs = (\<lambda>_. Start ?d), issued = []\<rparr>"
  obtain r t where run: "sendTransaction deps_ex ?d (shared ?y) = (Inr r, t)" using send_ex by auto
  have "procs ?y 0 = Start ?d" "\<not> nonceMutex (shared ?y)" by simp_all
  from sequential_send_is_an_interleaving [OF run this] show ?thesis by auto
qed

end
