(* ===== verification/StoreProperties.thy ===== *)
theory StoreProperties
  imports Example
begin

text \<open>
  What the transaction store guarantees: each operation implements an operation on a finite map from
  pairs of nonce and signer to transactions, and which stored transactions are boosted, at which price.
\<close>

section \<open>Helper facts\<close>











section \<open>Properties\<close>

text \<open>
  C18. \<open>putTx\<close> implements the update of one key of the map of pending transactions: a new key is bound to
  the document, a bound key is overwritten member by member when \<open>updateExisting\<close> is set, and the call
  fails on a bound key when it is not set; nothing else of the state changes.
\<close>

theorem putTx_refines:
  assumes "nedb_laws DB docs ok" "nedb_laws.wf_store docs ok (txstore s)" "putTx DB tx upd s = (Inr u, t)"
  shows "pending DB (txstore t) = put_spec tx (pending DB (txstore s)) \<and> nedb_laws.wf_store docs ok (txstore t) \<and>
    t = s\<lparr>txstore := txstore t\<rparr> \<and> (upd \<or> pending DB (txstore s) (tx_key tx) = None)"
  using nedb_laws.putTx_Inr [OF assms] by auto

theorem putTx_refines_witness:
  "\<exists>t. putTx list_nedb stored_ex True (manager_ex\<lparr>txstore := [stored_ex]\<rparr>) = (Inr (), t) \<and>
     pending list_nedb (txstore t) (3, ''0xw'') = Some stored_ex"
proof -
  let ?s = "manager_ex\<lparr>txstore := [stored_ex]\<rparr>"
  have run: "\<exists>t. putTx list_nedb stored_ex True ?s = (Inr (), t)"
    by (simp add: putTx_def stored_ex_def js_run list_nedb_def by_nonceSigner_def tx_key_def store_doc_def db_run_def
        checked_def unique_list_def by_txId_def Let_def)
  then obtain t where run: "putTx list_nedb stored_ex True ?s = (Inr (), t)" by blast
  have wf: "nedb_laws.wf_store set unique_list (txstore ?s)" by (simp add: wf_stored_ex)
  have "pending list_nedb (txstore t) = put_spec stored_ex (pending list_nedb (txstore ?s))"
    using putTx_refines [OF list_laws wf run] by blast
  moreover have "put_spec stored_ex (pending list_nedb (txstore ?s)) (3, ''0xw'') = Some stored_ex"
    by (simp add: put_spec_def tx_key_def stored_ex_def store_doc_def set_fields_def split: option.split)
      (simp add: pending_def list_nedb_def by_nonceSigner_def)
  ultimately show ?thesis using run by metis
qed

text \<open>
  C19. \<open>removeTxsUntilNonce\<close> implements the removal of exactly the keys of the signer up to the nonce.
\<close>

theorem removeTxsUntilNonce_refines:
  assumes "nedb_laws DB docs ok" "nedb_laws.wf_store docs ok (txstore s)"
    and "removeTxsUntilNonce DB signer n s = (Inr u, t)"
  shows "pending DB (txstore t) = remove_spec signer n (pending DB (txstore s)) \<and>
    nedb_laws.wf_store docs ok (txstore t) \<and> t = s\<lparr>txstore := txstore t\<rparr>"
  using nedb_laws.removeTxsUntilNonce_Inr [OF assms] by auto

theorem removeTxsUntilNonce_refines_witness:
  "\<exists>t. removeTxsUntilNonce list_nedb ''0xw'' 3 (manager_ex\<lparr>txstore := [stored_ex]\<rparr>) = (Inr (), t) \<and>
     pending list_nedb (txstore t) (3, ''0xw'') = None"
proof -
  let ?s = "manager_ex\<lparr>txstore := [stored_ex]\<rparr>"
  have "\<exists>t. removeTxsUntilNonce list_nedb ''0xw'' 3 ?s = (Inr (), t)"
    by (simp add: removeTxsUntilNonce_def db_run_def list_nedb_def)
  then obtain t where run: "removeTxsUntilNonce list_nedb ''0xw'' 3 ?s = (Inr (), t)" by blast
  have wf: "nedb_laws.wf_store set unique_list (txstore ?s)" by (simp add: wf_stored_ex)
  have "pending list_nedb (txstore t) = remove_spec ''0xw'' 3 (pending list_nedb (txstore ?s))"
    using removeTxsUntilNonce_refines [OF list_laws wf run] by blast
  then show ?thesis using run by (simp add: remove_spec_def)
qed

text \<open>
  A transaction that was put under a new key is read back by its nonce and sender, in whatever case
  the sender is written, and by its identifier.
\<close>

theorem put_get_roundtrip:
  assumes "nedb_laws DB docs ok" "nedb_laws.wf_store docs ok (txstore s)" "putTx DB tx False s = (Inr u, t)"
    and "toLowerCase signer = toLowerCase (st_from tx)"
  shows "fst (getTxByNonce DB signer (st_nonce tx) t) = Inr (Some (store_doc tx)) \<and>
    fst (getTxById DB (st_txId tx) t) = Inr (Some (store_doc tx))"
proof -
  note wf = nedb_laws.putTx_Inr [OF assms(1,2,3)]
  then have p: "pending DB (txstore t) (tx_key tx) = Some (store_doc tx)" and w: "nedb_laws.wf_store docs ok (txstore t)"
    by (auto simp: put_spec_def)
  then have ok: "ok (txstore t)" by (simp add: nedb_laws.wf_store_def [OF assms(1)])
  have doc: "store_doc tx \<in> docs (txstore t)" using p by (simp add: nedb_laws.pending_Some [OF assms(1) ok])
  have "db_findOne DB (by_txId (toLowerCase (st_txId tx))) (txstore t) = Some (store_doc tx)"
  proof (cases "db_findOne DB (by_txId (toLowerCase (st_txId tx))) (txstore t)")
    case None
    then show ?thesis using nedb_laws.findOne_None [OF assms(1) ok None doc] by (simp add: by_txId_def store_doc_def)
  next
    case (Some y)
    then have "y \<in> docs (txstore t)" "st_txId y = st_txId (store_doc tx)"
      using nedb_laws.findOne_Some [OF assms(1) ok Some] by (simp_all add: by_txId_def store_doc_def)
    then show ?thesis using nedb_laws.same_txId [OF assms(1) ok _ doc] Some by simp
  qed
  then show ?thesis using p assms(4) by (simp add: getTxByNonce_def getTxById_def gets_def pending_def tx_key_def)
qed

theorem put_get_roundtrip_witness:
  "\<exists>t. putTx list_nedb stored_ex False manager_ex = (Inr (), t) \<and>
     fst (getTxByNonce list_nedb ''0xW'' 3 t) = Inr (Some (store_doc stored_ex))"
proof -
  have "\<exists>t. putTx list_nedb stored_ex False manager_ex = (Inr (), t)"
    by (simp add: putTx_def stored_ex_def js_run list_nedb_def by_nonceSigner_def tx_key_def store_doc_def db_run_def
        checked_def unique_list_def Let_def)
  then obtain t where run: "putTx list_nedb stored_ex False manager_ex = (Inr (), t)" by blast
  have wf: "nedb_laws.wf_store set unique_list (txstore manager_ex)" by (simp add: wf_list_Nil)
  have n: "st_nonce stored_ex = 3" by (simp add: stored_ex_def)
  have "toLowerCase ''0xW'' = toLowerCase (st_from stored_ex)" unfolding stored_ex_def by code_simp
  from put_get_roundtrip [OF list_laws wf run this] run n show ?thesis by auto
qed

text \<open>
  \<open>getAllBySigner\<close> returns every pending transaction of the signer once, and only those, in the
  order of their nonces; the state does not change.
\<close>

theorem getAllBySigner_complete:
  assumes "nedb_laws DB docs ok" "nedb_laws.wf_store docs ok (txstore s)"
  shows "\<exists>txs. getAllBySigner DB signer s = (Inr txs, s) \<and> distinct txs \<and> sorted (map st_nonce txs) \<and>
    (\<forall>x. x \<in> set txs \<longleftrightarrow> pending DB (txstore s) (tx_key x) = Some x \<and> toLowerCase (st_from x) = toLowerCase signer)"
proof -
  have "ok (txstore s)" using assms(2) by (simp add: nedb_laws.wf_store_def [OF assms(1)])
  then have "distinct (db_find DB (by_signer signer) (txstore s))" by (rule nedb_laws.find_distinct [OF assms(1)])
  then show ?thesis
    using nedb_laws.getAllBySigner_set [OF assms] by (simp add: getAllBySigner_def gets_def tx_key_def)
qed

theorem getAllBySigner_complete_witness:
  "\<exists>txs. getAllBySigner list_nedb ''0xw'' (manager_ex\<lparr>txstore := [stored_ex]\<rparr>) =
     (Inr txs, manager_ex\<lparr>txstore := [stored_ex]\<rparr>) \<and> sorted (map st_nonce txs)"
proof -
  have "nedb_laws.wf_store set unique_list (txstore (manager_ex\<lparr>txstore := [stored_ex]\<rparr>))" by (simp add: wf_stored_ex)
  from getAllBySigner_complete [OF list_laws this, of "''0xw''"] show ?thesis by auto
qed



end
