(* ===== verification/ServingProperties.thy ===== *)
theory ServingProperties
  imports Example
begin

text \<open>
  What the relay server guarantees: which requests it accepts and what a rejected request leaves, when
  it is ready, when it registers and replenishes its worker, and what it knows of its registration.
\<close>

section \<open>Helper facts\<close>

lemma set_initTrustedVerifiers:
  "set (initTrustedVerifiers cfg) = toLowerCase ` (set (sc_trustedVerifiers cfg) \<union>
     ({sc_relayVerifierAddress cfg, sc_deployVerifierAddress cfg} - {ZERO_ADDRESS}))"
proof -
  have f: "set (foldl (\<lambda>acc v. set_add (toLowerCase v) acc) acc vs) = set acc \<union> toLowerCase ` set vs" for acc vs
    by (induction vs arbitrary: acc) auto
  show ?thesis by (auto simp: initTrustedVerifiers_def Let_def f)
qed

lemma attemptRegistration_Inr:
  fixes s :: "('w, 'd, 'z) reg_state_scheme" and D :: "('w, 'd, 'k, 't) deps"
  assumes "attemptRegistration D b s = (Inr hs, t)" "hs \<noteq> []"
  shows "allPrerequisitesOk s \<and> (\<exists>gasLimit r (u :: ('w, 'd, 'z) reg_state_scheme). last hs = sx_transactionHash r \<and>
    sendTransaction D (hub_call D REGISTER_SERVER (RegisterRelayServer (registerUrl (dp_config D))) gasLimit b) u = (Inr r, t))"
proof (cases "allPrerequisitesOk s")
  case False
  then show ?thesis using assms attemptRegistration_prerequisites [OF False, of D b] by simp
next
  case True
  obtain m gasLimit transactions r and u1 u2 u :: "('w, 'd, 'z) reg_state_scheme" where
    "getRegisterRelayMethod (registerUrl (dp_config D)) u1 = (Inr m, u2)"
    "sendTransaction D (hub_call D REGISTER_SERVER (snd m) gasLimit b) u = (Inr r, t)"
    "hs = transactions @ [sx_transactionHash r]"
    using assms(1) True unfolding attemptRegistration_def by (auto elim!: bnd_InrE)
  moreover from this(1) have "snd m = RegisterRelayServer (registerUrl (dp_config D))"
    by (auto simp: getRegisterRelayMethod_def elim!: bnd_InrE)
  ultimately show ?thesis using True by auto
qed

text \<open>The store is not looked at.\<close>

lemma along_store_poll: "along (untouched txstore) (pollNonce D a)"
  by (rule along_same) (auto simp: pollNonce_def bnd_run io_run andthen_run split: prod.split sum.split option.split)

lemma along_store_gas: "along (untouched txstore) (maxPossibleGasOf D req)"
proof (cases "relayRequest req")
  case (RelayRequest q rd)
  show ?thesis
    unfolding maxPossibleGasOf_def RelayRequest signed_request.case estimateDestinationContractCallGas_def
      estimateRelayTransactionMaxPossibleGasWithTransactionRequest_def createContract_def
    by (intro same.along_rules along_io) (simp_all add: untouched_def)
next
  case (DeployRequest q rd)
  show ?thesis
    unfolding maxPossibleGasOf_def DeployRequest signed_request.case walletFactoryEstimateGasOfDeployCall_def createContract_def
    by (intro same.along_rules along_io) (simp_all add: untouched_def)
qed

lemma along_store_validated: "along (untouched txstore) (validated_request D req)"
  unfolding validated_request_def validateInputTypes_def alerted_delay_def validateInput_def instance_of_def
    validateMaxNonce_def validateRequestWithVerifier_def createContract_def Let_def
  by (intro same.along_rules along_io along_store_poll along_store_gas) (simp_all add: untouched_def)

text \<open>Runs of the server's operations on the example.\<close>

definition worker_event_ex :: event_data where
  "worker_event_ex = \<lparr>ev_event = RelayWorkersAdded, ev_blockNumber = 11, ev_transactionIndex = 0,
     ev_transactionHash = ''0xadd'', ev_returnValues = \<lparr>rv_relayManager = ''0xm'', rv_relayUrl = '''',
       rv_newRelayWorkers = [''0xw''], rv_withdrawBlock = ''''\<rparr>\<rparr>"

definition poor_ex :: "(unit, stored_tx list, unit, tx_args) deps" where
  "poor_ex = deps_ex\<lparr>dp_config := config_ex\<lparr>sc_workerTargetBalance := 100005000\<rparr>\<rparr>"

lemma poor_ex_simps [simp]:
  "workerAddress poor_ex = ''0xw''" "managerAddress poor_ex = ''0xm''" "dp_node poor_ex = node_ex" "dp_web3 poor_ex = web3_ex"
  "dp_db poor_ex = list_nedb" "dp_tx poor_ex = tx_ex" "dp_managerKeys poor_ex = dp_managerKeys deps_ex"
  "dp_workersKeys poor_ex = dp_workersKeys deps_ex" "sc_managerTargetBalance (dp_config poor_ex) = 3000"
  "sc_workerTargetBalance (dp_config poor_ex) = 100005000" "sc_managerMinBalance (dp_config poor_ex) = 1000"
  using addresses_ex by (simp_all add: poor_ex_def workerAddress_def managerAddress_def)

definition poor_server_ex :: "(unit, stored_tx list) server_state" where
  "poor_server_ex = server_ex\<lparr>sv_workerBalanceRequired := amount_ex\<lparr>am_requiredValue := 100003000\<rparr>\<rparr>"

lemmas pending_defs = isActionPending_def getAll_def

lemmas change_defs = handleChanges_def getAllHubEventsSinceLastScan_def ContractInteractor.getPastEventsForHub_def
  getPastEvents_def relayHubInstance_def instance_of_def event2topic_def updateLatestTxBlockNumber_def
  getLatestEventData_def sortLatestFirst_def ActiveManagerEvents_def event_name_defs shouldRegisterAgain_def
  handlePastEvents_def getPastEventsForStakeManagement_def handle_hub_event_def later_event_def
  extractDuePendingEvents_def isRegistrationCorrect_def isRegistrationValid_def registrationUrl_def
  removeConfirmedTransactions_def boostStuckPendingTransactions_def boostUnderpricedPendingTransactionsForSigner_def
  getAllBySigner_def decideReady_def isRegistered_def handlePastHubEvents_def replenishServer_def
  defaultReplenishFunction_def getManagerBalance_def getWorkerBalance_def getBalance_def set_currentValue_def
  isSatisfied_def toBN_ex_def setReadyState_def exit_alerted_def isSameAddress_def index_of_def

lemma register_ex: "\<exists>hs t. attemptRegistration deps_ex 100 (server_ex\<lparr>rg_lastWorkerAdded := Some worker_event_ex\<rparr>) = (Inr hs, t) \<and> hs \<noteq> []"
  by (simp add: attemptRegistration_def js_run allPrerequisitesOk_def isSatisfied_def amount_ex_def isWorkerValid_def worker_event_ex_def
      pending_defs getRegisterRelayMethod_def relayHubInstance_def instance_of_def attemptEstimateGas_def send_defs hub_call_def
      hubAddress_def encodeABI_ex_def)

lemma changes_ex: "\<exists>hs t. handleChanges deps_ex 100 server_ex = (Inr hs, t) \<and> sv_ready t"
  by (simp add: change_defs js_run pending_defs list_nedb_def amount_ex_def register_event_ex_def Let_def)

lemma replenish_ex: "\<exists>hs t. defaultReplenishFunction poor_ex 100 poor_server_ex = (Inr hs, t) \<and> hs \<noteq> []"
  by (simp add: defaultReplenishFunction_def poor_server_ex_def getManagerBalance_def getWorkerBalance_def getBalance_def
      set_currentValue_def isSatisfied_def toBN_ex_def js_run amount_ex_def pending_defs send_defs refill_details_def)

definition balance_of :: "('w, 'd, 'k, 't) deps \<Rightarrow> string \<Rightarrow> int \<Rightarrow> bool" where
  "balance_of D a n \<longleftrightarrow> (\<exists>b. returns (n_getBalance (dp_node D) a ''pending'') b \<and> w3_toBN (dp_web3 D) b = Inr n)"

lemma balance_returned:
  "getManagerBalance D s = (Inr n, t) \<Longrightarrow> balance_of D (managerAddress D) n"
  "getWorkerBalance D s = (Inr n, t) \<Longrightarrow> balance_of D (workerAddress D) n"
  unfolding getManagerBalance_def getWorkerBalance_def getBalance_def balance_of_def
  by (auto elim!: bnd_InrE dest!: of_result_InrD simp del: of_result_run) (metis returns_def returns_io)+

section \<open>Properties\<close>

text \<open>
  C9. The server signs a transaction only for a request it may accept: it is ready, the request has the
  right shape, names its hub and its worker, offers at least its gas price (or one that is no number)
  and a verifier it trusts; what is signed is the call of that request by the worker.
\<close>

theorem relays_only_acceptable:
  fixes s :: "('w, 'd, 'z) server_state_scheme"
  assumes "createRelayTransaction D req s = (Inr r, t)"
  shows "acceptable D req s \<and> (\<exists>gasLimit block (s1 :: ('w, 'd, 'z) server_state_scheme) s2.
    sendTransaction D (relay_details D req gasLimit block) s1 = (Inr r, s2))"
  using createRelayTransaction_Inr [OF assms] by blast

theorem relays_only_acceptable_witness: "acceptable deps_ex request_ex server_ex"
proof -
  obtain r t where "createRelayTransaction deps_ex request_ex server_ex = (Inr r, t)" using serve_ex by blast
  from relays_only_acceptable [OF this] show ?thesis by blast
qed

text \<open>C17. A request that is not acceptable is answered with an error, and stores no transaction.\<close>

theorem unacceptable_stores_nothing:
  assumes "\<not> acceptable D req s"
  shows "\<exists>e t. createRelayTransaction D req s = (Inl e, t) \<and> txstore t = txstore s \<and>
    relayHandler D req s = (ErrorBody (message e), t)"
proof (cases "validated_request D req s")
  case (Pair r t)
  then obtain e where r: "r = Inl e" using assms validated_request_acceptable [of D req s] by (cases r) auto
  have "txstore t = txstore s" using alongD [OF along_store_validated, of s D req] Pair by (simp add: untouched_def)
  then show ?thesis
    using createRelayTransaction_rejected [of D req s e t] Pair r relayHandler_cases [of D req s] by simp
qed

theorem unacceptable_stores_nothing_witness:
  "\<exists>e t. createRelayTransaction deps_ex request_ex (server_ex\<lparr>sv_ready := False\<rparr>) = (Inl e, t) \<and> txstore t = []"
proof -
  have "\<not> acceptable deps_ex request_ex (server_ex\<lparr>sv_ready := False\<rparr>)" by (simp add: acceptable_def isReady_def)
  from unacceptable_stores_nothing [OF this] show ?thesis by auto
qed

text \<open>
  When a scan of the chain leaves the server ready, it is registered, with a locked stake above the
  minimum and its own URL in the latest registration, and its worker has the minimum balance.
\<close>

theorem ready_is_registered_and_funded:
  assumes "handleChanges D b s = (Inr hs, t)" "sv_ready t"
  shows "isRegistered D t \<and> worker_funded D"
  by (rule handleChanges_ready [OF assms])

theorem ready_is_registered_and_funded_witness:
  "\<exists>hs t. handleChanges deps_ex 100 server_ex = (Inr hs, t) \<and> sv_ready t \<and> isRegistered deps_ex t \<and> worker_funded deps_ex"
proof -
  obtain hs t where run: "handleChanges deps_ex 100 server_ex = (Inr hs, t)" "sv_ready t" using changes_ex by blast
  from ready_is_registered_and_funded [OF run] run show ?thesis by blast
qed

text \<open>
  C20. After a round that ended in an error the server does not serve requests for as many further
  ticks as are configured, whatever they do.
\<close>

theorem not_ready_after_error:
  assumes "\<not> sv_workerSemaphoreOn s" "n_getBlock (dp_node D) ''latest'' (world s) = (Inr bl, w)"
    and "sv_lastScannedBlock s < bl_number bl"
    and "worker D (bl_number bl) (s\<lparr>world := w, sv_workerSemaphoreOn := True\<rparr>) = (Inl e, u)"
    and "int n < sc_successfulRoundsForReady (dp_config D)"
  shows "\<not> isReady D (ticks D n (snd (intervalHandler D s)))"
proof -
  have "sv_lastSuccessfulRounds (snd (intervalHandler D s)) = 0"
    using assms(1-4) by (simp add: intervalHandler_def bnd_run io_run workerSemaphore_def andthen_run finally_do_run catching_run)
  then have "sv_lastSuccessfulRounds (ticks D n (snd (intervalHandler D s))) \<le> int n"
    by (intro ticks_rounds) simp
  then show ?thesis using assms(5) by (simp add: isReady_def)
qed

 
text \<open>The node of the example, when it does not answer the request for the gas price.\<close>

definition failing_ex :: "(unit, stored_tx list, unit, tx_args) deps" where
  "failing_ex = deps_ex\<lparr>dp_node := node_ex\<lparr>n_getGasPrice := throw (Error ''timeout'')\<rparr>\<rparr>"

theorem not_ready_after_error_witness: "\<not> isReady failing_ex (ticks failing_ex 2 (snd (intervalHandler failing_ex server_ex)))"
proof -
  have block: "n_getBlock (dp_node failing_ex) ''latest'' (world server_ex) = (Inr block_ex, ())"
    by (simp add: failing_ex_def js_run)
  have new: "sv_lastScannedBlock server_ex < bl_number block_ex" by (simp add: block_ex_def)
  have fails: "\<exists>e u. worker failing_ex (bl_number block_ex) (server_ex\<lparr>world := (), sv_workerSemaphoreOn := True\<rparr>) = (Inl e, u)"
    by (simp add: worker_def js_run failing_ex_def block_ex_def shouldRefreshState_def refreshGasPrice_def)
  then obtain e u where fails: "worker failing_ex (bl_number block_ex) (server_ex\<lparr>world := (), sv_workerSemaphoreOn := True\<rparr>) = (Inl e, u)"
    by blast
  show ?thesis
    by (rule not_ready_after_error [OF _ block new fails]) (simp_all add: failing_ex_def)
qed

text \<open>
  \<open>attemptRegistration\<close> sends something only when the stake is locked and both amounts are there, and
  the last thing it sends is the registration of the configured URL at the hub.
\<close>

theorem registers_its_url:
  fixes s :: "('w, 'd, 'z) reg_state_scheme"
  assumes "attemptRegistration D b s = (Inr hs, t)" "hs \<noteq> []"
  shows "rg_isStakeLocked s \<and> isSatisfied (rg_stakeRequired s) \<and> isSatisfied (rg_balanceRequired s) \<and>
    (\<exists>gasLimit r (u :: ('w, 'd, 'z) reg_state_scheme). last hs = sx_transactionHash r \<and>
    sendTransaction D (hub_call D REGISTER_SERVER (RegisterRelayServer (registerUrl (dp_config D))) gasLimit b) u = (Inr r, t))"
  using attemptRegistration_Inr [OF assms] by (simp only: allPrerequisitesOk_def conj_assoc)

theorem registers_its_url_witness:
  "\<exists>gasLimit r u t. sendTransaction deps_ex (hub_call deps_ex REGISTER_SERVER (RegisterRelayServer (registerUrl config_ex)) gasLimit 100) u =
     (Inr r, t :: (unit, stored_tx list) server_state)"
proof -
  obtain hs t where run: "attemptRegistration deps_ex 100 (server_ex\<lparr>rg_lastWorkerAdded := Some worker_event_ex\<rparr>) = (Inr hs, t)" "hs \<noteq> []"
    using register_ex by blast
  from registers_its_url [OF run] show ?thesis by auto
qed

text \<open>
  What the server takes for its latest registration after a scan is one of the scanned registrations
  or the one known before, and none of them is later.
\<close>

theorem latest_registration_known:
  assumes "rg_lastMinedRegister (foldl (\<lambda>t e. handle_hub_event e t) s es) = Some l"
  shows "(l \<in> set es \<and> ev_event l = RelayServerRegistered \<or> rg_lastMinedRegister s = Some l) \<and>
    (\<forall>e\<in>set es. ev_event e = RelayServerRegistered \<longrightarrow> \<not> isSecondEventLater l e) \<and>
    (\<forall>k. rg_lastMinedRegister s = Some k \<longrightarrow> \<not> isSecondEventLater l k)"
  using later_events(2) [OF assms [unfolded foldl_hub_events]] by auto

theorem latest_registration_known_witness:
  "\<not> isSecondEventLater register_event_ex register_event_ex"
proof -
  have "rg_lastMinedRegister (foldl (\<lambda>t e. handle_hub_event e t) server_ex [register_event_ex]) = Some register_event_ex"
    by (simp add: handle_hub_event_def later_event_def register_event_ex_def)
  moreover have "ev_event register_event_ex = RelayServerRegistered" by (simp add: register_event_ex_def)
  ultimately show ?thesis using latest_registration_known by (metis list.set_intros(1))
qed

text \<open>Once the owner of the stake is known, no scan of past events changes it.\<close>

theorem owner_never_changes:
  assumes "rg_ownerAddress s = Some a"
  shows "rg_ownerAddress (snd (handlePastEvents D es l c f s)) = Some a"
  using alongD [OF along_owner_past, of s D es l c f] assms by (simp add: owner_kept_def)

theorem owner_never_changes_witness:
  "rg_ownerAddress (snd (handlePastEvents deps_ex [register_event_ex] 50 100 False server_ex)) = Some ''0xo''"
  by (rule owner_never_changes) simp

text \<open>
  The trusted verifiers are the configured ones and the two verifiers of the server, in lower case,
  the zero address left out of the latter.
\<close>

theorem trusted_verifiers_are_configured:
  "isTrustedVerifier a (s\<lparr>sv_trustedVerifiers := initTrustedVerifiers cfg\<rparr>) \<longleftrightarrow>
     (\<exists>v. isSameAddress a v \<and> (v \<in> set (sc_trustedVerifiers cfg) \<or>
        v \<in> {sc_relayVerifierAddress cfg, sc_deployVerifierAddress cfg} \<and> v \<noteq> ZERO_ADDRESS))"
  by (auto simp: isTrustedVerifier_def set_initTrustedVerifiers isSameAddress_def)

text \<open>
  C30. The server replenishes its worker only when the worker's balance is below what it requires and no
  transfer to it is pending; it sends what is missing to the target, and only if that leaves the manager
  more than its minimum.
\<close>

theorem replenish_is_safe:
  fixes s :: "('w, 'd, 'z) server_state_scheme"
  assumes "defaultReplenishFunction D b s = (Inr hs, t)" "hs \<noteq> []"
  shows "\<exists>worker manager r (u :: ('w, 'd, 'z) server_state_scheme) (v :: ('w, 'd, 'z) server_state_scheme).
    balance_of D (workerAddress D) worker \<and> balance_of D (managerAddress D) manager \<and>
    worker < am_requiredValue (sv_workerBalanceRequired s) \<and>
    sc_workerTargetBalance (dp_config D) - worker < manager - sc_managerMinBalance (dp_config D) \<and>
    isActionPending (dp_db D) VALUE_TRANSFER (Some (workerAddress D)) v = (Inr False, u) \<and>
    sendTransaction D (refill_details D (sc_workerTargetBalance (dp_config D) - worker) b) u = (Inr r, t) \<and>
    hs = [sx_transactionHash r]"
proof -
  obtain m1 w m2 p and s1 s2 s3 s4 s5 :: "('w, 'd, 'z) server_state_scheme" where
    1: "getManagerBalance D s = (Inr m1, s1)" "getWorkerBalance D s1 = (Inr w, s2)"
    "s3 = s2\<lparr>sv_workerBalanceRequired := fst (set_currentValue w (sv_workerBalanceRequired s2))\<rparr>"
    "getManagerBalance D s3 = (Inr m2, s4)"
    "isActionPending (dp_db D) VALUE_TRANSFER (Some (workerAddress D)) s4 = (Inr p, s5)"
    and 2: "(if \<not> isSatisfied (sv_workerBalanceRequired s3) \<and> \<not> p then
       (let refill = sc_workerTargetBalance (dp_config D) - am_currentValue (sv_workerBalanceRequired s3) in
        if refill < m2 - sc_managerMinBalance (dp_config D) then
          bnd (sendTransaction D (refill_details D refill b)) (\<lambda>r. ret [sx_transactionHash r])
        else ret []) else ret []) s5 = (Inr hs, t)"
    using assms unfolding defaultReplenishFunction_def
    by (auto elim!: bnd_InrE andthen_InrE split: if_splits)
  have "along (untouched sv_workerBalanceRequired) (getManagerBalance D)" for D :: "('w, 'd, 'k, 't) deps"
    unfolding getManagerBalance_def getBalance_def by (intro same.along_rules along_io) (simp_all add: untouched_def)
  moreover have "along (untouched sv_workerBalanceRequired) (getWorkerBalance D)" for D :: "('w, 'd, 'k, 't) deps"
    unfolding getWorkerBalance_def getBalance_def by (intro same.along_rules along_io) (simp_all add: untouched_def)
  ultimately have "sv_workerBalanceRequired s2 = sv_workerBalanceRequired s"
    using 1(1,2) by (metis alongD snd_conv untouched_def)
  then have req: "sv_workerBalanceRequired s3 = (sv_workerBalanceRequired s)\<lparr>am_currentValue := w\<rparr>"
    by (simp add: 1(3) set_currentValue_def Let_def)
  have c: "w < am_requiredValue (sv_workerBalanceRequired s)" "\<not> p"
    "sc_workerTargetBalance (dp_config D) - w < m2 - sc_managerMinBalance (dp_config D)"
    using 2 assms(2) by (auto simp: req isSatisfied_def Let_def split: if_splits)
  then obtain r where "sendTransaction D (refill_details D (sc_workerTargetBalance (dp_config D) - w) b) s5 = (Inr r, t)"
    "hs = [sx_transactionHash r]"
    using 2 by (auto simp: req isSatisfied_def Let_def elim!: bnd_InrE)
  moreover have "isActionPending (dp_db D) VALUE_TRANSFER (Some (workerAddress D)) s4 = (Inr False, s5)"
    using 1(5) c(2) by simp
  ultimately show ?thesis using balance_returned(2) [OF 1(2)] balance_returned(1) [OF 1(4)] c(1,3) by blast
qed

theorem replenish_is_safe_witness:
  "\<exists>worker manager. balance_of poor_ex ''0xw'' worker \<and> balance_of poor_ex ''0xm'' manager \<and>
     100005000 - worker < manager - 1000"
proof -
  obtain hs t where run: "defaultReplenishFunction poor_ex 100 poor_server_ex = (Inr hs, t)" "hs \<noteq> []"
    using replenish_ex by blast
  from replenish_is_safe [OF run] show ?thesis by auto
qed

end
