(* ===== verification/Dependencies.thy ===== *)
theory Dependencies
  imports RelayClient
begin

text \<open>
  What the client is made of: its collaborators and their overrides (\<open>getDependencies\<close> of
  \<open>src/relayclient/Configurator.ts\<close> and the constructors of
  \<open>RelayClient.ts\<close> and \<open>RelayProvider.ts\<close>), HTTP over axios (\<open>src/relayclient/HttpWrapper.ts\<close>), signatures by
  the provider (\<open>getEip712Signature\<close> of \<open>src/common/Utils.ts\<close>, \<open>_signWithProviderDefault\<close> of
  \<open>AccountManager.ts\<close>) and broadcasting by the provider (\<open>broadcastTransaction\<close> of \<open>ContractInteractor.ts\<close>).
\<close>

section \<open>HTTP\<close>

datatype http_method = GET | POST

record 'j axios_request =
  ax_url :: string
  ax_method :: http_method
  ax_data :: "'j option"

text \<open>The answer of \<open>axios\<close> is the body of the response.\<close>

definition sendPromise :: "('j axios_request \<Rightarrow> ('w, 'j) js) \<Rightarrow> string \<Rightarrow> 'j option \<Rightarrow> ('w, 'j) js" where
  "sendPromise axios url jsonRequestData = axios
     \<lparr>ax_url = url, ax_method = (if jsonRequestData \<noteq> None then POST else GET), ax_data = jsonRequestData\<rparr>"

text \<open>The transport of \<open>HttpClient\<close>: JSON is read and written by the three functions.\<close>

definition axiosHttp ::
  "('j axios_request \<Rightarrow> ('w, 'j) js) \<Rightarrow> ('j \<Rightarrow> ping_response option) \<Rightarrow> (relay_transaction_request \<Rightarrow> 'j) \<Rightarrow>
   ('j \<Rightarrow> string option \<times> string option) \<Rightarrow> 'w http" where
  "axiosHttp axios readPing writeRequest readAnswer =
     \<lparr>h_get = (\<lambda>url. bnd (sendPromise axios url None) (\<lambda>body. ret (readPing body))),
      h_post = (\<lambda>url request. bnd (sendPromise axios url (Some (writeRequest request))) (\<lambda>body. ret (readAnswer body)))\<rparr>"

section \<open>Requests to the provider\<close>

text \<open>What a callback of the provider is given: an error, or a response with an error or a result.\<close>

record 'a provider_response =
  pr_answerError :: "exn option"
  pr_answerResult :: 'a

record 'x provider_call =
  pq_method :: string
  pq_params :: 'x
  pq_from :: "string option"

definition broadcastTransaction ::
  "(string list provider_call \<Rightarrow> ('w, exn option \<times> string provider_response) js) option \<Rightarrow> string \<Rightarrow> ('w, string) js" where
  "broadcastTransaction provider signedTransaction = (case provider of
     None \<Rightarrow> throw (Error ''provider is not set'')
   | Some send \<Rightarrow>
       bnd (send \<lparr>pq_method = ''eth_sendRawTransaction'', pq_params = [signedTransaction], pq_from = None\<rparr>) (\<lambda>(e, r).
         case e of Some err \<Rightarrow> throw err
         | None \<Rightarrow> (case pr_answerError r of Some err \<Rightarrow> throw err | None \<Rightarrow> ret (pr_answerResult r))))"

datatype data_to_sign = DataObject typed_data | DataText string

record 'w signing_provider =
  sp_sendAsync :: "((string \<times> data_to_sign) provider_call \<Rightarrow> ('w, exn option \<times> string provider_response option) js) option"
  sp_send :: "(string \<times> data_to_sign) provider_call \<Rightarrow> ('w, exn option \<times> string provider_response option) js"

definition messageFrom :: "typed_data \<Rightarrow> string" where
  "messageFrom d = (case ty_message d ''from'' of Some (Field a) \<Rightarrow> a | _ \<Rightarrow> '''')"

text \<open>
  The promise is rejected with the message of the error, a string, or with an error that has no message:
  the value that is thrown has no member \<open>message\<close> in either case.
\<close>

definition getEip712Signature ::
  "(typed_data \<Rightarrow> string) \<Rightarrow> 'w signing_provider \<Rightarrow> typed_data \<Rightarrow> string \<Rightarrow> bool \<Rightarrow> ('w, string) js" where
  "getEip712Signature stringify P d methodSuffix jsonStringifyRequest =
     (let senderAddress = messageFrom d;
          dataToSign = (if jsonStringifyRequest then DataText (stringify d) else DataObject d);
          method = (case sp_sendAsync P of Some f \<Rightarrow> f | None \<Rightarrow> sp_send P)
      in bnd (method \<lparr>pq_method = ''eth_signTypedData'' @ methodSuffix, pq_params = (senderAddress, dataToSign),
           pq_from = Some senderAddress\<rparr>) (\<lambda>(e, result).
         let e' = (case result of Some r \<Rightarrow> (case pr_answerError r of Some err \<Rightarrow> Some err | None \<Rightarrow> e) | None \<Rightarrow> e) in
         case (e', result) of (None, Some r) \<Rightarrow> ret (pr_answerResult r) | _ \<Rightarrow> throw (Exn None)))"

text \<open>An account manager signs with the provider unless it is given another function.\<close>

definition newAccountManager ::
  "('w, 'k) signer \<Rightarrow> (typed_data \<Rightarrow> string) \<Rightarrow> 'w signing_provider \<Rightarrow> int \<Rightarrow> enveloping_config \<Rightarrow>
   (typed_data \<Rightarrow> ('w, string) js) option \<Rightarrow> ('w, 'k) signer" where
  "newAccountManager G stringify P chainId config signWithProviderImpl = G\<lparr>sg_chainId := chainId,
     sg_signWithProvider := (case signWithProviderImpl of Some f \<Rightarrow> f
       | None \<Rightarrow> (\<lambda>d. getEip712Signature stringify P d (ec_methodSuffix config) (ec_jsonStringifyRequest config)))\<rparr>"

section \<open>The collaborators\<close>

text \<open>The objects: those of the caller, those made with \<open>new\<close> and their arguments, and three functions.\<close>

datatype ('p, 'o) component =
  Given 'o
| NewContractInteractor 'p enveloping_config
| NewAccountManager 'p int enveloping_config
| NewHttpClient enveloping_config
| NewKnownRelaysManager "('p, 'o) component" enveloping_config "('p, 'o) component option" "('p, 'o) component option"
| NewRelayedTransactionValidator "('p, 'o) component" enveloping_config
| TheGasPricePingFilter
| TheEmptyFilter
| TheDefaultRelayScore
| TheConfig enveloping_config

text \<open>
  The constructor of \<open>KnownRelaysManager\<close> takes a filter and a score, both optional: what the object works with.
\<close>

definition newKnownRelaysManager ::
  "('p, 'o) component \<Rightarrow> enveloping_config \<Rightarrow> ('p, 'o) component option \<Rightarrow> ('p, 'o) component option \<Rightarrow> ('p, 'o) component" where
  "newKnownRelaysManager contractInteractor config relayFilter scoreCalculator =
     NewKnownRelaysManager contractInteractor config (Some (or_else relayFilter TheEmptyFilter))
       (Some (or_else scoreCalculator TheDefaultRelayScore))"

text \<open>The overrides have their members in the order of \<open>for ... in\<close>; a member may be null.\<close>

definition overridden :: "(string \<times> 'o option) list \<Rightarrow> string \<Rightarrow> 'o option" where
  "overridden overrides key = (case map_of overrides key of Some v \<Rightarrow> v | None \<Rightarrow> None)"

definition madeDependencies ::
  "enveloping_config \<Rightarrow> (string \<times> 'o option) list \<Rightarrow> ('p, 'o) component \<Rightarrow> ('p, 'o) component \<Rightarrow> (string \<times> ('p, 'o) component) list" where
  "madeDependencies config overrides contractInteractor accountManager =
     (let chosen = (\<lambda>key standard. case overridden overrides key of Some v \<Rightarrow> Given v | None \<Rightarrow> standard);
          relayFilter = chosen ''relayFilter'' TheEmptyFilter
      in [(''httpClient'', chosen ''httpClient'' (NewHttpClient config)),
          (''contractInteractor'', contractInteractor),
          (''knownRelaysManager'', chosen ''knownRelaysManager'' 
            (newKnownRelaysManager contractInteractor config (Some relayFilter) None)),
          (''accountManager'', accountManager),
          (''transactionValidator'', chosen ''transactionValidator'' (NewRelayedTransactionValidator contractInteractor config)),
          (''pingFilter'', chosen ''pingFilter'' TheGasPricePingFilter),
          (''relayFilter'', relayFilter),
          (''scoreCalculator'', chosen ''scoreCalculator'' TheDefaultRelayScore),
          (''config'', TheConfig config)])"

definition unexpectedKey :: "(string \<times> 'a) list \<Rightarrow> (string \<times> 'o option) list \<Rightarrow> string option" where
  "unexpectedKey made overrides =
     find (\<lambda>key. map_of made key = None \<and> key \<notin> set objectPrototype) (map fst overrides)"

definition getDependencies ::
  "enveloping_config \<Rightarrow> 'p option \<Rightarrow> (string \<times> 'o option) list \<Rightarrow> exn + (string \<times> ('p, 'o) component) list" where
  "getDependencies config provider overrides =
     (case (case overridden overrides ''contractInteractor'' of Some v \<Rightarrow> Some (Given v)
            | None \<Rightarrow> map_option (\<lambda>p. NewContractInteractor p config) provider) of
        None \<Rightarrow> Inl (Error ''either contract interactor or web3 provider must be non-null'')
      | Some contractInteractor \<Rightarrow>
     (case (case overridden overrides ''accountManager'' of Some v \<Rightarrow> Some (Given v)
            | None \<Rightarrow> map_option (\<lambda>p. NewAccountManager p (ec_chainId config) config) provider) of
        None \<Rightarrow> Inl (Error ''either account manager or web3 provider must be non-null'')
      | Some accountManager \<Rightarrow>
          (let made = madeDependencies config overrides contractInteractor accountManager in
           case unexpectedKey made overrides of
             Some key \<Rightarrow> Inl (Error (''Unexpected override key '' @ key))
           | None \<Rightarrow> Inr made)))"

section \<open>The constructors of the client and of the provider\<close>

definition newRelayClient ::
  "'p \<Rightarrow> partial_config \<Rightarrow> (string \<times> 'o option) list \<Rightarrow> exn + (string \<times> ('p, 'o) component) list" where
  "newRelayClient provider configOverride overrideDependencies =
     getDependencies (configure configOverride) (Some provider) overrideDependencies"

text \<open>The provider's client is the one it is given, or a new one.\<close>

record ('p, 'o, 'c) relay_provider =
  rvp_origProvider :: 'p
  rvp_config :: enveloping_config
  rvp_relayClient :: "'c + (string \<times> ('p, 'o) component) list"

definition newRelayProvider ::
  "'p \<Rightarrow> partial_config \<Rightarrow> (string \<times> 'o option) list \<Rightarrow> 'c option \<Rightarrow> exn + ('p, 'o, 'c) relay_provider" where
  "newRelayProvider origProvider envelopingConfig overrideDependencies relayClient =
     (let made = (\<lambda>client. \<lparr>rvp_origProvider = origProvider, rvp_config = configure envelopingConfig, rvp_relayClient = client\<rparr>)
      in case relayClient of
        Some c \<Rightarrow> Inr (made (Inl c))
      | None \<Rightarrow> map_sum id (\<lambda>d. made (Inr d)) (newRelayClient origProvider envelopingConfig overrideDependencies))"

section \<open>Lemmas\<close>

definition dependencyNames :: "string list" where
  "dependencyNames = [''httpClient'', ''contractInteractor'', ''knownRelaysManager'', ''accountManager'',
     ''transactionValidator'', ''pingFilter'', ''relayFilter'', ''scoreCalculator'', ''config'']"

lemma made_names: "map fst (madeDependencies config overrides i a) = dependencyNames"
  by (simp add: madeDependencies_def dependencyNames_def Let_def)

definition knownKeys :: "(string \<times> 'o option) list \<Rightarrow> bool" where
  "knownKeys overrides \<longleftrightarrow> fst ` set overrides \<subseteq> set dependencyNames \<union> set objectPrototype"

lemma unexpectedKey_None:
  "unexpectedKey (madeDependencies config overrides i a) overrides = None \<longleftrightarrow> knownKeys overrides"
  by (auto simp: unexpectedKey_def find_None_iff map_of_eq_None_iff knownKeys_def simp flip: made_names [of config overrides i a])

text \<open>
  When the dependencies can be made: with a provider, or with both objects that need one; and with no
  unknown override. Each override takes effect, except the one of the configuration.
\<close>

lemma getDependencies_Inr:
  "(\<exists>d. getDependencies config provider overrides = Inr d) \<longleftrightarrow>
     (provider \<noteq> None \<or> overridden overrides ''contractInteractor'' \<noteq> None \<and> overridden overrides ''accountManager'' \<noteq> None) \<and>
     knownKeys overrides"
proof -
  have "(\<exists>d. (case unexpectedKey (madeDependencies config overrides i a) overrides of
      Some key \<Rightarrow> Inl (e key) | None \<Rightarrow> Inr (madeDependencies config overrides i a)) = Inr d) \<longleftrightarrow> knownKeys overrides" for i a e
    using unexpectedKey_None [of config overrides i a] by (cases "unexpectedKey (madeDependencies config overrides i a) overrides") simp_all
  then show ?thesis unfolding getDependencies_def Let_def
    by (cases "overridden overrides ''contractInteractor''"; cases "overridden overrides ''accountManager''"; cases provider) simp_all
qed

lemma getDependencies_member:
  assumes "getDependencies config provider overrides = Inr d"
  shows "key \<in> set dependencyNames - {''config''} \<Longrightarrow> overridden overrides key = Some v \<Longrightarrow> map_of d key = Some (Given v)"
    and "map_of d ''config'' = Some (TheConfig config)" and "map fst d = dependencyNames"
proof -
  obtain i a where d: "d = madeDependencies config overrides i a"
    and i: "overridden overrides ''contractInteractor'' = Some v \<Longrightarrow> i = Given v"
    and a: "overridden overrides ''accountManager'' = Some v \<Longrightarrow> a = Given v" for v
    using assms by (auto simp: getDependencies_def Let_def split: option.splits)
  show "key \<in> set dependencyNames - {''config''} \<Longrightarrow> overridden overrides key = Some v \<Longrightarrow> map_of d key = Some (Given v)"
    unfolding dependencyNames_def d madeDependencies_def Let_def
    by (simp only: list.set Diff_iff insert_iff empty_iff, elim conjE disjE) (simp_all add: i a)
  show "map_of d ''config'' = Some (TheConfig config)" by (simp add: d madeDependencies_def Let_def)
  show "map fst d = dependencyNames" by (simp add: d made_names)
qed

text \<open>What is made works on the interactor and the filter of the client.\<close>

lemma getDependencies_shared:
  assumes "getDependencies config provider overrides = Inr d"
  obtains i f where "map_of d ''contractInteractor'' = Some i" "map_of d ''relayFilter'' = Some f"
    "overridden overrides ''knownRelaysManager'' = None \<Longrightarrow>
       map_of d ''knownRelaysManager'' = Some (NewKnownRelaysManager i config (Some f) (Some TheDefaultRelayScore))"
    "overridden overrides ''transactionValidator'' = None \<Longrightarrow>
       map_of d ''transactionValidator'' = Some (NewRelayedTransactionValidator i config)"
proof -
  obtain i a where d: "d = madeDependencies config overrides i a"
    using assms by (auto simp: getDependencies_def Let_def split: option.splits)
  show thesis by (rule that) (simp_all add: d madeDependencies_def newKnownRelaysManager_def Let_def)
qed

end
