(* ===== verification/ClientProperties.thy ===== *)
theory ClientProperties
  imports Example Dependencies
begin

text \<open>
  What the relay client guarantees: what it returns as relayed, that its loops end, which relays it
  selects, what it signs and which answers of a server it accepts.
\<close>

section \<open>Helper facts\<close>

lemma sdiv_covers:
  "(0 :: int) < p \<Longrightarrow> 0 \<le> b \<Longrightarrow> m \<le> b sdiv p \<Longrightarrow> m * p \<le> b"
proof -
  assume p: "0 < p" and b: "0 \<le> b" and m: "m \<le> b sdiv p"
  have "b sdiv p = b div p" using p b by (cases "b = 0") (simp_all add: signed_divide_int_def)
  then have "m * p \<le> b div p * p" using p m by (intro mult_right_mono) auto
  then show ?thesis using div_mult_mod_eq [of b p] pos_mod_sign [OF p, of b] by linarith
qed

text \<open>The verifier's part of \<open>validateAcceptRelayCall\<close>.\<close>

definition verifier_verdict ::
  "'w node \<Rightarrow> web3_utils \<Rightarrow> signed_request \<Rightarrow> string \<Rightarrow> (('w, 'z) interactor_scheme, string option) js" where
  "verifier_verdict N W r signature = catching
     (bnd (gets ci_relayVerifier) (\<lambda>v. bnd (instance_of v) (\<lambda>verifier.
      andthen (io (n_methodCall N verifier (VerifyRelayedCall r signature)
        (fromWorkerOnly (rd_relayWorker (relayData r))) (Some ''pending''))) (ret None))))
     (\<lambda>e. ret (Some (error_text W e)))"

lemma acceptRelay_verdict:
  fixes s :: "('w, 'z) interactor_scheme"
  assumes "validateAcceptRelayCall N W r signature s = (Inr a, t)" "ac_verifierAccepted a"
  obtains limit and s2 s3 :: "('w, 'z) interactor_scheme"
  where "getMaxViewableRelayGasLimit N W r signature s = (Inr limit, s2)" "limit \<noteq> num 0"
    "verifier_verdict N W r signature s2 = (Inr None, s3)"
proof -
  obtain hub limit s2 where limit: "getMaxViewableRelayGasLimit N W r signature s = (Inr limit, s2)" "limit \<noteq> num 0"
    and rest: "bnd (verifier_verdict N W r signature) (\<lambda>verifierError.
         case verifierError of
           Some m \<Rightarrow> ret \<lparr>ac_verifierAccepted = False, ac_reverted = False,
             ac_returnValue = Some (''view call to 'relayCall' reverted in verifier: '' @ m),
             ac_revertedInDestination = False\<rparr>
         | None \<Rightarrow> catching
             (bnd (instance_of hub) (\<lambda>hub.
              bnd (of_result (w3_toHex_num W limit)) (\<lambda>gas.
              bnd (io (n_methodCall N hub (RelayCall r signature)
                     ((fromWorker r)\<lparr>cp_gas := Some gas\<rparr>) None)) (\<lambda>res.
              ret \<lparr>ac_verifierAccepted = True, ac_reverted = False, ac_returnValue = Some '''',
                   ac_revertedInDestination = \<not> cr_true res\<rparr>))))
             (\<lambda>e. ret \<lparr>ac_verifierAccepted = True, ac_reverted = True,
               ac_returnValue = Some (''view call to 'relayCall' reverted in client: '' @ error_text W e),
               ac_revertedInDestination = False\<rparr>)) s2 = (Inr a, t)"
    using assms unfolding validateAcceptRelayCall_def verifier_verdict_def [symmetric]
    by (elim bnd_InrE) (auto split: if_splits)
  obtain v s3 where v: "verifier_verdict N W r signature s2 = (Inr v, s3)" using rest by (rule bnd_InrE)
  then have "v = None" using rest assms(2) by (cases v) (auto simp: bnd_run)
  then show thesis using that limit v by blast
qed

text \<open>The gas of a relay call, as the node estimates it.\<close>

definition relay_call_params :: "web3_utils \<Rightarrow> signed_request \<Rightarrow> string \<Rightarrow> call_params" where
  "relay_call_params W r signature =
     (fromWorker r)\<lparr>cp_to := Some (request_hub r), cp_data := Some (w3_encodeABI W (RelayCall r signature))\<rparr>"

lemma relayGasLimit_Inr:
  fixes s :: "('w, 'z) interactor_scheme"
  assumes "getMaxViewableRelayGasLimit N W r signature s = (Inr limit, t)" "limit \<noteq> num 0"
  obtains price g m b balance where "w3_toBN W (rd_gasPrice (relayData r)) = Inr price" "0 < price"
    "returns (n_estimateGas N (relay_call_params W r signature)) g" "w3_toBN_num W (corrected g) = Inr m"
    "returns (n_getBalance N (rd_relayWorker (relayData r)) ''latest'') b" "w3_toBN W b = Inr balance" "m \<le> balance sdiv price"
proof -
  obtain price b balance m e and s1 s2 s3 s4 :: "('w, 'z) interactor_scheme" where p: "w3_toBN W (rd_gasPrice (relayData r)) = Inr price" "0 < price"
    and e: "estimateRelayTransactionMaxPossibleGas N W r signature s1 = (Inr e, s2)"
    and b: "io (n_getBalance N (rd_relayWorker (relayData r)) ''latest'') s3 = (Inr b, s4)" "w3_toBN W b = Inr balance"
    and m: "w3_toBN_num W e = Inr m" "m \<le> balance sdiv price"
    using assms unfolding getMaxViewableRelayGasLimit_def getBalance_def
    by (auto elim!: bnd_InrE dest!: of_result_InrD simp del: of_result_run split: if_splits)
  obtain g and u v :: "('w, 'z) interactor_scheme" where e2: "io (n_estimateGas N (relay_call_params W r signature)) u = (Inr g, v)" and g: "e = corrected g"
    using e unfolding estimateRelayTransactionMaxPossibleGas_def relay_call_params_def by (auto elim!: bnd_InrE)
  from p io_returns [OF e2] m(1) [unfolded g] io_returns [OF b(1)] b(2) m(2) show thesis by (rule that)
qed

text \<open>The estimates leave the contracts of the interactor alone.\<close>

definition verifier_kept :: "('w, 'z) interactor_scheme \<Rightarrow> ('w, 'z) interactor_scheme \<Rightarrow> bool" where
  "verifier_kept s t \<longleftrightarrow> ci_relayVerifier t = ci_relayVerifier s"

interpretation verifier_kept: step_relation verifier_kept
  by unfold_locales (simp_all add: verifier_kept_def)

lemma along_verifier_limit: "along verifier_kept (getMaxViewableRelayGasLimit N W r signature)"
  unfolding getMaxViewableRelayGasLimit_def estimateRelayTransactionMaxPossibleGas_def getBalance_def relayHubInstance_def instance_of_def
  by (intro verifier_kept.along_rules along_io) (auto simp: verifier_kept_def)

lemma verdict_None:
  fixes s :: "('w, 'z) interactor_scheme"
  assumes "verifier_verdict N W r signature s = (Inr None, t)"
  obtains verifier res where "ci_relayVerifier s = Some verifier"
    "returns (n_methodCall N verifier (VerifyRelayedCall r signature) (fromWorkerOnly (rd_relayWorker (relayData r))) (Some ''pending'')) res"
  using assms unfolding verifier_verdict_def instance_of_def
  by (auto simp: catching_run elim!: bnd_InrE andthen_InrE split: sum.splits prod.splits option.splits) (metis io_returns)

text \<open>The last of a manager's events, in the order of blocks and transactions.\<close>

lemma last_greatest:
  assumes "sorted (map k zs)" "zs \<noteq> []" "x \<in> set zs"
  shows "k x \<le> k (last zs)"
  using assms by (induction zs rule: rev_induct) (auto simp: sorted_append)

lemma last_chronological:
  assumes "e \<in> set es" "rv_relayManager (ev_returnValues e) = m"
    and "\<And>x. x \<in> set es \<Longrightarrow> rv_relayManager (ev_returnValues x) = m \<Longrightarrow> x \<noteq> e \<Longrightarrow>
      ev_blockNumber x < ev_blockNumber e \<or>
      ev_blockNumber x = ev_blockNumber e \<and> ev_transactionIndex x < ev_transactionIndex e"
  shows "last (events_of m (chronological es)) = e" and "events_of m (chronological es) \<noteq> []"
proof -
  let ?k = "\<lambda>e. (ev_blockNumber e, ev_transactionIndex e)" and ?P = "\<lambda>e. rv_relayManager (ev_returnValues e) = m"
  let ?zs = "sort_key ?k (filter ?P es)"
  have zs: "events_of m (chronological es) = ?zs" by (simp add: events_of_def chronological_def filter_sort)
  have e: "e \<in> set ?zs" using assms(1,2) by simp
  then show ne: "events_of m (chronological es) \<noteq> []" unfolding zs by (metis empty_iff list.set(1))
  have "?k e \<le> ?k (last ?zs)" using last_greatest [of ?k ?zs e] e ne zs by simp
  moreover have "last ?zs \<in> set ?zs" using ne unfolding zs by (rule last_in_set)
  moreover have "\<not> ?k e \<le> ?k x" if "x \<in> set ?zs" "x \<noteq> e" for x
    using assms(3) [of x] that by auto
  ultimately show "last (events_of m (chronological es)) = e" unfolding zs by blast
qed

section \<open>Properties\<close>

text \<open>
  C8. A transaction that \<open>relayTransaction\<close> returns is, for the details given to it, the call of the
  configured hub with a request that carries these details and that the sender signed; the worker
  named in the request signed it, under a nonce that exceeds the number of transactions the node has reported
  for this worker by at most the configured gap.
\<close>

theorem relayed_transaction_is_validated:
  assumes "rc_relayTransaction C d s = (Inr (Result res), t)" "re_transaction res = Some tx" "order_ok (cl_selector C)"
  shows "relayed_for C d tx"
  using rc_relayTransaction_Inr [OF assms(1,3)] assms(2) by blast

theorem relayed_transaction_is_validated_witness: "relayed_for client_ex details_ex sent_ex"
proof -
  obtain res t where run: "rc_relayTransaction client_ex details_ex client_state_ex = (Inr (Result res), t)"
    "re_transaction res = Some sent_ex" using relay_run_ex by blast
  have "order_ok (cl_selector client_ex)" by (simp add: order_ok_def)
  from relayed_transaction_is_validated [OF run this] show ?thesis .
qed

text \<open>
  The client takes a response for valid exactly when it decodes to a transaction to the configured
  hub, with the call of the request as data, from the worker of the request, under an agreed nonce.
\<close>

theorem response_validation:
  "validateRelayResponse T W cfg request tx s = (Inr True, t) \<longleftrightarrow> t = s \<and> ci_rawTxOptions s \<noteq> None \<and>
     (\<exists>x a. t_decode T tx = Inr x \<and> t_sender T x = Inr a \<and> isSameAddress (t_to T x) (ec_relayHubAddress cfg) \<and>
       encodeCall W request = t_data T x \<and> isSameAddress (rd_relayWorker (relayData (relayRequest request))) a \<and>
       t_nonce T x \<le> md_relayMaxNonce (metadata request))"
  by (rule validateRelayResponse_True)

text \<open>
  C22. A signature that \<open>sign\<close> returns recovers, over the typed data of the request, to the sender.
\<close>

theorem signature_recovers_to_sender:
  assumes "sign W G r s = (Inr signature, t)"
  shows "\<exists>a. sg_recover G (typedRequestData (sg_chainId G) (rd_callForwarder (relayData r)) r) signature = Inr a \<and>
    isSameAddress (request_from r) a"
  by (rule sign_Inr [OF assms])

theorem signature_recovers_to_sender_witness:
  "\<exists>signature t a. sign web3_ex signer_ex (relayRequest request_ex) client_state_ex = (Inr signature, t) \<and>
     sg_recover signer_ex (typedRequestData 33 ''0xfactory'' (relayRequest request_ex)) signature = Inr a"
proof -
  have "\<exists>signature t. sign web3_ex signer_ex (relayRequest request_ex) client_state_ex = (Inr signature, t)"
    by (simp add: sign_def request_ex_def deploy_ex_def request_from_def isSameAddress_def js_run Let_def)
  then obtain signature t where run: "sign web3_ex signer_ex (relayRequest request_ex) client_state_ex = (Inr signature, t)"
    by blast
  from signature_recovers_to_sender [OF run] run show ?thesis by (auto simp: request_ex_def relay_data_ex_def)
qed


text \<open>
  C21. When the relays that are left have different URLs, \<open>selectNextRelay\<close> comes to an end with a result: no race
  hangs and no loop goes on. The relay it returns is one that was left; it and its URL are no longer left.
\<close>

theorem selection_terminates:
  assumes "selectNextRelay S d s = (Inr x, t)" "order_ok S" "rs_remainingRelays s \<noteq> []" "distinct (map ri_relayUrl (relaysLeft s))"
  shows "\<exists>y. x = Result y \<and> (\<forall>r. y = Some r \<longrightarrow> ri_relayUrl (pi_relayInfo r) \<in> ri_relayUrl ` set (relaysLeft s) \<and>
     ri_relayUrl (pi_relayInfo r) \<notin> ri_relayUrl ` set (relaysLeft t) \<and> set (relaysLeft t) \<subseteq> set (relaysLeft s))"
  using selectNextRelay_answers [OF assms] selectNextRelay_selected [OF assms(1-3)] by (auto simp: selected_def)

theorem selection_terminates_witness:
  "\<exists>y t. selectNextRelay selector_ex details_ex client_state_ex = (Inr (Result y), t)"
proof -
  have "\<exists>x t. selectNextRelay selector_ex details_ex client_state_ex = (Inr x, t)"
    by (simp add: client_run_defs js_run details_ex_def client_config_ex_def defaultEnvelopingConfig_def Let_def)
  then obtain x t where run: "selectNextRelay selector_ex details_ex client_state_ex = (Inr x, t)" by blast
  have "order_ok selector_ex" "rs_remainingRelays client_state_ex \<noteq> []" "distinct (map ri_relayUrl (relaysLeft client_state_ex))"
    by (simp_all add: order_ok_def relaysLeft_def client_state_ex_def)
  from selection_terminates [OF run this] run show ?thesis by blast
qed

text \<open>
  C31. The loop over the relays comes to an end with a result when the relays that are left have different URLs:
  one round more than there are relays is enough, and the relays that failed are some of those.
\<close>

theorem relay_loop_ends:
  assumes "relay_rounds C g (Suc (length (relaysLeft s))) d [] s = (Inr x, t)" "order_ok (cl_selector C)"
    and "rs_remainingRelays s \<noteq> []" "distinct (map ri_relayUrl (relaysLeft s))"
  shows "\<exists>res. x = Result res \<and> fst ` set (re_relayingErrors res) \<subseteq> ri_relayUrl ` set (relaysLeft s)"
proof -
  have card: "card (urlsLeft s) < Suc (length (relaysLeft s))"
    unfolding urlsLeft_def using card_image_le [of "set (relaysLeft s)" ri_relayUrl] card_length [of "relaysLeft s"] by simp
  obtain res where "x = Result res" using relay_rounds_answer [OF assms(1-3) card assms(4)] by blast
  moreover have "rounds_ok C d (urlsLeft s) [] x" by (rule relay_rounds_ok [OF assms(1-3) card]) simp
  ultimately show ?thesis by (auto simp: rounds_ok_def urlsLeft_def)
qed

theorem relay_loop_ends_witness:
  "\<exists>res t. relay_rounds client_ex False (Suc (length (relaysLeft client_state_ex))) details_ex [] client_state_ex = (Inr (Result res), t)"
proof -
  have "\<exists>x t. relay_rounds client_ex False (Suc (length (relaysLeft client_state_ex))) details_ex [] client_state_ex = (Inr x, t)"
    by (simp add: client_run_defs attempt_defs js_run Let_def details_ex_def client_config_ex_def defaultEnvelopingConfig_def
        register_event_ex_def ZERO_ADDRESS_def toBN_ex_def encodeABI_ex_def sent_ex_def set_of_list_def set_add_def fromWorker_def)
  then obtain x t where run: "relay_rounds client_ex False (Suc (length (relaysLeft client_state_ex))) details_ex [] client_state_ex = (Inr x, t)" by blast
  have "order_ok (cl_selector client_ex)" "rs_remainingRelays client_state_ex \<noteq> []" "distinct (map ri_relayUrl (relaysLeft client_state_ex))"
    by (simp_all add: order_ok_def relaysLeft_def client_state_ex_def)
  from relay_loop_ends [OF run this] run show ?thesis by blast
qed

text \<open>
  C34. With distinct URLs a race of pings settles, in whatever order the pings are answered: a relay of
  the race wins, or all have failed.
\<close>

theorem race_settles:
  assumes "distinct (map ri_relayUrl relays)" "relays \<noteq> []" "mset (se_order S relays) = mset relays"
  shows "\<exists>rr t. raceToSuccess S d relays s = (Inr (Result rr), t) \<and> race_ok (length relays) relays [] rr"
proof -
  have d: "distinct (map ri_relayUrl (se_order S relays))"
    using assms(1,3) by (metis distinct_map mset_eq_imp_distinct_iff mset_eq_setD)
  have l: "length (se_order S relays) = length relays" using assms(3) by (metis size_mset)
  then have "se_order S relays \<noteq> []" using assms(2) by auto
  then obtain rr t where r: "settle S d (length relays) (se_order S relays) [] s = (Inr (Result rr), t)"
    using settle_settles [OF d, of "[]" "length relays" S d s] l by auto
  have "race_ok (length relays) (se_order S relays) [] rr" using settle_result [OF r] by simp
  then have "race_ok (length relays) relays [] rr" using mset_eq_setD [OF assms(3)] by (simp add: race_ok_def)
  then show ?thesis using r by (auto simp: raceToSuccess_def)
qed

theorem race_settles_witness:
  "\<exists>rr t. raceToSuccess selector_ex details_ex [relay_ex] client_state_ex = (Inr (Result rr), t) \<and> race_ok 1 [relay_ex] [] rr"
  using race_settles [of "[relay_ex]" selector_ex details_ex client_state_ex] by simp

text \<open>
  C32. The windows a range of blocks is split into are disjoint and within the range; together they
  cover it, but for its last block when the size of a window divides the distance.
\<close>

theorem splitRange_windows:
  assumes "fromBlock \<le> toBlock" "0 < splits"
  shows "(\<forall>(x, y) \<in> set (splitRange fromBlock toBlock splits). fromBlock \<le> x \<and> x \<le> y \<and> y \<le> toBlock \<and>
      (\<forall>(x', y') \<in> set (splitRange fromBlock toBlock splits). x \<noteq> x' \<longrightarrow> {x..y} \<inter> {x'..y'} = {})) \<and>
    \<Union> ((\<lambda>(x, y). {x..y}) ` set (splitRange fromBlock toBlock splits)) =
      (if splitSize fromBlock toBlock splits dvd (toBlock - fromBlock) then {fromBlock..<toBlock} else {fromBlock..toBlock})"
proof -
  let ?n = "splitSize fromBlock toBlock splits"
  have n: "0 < ?n" by (rule splitSize_pos [OF assms])
  have "(if fromBlock < toBlock then (if ?n dvd (toBlock - fromBlock) then {fromBlock..<toBlock} else {fromBlock..toBlock}) else {})
      = (if ?n dvd (toBlock - fromBlock) then {fromBlock..<toBlock} else {fromBlock..toBlock})"
    using assms(1) by auto
  then show ?thesis
    using split_from_covers [OF n, of toBlock fromBlock] split_from_bounds [of _ _ ?n toBlock fromBlock]
      split_from_disjoint [OF n, of _ _ toBlock fromBlock]
    unfolding splitRange_def by fastforce
qed

theorem splitRange_windows_witness: "\<Union> ((\<lambda>(x, y). {x..y}) ` set (splitRange 0 2 2)) = {0..<2}"
proof -
  have "splitSize 0 2 2 = 2" by (simp add: splitSize_def ceiling_eq_iff)
  then show ?thesis using splitRange_windows [of 0 2 2] by simp
qed

text \<open>
  C33. The client's collaborators can be made exactly when there is a provider, or both objects that need
  one, and no unknown override. Each override but the one of the configuration is what is returned under its name; a new
  manager of relays works with the returned interactor and filter and the given configuration, but scores
  relays by the default, whatever score was given; a new validator works with the same interactor and configuration.
\<close>

theorem dependencies_are_wired:
  "case getDependencies config provider overrides of
     Inl e \<Rightarrow> provider = None \<and> (overridden overrides ''contractInteractor'' = None \<or> overridden overrides ''accountManager'' = None) \<or>
       \<not> knownKeys overrides
   | Inr d \<Rightarrow> (provider = None \<longrightarrow> overridden overrides ''contractInteractor'' \<noteq> None \<and> overridden overrides ''accountManager'' \<noteq> None) \<and>
       knownKeys overrides \<and> map fst d = dependencyNames \<and> map_of d ''config'' = Some (TheConfig config) \<and>
       (\<forall>key v. key \<in> set dependencyNames - {''config''} \<and> overridden overrides key = Some v \<longrightarrow> map_of d key = Some (Given v)) \<and>
       (\<exists>i f. map_of d ''contractInteractor'' = Some i \<and> map_of d ''relayFilter'' = Some f \<and>
         (overridden overrides ''knownRelaysManager'' = None \<longrightarrow>
           map_of d ''knownRelaysManager'' = Some (NewKnownRelaysManager i config (Some f) (Some TheDefaultRelayScore))) \<and>
         (overridden overrides ''transactionValidator'' = None \<longrightarrow>
           map_of d ''transactionValidator'' = Some (NewRelayedTransactionValidator i config)))"
proof (cases "getDependencies config provider overrides")
  case (Inl e)
  then show ?thesis using getDependencies_Inr [of config provider overrides] by auto
next
  case (Inr d)
  obtain i f where "map_of d ''contractInteractor'' = Some i" "map_of d ''relayFilter'' = Some f"
    "overridden overrides ''knownRelaysManager'' = None \<Longrightarrow>
       map_of d ''knownRelaysManager'' = Some (NewKnownRelaysManager i config (Some f) (Some TheDefaultRelayScore))"
    "overridden overrides ''transactionValidator'' = None \<Longrightarrow>
       map_of d ''transactionValidator'' = Some (NewRelayedTransactionValidator i config)"
    using getDependencies_shared [OF Inr] by blast
  then show ?thesis
    using Inr getDependencies_Inr [of config provider overrides] getDependencies_member [OF Inr] by auto
qed

theorem dependencies_are_wired_witness:
  "\<exists>d. getDependencies client_config_ex (Some ()) [(''scoreCalculator'', Some (5 :: int)), (''config'', Some 7)] = Inr d \<and>
     map_of d ''scoreCalculator'' = Some (Given 5) \<and> map_of d ''config'' = Some (TheConfig client_config_ex) \<and>
     (\<exists>i f. map_of d ''knownRelaysManager'' = Some (NewKnownRelaysManager i client_config_ex f (Some TheDefaultRelayScore)))"
proof -
  let ?overrides = "[(''scoreCalculator'', Some (5 :: int)), (''config'', Some 7)]"
  have "knownKeys ?overrides" by (simp add: knownKeys_def dependencyNames_def)
  then obtain d where d: "getDependencies client_config_ex (Some ()) ?overrides = Inr d"
    using getDependencies_Inr [of client_config_ex "Some ()" ?overrides] by auto
  have "''scoreCalculator'' \<in> set dependencyNames" by (simp add: dependencyNames_def)
  then show ?thesis using dependencies_are_wired [where config = client_config_ex and provider = "Some ()" and overrides = ?overrides] d
    by (auto simp: overridden_def)
qed

text \<open>
  The three rounds of the search for events are enough: from at least one window on, more rounds never
  change the result.
\<close>

theorem past_events_rounds_suffice:
  assumes "1 \<le> kr_relayLookupWindowParts s"
  shows "past_events_loop N W cfg a b (3 + k) s = kr_getPastEventsForHub N W cfg a b s"
  using past_events_more_fuel [of s 2 N W cfg a b k] assms
  by (simp add: kr_getPastEventsForHub_def numeral_3_eq_3 del: past_events_loop.simps)

theorem past_events_rounds_suffice_witness:
  "past_events_loop node_ex web3_ex client_config_ex 0 100 7 client_state_ex =
     kr_getPastEventsForHub node_ex web3_ex client_config_ex 0 100 client_state_ex"
  using past_events_rounds_suffice [of client_state_ex node_ex web3_ex client_config_ex 0 100 4] by simp

text \<open>
  C35. Of a manager's events the one in the highest block decides, and within a block the one with the highest
  index of its transaction: the manager is active exactly when it is a registration, under the URL of that
  registration. A manager that never registered is not active.
\<close>

theorem active_relays_are_last_registered:
  assumes "e \<in> set (exits @ registered)" "rv_relayManager (ev_returnValues e) = m"
    and "\<And>x. x \<in> set (exits @ registered) \<Longrightarrow> rv_relayManager (ev_returnValues x) = m \<Longrightarrow> x \<noteq> e \<Longrightarrow>
      ev_blockNumber x < ev_blockNumber e \<or>
      ev_blockNumber x = ev_blockNumber e \<and> ev_transactionIndex x < ev_transactionIndex e"
  shows "map_of (activeRelays exits registered) m = (if ev_event e = RelayServerRegistered
      then Some \<lparr>ri_relayUrl = rv_relayUrl (ev_returnValues e), ri_relayManager = Some m\<rparr> else None) \<and>
    dom (map_of (activeRelays exits registered)) \<subseteq>
      (\<lambda>x. rv_relayManager (ev_returnValues x)) ` {x \<in> set (exits @ registered). ev_event x = RelayServerRegistered}"
proof -
  let ?es = "\<lambda>m. events_of m (chronological (exits @ registered))"
  have last: "last (?es m) = e" "?es m \<noteq> []"
    using last_chronological(1) [OF assms] last_chronological(2) [OF assms] by simp_all
  have active: "map_of (activeRelays exits registered) k = (if ?es k = [] \<or> ev_event (last (?es k)) \<noteq> RelayServerRegistered
      then None else Some (eventInfo (last (?es k))))" for k
    unfolding activeRelays_def by (rule map_of_activations)
  have "map_of (activeRelays exits registered) m = (if ev_event e = RelayServerRegistered
      then Some \<lparr>ri_relayUrl = rv_relayUrl (ev_returnValues e), ri_relayManager = Some m\<rparr> else None)"
    unfolding active last(1) using last(2) assms(2) by (simp add: eventInfo_def)
  moreover have "k \<in> (\<lambda>x. rv_relayManager (ev_returnValues x)) ` {x \<in> set (exits @ registered). ev_event x = RelayServerRegistered}"
    if "k \<in> dom (map_of (activeRelays exits registered))" for k
  proof -
    have k: "?es k \<noteq> []" "ev_event (last (?es k)) = RelayServerRegistered" using that unfolding domIff active by (auto split: if_splits)
    have "last (?es k) \<in> set (exits @ registered)" "rv_relayManager (ev_returnValues (last (?es k))) = k"
      using last_in_set [OF k(1)] by (simp_all add: events_of_def chronological_def)
    then show ?thesis using k(2) by (intro image_eqI [of _ _ "last (?es k)"]) simp_all
  qed
  ultimately show ?thesis by blast
qed

definition exit_event_ex :: event_data where
  "exit_event_ex = register_event_ex\<lparr>ev_event := StakeUnlocked, ev_blockNumber := 12\<rparr>"

theorem active_relays_are_last_registered_witness:
  "map_of (activeRelays [exit_event_ex] [register_event_ex]) ''0xm'' = None"
proof -
  have "ev_event exit_event_ex \<noteq> RelayServerRegistered"
    by (simp add: exit_event_ex_def StakeUnlocked_def RelayServerRegistered_def)
  then show ?thesis
    using active_relays_are_last_registered [of exit_event_ex "[exit_event_ex]" "[register_event_ex]" "''0xm''"]
    by (auto simp: exit_event_ex_def register_event_ex_def)
qed

text \<open>
  C23. A relay call passes the client's local check only with a positive gas price, when the configured verifier
  has accepted it and the worker's balance pays, at that price, for the gas the node has estimated for the call,
  with the client's correction.
\<close>

theorem accepted_relay_is_affordable:
  fixes s :: "('w, 'z) interactor_scheme"
  assumes "validateAcceptRelayCall N W r signature s = (Inr a, t)" "ac_verifierAccepted a"
  shows "\<exists>price g m b balance verifier res. w3_toBN W (rd_gasPrice (relayData r)) = Inr price \<and> 0 < price \<and>
    returns (n_estimateGas N (relay_call_params W r signature)) g \<and> w3_toBN_num W (corrected g) = Inr m \<and>
    returns (n_getBalance N (rd_relayWorker (relayData r)) ''latest'') b \<and> w3_toBN W b = Inr balance \<and>
    (0 \<le> balance \<longrightarrow> m * price \<le> balance) \<and>
    ci_relayVerifier s = Some verifier \<and> returns (n_methodCall N verifier (VerifyRelayedCall r signature)
      (fromWorkerOnly (rd_relayWorker (relayData r))) (Some ''pending'')) res"
proof -
  obtain limit and s2 s3 :: "('w, 'z) interactor_scheme" where limit: "getMaxViewableRelayGasLimit N W r signature s = (Inr limit, s2)" "limit \<noteq> num 0"
    and v: "verifier_verdict N W r signature s2 = (Inr None, s3)"
    using assms by (rule acceptRelay_verdict)
  have "ci_relayVerifier s2 = ci_relayVerifier s"
    using alongD [OF along_verifier_limit, of s N W r signature] limit(1) by (simp add: verifier_kept_def)
  moreover obtain price g m b balance where "w3_toBN W (rd_gasPrice (relayData r)) = Inr price" "0 < price"
    "returns (n_estimateGas N (relay_call_params W r signature)) g" "w3_toBN_num W (corrected g) = Inr m"
    "returns (n_getBalance N (rd_relayWorker (relayData r)) ''latest'') b" "w3_toBN W b = Inr balance" "m \<le> balance sdiv price"
    using limit by (rule relayGasLimit_Inr)
  moreover obtain verifier res where "ci_relayVerifier s2 = Some verifier"
    "returns (n_methodCall N verifier (VerifyRelayedCall r signature) (fromWorkerOnly (rd_relayWorker (relayData r))) (Some ''pending'')) res"
    using v by (rule verdict_None)
  ultimately show ?thesis using sdiv_covers by metis
qed

definition forward_ex :: signed_request where
  "forward_ex = RelayRequest \<lparr>fr_relayHub = ''0xhub'', fr_from = ''0xuser'', fr_to = ''0xto'', fr_tokenContract = ZERO_ADDRESS,
     fr_value = ''0'', fr_gas = ''50000'', fr_nonce = ''0'', fr_tokenAmount = ''0x00'', fr_tokenGas = ''0x00'',
     fr_data = ''0x''\<rparr> (relay_data_ex\<lparr>rd_callVerifier := ''0xrv''\<rparr>)"

theorem accepted_relay_is_affordable_witness:
  "\<exists>price g m balance. toBN_ex ''100'' = Inr price \<and> 0 < price \<and> toBN_num_ex (corrected g) = Inr m \<and>
     (0 \<le> balance \<longrightarrow> m * price \<le> balance) \<and> returns (n_estimateGas node_ex (relay_call_params web3_ex forward_ex ''0xsig'')) g"
proof -
  have "\<exists>a t. validateAcceptRelayCall node_ex web3_ex forward_ex ''0xsig'' client_state_ex = (Inr a, t) \<and> ac_verifierAccepted a"
    by (simp add: validateAcceptRelayCall_def getMaxViewableRelayGasLimit_def estimateRelayTransactionMaxPossibleGas_def
        relayHubInstance_def instance_of_def getBalance_def js_run forward_ex_def relay_data_ex_def toBN_ex_def toBN_num_ex_def
        corrected_def math_ceil_def num_mul_def num_def ESTIMATED_GAS_CORRECTION_FACTOR_def)
  then obtain a t where run: "validateAcceptRelayCall node_ex web3_ex forward_ex ''0xsig'' client_state_ex = (Inr a, t)"
    "ac_verifierAccepted a" by blast
  from accepted_relay_is_affordable [OF run] show ?thesis
    by (simp add: forward_ex_def relay_data_ex_def) metis
qed

end
