(* ===== verification/CommonProperties.thy ===== *)
theory CommonProperties
  imports Example
begin

text \<open>
  What the parts that server and client share guarantee: round trips of encodings, the version registry,
  the latest of a list of events, the cost of call data, and the resolved configuration.
\<close>

section \<open>Helper facts\<close>

lemma find_SomeD: "find P xs = Some x \<Longrightarrow> x \<in> set xs \<and> P x"
  by (induction xs) (auto split: if_splits)

lemma explicitType_typed:
  "explicitType (k, val) = Inr (k, v) \<Longrightarrow> (case map_of ConfigParamsTypes k of
       None \<Rightarrow> k \<in> set objectPrototype \<and> v = val
     | Some StringParam \<Rightarrow> v = val
     | Some NumberParam \<Rightarrow> \<exists>n. parseInt (value_text val) = Some n \<and> v = VInt \<lfloor>n\<rfloor>
     | Some BooleanParam \<Rightarrow> \<exists>b. v = VBool b \<and> val \<in> {VBool b, VStr (value_text (VBool b))})"
  by (auto simp: explicitType_def Let_def value_text_def split: option.splits param_type.splits if_splits)

section \<open>Properties\<close>

text \<open>
  C36. The gas price \<open>calculateGasPrice\<close> returns is the node's price, raised by the configured percentage and
  rounded, but not less than the configured minimum, as a hexadecimal text. Below \<open>2 ^ 53\<close> the client
  writes it into the request in decimal without a loss, and the server's \<open>parseInt\<close> reads the same number.
\<close>

theorem gas_price_roundtrip:
  assumes "calculateGasPrice C s = (Inr p, t)" "0 \<le> ec_minGasPrice (cl_config C)"
    and "\<And>q. returns (n_getGasPrice (cl_node C)) q \<Longrightarrow> parseInt q \<noteq> NaN"
  shows "\<exists>q x g. returns (n_getGasPrice (cl_node C)) q \<and>
    math_round (num_div (num_mul (parseInt q) (num (ec_gasPriceFactorPercent (cl_config C) + 100))) 100) = num x \<and>
    g = max x (ec_minGasPrice (cl_config C)) \<and> p = hex_str g \<and>
    (g < 2 ^ 53 \<longrightarrow> decimal_of_hex name p = Inr (int_str g) \<and> parseInt (int_str g) = num g)"
proof -
  obtain q x where q: "returns (n_getGasPrice (cl_node C)) q" "raisedGasPrice (cl_config C) q = num x"
    "p = hex_str (max x (ec_minGasPrice (cl_config C)))"
    using calculateGasPrice_Inr [OF assms] by blast
  define g where "g = max x (ec_minGasPrice (cl_config C))"
  have g: "0 \<le> g" using assms(2) by (simp add: g_def)
  then have "startsWith (hex_str g) ''0x''" by (simp add: hex_str_def startsWith_def)
  then have "g < 2 ^ 53 \<longrightarrow> decimal_of_hex name (hex_str g) = Inr (int_str g) \<and> parseInt (int_str g) = num g"
    using g by (simp add: decimal_of_hex_def parseInt16_hex_str parseInt_int_str)
  then show ?thesis using q unfolding raisedGasPrice_def g_def by blast
qed

theorem gas_price_roundtrip_witness:
  "\<exists>p t g. calculateGasPrice client_ex client_state_ex = (Inr p, t) \<and> p = hex_str g \<and>
     (g < 2 ^ 53 \<longrightarrow> decimal_of_hex ''gasPrice'' p = Inr (int_str g) \<and> parseInt (int_str g) = num g)"
proof -
  have "\<exists>p t. calculateGasPrice client_ex client_state_ex = (Inr p, t)" by (simp add: calculateGasPrice_def js_run Let_def)
  then obtain p t where run: "calculateGasPrice client_ex client_state_ex = (Inr p, t)" by blast
  have "0 \<le> ec_minGasPrice (cl_config client_ex)" by (simp add: client_config_ex_def defaultEnvelopingConfig_def)
  moreover have "parseInt q \<noteq> NaN" if "returns (n_getGasPrice (cl_node client_ex)) q" for q
    using that by (auto simp: returns_def js_run parseInt_int_str num_def)
  ultimately show ?thesis using gas_price_roundtrip [OF run, of "''gasPrice''"] run by blast
qed

text \<open>A string of the registry that does not end in a zero byte survives its 32 byte encoding.\<close>

theorem bytes32_roundtrip:
  assumes "s = [] \<or> last s \<noteq> CHR 0x00"
  shows "bytes32toString (string32 s) = s"
  by (rule bytes32toString_string32 [OF assms])

theorem bytes32_roundtrip_witness: "bytes32toString (string32 ''hub'') = ''hub''"
  by (rule bytes32_roundtrip) simp

text \<open>
  C38. \<open>getVersion\<close> returns a version that was added and never cancelled, and that is older than the
  delay period or the one opted in to.
\<close>

theorem getVersion_usable:
  fixes s :: "('w, 'z) net_scheme"
  assumes "getVersion N registry i delayPeriod optIn s = (Inr v, t)"
  shows "\<exists>events b e. returns (n_registryEvents N registry ''allEvents'' (Some (string32 i))) events \<and>
    returns (n_getBlock N ''latest'') b \<and> e \<in> set events \<and> re_event e = ''VersionAdded'' \<and>
    v = versionInfo (cancelReasons events) e \<and>
    (\<forall>c\<in>set events. re_event c = ''VersionCanceled'' \<longrightarrow> re_version c \<noteq> re_version e) \<and>
    usable delayPeriod (bl_timestamp b) optIn v"
proof -
  obtain events b and s1 s2 s3 :: "('w, 'z) net_scheme" where r: "io (n_registryEvents N registry ''allEvents'' (Some (string32 i))) s = (Inr events, s1)"
    "io (n_getBlock N ''latest'') s2 = (Inr b, s3)"
    and f: "find (usable delayPeriod (bl_timestamp b) optIn) (allVersions events) = Some v"
    using assms by (auto simp: getVersion_def getAllVersions_def split: option.splits elim!: bnd_InrE)
  obtain e where e: "e \<in> set events" "re_event e = ''VersionAdded''" "v = versionInfo (cancelReasons events) e"
    using find_SomeD [OF f] by (auto elim: allVersions_member)
  have "\<not> vi_canceled v" using find_SomeD [OF f] by (simp add: usable_def)
  then have "map_of (cancelReasons events) (re_version e) = None" by (simp add: e(3) versionInfo_def)
  then have "\<forall>c\<in>set events. re_event c = ''VersionCanceled'' \<longrightarrow> re_version c \<noteq> re_version e"
    using map_of_cancelReasons [of events "re_version e"] by blast
  then show ?thesis using io_returns [OF r(1)] io_returns [OF r(2)] e find_SomeD [OF f] by blast
qed

definition registry_ex :: "unit node" where
  "registry_ex = node_ex\<lparr>n_registryEvents := (\<lambda>_ _ _. ret [\<lparr>re_event = ''VersionAdded'', re_id = string32 ''hub'',
     re_version = string32 ''2'', re_value = ''0xhub'', re_time = ''100'', re_reason = ''''\<rparr>])\<rparr>"

theorem getVersion_usable_witness:
  "\<exists>v t. getVersion registry_ex ''0xreg'' ''hub'' (num 100) '''' server_ex = (Inr v, t) \<and> usable (num 100) 1000 '''' v"
proof -
  have "bytes32toString (string32 ''2'') = ''2''" by (rule bytes32toString_string32) simp
  then have "\<exists>v t. getVersion registry_ex ''0xreg'' ''hub'' (num 100) '''' server_ex = (Inr v, t)"
    by (simp add: getVersion_def getAllVersions_def registry_ex_def js_run allVersions_def cancelReasons_def versionInfo_def
        usable_def num_add_def num_def block_ex_def)
  then obtain v t where run: "getVersion registry_ex ''0xreg'' ''hub'' (num 100) '''' server_ex = (Inr v, t)" by blast
  from getVersion_usable [OF run] obtain b where "returns (n_getBlock registry_ex ''latest'') b" "usable (num 100) (bl_timestamp b) '''' v"
    by blast
  then have "usable (num 100) 1000 '''' v" by (auto simp: registry_ex_def returns_def js_run block_ex_def)
  with run show ?thesis by blast
qed

text \<open>
  C39. Every member of a parsed server configuration was given under its name, on the command line (with the
  environment as its defaults) or in the file the command line names. A number parameter holds the integer
  that \<open>parseInt\<close> reads, a boolean parameter the boolean given as such or as its text; what is given
  for a string parameter is passed on as it is. No other name is accepted, but those every object inherits.
\<close>

theorem parsed_config_is_typed:
  assumes "parseServerConfig minimist readJson args env = Inr cfg" "map_of cfg k = Some v"
  shows "\<exists>argv f val.
    minimist args (filterType ConfigParamsTypes StringParam) (filterMembers env ConfigParamsTypes) = ([], argv) \<and>
    (case map_of argv ''config'' of None \<Rightarrow> f = [] | Some name \<Rightarrow> readJson (value_text name) = Some (Inr f)) \<and>
    (k, val) \<in> set (spread f argv) \<and>
    (case map_of ConfigParamsTypes k of
       None \<Rightarrow> k \<in> set objectPrototype \<and> v = val
     | Some StringParam \<Rightarrow> v = val
     | Some NumberParam \<Rightarrow> \<exists>n. parseInt (value_text val) = Some n \<and> v = VInt \<lfloor>n\<rfloor>
     | Some BooleanParam \<Rightarrow> \<exists>b. v = VBool b \<and> val \<in> {VBool b, VStr (value_text (VBool b))})"
proof -
  obtain argv f val where
    "minimist args (filterType ConfigParamsTypes StringParam) (filterMembers env ConfigParamsTypes) = ([], argv)"
    "given_file readJson argv f" "(k, val) \<in> set (spread f argv)" "explicitType (k, val) = Inr (k, v)"
    using parsed_member [OF assms] by blast
  then show ?thesis using explicitType_typed [of k val v] unfolding given_file_def by blast
qed

theorem parsed_config_is_typed_witness:
  "\<exists>cfg v val n. parseServerConfig (\<lambda>_ _ _. ([], [(''port'', VStr ''100'')])) (\<lambda>_. None) [] [] = Inr cfg \<and>
     map_of cfg ''port'' = Some v \<and> parseInt (value_text val) = Some n \<and> v = VInt \<lfloor>n\<rfloor>"
proof -
  let ?parse = "parseServerConfig (\<lambda>_ _ _. ([], [(''port'', VStr ''100'')])) (\<lambda>_. None) [] []"
  have port: "map_of ConfigParamsTypes ''port'' = Some NumberParam" by code_simp
  have "\<exists>cfg v. ?parse = Inr cfg \<and> map_of cfg ''port'' = Some v"
    by (simp add: parseServerConfig_def Let_def spread_def explicitType_def port value_text_def entriesToObj_def num_def)
  then obtain cfg v where run: "?parse = Inr cfg" "map_of cfg ''port'' = Some v" by blast
  from parsed_config_is_typed [OF run] run show ?thesis by (auto simp: port)
qed

text \<open>
  The latest of a list of events is one of them and none of them is later; only the order of the
  list it is taken from changes.
\<close>

theorem latest_event_is_latest:
  assumes "getLatestEventData es = (Some l, es')"
  shows "l \<in> set es \<and> (\<forall>e\<in>set es. \<not> isSecondEventLater l e) \<and> set es' = set es"
  using getLatestEventData_latest [OF assms] by blast

theorem latest_event_is_latest_witness: "\<not> isSecondEventLater register_event_ex register_event_ex"
proof -
  have "getLatestEventData [register_event_ex] = (Some register_event_ex, [register_event_ex])"
    by (simp add: getLatestEventData_def sortLatestFirst_def Let_def)
  from latest_event_is_latest [OF this] show ?thesis by simp
qed

text \<open>The cost of the call data is the base cost and, for each byte, the cost of its kind.\<close>

theorem data_cost_per_byte:
  "transactionParamDataCost W arrayify req = TRANSACTION_GAS_COST +
     sum_list (map (\<lambda>b. if b = 0 then TX_ZERO_DATA_GAS_COST else TX_NO_ZERO_DATA_GAS_COST)
       (arrayify (w3_encodeABI W (relay_method req))))"
proof -
  have "(int (length bs) - int (length (filter (\<lambda>b. b \<noteq> 0) bs))) * z + int (length (filter (\<lambda>b. b \<noteq> 0) bs)) * n =
      sum_list (map (\<lambda>b. if b = 0 then z else n) bs)" for bs :: "nat list" and z n :: int
    by (induction bs) (auto simp: algebra_simps)
  then show ?thesis
    by (simp add: transactionParamDataCost_def relay_method_def nonZeroDataBytes_eq Let_def)
qed

text \<open>
  A member given to the server's constructor overrides the default, one left out keeps it.
\<close>

theorem explicit_overrides_default:
  assumes "distinct (map fst partialConfig)"
  shows "map_of (configureServer partialConfig) k =
    (case map_of partialConfig k of Some v \<Rightarrow> Some v | None \<Rightarrow> map_of serverDefaultConfiguration k)"
  by (rule configureServer_member [OF assms])

theorem explicit_overrides_default_witness:
  "map_of (configureServer [(''port'', VInt 8090)]) ''port'' = Some (VInt 8090)"
  by (subst explicit_overrides_default) simp_all

text \<open>
  A configuration that \<open>resolveServerConfig\<close> returns names a hub at which the node has code, and the
  URL and the working directory were given.
\<close>

theorem resolved_hub_is_deployed:
  fixes s :: "('w, 'z) net_scheme"
  assumes "resolveServerConfig N W config s = (Inr resolved, t)" "distinct (map fst config)"
  shows "(\<exists>code. returns (n_getCode N (member_str resolved ''relayHubAddress'')) code \<and> code \<noteq> ''0x'' \<and> code \<noteq> ''0x00'') \<and>
    map_of resolved ''url'' = map_of config ''url'' \<and> map_of config ''url'' \<noteq> None \<and> map_of config ''workdir'' \<noteq> None"
proof -
  obtain config' and s1 s2 :: "('w, 'z) net_scheme" where
    c: "config' = config \<and> map_of config ''relayHubAddress'' \<noteq> None \<or> (\<exists>v. config' = AList.update ''relayHubAddress'' v config)"
    and d: "isContractDeployed N (member_str config' ''relayHubAddress'') s1 = (Inr True, s2)"
    and k: "map_of config' ''url'' \<noteq> None" "map_of config' ''workdir'' \<noteq> None"
      "resolved = spread (spread [] serverDefaultConfiguration) config'"
    using assms(1) unfolding resolveServerConfig_def Let_def
    by (auto elim!: bnd_InrE andthen_InrE dest!: throw_if_InrD simp del: throw_if_run split: option.splits) blast+
  have dist: "distinct (map fst config')" using c assms(2) by (auto simp: distinct_update)
  have m: "map_of resolved key = map_of config' key" if "map_of config' key \<noteq> None" for key
    using that by (auto simp: k(3) map_of_spread map_of_rev_distinct [OF dist])
  have hub: "map_of config' ''relayHubAddress'' \<noteq> None" using c by (auto simp: update_conv')
  then have "member_str resolved ''relayHubAddress'' = member_str config' ''relayHubAddress''"
    using m by (simp add: member_str_def)
  moreover have "map_of config' key = map_of config key" if "key \<noteq> ''relayHubAddress''" for key
    using c that by (auto simp: update_conv')
  ultimately show ?thesis
    using d k m [OF k(1)] by (auto simp: isContractDeployed_def elim!: bnd_InrE dest!: io_returns)
qed

theorem resolved_hub_is_deployed_witness:
  "\<exists>resolved t code. resolveServerConfig node_ex web3_ex
       [(''relayHubAddress'', VStr ''0xhub''), (''url'', VStr ''http://relay''), (''workdir'', VStr ''/tmp'')] server_ex = (Inr resolved, t) \<and>
     returns (n_getCode node_ex (member_str resolved ''relayHubAddress'')) code"
proof -
  let ?c = "[(''relayHubAddress'', VStr ''0xhub''), (''url'', VStr ''http://relay''), (''workdir'', VStr ''/tmp'')]"
  have "\<exists>resolved t. resolveServerConfig node_ex web3_ex ?c server_ex = (Inr resolved, t)"
    by (simp add: resolveServerConfig_def js_run validateAddress_def isContractDeployed_def)
  then obtain resolved t where run: "resolveServerConfig node_ex web3_ex ?c server_ex = (Inr resolved, t)" by blast
  have "distinct (map fst ?c)" by simp
  from resolved_hub_is_deployed [OF run this] run show ?thesis by blast
qed

end
