(* ===== verification/Provider.thy ===== *)
theory Provider
  imports RelayClient
begin

text \<open>
  \<open>src/relayclient/RelayProvider.ts\<close>: the JSON-RPC provider a dApp puts in front of its own. It sends
  transactions through the relay client, adds the client's accounts to the provider's and passes
  everything else on. A method with a callback is modelled by the arguments of its one call of the
  callback: \<open>Never\<close> when it is not called, because a promise does not settle or because the handler
  of a promise throws and the rejection is lost.
\<close>

section \<open>Requests and answers\<close>

text \<open>
  The first parameter of a request is an object, given by its members, or something else (a hash, an
  address, a block). \<open>params[0]\<close> is undefined when there are no parameters.
\<close>

datatype rpc_value = RString string | RBool bool | RNumber int | ROther string

datatype rpc_param = TextParam string | ObjectParam "(string \<times> rpc_value) list"

datatype rpc_id = IdString string | IdNumber number

record rpc_payload =
  rp_method :: string
  rp_params :: "rpc_param list"
  rp_id :: "rpc_id option"

datatype rpc_result = ResultString string | ResultArray "string list" | ResultOther string

record rpc_response =
  rr_id :: number
  rr_result :: "rpc_result option"

type_synonym rpc_callback = "exn option \<times> rpc_response option"

record decoded_log =
  dl_name :: string
  dl_events :: "(string \<times> string) list"

text \<open>
  The provider in front of which this one stands (\<open>origProviderSend\<close>), the decoder of log entries
  (abi-decoder with the two contracts added), whose entries may be \<open>null\<close>, and \<open>configure\<close>d options.
\<close>

record ('w, 'k, 'q, 't) provider =
  pv_client :: "('w, 'k, 'q, 't) client"
  pv_config :: enveloping_config
  pv_origSend :: "rpc_payload \<Rightarrow> ('w, rpc_callback) js"
  pv_decodeLogs :: "raw_log list \<Rightarrow> exn + decoded_log option list"

definition str_member :: "(string \<times> rpc_value) list \<Rightarrow> string \<Rightarrow> string option" where
  "str_member o' k = (case map_of o' k of Some (RString v) \<Rightarrow> Some v | _ \<Rightarrow> None)"

text \<open>A number where the type says string is passed on; here it is its decimal text, which is read the same way.\<close>

definition text_member :: "(string \<times> rpc_value) list \<Rightarrow> string \<Rightarrow> string option" where
  "text_member o' k = (case map_of o' k of Some (RString v) \<Rightarrow> Some v | Some (RNumber n) \<Rightarrow> Some (int_str n) | _ \<Rightarrow> None)"

definition bool_member :: "(string \<times> rpc_value) list \<Rightarrow> string \<Rightarrow> bool option" where
  "bool_member o' k = (case map_of o' k of Some (RBool v) \<Rightarrow> Some v | _ \<Rightarrow> None)"

definition int_member :: "(string \<times> rpc_value) list \<Rightarrow> string \<Rightarrow> int option" where
  "int_member o' k = (case map_of o' k of Some (RNumber v) \<Rightarrow> Some v | _ \<Rightarrow> None)"

text \<open>
  \<open>payload.params[0]\<close> as \<open>EnvelopingTransactionDetails\<close>, whose required members \<open>from\<close>, \<open>data\<close> and
  \<open>to\<close> are taken to be there.
\<close>

definition details_of :: "(string \<times> rpc_value) list \<Rightarrow> transaction_details" where
  "details_of o' = (let str = str_member o'; text = text_member o'; bl = bool_member o'; nm = int_member o' in
     \<lparr>td_from = or_else (str ''from'') '''', td_data = or_else (str ''data'') '''', td_to = or_else (str ''to'') '''',
      td_tokenContract = str ''tokenContract'', td_tokenAmount = text ''tokenAmount'', td_tokenGas = text ''tokenGas'',
      td_recoverer = str ''recoverer'', td_index = text ''index'', td_value = text ''value'', td_gas = text ''gas'',
      td_gasPrice = text ''gasPrice'', td_relayHub = str ''relayHub'', td_callForwarder = str ''callForwarder'',
      td_callVerifier = str ''callVerifier'', td_isSmartWalletDeploy = bl ''isSmartWalletDeploy'',
      td_smartWalletAddress = str ''smartWalletAddress'', td_clientId = str ''clientId'',
      td_useEnveloping = bl ''useEnveloping'', td_forceGasPrice = text ''forceGasPrice'',
      td_forceGas = text ''forceGas'', td_onlyPreferredRelays = bl ''onlyPreferredRelays'',
      td_retries = nm ''retries'', td_initialBackoff = nm ''initialBackoff''\<rparr>)"

section \<open>Receipts\<close>

record relay_status =
  ry_relayRevertedOnRecipient :: bool
  ry_transactionRelayed :: bool
  ry_reason :: string

definition find_event :: "string \<Rightarrow> decoded_log option list \<Rightarrow> decoded_log option" where
  "find_event name logs = (case find (\<lambda>e. case e of None \<Rightarrow> False | Some l \<Rightarrow> dl_name l = name) logs of
     None \<Rightarrow> None | Some e \<Rightarrow> e)"

definition getRelayStatus ::
  "(raw_log list \<Rightarrow> exn + decoded_log option list) \<Rightarrow> receipt \<Rightarrow> exn + relay_status" where
  "getRelayStatus decodeLogs respResult = (case or_else (rc_logs respResult) [] of
     [] \<Rightarrow> Inr \<lparr>ry_relayRevertedOnRecipient = False, ry_transactionRelayed = False, ry_reason = ''Tx logs not found''\<rparr>
   | raw \<Rightarrow> map_sum id (\<lambda>logs.
       case find_event TransactionRejectedByRecipient logs of
         Some e \<Rightarrow> \<lparr>ry_relayRevertedOnRecipient = True, ry_transactionRelayed = False,
           ry_reason = (case find (\<lambda>(n, _). n = ''reason'') (dl_events e) of None \<Rightarrow> ''Unknown'' | Some (_, v) \<Rightarrow> v)\<rparr>
       | None \<Rightarrow>
           if find_event TransactionRelayed logs \<noteq> None
           then \<lparr>ry_relayRevertedOnRecipient = False, ry_transactionRelayed = True, ry_reason = ''''\<rparr>
           else if find_event ''Deployed'' logs \<noteq> None
           then \<lparr>ry_relayRevertedOnRecipient = False, ry_transactionRelayed = True, ry_reason = ''''\<rparr>
           else \<lparr>ry_relayRevertedOnRecipient = False, ry_transactionRelayed = False,
             ry_reason = ''Neither TransactionRelayed, Deployed, nor TransactionRelayedButRevertedByRecipient events found. This might be a non-enveloping transaction''\<rparr>)
       (decodeLogs raw))"

definition convertTransactionToRpcSendResponse ::
  "('q, 't) txlib \<Rightarrow> 't \<Rightarrow> rpc_payload \<Rightarrow> rpc_response" where
  "convertTransactionToRpcSendResponse T transaction request =
     \<lparr>rr_id = (case rp_id request of None \<Rightarrow> num (- 1) | Some (IdString i) \<Rightarrow> parseInt i | Some (IdNumber n) \<Rightarrow> n),
      rr_result = Some (ResultString (t_hash T transaction))\<rparr>"

section \<open>Deploying a smart wallet\<close>

definition notSet :: "string option \<Rightarrow> bool" where
  "notSet a \<longleftrightarrow> a = None \<or> a = Some ZERO_ADDRESS"

definition deployDetails :: "enveloping_config \<Rightarrow> transaction_details \<Rightarrow> transaction_details" where
  "deployDetails cfg d =
     (if td_isSmartWalletDeploy d = None \<or> notSet (td_relayHub d) \<or> td_onlyPreferredRelays d = None
      then d\<lparr>td_isSmartWalletDeploy := Some (or_else (td_isSmartWalletDeploy d) True),
             td_relayHub := (if notSet (td_relayHub d) then Some (ec_relayHubAddress cfg) else td_relayHub d),
             td_onlyPreferredRelays := Some (or_else (td_onlyPreferredRelays d) (ec_onlyPreferredRelays cfg))\<rparr>
      else d)"

text \<open>A token payment whose gas cannot be estimated, because the wallet's address is not given.\<close>

definition needsWalletAddress :: "web3_utils \<Rightarrow> transaction_details \<Rightarrow> exn + bool" where
  "needsWalletAddress W d =
     (if or_else (td_tokenContract d) ZERO_ADDRESS = ZERO_ADDRESS then Inr False
      else case w3_toBN W (or_else (td_tokenAmount d) ''0'') of
        Inl e \<Rightarrow> Inl e
      | Inr amount \<Rightarrow> if amount \<le> 0 then Inr False
          else case w3_toBN W (or_else (td_tokenGas d) ''0'') of
            Inl e \<Rightarrow> Inl e
          | Inr gas \<Rightarrow> Inr (gas = 0 \<and> or_else (td_smartWalletAddress d) ZERO_ADDRESS = ZERO_ADDRESS))"

definition failedToRelay :: "web3_utils \<Rightarrow> 't relaying_result \<Rightarrow> string" where
  "failedToRelay W r = ''Failed to relay call. Results:'' @ nl @ dumpRelayingResult W r"

definition reasonStr :: "web3_utils \<Rightarrow> exn \<Rightarrow> string" where
  "reasonStr W e = or_else (message e) (w3_stringify W e)"

definition deploySmartWallet ::
  "('w, 'k, 'q, 't) provider \<Rightarrow> transaction_details \<Rightarrow> (('w, 'k, 'z) client_state_scheme, string settles) js" where
  "deploySmartWallet P d0 =
     (let C = pv_client P; W = cl_web3 C; d = deployDetails (pv_config P) d0 in
      andthen (throw_if (\<not> or_else (td_isSmartWalletDeploy d0) True) ''Request is not for SmartWallet deploy'')
      (bnd (of_result (needsWalletAddress W d)) (\<lambda>needed.
       andthen (throw_if needed
         ''In a deploy, if tokenGas is not defined, then the calculated SmartWallet address is needed to estimate the tokenGas value'')
       (catching
         (bnd (rc_relayTransaction C d) (\<lambda>relayingResult. case relayingResult of
            Never \<Rightarrow> ret Never
          | Spinning \<Rightarrow> ret Spinning
          | Result r \<Rightarrow> (case re_transaction r of
              Some tx \<Rightarrow> ret (Result (t_hash (cl_txlib C) tx))
            | None \<Rightarrow> throw (Error (failedToRelay W r)))))
         (\<lambda>e. throw (Error (''Rejected deploy wallet call - Reason: '' @ reasonStr W e)))))))"

section \<open>Addresses of smart wallets\<close>

text \<open>
  The address a factory deploys a wallet at. The methods that compute it use a variable \<open>web3\<close> that no file of the
  client declares: they work only where the program around them has made it a global one.
\<close>

definition walletSalt :: "string \<Rightarrow> string \<Rightarrow> int \<Rightarrow> sol_arg list" where
  "walletSalt ownerEOA recoverer walletIndex = [SolAddress ownerEOA, SolAddress recoverer, SolUint256 walletIndex]"

definition customWalletSalt :: "string \<Rightarrow> string \<Rightarrow> string \<Rightarrow> string option \<Rightarrow> int \<Rightarrow> sol_arg list" where
  "customWalletSalt ownerEOA recoverer customLogic initParamsHash walletIndex =
     [SolAddress ownerEOA, SolAddress recoverer, SolAddress customLogic,
      SolBytes32 (or_else initParamsHash SHA3_NULL_S), SolUint256 walletIndex]"

definition create2Address ::
  "web3_utils \<Rightarrow> sol_arg list \<Rightarrow> string \<Rightarrow> string \<Rightarrow> int \<Rightarrow> string" where
  "create2Address W saltArgs factory bytecodeHash chainId =
     (let salt = or_else (w3_soliditySha3 W saltArgs) '''';
          d = or_else (w3_soliditySha3 W
            [SolBytes1 ''0xff'', SolAddress factory, SolBytes32 salt, SolBytes32 bytecodeHash]) ''''
      in w3_toChecksumAddress W (''0x'' @ drop 26 d) (Some chainId))"

definition with_global :: "bool \<Rightarrow> 'a \<Rightarrow> exn + 'a" where
  "with_global globalWeb3 x = (if globalWeb3 then Inr x else Inl (Error ''web3 is not defined''))"

definition pv_calculateCustomSmartWalletAddress ::
  "bool \<Rightarrow> web3_utils \<Rightarrow> enveloping_config \<Rightarrow> string \<Rightarrow> string \<Rightarrow> string \<Rightarrow> string \<Rightarrow> int \<Rightarrow> string \<Rightarrow> string option \<Rightarrow>
   exn + string" where
  "pv_calculateCustomSmartWalletAddress globalWeb3 W cfg factory ownerEOA recoverer customLogic walletIndex bytecodeHash logicInitParamsHash =
     with_global globalWeb3 (create2Address W (customWalletSalt ownerEOA recoverer customLogic logicInitParamsHash walletIndex)
       factory bytecodeHash (ec_chainId cfg))"

definition pv_calculateSmartWalletAddress ::
  "bool \<Rightarrow> web3_utils \<Rightarrow> enveloping_config \<Rightarrow> string \<Rightarrow> string \<Rightarrow> string \<Rightarrow> int \<Rightarrow> string \<Rightarrow> exn + string" where
  "pv_calculateSmartWalletAddress globalWeb3 W cfg factory ownerEOA recoverer walletIndex bytecodeHash =
     with_global globalWeb3 (create2Address W (walletSalt ownerEOA recoverer walletIndex)
       factory bytecodeHash (ec_chainId cfg))"

section \<open>Sending a transaction\<close>

definition sendDetails :: "web3_utils \<Rightarrow> enveloping_config \<Rightarrow> transaction_details \<Rightarrow> exn + transaction_details" where
  "sendDetails W cfg d = map_sum id (\<lambda>gasToSend.
     d\<lparr>td_callForwarder := (if notSet (td_callForwarder d) then Some (ec_forwarderAddress cfg) else td_callForwarder d),
       td_relayHub := (if notSet (td_relayHub d) then Some (ec_relayHubAddress cfg) else td_relayHub d),
       td_onlyPreferredRelays := Some (or_else (td_onlyPreferredRelays d) (ec_onlyPreferredRelays cfg)),
       td_gas := gasToSend\<rparr>)
     (case td_forceGas d of None \<Rightarrow> Inr None | Some g \<Rightarrow> map_sum id Some (w3_toHex_str W g))"

text \<open>The handler of the receipt; an error of \<open>getRelayStatus\<close> is lost with the promise.\<close>

definition answerSent ::
  "('w, 'k, 'q, 't) provider \<Rightarrow> rpc_payload \<Rightarrow> 't \<Rightarrow> receipt \<Rightarrow> rpc_callback settles" where
  "answerSent P payload transaction receipt =
     (let T = cl_txlib (pv_client P) in
      case getRelayStatus (pv_decodeLogs P) receipt of
        Inl e \<Rightarrow> Never
      | Inr relayStatus \<Rightarrow>
          if ry_transactionRelayed relayStatus
          then Result (None, Some (convertTransactionToRpcSendResponse T transaction payload))
          else if ry_relayRevertedOnRecipient relayStatus
          then Result (Some (Error (''Transaction Relayed but reverted on recipient - TxHash: '' @ t_hash T transaction @
            '' , Reason: '' @ ry_reason relayStatus)), None)
          else Result (None, Some (convertTransactionToRpcSendResponse T transaction payload)))"

definition rejectedRelay :: "web3_utils \<Rightarrow> exn \<Rightarrow> rpc_callback" where
  "rejectedRelay W e = (Some (Error (''Rejected relayTransaction call - Reason: '' @ reasonStr W e)), None)"

definition answerReceipt ::
  "('w, 'k, 'q, 't) provider \<Rightarrow> rpc_payload \<Rightarrow> transaction_details \<Rightarrow> 't \<Rightarrow>
   (('w, 'z) net_scheme, rpc_callback settles) js" where
  "answerReceipt P payload d tx = (let C = pv_client P in
     catching
       (bnd (rc_getTransactionReceipt C (t_hash (cl_txlib C) tx) (td_retries d) (td_initialBackoff d)) (\<lambda>receipt.
          ret (answerSent P payload tx receipt)))
       (\<lambda>e. ret (Result (rejectedRelay (cl_web3 C) e))))"

definition ethSendTransaction ::
  "('w, 'k, 'q, 't) provider \<Rightarrow> rpc_payload \<Rightarrow> transaction_details \<Rightarrow>
   (('w, 'k, 'z) client_state_scheme, rpc_callback settles) js" where
  "ethSendTransaction P payload d0 =
     (let C = pv_client P; W = cl_web3 C in
      bnd (of_result (sendDetails W (pv_config P) d0)) (\<lambda>d.
      bnd (catching (bnd (rc_relayTransaction C d) (\<lambda>r. ret (Inr r))) (\<lambda>reason. ret (Inl reason))) (\<lambda>outcome.
        case outcome of
          Inl reason \<Rightarrow> ret (Result (rejectedRelay W reason))
        | Inr Never \<Rightarrow> ret Never
        | Inr Spinning \<Rightarrow> ret Spinning
        | Inr (Result r) \<Rightarrow> (case re_transaction r of
            None \<Rightarrow> ret (Result (Some (Error (failedToRelay W r)), None))
          | Some tx \<Rightarrow> answerReceipt P payload d tx))))"

section \<open>The other requests\<close>

text \<open>\<open>_ethGetTransactionReceipt\<close>: the three branches pass the answer on.\<close>

definition ethGetTransactionReceipt ::
  "('w, 'k, 'q, 't) provider \<Rightarrow> rpc_payload \<Rightarrow> (('w, 'z) net_scheme, rpc_callback settles) js" where
  "ethGetTransactionReceipt P payload =
     bnd (io (pv_origSend P payload)) (\<lambda>(error, rpcResponse). ret (Result (error, rpcResponse)))"

definition pv_getAccounts ::
  "('w, 'k, 'q, 't) provider \<Rightarrow> rpc_payload \<Rightarrow> (('w, 'k, 'z) account_state_scheme, rpc_callback settles) js" where
  "pv_getAccounts P payload =
     bnd (io (pv_origSend P payload)) (\<lambda>(error, rpcResponse).
     bnd (gets getAccounts) (\<lambda>ephemeralAccounts.
       ret (Result (error, map_option (\<lambda>r. case rr_result r of
           Some (ResultArray accounts) \<Rightarrow> r\<lparr>rr_result := Some (ResultArray (accounts @ ephemeralAccounts))\<rparr>
         | _ \<Rightarrow> r) rpcResponse))))"

definition useEnveloping :: "rpc_payload \<Rightarrow> bool" where
  "useEnveloping payload \<longleftrightarrow> rp_method payload = ''eth_accounts'' \<or>
     (case rp_params payload of
        [] \<Rightarrow> False
      | TextParam _ # _ \<Rightarrow> True
      | ObjectParam o' # _ \<Rightarrow> or_else (bool_member o' ''useEnveloping'') True)"

text \<open>The members the code deletes, in its order.\<close>

definition removedMembers :: "string list" where
  "removedMembers = [''useEnveloping'', ''callVerifier'', ''forceGasPrice'', ''callForwarder'', ''isSmartWalletDeploy'',
     ''onlyPreferredRelays'', ''tokenAmount'', ''tokenContract'', ''forceGas'']"

definition getPayloadForRSKProvider :: "rpc_payload \<Rightarrow> rpc_payload" where
  "getPayloadForRSKProvider payload = (case rp_params payload of
     ObjectParam o' # rest \<Rightarrow>
       payload\<lparr>rp_params := ObjectParam (foldl (\<lambda>p k. AList.delete k p) o' removedMembers) # rest\<rparr>
   | _ \<Rightarrow> payload)"

text \<open>
  \<open>send\<close>. The transaction's \<open>to\<close> is checked on the object; a parameter that is no object has none.
\<close>

definition pv_send ::
  "('w, 'k, 'q, 't) provider \<Rightarrow> rpc_payload \<Rightarrow> (('w, 'k, 'z) client_state_scheme, rpc_callback settles) js" where
  "pv_send P payload =
     (let enveloping = useEnveloping payload; pass = bnd (io (pv_origSend P (getPayloadForRSKProvider payload))) (\<lambda>r. ret (Result r)) in
      if enveloping \<and> rp_method payload = ''eth_sendTransaction'' then
        (let members = (case rp_params payload of ObjectParam o' # _ \<Rightarrow> o' | _ \<Rightarrow> []) in
         andthen (throw_if (map_of members ''to'' = None)
           ''Enveloping cannot relay contract deployment transactions. Add {from: accountWithRBTC, useEnveloping: false}.'')
         (ethSendTransaction P payload (details_of members)))
      else if enveloping \<and> rp_method payload = ''eth_getTransactionReceipt'' then ethGetTransactionReceipt P payload
      else if enveloping \<and> rp_method payload = ''eth_accounts'' then pv_getAccounts P payload
      else pass)"

end
