(* ===== verification/Discovery.thy ===== *)
theory Discovery
  imports Provider
begin

text \<open>
  \<open>src/relayclient/SmartWalletDiscovery.ts\<close>: the search for the accounts of a mnemonic or of extended
  public keys and for their smart wallets. It asks the node for the activity of one derived address after
  the other and gives up after a number of inactive ones in a row. The loops end only if the activity
  does, so they take a bound on their rounds, and \<open>None\<close> is the result when it was too small;
  \<open>scan_wallets_ends\<close> says which bound is enough. Key derivation (ethereumjs-wallet), the word lists and
  the check of a mnemonic (bip39) and the hash are parameters.
\<close>

section \<open>Configuration\<close>

datatype mnemonic_language =
  CZECH | ENGLISH | FRENCH | ITALIAN | JAPANESE | KOREAN | SIMPLIFIED_CHINESE | SPANISH | TRADITIONAL_CHINESE

text \<open>\<open>IDiscoveryConfig\<close>, and the configuration made of it.\<close>

record discovery_options =
  do_eoaGap :: "int option"
  do_sWalletGap :: "int option"
  do_searchBalance :: "bool option"
  do_searchNonce :: "bool option"
  do_searchTokenBalance :: "bool option"
  do_searchDeployEvents :: "bool option"
  do_isTestNet :: "bool option"
  do_factory :: string
  do_isCustomWallet :: bool
  do_mnemonicLanguage :: "mnemonic_language option"
  do_recoverer :: "string option"
  do_logic :: "string option"
  do_logicParamsHash :: "string option"
  do_reconnectionAttempts :: "int option"

record discovery_config =
  dc_eoaGap :: int
  dc_sWalletGap :: int
  dc_searchBalance :: bool
  dc_searchNonce :: bool
  dc_searchTokenBalance :: bool
  dc_searchDeployEvents :: bool
  dc_isTestNet :: bool
  dc_factory :: string
  dc_mnemonicLanguage :: mnemonic_language
  dc_recoverer :: string
  dc_logic :: "string option"
  dc_logicParamsHash :: "string option"
  dc_isCustomWallet :: bool

definition newDiscoveryConfig :: "discovery_options \<Rightarrow> discovery_config" where
  "newDiscoveryConfig config =
     \<lparr>dc_eoaGap = or_else (do_eoaGap config) 20, dc_sWalletGap = or_else (do_sWalletGap config) 20,
      dc_searchBalance = or_else (do_searchBalance config) True, dc_searchNonce = or_else (do_searchNonce config) True,
      dc_searchTokenBalance = or_else (do_searchTokenBalance config) True,
      dc_searchDeployEvents = or_else (do_searchDeployEvents config) True,
      dc_isTestNet = or_else (do_isTestNet config) False, dc_factory = do_factory config,
      dc_mnemonicLanguage = or_else (do_mnemonicLanguage config) ENGLISH,
      dc_recoverer = or_else (do_recoverer config) ZERO_ADDRESS, dc_logic = do_logic config,
      dc_logicParamsHash = do_logicParamsHash config, dc_isCustomWallet = do_isCustomWallet config\<rparr>"

record discovered_account =
  da_eoaAccount :: string
  da_swAccounts :: "string list"

record 'w discovery_state = "'w net" +
  sd_accounts :: "discovered_account list"

text \<open>
  The object and what it uses: \<open>dy_newWeb3\<close> is \<open>new Web3(provider)\<close>, \<open>dy_tokenBalance\<close> the \<open>eth_call\<close> of
  a token with the encoded \<open>balanceOf\<close>, whose answer may be no string, \<open>dy_BN\<close> is \<open>new BN\<close> of a decimal;
  \<open>dy_globalWeb3\<close> says whether there is a global variable \<open>web3\<close>, which the file uses and does not declare.
\<close>

record ('w, 'h) discovery =
  dy_node :: "'w node"
  dy_web3 :: web3_utils
  dy_newWeb3 :: "('w, unit) js"
  dy_encodeBalanceOf :: "string \<Rightarrow> exn + string"
  dy_tokenBalance :: "string \<Rightarrow> string \<Rightarrow> ('w, string option) js"
  dy_BN :: "string \<Rightarrow> exn + int"
  dy_creationBytecode :: "string \<Rightarrow> ('w, string) js"
  dy_keccak256 :: "string \<Rightarrow> string"
  dy_globalWeb3 :: bool
  dy_tokens :: "string list"
  dy_reconnectionAttempts :: int
  dy_derivePath :: "'h \<Rightarrow> string \<Rightarrow> 'h"
  dy_deriveChild :: "'h \<Rightarrow> nat \<Rightarrow> 'h"
  dy_addressString :: "'h \<Rightarrow> string"
  dy_fromExtendedKey :: "string \<Rightarrow> exn + 'h"
  dy_validateMnemonic :: "string \<Rightarrow> string \<Rightarrow> bool"
  dy_fromMnemonic :: "string \<Rightarrow> string option \<Rightarrow> 'h"

definition wordlist :: "mnemonic_language option \<Rightarrow> string" where
  "wordlist language = (case language of
     Some CZECH \<Rightarrow> ''czech'' | Some ENGLISH \<Rightarrow> ''english'' | Some FRENCH \<Rightarrow> ''french'' | Some ITALIAN \<Rightarrow> ''italian''
   | Some JAPANESE \<Rightarrow> ''japanese'' | Some KOREAN \<Rightarrow> ''korean'' | Some SIMPLIFIED_CHINESE \<Rightarrow> ''simplified-chinese''
   | Some SPANISH \<Rightarrow> ''spanish'' | Some TRADITIONAL_CHINESE \<Rightarrow> ''traditional-chinese'' | None \<Rightarrow> ''english'')"

definition getRootExtKeyFromMnemonic ::
  "('w, 'h) discovery \<Rightarrow> string \<Rightarrow> string option \<Rightarrow> mnemonic_language option \<Rightarrow> exn + 'h" where
  "getRootExtKeyFromMnemonic D mnemonic password language =
     (if dy_validateMnemonic D mnemonic (wordlist language) then Inr (dy_fromMnemonic D mnemonic password)
      else Inl (Error ''Mnemonic invalid or undefined''))"

section \<open>Addresses\<close>

definition calculateSmartWalletAddress ::
  "bool \<Rightarrow> web3_utils \<Rightarrow> string \<Rightarrow> string \<Rightarrow> int \<Rightarrow> string \<Rightarrow> string \<Rightarrow> int \<Rightarrow> exn + string" where
  "calculateSmartWalletAddress globalWeb3 W ownerEOA recoverer walletIndex factory bytecodeHash chainId =
     with_global globalWeb3 (create2Address W (walletSalt ownerEOA recoverer walletIndex) factory bytecodeHash chainId)"

definition calculateCustomSmartWalletAddress ::
  "bool \<Rightarrow> web3_utils \<Rightarrow> string \<Rightarrow> string \<Rightarrow> string \<Rightarrow> string option \<Rightarrow> int \<Rightarrow> string \<Rightarrow> string \<Rightarrow> int \<Rightarrow> exn + string" where
  "calculateCustomSmartWalletAddress globalWeb3 W ownerEOA recoverer logicAddress initParamsHash walletIndex factory bytecodeHash chainId =
     with_global globalWeb3
       (create2Address W (customWalletSalt ownerEOA recoverer logicAddress initParamsHash walletIndex) factory bytecodeHash chainId)"

section \<open>The activity of an address\<close>

text \<open>\<open>n\<close> rounds of the loop of \<open>reconnect\<close> are left; the error is thrown inside the loop.\<close>

primrec reconnect_rounds :: "('w, 'h) discovery \<Rightarrow> nat \<Rightarrow> (('w, 'z) net_scheme, unit) js" where
  "reconnect_rounds D 0 = ret ()"
| "reconnect_rounds D (Suc n) =
     andthen (io (n_sleep (dy_node D) 5000))
     (bnd (catching (andthen (io (dy_newWeb3 D)) (ret True)) (\<lambda>_. ret False)) (\<lambda>reconnected.
      andthen (throw_if (\<not> reconnected) ''Unable to reconnect to RSKJ Node'')
      (if reconnected then ret () else reconnect_rounds D n)))"

definition reconnect :: "('w, 'h) discovery \<Rightarrow> (('w, 'z) net_scheme, unit) js" where
  "reconnect D = reconnect_rounds D (nat (dy_reconnectionAttempts D + 1))"

definition retried :: "('w, 'h) discovery \<Rightarrow> (('w, 'z) net_scheme, bool) js \<Rightarrow> (('w, 'z) net_scheme, bool) js" where
  "retried D m = catching m (\<lambda>_. andthen (reconnect D) m)"

definition hasBalance :: "('w, 'h) discovery \<Rightarrow> string \<Rightarrow> (('w, 'z) net_scheme, bool) js" where
  "hasBalance D a = bnd (io (n_getBalance (dy_node D) a ''latest'')) (\<lambda>b.
     bnd (of_result (dy_BN D b)) (\<lambda>n. ret (0 < n)))"

definition hasNonce :: "('w, 'h) discovery \<Rightarrow> string \<Rightarrow> (('w, 'z) net_scheme, bool) js" where
  "hasNonce D a = bnd (io (n_getTransactionCount (dy_node D) a None)) (\<lambda>n. ret (0 < n))"

function search_tokens ::
  "('w, 'h) discovery \<Rightarrow> string \<Rightarrow> nat \<Rightarrow> int \<Rightarrow> (('w, 'z) net_scheme, bool) js" where
  "search_tokens D balanceFunction i errorCount =
     (if i < length (dy_tokens D) \<and> errorCount < dy_reconnectionAttempts D then
        bnd (catching (bnd (io (dy_tokenBalance D (dy_tokens D ! i) balanceFunction)) (\<lambda>b. ret (Some b))) (\<lambda>_. ret None))
          (\<lambda>answer. case answer of
             None \<Rightarrow> andthen (reconnect D) (search_tokens D balanceFunction i (errorCount + 1))
           | Some tokenBalance \<Rightarrow>
               if (case tokenBalance of None \<Rightarrow> False | Some b \<Rightarrow> num_lt (num 0) (Number_of b)) then ret True
               else search_tokens D balanceFunction (i + 1) 0)
      else ret False)"
  by pat_completeness auto
termination
  by (relation "measures [\<lambda>(D, b, i, e). length (dy_tokens D) - i, \<lambda>(D, b, i, e). nat (dy_reconnectionAttempts D - e)]") auto

declare search_tokens.simps [simp del]

definition searchTrx :: "('w, 'h) discovery \<Rightarrow> string \<Rightarrow> (('w, 'z) net_scheme, bool) js" where
  "searchTrx D currentAddress =
     bnd (retried D (hasBalance D currentAddress)) (\<lambda>byBalance.
       if byBalance then ret True
       else bnd (retried D (hasNonce D currentAddress)) (\<lambda>byNonce.
         if byNonce then ret True
         else bnd (of_result (dy_encodeBalanceOf D currentAddress)) (\<lambda>balanceFunction.
           search_tokens D balanceFunction 0 0)))"

section \<open>Scanning\<close>

text \<open>
  The wallets of one account: the inner loop of the three discoveries. \<open>walletAt\<close> gives the addresses,
  which are computed with the global \<open>web3\<close>.
\<close>

primrec scan_wallets ::
  "('w, 'h) discovery \<Rightarrow> int \<Rightarrow> (nat \<Rightarrow> string) \<Rightarrow> nat \<Rightarrow> nat \<Rightarrow> nat \<Rightarrow> string list \<Rightarrow>
   (('w, 'z) net_scheme, string list option) js" where
  "scan_wallets D gapLimit walletAt 0 currentSWGap walletIndex swAccounts = ret None"
| "scan_wallets D gapLimit walletAt (Suc n) currentSWGap walletIndex swAccounts =
     (if int currentSWGap \<le> gapLimit then
        andthen (throw_if (\<not> dy_globalWeb3 D) ''web3 is not defined'')
        (bnd (searchTrx D (walletAt walletIndex)) (\<lambda>found.
          if found then scan_wallets D gapLimit walletAt n 0 (walletIndex + 1) (swAccounts @ [walletAt walletIndex])
          else scan_wallets D gapLimit walletAt n (currentSWGap + 1) (walletIndex + 1) swAccounts))
      else ret (Some swAccounts))"

text \<open>What a discovery computes before its loops.\<close>

record wallet_context =
  wc_logicAddress :: string
  wc_initParamsHash :: string
  wc_bytecodeHash :: string
  wc_chainId :: int

definition walletContext :: "('w, 'h) discovery \<Rightarrow> discovery_config \<Rightarrow> (('w, 'z) net_scheme, wallet_context) js" where
  "walletContext D config =
     bnd (io (dy_creationBytecode D (dc_factory config))) (\<lambda>creationByteCode.
     bnd (io (n_getChainId (dy_node D))) (\<lambda>chainId.
     ret \<lparr>wc_logicAddress = or_else (dc_logic config) ZERO_ADDRESS,
          wc_initParamsHash = or_else (dc_logicParamsHash config) SHA3_NULL_S,
          wc_bytecodeHash = dy_keccak256 D creationByteCode, wc_chainId = chainId\<rparr>))"

definition walletAddress ::
  "('w, 'h) discovery \<Rightarrow> discovery_config \<Rightarrow> wallet_context \<Rightarrow> string \<Rightarrow> nat \<Rightarrow> string" where
  "walletAddress D config X currentAddress walletIndex =
     create2Address (dy_web3 D)
       (if dc_isCustomWallet config
        then customWalletSalt currentAddress (dc_recoverer config) (wc_logicAddress X) (Some (wc_initParamsHash X)) (int walletIndex)
        else walletSalt currentAddress (dc_recoverer config) (int walletIndex))
       (dc_factory config) (wc_bytecodeHash X) (wc_chainId X)"

lemma walletAddress_calculated:
  "dy_globalWeb3 D \<Longrightarrow> Inr (walletAddress D config X a i) =
     (if dc_isCustomWallet config
      then calculateCustomSmartWalletAddress (dy_globalWeb3 D) (dy_web3 D) a (dc_recoverer config) (wc_logicAddress X)
        (Some (wc_initParamsHash X)) (int i) (dc_factory config) (wc_bytecodeHash X) (wc_chainId X)
      else calculateSmartWalletAddress (dy_globalWeb3 D) (dy_web3 D) a (dc_recoverer config) (int i)
        (dc_factory config) (wc_bytecodeHash X) (wc_chainId X))"
  by (simp add: walletAddress_def calculateSmartWalletAddress_def calculateCustomSmartWalletAddress_def with_global_def)

definition pushAccount ::
  "string \<Rightarrow> bool \<Rightarrow> string list \<Rightarrow> (('w, 'z) discovery_state_scheme, unit) js" where
  "pushAccount currentAddress activityFound swAccounts =
     (let eoa = (if activityFound then currentAddress else ZERO_ADDRESS);
          eoaAccount = (if swAccounts \<noteq> [] \<and> eoa = ZERO_ADDRESS then currentAddress else eoa)
      in if eoaAccount \<noteq> ZERO_ADDRESS \<or> swAccounts \<noteq> []
         then modify (\<lambda>s. s\<lparr>sd_accounts := sd_accounts s @ [\<lparr>da_eoaAccount = eoaAccount, da_swAccounts = swAccounts\<rparr>]\<rparr>)
         else ret ())"

text \<open>
  The addresses of one account key, the middle loop, with the numbers of active addresses and wallets.
  \<open>F\<close> bounds the inner loop.
\<close>

primrec scan_addresses ::
  "('w, 'h) discovery \<Rightarrow> discovery_config \<Rightarrow> wallet_context \<Rightarrow> (nat \<Rightarrow> string) \<Rightarrow> nat \<Rightarrow> nat \<Rightarrow> nat \<Rightarrow> nat \<Rightarrow>
   nat \<times> nat \<Rightarrow> (('w, 'z) discovery_state_scheme, (nat \<times> nat) option) js" where
  "scan_addresses D config X addressAt F 0 currentGap index totals = ret None"
| "scan_addresses D config X addressAt F (Suc n) currentGap index totals =
     (if int currentGap \<le> dc_eoaGap config then
        bnd (searchTrx D (addressAt index)) (\<lambda>activityFound.
        bnd (scan_wallets D (dc_sWalletGap config) (walletAddress D config X (addressAt index)) F 0 0 []) (\<lambda>wallets.
          case wallets of
            None \<Rightarrow> ret None
          | Some swAccounts \<Rightarrow>
              andthen (pushAccount (addressAt index) activityFound swAccounts)
              (scan_addresses D config X addressAt F n
                (if activityFound \<or> swAccounts \<noteq> [] then 0 else currentGap + 1) (index + 1)
                (fst totals + (if activityFound then 1 else 0), snd totals + length swAccounts))))
      else ret (Some totals))"

definition keyPath :: "discovery_config \<Rightarrow> nat \<Rightarrow> nat \<Rightarrow> string" where
  "keyPath config currentAccount index =
     (let rskIndex = (if dc_isTestNet config then ''37310'' else ''137''); address = ''m/44'' @ [CHR 0x27] @ ''/'' @ rskIndex @ [CHR 0x27]
      in address @ ''/'' @ int_str (int currentAccount) @ [CHR 0x27] @ ''/0/'' @ int_str (int index))"

primrec mnemonic_accounts ::
  "('w, 'h) discovery \<Rightarrow> discovery_config \<Rightarrow> wallet_context \<Rightarrow> 'h \<Rightarrow> nat \<Rightarrow> nat \<Rightarrow> nat \<Rightarrow>
   (('w, 'z) discovery_state_scheme, unit option) js" where
  "mnemonic_accounts D config X hdRootKey F 0 currentAccount = ret None"
| "mnemonic_accounts D config X hdRootKey F (Suc n) currentAccount =
     bnd (scan_addresses D config X
       (\<lambda>index. dy_addressString D (dy_derivePath D hdRootKey (keyPath config currentAccount index))) F F 0 0 (0, 0))
       (\<lambda>totals. case totals of
          None \<Rightarrow> ret None
        | Some t \<Rightarrow> if t = (0, 0) then ret (Some ())
            else mnemonic_accounts D config X hdRootKey F n (currentAccount + 1))"

definition discoverAccountsFromMnemonic ::
  "('w, 'h) discovery \<Rightarrow> discovery_config \<Rightarrow> string \<Rightarrow> string option \<Rightarrow> nat \<Rightarrow>
   (('w, 'z) discovery_state_scheme, unit option) js" where
  "discoverAccountsFromMnemonic D config mnemonic password F =
     bnd (of_result (getRootExtKeyFromMnemonic D mnemonic password (Some (dc_mnemonicLanguage config)))) (\<lambda>hdRootKey.
     bnd (walletContext D config) (\<lambda>X. mnemonic_accounts D config X hdRootKey F F 0))"

definition childAddress :: "('w, 'h) discovery \<Rightarrow> 'h \<Rightarrow> nat \<Rightarrow> string" where
  "childAddress D hdAcckey index = dy_addressString D (dy_deriveChild D hdAcckey index)"

primrec extended_keys ::
  "('w, 'h) discovery \<Rightarrow> discovery_config \<Rightarrow> wallet_context \<Rightarrow> nat \<Rightarrow> string list \<Rightarrow>
   (('w, 'z) discovery_state_scheme, unit option) js" where
  "extended_keys D config X F [] = ret (Some ())"
| "extended_keys D config X F (extPubKey # rest) =
     bnd (of_result (dy_fromExtendedKey D extPubKey)) (\<lambda>hdAcckey.
     bnd (scan_addresses D config X (childAddress D hdAcckey) F F 0 0 (0, 0)) (\<lambda>totals. case totals of
        None \<Rightarrow> ret None
      | Some _ \<Rightarrow> extended_keys D config X F rest))"

definition discoverAccountsFromExtendedPublicKeys ::
  "('w, 'h) discovery \<Rightarrow> discovery_config \<Rightarrow> string list \<Rightarrow> nat \<Rightarrow>
   (('w, 'z) discovery_state_scheme, unit option) js" where
  "discoverAccountsFromExtendedPublicKeys D config extendedPublicKeys F =
     bnd (walletContext D config) (\<lambda>X. extended_keys D config X F extendedPublicKeys)"

text \<open>\<open>getAccountExtendedPublicKey\<close>, which an integrator overrides.\<close>

definition getAccountExtendedPublicKey :: "nat \<Rightarrow> ('w, string option) js" where
  "getAccountExtendedPublicKey accountIdx = ret None"

primrec reader_accounts ::
  "('w, 'h) discovery \<Rightarrow> discovery_config \<Rightarrow> wallet_context \<Rightarrow> (nat \<Rightarrow> ('w, string option) js) \<Rightarrow> nat \<Rightarrow> nat \<Rightarrow> nat \<Rightarrow>
   (('w, 'z) discovery_state_scheme, unit option) js" where
  "reader_accounts D config X accountReader F 0 currentAccount = ret None"
| "reader_accounts D config X accountReader F (Suc n) currentAccount =
     bnd (io (accountReader currentAccount)) (\<lambda>currentAccountPubK. case currentAccountPubK of
       None \<Rightarrow> ret (Some ())
     | Some key \<Rightarrow>
         bnd (of_result (dy_fromExtendedKey D key)) (\<lambda>hdAcckey.
         bnd (scan_addresses D config X (childAddress D hdAcckey) F F 0 0 (0, 0)) (\<lambda>totals. case totals of
            None \<Rightarrow> ret None
          | Some t \<Rightarrow> if t = (0, 0) then ret (Some ())
              else reader_accounts D config X accountReader F n (currentAccount + 1))))"

definition discoverAccounts ::
  "('w, 'h) discovery \<Rightarrow> discovery_config \<Rightarrow> (nat \<Rightarrow> ('w, string option) js) option \<Rightarrow> nat \<Rightarrow>
   (('w, 'z) discovery_state_scheme, unit option) js" where
  "discoverAccounts D config accountReader F =
     bnd (walletContext D config) (\<lambda>X.
       reader_accounts D config X (or_else accountReader getAccountExtendedPublicKey) F F 0)"

section \<open>Lemmas\<close>

text \<open>
  A search with a gap limit stops at \<open>k\<close>: the \<open>G\<close> indices before it are inactive, and \<open>k\<close> is the first
  such place. \<open>gap_state\<close> is what holds at index \<open>i\<close> after a run of \<open>g\<close> inactive ones.
\<close>

definition gap_at :: "(nat \<Rightarrow> bool) \<Rightarrow> nat \<Rightarrow> nat \<Rightarrow> bool" where
  "gap_at act G k \<longleftrightarrow> G \<le> k \<and> (\<forall>i\<in>{k - G..<k}. \<not> act i)"

definition first_gap :: "(nat \<Rightarrow> bool) \<Rightarrow> nat \<Rightarrow> nat \<Rightarrow> bool" where
  "first_gap act G k \<longleftrightarrow> gap_at act G k \<and> (\<forall>j<k. \<not> gap_at act G j)"

definition gap_state :: "(nat \<Rightarrow> bool) \<Rightarrow> nat \<Rightarrow> nat \<Rightarrow> nat \<Rightarrow> bool" where
  "gap_state act G g i \<longleftrightarrow> g \<le> G \<and> g \<le> i \<and> (\<forall>j\<in>{i - g..<i}. \<not> act j) \<and> (g < i \<longrightarrow> act (i - g - 1)) \<and>
     (\<forall>j<i. \<not> gap_at act G j)"

lemma gap_state_0: "gap_state act G 0 0"
  by (simp add: gap_state_def)

lemma gap_state_open: "gap_state act G g i \<Longrightarrow> g < G \<Longrightarrow> \<not> gap_at act G i"
  unfolding gap_state_def gap_at_def by (cases "g < i") force+

lemma gap_state_step:
  assumes "gap_state act G g i" "g < G"
  shows "gap_state act G (if act i then 0 else g + 1) (i + 1)"
  using assms gap_state_open [OF assms] unfolding gap_state_def
  by (auto simp: less_Suc_eq Suc_diff_le)

lemma gap_state_end: "gap_state act G g i \<Longrightarrow> \<not> g < G \<Longrightarrow> first_gap act G i"
  by (auto simp: gap_state_def first_gap_def gap_at_def)

lemma gap_le: "int g \<le> limit \<longleftrightarrow> g < nat (limit + 1)"
  by linarith

text \<open>The wallets found are the active ones before the first gap.\<close>

lemma scan_wallets_found:
  fixes D :: "('w, 'h) discovery" and s :: "('w, 'z) net_scheme"
  assumes det: "\<And>a (u :: ('w, 'z) net_scheme) r v. searchTrx D a u = (Inr r, v) \<Longrightarrow> r = act a"
    and "scan_wallets D limit w n g i ws s = (Inr (Some found), t)"
    and "gap_state (\<lambda>j. act (w j)) (nat (limit + 1)) g i" "ws = map w (filter (\<lambda>j. act (w j)) [0..<i])"
  shows "\<exists>k. first_gap (\<lambda>j. act (w j)) (nat (limit + 1)) k \<and> found = map w (filter (\<lambda>j. act (w j)) [0..<k])"
  using assms(2-)
proof (induction n arbitrary: g i ws s)
  case (Suc n)
  show ?case
  proof (cases "int g \<le> limit")
    case True
    then obtain b u where b: "searchTrx D (w i) s = (Inr b, u)"
      "scan_wallets D limit w n (if b then 0 else g + 1) (i + 1) (if b then ws @ [w i] else ws) u = (Inr (Some found), t)"
      using Suc.prems(1) by (auto elim!: bnd_InrE andthen_InrE dest!: throw_if_InrD simp del: throw_if_run split: if_splits)
    have "b = act (w i)" using b(1) by (rule det)
    then show ?thesis
      using Suc.IH [OF b(2)] gap_state_step [OF Suc.prems(2)] True Suc.prems(3) by (simp add: gap_le)
  next
    case False
    then show ?thesis using Suc.prems gap_state_end [OF Suc.prems(2)] by (auto simp: gap_le)
  qed
qed simp

text \<open>Rounds that are enough when nothing is active from index \<open>N\<close> on.\<close>

definition rounds_needed :: "nat \<Rightarrow> nat \<Rightarrow> nat \<Rightarrow> nat \<Rightarrow> nat" where
  "rounds_needed N G g i = (if i < N then N - i + G else G - g)"

lemma rounds_needed_step:
  "g < G \<Longrightarrow> (i < N \<or> \<not> b) \<Longrightarrow> rounds_needed N G (if b then 0 else g + 1) (i + 1) < rounds_needed N G g i"
  by (auto simp: rounds_needed_def)

lemma scan_wallets_ends:
  fixes D :: "('w, 'h) discovery" and s :: "('w, 'z) net_scheme"
  assumes inactive: "\<And>i (u :: ('w, 'z) net_scheme) v. N \<le> i \<Longrightarrow> searchTrx D (w i) u \<noteq> (Inr True, v)"
    and "rounds_needed N (nat (limit + 1)) g i < n"
  shows "fst (scan_wallets D limit w n g i ws s) \<noteq> Inr None"
  using assms(2)
proof (induction n arbitrary: g i ws s)
  case (Suc n)
  show ?case
  proof (cases "int g \<le> limit")
    case True
    show ?thesis
    proof (cases "searchTrx D (w i) s")
      case (Pair r u)
      show ?thesis
      proof (cases r)
        case (Inr b)
        then have "i < N \<or> \<not> b" using inactive [of i s u] Pair by force
        then have "rounds_needed N (nat (limit + 1)) (if b then 0 else g + 1) (i + 1) < n"
          using rounds_needed_step [of g "nat (limit + 1)" i N b] True Suc.prems by (simp add: gap_le)
        then show ?thesis using True Pair Inr Suc.IH by (auto simp: bnd_run andthen_run)
      qed (use True Pair in \<open>simp add: bnd_run andthen_run\<close>)
    qed
  qed simp
qed simp

text \<open>The reference: the active indices before the first gap.\<close>

definition active_before :: "(nat \<Rightarrow> bool) \<Rightarrow> nat \<Rightarrow> nat list" where
  "active_before act G = filter act [0..<(LEAST k. gap_at act G k)]"

lemma first_gap_Least: "first_gap act G k \<Longrightarrow> (LEAST k. gap_at act G k) = k"
  unfolding first_gap_def by (rule Least_equality) (auto simp: not_less [symmetric])

definition wallets_of :: "(string \<Rightarrow> bool) \<Rightarrow> int \<Rightarrow> (nat \<Rightarrow> string) \<Rightarrow> string list" where
  "wallets_of act limit w = map w (active_before (\<lambda>j. act (w j)) (nat (limit + 1)))"

text \<open>A search changes no account found so far.\<close>

definition accounts_kept :: "('w, 'z) discovery_state_scheme \<Rightarrow> ('w, 'z) discovery_state_scheme \<Rightarrow> bool" where
  "accounts_kept s t \<longleftrightarrow> sd_accounts t = sd_accounts s"

interpretation ak: step_relation accounts_kept
  by unfold_locales (auto simp: accounts_kept_def)

lemma along_accounts_io: "along accounts_kept (io m)"
  by (rule along_io) (simp add: accounts_kept_def)

lemma along_accounts_rounds: "along accounts_kept (reconnect_rounds D n)"
proof (induction n)
  case 0
  show ?case unfolding reconnect_rounds.simps by (rule ak.along_ret)
next
  case (Suc n)
  then show ?case unfolding reconnect_rounds.simps by (intro ak.along_rules along_accounts_io)
qed

lemmas accounts_rules = ak.along_rules along_accounts_io along_accounts_rounds

lemma along_accounts_tokens: "along accounts_kept (search_tokens D b i e)"
proof (induction D b i e rule: search_tokens.induct)
  case (1 D b i e)
  show ?case
    using 1 unfolding search_tokens.simps [of D b i e] reconnect_def
    by (auto intro!: accounts_rules split: option.split)
qed

lemma along_accounts_search: "along accounts_kept (searchTrx D a)"
  unfolding searchTrx_def retried_def reconnect_def hasBalance_def hasNonce_def
  by (intro accounts_rules along_accounts_tokens)

lemma along_accounts_wallets: "along accounts_kept (scan_wallets D limit w n g i ws)"
  by (induction n arbitrary: g i ws) (auto intro!: accounts_rules along_accounts_search)

lemma search_accounts: "searchTrx D a s = (r, t) \<Longrightarrow> sd_accounts t = sd_accounts s"
  using alongD [OF along_accounts_search, of s D a] by (simp add: accounts_kept_def)

lemma wallets_accounts: "scan_wallets D limit w n g i ws s = (r, t) \<Longrightarrow> sd_accounts t = sd_accounts s"
  using alongD [OF along_accounts_wallets, of s D limit w n g i ws] by (simp add: accounts_kept_def)

lemma pushAccount_accounts:
  assumes "a \<noteq> ZERO_ADDRESS" "pushAccount a b ws s = (r, t)"
  shows "sd_accounts t = sd_accounts s @
    (if b \<or> ws \<noteq> [] then [\<lparr>da_eoaAccount = a, da_swAccounts = ws\<rparr>] else [])"
  using assms by (auto simp: pushAccount_def Let_def split: if_splits)

text \<open>The accounts found are the active ones before the first gap, with their wallets.\<close>

definition account_active :: "(string \<Rightarrow> bool) \<Rightarrow> int \<Rightarrow> (nat \<Rightarrow> string) \<Rightarrow> (nat \<Rightarrow> nat \<Rightarrow> string) \<Rightarrow> nat \<Rightarrow> bool" where
  "account_active act limit addr w i \<longleftrightarrow> act (addr i) \<or> wallets_of act limit (w i) \<noteq> []"

definition account_at :: "(string \<Rightarrow> bool) \<Rightarrow> int \<Rightarrow> (nat \<Rightarrow> string) \<Rightarrow> (nat \<Rightarrow> nat \<Rightarrow> string) \<Rightarrow> nat \<Rightarrow> discovered_account" where
  "account_at act limit addr w i = \<lparr>da_eoaAccount = addr i, da_swAccounts = wallets_of act limit (w i)\<rparr>"

lemma scan_addresses_found:
  fixes D :: "('w, 'h) discovery" and s :: "('w, 'z) discovery_state_scheme"
  assumes det: "\<And>a (u :: ('w, 'z) discovery_state_scheme) r v. searchTrx D a u = (Inr r, v) \<Longrightarrow> r = act a"
    and nonzero: "\<And>i. addr i \<noteq> ZERO_ADDRESS"
    and "scan_addresses D cfg X addr F n g i c s = (Inr (Some c'), t)"
    and "gap_state (account_active act (dc_sWalletGap cfg) addr (\<lambda>i. walletAddress D cfg X (addr i))) (nat (dc_eoaGap cfg + 1)) g i"
      (is "gap_state ?act ?G g i")
  shows "\<exists>k\<ge>i. first_gap ?act ?G k \<and> sd_accounts t = sd_accounts s @
    map (account_at act (dc_sWalletGap cfg) addr (\<lambda>i. walletAddress D cfg X (addr i))) (filter ?act [i..<k])"
    (is "\<exists>k\<ge>i. _ \<and> _ = _ @ map ?account _")
  using assms(3-)
proof (induction n arbitrary: g i c s)
  case (Suc n)
  show ?case
  proof (cases "int g \<le> dc_eoaGap cfg")
    case True
    then obtain b u ws v p v' where r: "searchTrx D (addr i) s = (Inr b, u)"
      "scan_wallets D (dc_sWalletGap cfg) (walletAddress D cfg X (addr i)) F 0 0 [] u = (Inr (Some ws), v)"
      "pushAccount (addr i) b ws v = (Inr p, v')"
      "scan_addresses D cfg X addr F n (if b \<or> ws \<noteq> [] then 0 else g + 1) (i + 1)
        (fst c + (if b then 1 else 0), snd c + length ws) v' = (Inr (Some c'), t)"
      using Suc.prems(1) by (auto elim!: bnd_InrE andthen_InrE split: option.splits)
    have b: "b = act (addr i)" using r(1) by (rule det)
    have "\<exists>k. first_gap (\<lambda>j. act (walletAddress D cfg X (addr i) j)) (nat (dc_sWalletGap cfg + 1)) k \<and>
      ws = map (walletAddress D cfg X (addr i)) (filter (\<lambda>j. act (walletAddress D cfg X (addr i) j)) [0..<k])"
      by (rule scan_wallets_found [OF _ r(2) gap_state_0]) (erule det, simp)
    then have ws: "ws = wallets_of act (dc_sWalletGap cfg) (walletAddress D cfg X (addr i))"
      using first_gap_Least by (auto simp: wallets_of_def active_before_def)
    have bw: "(b \<or> ws \<noteq> []) = ?act i" using b ws by (simp add: account_active_def)
    have acc: "sd_accounts v' = sd_accounts s @ (if ?act i then [?account i] else [])"
      using pushAccount_accounts [OF nonzero r(3)] search_accounts [OF r(1)] wallets_accounts [OF r(2)] bw ws
      by (simp add: account_at_def)
    from True Suc.prems(2) have "gap_state ?act ?G (if b \<or> ws \<noteq> [] then 0 else g + 1) (i + 1)"
      unfolding bw by (intro gap_state_step) (simp_all add: gap_le)
    from Suc.IH [OF r(4) this] obtain k where k: "i + 1 \<le> k" "first_gap ?act ?G k"
      "sd_accounts t = sd_accounts v' @ map ?account (filter ?act [i + 1..<k])" by blast
    then have "sd_accounts t = sd_accounts s @ map ?account (filter ?act [i..<k])"
      using acc by (simp add: upt_rec [of i k])
    then show ?thesis using k(1,2) by (intro exI [of _ k]) simp
  next
    case False
    then show ?thesis using Suc.prems gap_state_end [OF Suc.prems(2)] by (auto simp: gap_le)
  qed
qed simp

lemma scan_wallets_inactive:
  fixes D :: "('w, 'h) discovery" and s :: "('w, 'z) net_scheme"
  assumes "\<And>i (u :: ('w, 'z) net_scheme) v. searchTrx D (w i) u \<noteq> (Inr True, v)"
    and "scan_wallets D limit w n g i ws s = (Inr (Some found), t)"
  shows "found = ws"
  using assms(2) by (induction n arbitrary: g i s)
    (auto elim!: bnd_InrE andthen_InrE dest!: throw_if_InrD simp: assms(1) simp del: throw_if_run split: if_splits)

text \<open>
  Nothing is active from account \<open>N\<close> on, and none of an account's wallets from wallet \<open>N\<close> on; then
  \<open>N\<close> and the gap limit bound the rounds.
\<close>

definition quiet_from :: "nat \<Rightarrow> (string \<Rightarrow> bool) \<Rightarrow> (nat \<Rightarrow> string) \<Rightarrow> (nat \<Rightarrow> nat \<Rightarrow> string) \<Rightarrow> bool" where
  "quiet_from N act addr w \<longleftrightarrow> (\<forall>i\<ge>N. \<not> act (addr i)) \<and> (\<forall>i j. N \<le> i \<or> N \<le> j \<longrightarrow> \<not> act (w i j))"

lemma scan_addresses_ends:
  fixes D :: "('w, 'h) discovery" and s :: "('w, 'z) discovery_state_scheme"
  assumes act: "\<And>a (u :: ('w, 'z) discovery_state_scheme) v. searchTrx D a u = (Inr True, v) \<Longrightarrow> act a"
    and quiet: "quiet_from N act addr (\<lambda>i. walletAddress D cfg X (addr i))"
    and F: "N + nat (dc_sWalletGap cfg + 1) < F"
    and "rounds_needed N (nat (dc_eoaGap cfg + 1)) g i < n"
  shows "fst (scan_addresses D cfg X addr F n g i c s) \<noteq> Inr None"
  using assms(4)
proof (induction n arbitrary: g i c s)
  case (Suc n)
  show ?case
  proof
    assume none: "fst (scan_addresses D cfg X addr F (Suc n) g i c s) = Inr None"
    then have le: "int g \<le> dc_eoaGap cfg" by (auto split: if_splits)
    obtain t where "scan_addresses D cfg X addr F (Suc n) g i c s = (Inr None, t)"
      using none by (metis prod.collapse)
    with le obtain b u wr v where r: "searchTrx D (addr i) s = (Inr b, u)"
      "scan_wallets D (dc_sWalletGap cfg) (walletAddress D cfg X (addr i)) F 0 0 [] u = (Inr wr, v)"
      "(case wr of None \<Rightarrow> ret None | Some ws \<Rightarrow> andthen (pushAccount (addr i) b ws)
        (scan_addresses D cfg X addr F n (if b \<or> ws \<noteq> [] then 0 else g + 1) (Suc i)
          (fst c + (if b then 1 else 0), snd c + length ws))) v = (Inr None, t)"
      by (auto elim!: bnd_InrE)
    have "fst (scan_wallets D (dc_sWalletGap cfg) (walletAddress D cfg X (addr i)) F 0 0 [] u) \<noteq> Inr None"
    proof (rule scan_wallets_ends [where N = N])
      show "searchTrx D (walletAddress D cfg X (addr i) j) u' \<noteq> (Inr True, v')" if "N \<le> j" for j v'
        and u' :: "('w, 'z) discovery_state_scheme"
        using quiet that by (auto simp: quiet_from_def dest: act)
      show "rounds_needed N (nat (dc_sWalletGap cfg + 1)) 0 0 < F" using F by (auto simp: rounds_needed_def)
    qed
    then obtain ws where ws: "wr = Some ws" using r(2) by (cases wr) auto
    have "i < N \<or> \<not> (b \<or> ws \<noteq> [])"
    proof (rule disjCI)
      assume "\<not> \<not> (b \<or> ws \<noteq> [])"
      moreover have "ws = []" if "N \<le> i"
        using scan_wallets_inactive [OF _ r(2) [unfolded ws]] quiet that by (auto simp: quiet_from_def dest: act)
      moreover have "\<not> b" if "N \<le> i" using act [of "addr i" s u] r(1) quiet that by (cases b) (auto simp: quiet_from_def)
      ultimately show "i < N" by (meson not_le)
    qed
    then have "rounds_needed N (nat (dc_eoaGap cfg + 1)) (if b \<or> ws \<noteq> [] then 0 else g + 1) (i + 1) < n"
      using rounds_needed_step [of g _ i N "b \<or> ws \<noteq> []"] le Suc.prems by (force simp: gap_le)
    from Suc.IH [OF this] show False using r(3) ws by (auto elim!: andthen_InrE dest: arg_cong [where f = fst])
  qed
qed simp

lemma extended_keys_end:
  fixes D :: "('w, 'h) discovery" and s :: "('w, 'z) discovery_state_scheme"
  assumes act: "\<And>a (u :: ('w, 'z) discovery_state_scheme) v. searchTrx D a u = (Inr True, v) \<Longrightarrow> act a"
    and quiet: "\<And>key h. key \<in> set keys \<Longrightarrow> dy_fromExtendedKey D key = Inr h \<Longrightarrow>
      quiet_from N act (childAddress D h) (\<lambda>i. walletAddress D cfg X (childAddress D h i))"
    and F: "N + nat (dc_sWalletGap cfg + 1) < F" "N + nat (dc_eoaGap cfg + 1) < F"
  shows "fst (extended_keys D cfg X F keys s) \<noteq> Inr None"
  using quiet
proof (induction keys arbitrary: s)
  case (Cons key keys)
  show ?case
  proof
    assume "fst (extended_keys D cfg X F (key # keys) s) = Inr None"
    then obtain t where "extended_keys D cfg X F (key # keys) s = (Inr None, t)" by (metis prod.collapse)
    then obtain h c u where r: "dy_fromExtendedKey D key = Inr h"
      "scan_addresses D cfg X (childAddress D h) F F 0 0 (0, 0) s = (Inr c, u)"
      "(case c of None \<Rightarrow> ret None | Some _ \<Rightarrow> extended_keys D cfg X F keys) u = (Inr None, t)"
      by (auto elim!: bnd_InrE)
    have "fst (scan_addresses D cfg X (childAddress D h) F F 0 0 (0, 0) s) \<noteq> Inr None"
      using Cons.prems [OF _ r(1)] F by (intro scan_addresses_ends [OF act]) (auto simp: rounds_needed_def)
    then obtain c' where "c = Some c'" using r(2) by (cases c) auto
    moreover have "fst (extended_keys D cfg X F keys u) \<noteq> Inr None"
      by (rule Cons.IH, rule Cons.prems) simp_all
    ultimately show False using r(3) by simp
  qed
qed simp

text \<open>An account without activity counts nothing; the discoveries that go from account to account stop there.\<close>

lemma scan_addresses_quiet:
  fixes D :: "('w, 'h) discovery" and s :: "('w, 'z) discovery_state_scheme"
  assumes act: "\<And>a (u :: ('w, 'z) discovery_state_scheme) v. searchTrx D a u = (Inr True, v) \<Longrightarrow> act a"
    and quiet: "quiet_from 0 act addr (\<lambda>i. walletAddress D cfg X (addr i))"
    and "scan_addresses D cfg X addr F n g i c s = (Inr (Some c'), t)"
  shows "c' = c"
  using assms(3)
proof (induction n arbitrary: g i c s)
  case (Suc n)
  show ?case
  proof (cases "int g \<le> dc_eoaGap cfg")
    case True
    then obtain b u ws v w' where r: "searchTrx D (addr i) s = (Inr b, u)"
      "scan_wallets D (dc_sWalletGap cfg) (walletAddress D cfg X (addr i)) F 0 0 [] u = (Inr (Some ws), v)"
      "scan_addresses D cfg X addr F n (if b \<or> ws \<noteq> [] then 0 else g + 1) (i + 1)
        (fst c + (if b then 1 else 0), snd c + length ws) w' = (Inr (Some c'), t)"
      using Suc.prems by (auto elim!: bnd_InrE andthen_InrE split: option.splits)
    have "ws = []" using scan_wallets_inactive [OF _ r(2)] quiet by (auto simp: quiet_from_def dest: act)
    moreover have "\<not> b" using act [of "addr i" s u] r(1) quiet by (cases b) (auto simp: quiet_from_def)
    ultimately show ?thesis using Suc.IH [OF r(3)] by simp
  next
    case False
    then show ?thesis using Suc.prems by simp
  qed
qed simp

text \<open>
  The accounts of a mnemonic, or of a reader of keys, are numbered: account \<open>n\<close> has the addresses that are
  given for it. They are quiet when nothing of the accounts from \<open>N\<close> on is active, nor anything
  from index \<open>N\<close> on in the accounts before.
\<close>

definition accounts_quiet ::
  "('w, 'h) discovery \<Rightarrow> discovery_config \<Rightarrow> wallet_context \<Rightarrow> (string \<Rightarrow> bool) \<Rightarrow> nat \<Rightarrow> (nat \<Rightarrow> (nat \<Rightarrow> string) \<Rightarrow> bool) \<Rightarrow> bool" where
  "accounts_quiet D cfg X act N accounts \<longleftrightarrow> (\<forall>n addr. accounts n addr \<longrightarrow>
     quiet_from (if n < N then N else 0) act addr (\<lambda>i. walletAddress D cfg X (addr i)))"

lemma quiet_from_mono: "quiet_from M act addr w \<Longrightarrow> M \<le> N \<Longrightarrow> quiet_from N act addr w"
  by (auto simp: quiet_from_def)

lemma account_ends:
  fixes D :: "('w, 'h) discovery" and s :: "('w, 'z) discovery_state_scheme"
  assumes act: "\<And>a (u :: ('w, 'z) discovery_state_scheme) v. searchTrx D a u = (Inr True, v) \<Longrightarrow> act a"
    and quiet: "quiet_from (if k < N then N else 0) act addr (\<lambda>i. walletAddress D cfg X (addr i))"
    and F: "N + nat (dc_sWalletGap cfg + 1) < F" "N + nat (dc_eoaGap cfg + 1) < F"
    and run: "scan_addresses D cfg X addr F F 0 0 (0, 0) s = (Inr totals, t)"
  shows "\<exists>c. totals = Some c \<and> (c = (0, 0) \<or> k < N)"
proof -
  have "quiet_from N act addr (\<lambda>i. walletAddress D cfg X (addr i))" using quiet_from_mono [OF quiet] by simp
  then have "fst (scan_addresses D cfg X addr F F 0 0 (0, 0) s) \<noteq> Inr None"
    using F by (intro scan_addresses_ends [OF act]) (auto simp: rounds_needed_def)
  then obtain c where c: "totals = Some c" using run by (cases totals) auto
  moreover have "c = (0, 0)" if "\<not> k < N" using scan_addresses_quiet [OF act _ run [unfolded c]] quiet that by simp
  ultimately show ?thesis by blast
qed

lemma mnemonic_accounts_end:
  fixes D :: "('w, 'h) discovery" and s :: "('w, 'z) discovery_state_scheme"
  assumes act: "\<And>a (u :: ('w, 'z) discovery_state_scheme) v. searchTrx D a u = (Inr True, v) \<Longrightarrow> act a"
    and quiet: "accounts_quiet D cfg X act N (\<lambda>n addr. addr = (\<lambda>i. dy_addressString D (dy_derivePath D h (keyPath cfg n i))))"
    and F: "N + nat (dc_sWalletGap cfg + 1) < F" "N + nat (dc_eoaGap cfg + 1) < F" and "N - k < n"
  shows "fst (mnemonic_accounts D cfg X h F n k s) \<noteq> Inr None"
  using assms(5)
proof (induction n arbitrary: k s)
  case (Suc n)
  let ?addr = "\<lambda>i. dy_addressString D (dy_derivePath D h (keyPath cfg k i))"
  have q: "quiet_from (if k < N then N else 0) act ?addr (\<lambda>i. walletAddress D cfg X (?addr i))"
    using quiet by (simp add: accounts_quiet_def)
  show ?case
  proof
    assume "fst (mnemonic_accounts D cfg X h F (Suc n) k s) = Inr None"
    then obtain t where "mnemonic_accounts D cfg X h F (Suc n) k s = (Inr None, t)" by (metis prod.collapse)
    then obtain totals u where r: "scan_addresses D cfg X ?addr F F 0 0 (0, 0) s = (Inr totals, u)"
      "(case totals of None \<Rightarrow> ret None | Some t \<Rightarrow> if t = (0, 0) then ret (Some ())
          else mnemonic_accounts D cfg X h F n (k + 1)) u = (Inr None, t)"
      by (auto elim!: bnd_InrE)
    obtain c where c: "totals = Some c" "c = (0, 0) \<or> k < N" using account_ends [OF _ q F r(1)] act by blast
    then have "N - (k + 1) < n" if "c \<noteq> (0, 0)" using that Suc.prems by auto
    from Suc.IH [OF this, of u] show False using r(2) c(1) by (auto split: if_splits)
  qed
qed simp

lemma reader_accounts_end:
  fixes D :: "('w, 'h) discovery" and s :: "('w, 'z) discovery_state_scheme"
  assumes act: "\<And>a (u :: ('w, 'z) discovery_state_scheme) v. searchTrx D a u = (Inr True, v) \<Longrightarrow> act a"
    and quiet: "accounts_quiet D cfg X act N (\<lambda>n addr. \<exists>key h. returns (reader n) (Some key) \<and>
      dy_fromExtendedKey D key = Inr h \<and> addr = childAddress D h)"
    and F: "N + nat (dc_sWalletGap cfg + 1) < F" "N + nat (dc_eoaGap cfg + 1) < F" and "N - k < n"
  shows "fst (reader_accounts D cfg X reader F n k s) \<noteq> Inr None"
  using assms(5)
proof (induction n arbitrary: k s)
  case (Suc n)
  show ?case
  proof
    assume "fst (reader_accounts D cfg X reader F (Suc n) k s) = Inr None"
    then obtain t where "reader_accounts D cfg X reader F (Suc n) k s = (Inr None, t)" by (metis prod.collapse)
    then obtain key s1 h s2 totals u where r: "io (reader k) s = (Inr (Some key), s1)" "dy_fromExtendedKey D key = Inr h"
      "scan_addresses D cfg X (childAddress D h) F F 0 0 (0, 0) s2 = (Inr totals, u)"
      "(case totals of None \<Rightarrow> ret None | Some t \<Rightarrow> if t = (0, 0) then ret (Some ())
          else reader_accounts D cfg X reader F n (k + 1)) u = (Inr None, t)"
      by (auto elim!: bnd_InrE split: option.splits)
    have q: "quiet_from (if k < N then N else 0) act (childAddress D h) (\<lambda>i. walletAddress D cfg X (childAddress D h i))"
      using quiet io_returns [OF r(1)] r(2) unfolding accounts_quiet_def by blast
    obtain c where c: "totals = Some c" "c = (0, 0) \<or> k < N" using account_ends [OF _ q F r(3)] act by blast
    then have "N - (k + 1) < n" if "c \<noteq> (0, 0)" using that Suc.prems by auto
    from Suc.IH [OF this, of u] show False using r(4) c(1) by (auto split: if_splits)
  qed
qed simp

end
