(* ===== verification/EnvelopingApi.thy ===== *)
theory EnvelopingApi
  imports Discovery
begin

text \<open>
  \<open>src/relayclient/Enveloping.ts\<close>: the interface for a program that builds, signs and sends the requests
  itself. The state adds whether the object is initialized. The global \<open>web3\<close> of the code is the node.
\<close>

record 'w enveloping_state = "'w interactor" +
  en_initialized :: bool

text \<open>The caller's \<open>SignatureProvider\<close>, and the collaborators.\<close>

record signature_provider =
  sp_sign :: "typed_data \<Rightarrow> exn + string"
  sp_verifySign :: "string \<Rightarrow> typed_data \<Rightarrow> signed_request \<Rightarrow> bool"

record ('w, 'q, 't) enveloping =
  ev_node :: "'w node"
  ev_web3 :: web3_utils
  ev_http :: "'w http"
  ev_txlib :: "('q, 't) txlib"
  ev_config :: enveloping_config
  ev_relayWorkerAddress :: string

definition en_init :: "('w, 'q, 't) enveloping \<Rightarrow> (('w, 'z) enveloping_state_scheme, unit) js" where
  "en_init E = bnd (gets en_initialized) (\<lambda>initialized.
     if \<not> initialized
     then andthen (ci_init (ev_node E) (ev_web3 E) (ev_config E)) (modify (\<lambda>s. s\<lparr>en_initialized := True\<rparr>))
     else throw (Error ''_init was already called''))"

definition en_getSenderNonce :: "('w, 'q, 't) enveloping \<Rightarrow> string \<Rightarrow> (('w, 'z) net_scheme, string) js" where
  "en_getSenderNonce E sWallet = getSenderNonce (ev_node E) sWallet"

definition en_getFactoryNonce :: "('w, 'q, 't) enveloping \<Rightarrow> string \<Rightarrow> string \<Rightarrow> (('w, 'z) net_scheme, string) js" where
  "en_getFactoryNonce E factoryAddr from = getFactoryNonce (ev_node E) factoryAddr from"

definition gasPriceOr :: "('w, 'q, 't) enveloping \<Rightarrow> string option \<Rightarrow> (('w, 'z) net_scheme, string) js" where
  "gasPriceOr E gasPrice = (case gasPrice of Some p \<Rightarrow> ret p | None \<Rightarrow> io (n_getGasPrice (ev_node E)))"

section \<open>Requests\<close>

definition createDeployRequest ::
  "('w, 'q, 't) enveloping \<Rightarrow> string \<Rightarrow> string \<Rightarrow> string \<Rightarrow> string \<Rightarrow> string option \<Rightarrow> string option \<Rightarrow> string option \<Rightarrow>
   (('w, 'z) net_scheme, signed_request) js" where
  "createDeployRequest E from tokenContract tokenAmount tokenGas gasPrice index recoverer =
     (let cfg = ev_config E in
      bnd (en_getFactoryNonce E (ec_smartWalletFactoryAddress cfg) from) (\<lambda>nonce.
      bnd (gasPriceOr E gasPrice) (\<lambda>price.
      ret (DeployRequest
        \<lparr>dr_relayHub = ec_relayHubAddress cfg, dr_from = from, dr_to = ZERO_ADDRESS, dr_tokenContract = tokenContract,
         dr_recoverer = or_else recoverer ZERO_ADDRESS, dr_value = ''0'', dr_nonce = nonce, dr_tokenAmount = tokenAmount,
         dr_tokenGas = tokenGas, dr_index = or_else index ''0'', dr_data = ''0x''\<rparr>
        \<lparr>rd_gasPrice = price,
         rd_domainSeparator = getDomainSeparatorHash (ev_web3 E) (ec_smartWalletFactoryAddress cfg) (ec_chainId cfg),
         rd_relayWorker = ev_relayWorkerAddress E, rd_callForwarder = ec_smartWalletFactoryAddress cfg,
         rd_callVerifier = ec_deployVerifierAddress cfg\<rparr>))))"

definition estimateDestinationContractInternalCallGas ::
  "('w, 'q, 't) enveloping \<Rightarrow> string \<Rightarrow> string \<Rightarrow> string \<Rightarrow> string option \<Rightarrow> bool \<Rightarrow> (('w, 'z) net_scheme, number) js" where
  "estimateDestinationContractInternalCallGas E forwarder to data gasPrice addCushion =
     bnd (gasPriceOr E gasPrice) (\<lambda>price.
       estimateDestinationContractCallGas (ev_node E)
         \<lparr>cp_from = forwarder, cp_to = Some to, cp_data = Some data, cp_gasPrice = Some price, cp_gas = None\<rparr> addCushion)"

definition createRelayRequest ::
  "('w, 'q, 't) enveloping \<Rightarrow> string \<Rightarrow> string \<Rightarrow> string \<Rightarrow> string \<Rightarrow> string \<Rightarrow> string \<Rightarrow> string \<Rightarrow>
   string option \<Rightarrow> string option \<Rightarrow> (('w, 'z) net_scheme, signed_request) js" where
  "createRelayRequest E from to forwarder data tokenContract tokenAmount tokenGas gasLimit gasPrice =
     (let cfg = ev_config E in
      bnd (gasPriceOr E gasPrice) (\<lambda>gasPriceToSend.
      bnd (case gasLimit of
          Some g \<Rightarrow> ret g
        | None \<Rightarrow> bnd (estimateDestinationContractInternalCallGas E forwarder to data (Some gasPriceToSend) True)
            (\<lambda>internalCallCost. of_result (w3_toHex_num (ev_web3 E) internalCallCost))) (\<lambda>gasToSend.
      bnd (en_getSenderNonce E forwarder) (\<lambda>nonce.
      ret (RelayRequest
        \<lparr>fr_relayHub = ec_relayHubAddress cfg, fr_from = from, fr_to = to, fr_tokenContract = tokenContract,
         fr_value = ''0'', fr_gas = gasToSend, fr_nonce = nonce, fr_tokenAmount = tokenAmount,
         fr_tokenGas = tokenGas, fr_data = data\<rparr>
        \<lparr>rd_gasPrice = gasPriceToSend,
         rd_domainSeparator = getDomainSeparatorHash (ev_web3 E) forwarder (ec_chainId cfg),
         rd_relayWorker = ev_relayWorkerAddress E, rd_callForwarder = forwarder,
         rd_callVerifier = ec_relayVerifierAddress cfg\<rparr>)))))"

section \<open>Signatures\<close>

definition signAndVerify :: "signature_provider \<Rightarrow> typed_data \<Rightarrow> signed_request \<Rightarrow> exn + string" where
  "signAndVerify signatureProvider dataToSign request = (case sp_sign signatureProvider dataToSign of
     Inl e \<Rightarrow> Inl e
   | Inr signature \<Rightarrow> if sp_verifySign signatureProvider signature dataToSign request then Inr signature
       else Inl (Error ''Internal exception: signature is not correct''))"

definition signDeployRequest :: "('w, 'q, 't) enveloping \<Rightarrow> signature_provider \<Rightarrow> signed_request \<Rightarrow> exn + string" where
  "signDeployRequest E signatureProvider request = signAndVerify signatureProvider
     (typedRequestData (ec_chainId (ev_config E)) (ec_smartWalletFactoryAddress (ev_config E)) request) request"

definition signRelayRequest :: "('w, 'q, 't) enveloping \<Rightarrow> signature_provider \<Rightarrow> signed_request \<Rightarrow> exn + string" where
  "signRelayRequest E signatureProvider request = signAndVerify signatureProvider
     (typedRequestData (ec_chainId (ev_config E)) (rd_callForwarder (relayData request)) request) request"

section \<open>Sending\<close>

definition generateMetadata :: "('w, 'q, 't) enveloping \<Rightarrow> string \<Rightarrow> (('w, 'z) net_scheme, relay_metadata) js" where
  "generateMetadata E signature =
     bnd (io (n_getTransactionCount (ev_node E) (ev_relayWorkerAddress E) None)) (\<lambda>count.
     ret \<lparr>md_relayHubAddress = ec_relayHubAddress (ev_config E),
          md_relayMaxNonce = count + ec_maxRelayNonceGap (ev_config E), md_signature = signature\<rparr>)"

definition generateDeployTransactionRequest ::
  "('w, 'q, 't) enveloping \<Rightarrow> string \<Rightarrow> signed_request \<Rightarrow> (('w, 'z) net_scheme, relay_transaction_request) js" where
  "generateDeployTransactionRequest E signature deployRequest =
     bnd (generateMetadata E signature) (\<lambda>m. ret \<lparr>relayRequest = deployRequest, metadata = m\<rparr>)"

definition generateRelayTransactionRequest ::
  "('w, 'q, 't) enveloping \<Rightarrow> string \<Rightarrow> signed_request \<Rightarrow> (('w, 'z) net_scheme, relay_transaction_request) js" where
  "generateRelayTransactionRequest E signature relayRequest' =
     bnd (generateMetadata E signature) (\<lambda>m. ret \<lparr>relayRequest = relayRequest', metadata = m\<rparr>)"

definition en_sendTransaction ::
  "('w, 'q, 't) enveloping \<Rightarrow> string \<Rightarrow> relay_transaction_request \<Rightarrow> (('w, 'z) interactor_scheme, 't relaying_attempt) js" where
  "en_sendTransaction E relayUrl request =
     catching
       (bnd (relayTransaction (ev_http E) relayUrl request) (\<lambda>hexTransaction.
        andthen ci_getRawTxOptions
        (bnd (of_result (t_decode (ev_txlib E) hexTransaction)) (\<lambda>transaction.
         ret \<lparr>at_transaction = Some transaction, at_error = None\<rparr>))))
       (\<lambda>e. ret (failed_with e))"

section \<open>Discovery\<close>

definition newSmartWalletDiscovery :: "('w, 'h) discovery \<Rightarrow> string list option \<Rightarrow> ('w, 'h) discovery" where
  "newSmartWalletDiscovery D tokens = D\<lparr>dy_tokens := or_else tokens [], dy_reconnectionAttempts := 4\<rparr>"

definition discovered ::
  "(('w, 'z) discovery_state_scheme, unit option) js \<Rightarrow> (('w, 'z) discovery_state_scheme, discovered_account list option) js" where
  "discovered m = andthen (modify (\<lambda>s. s\<lparr>sd_accounts := []\<rparr>))
     (bnd m (\<lambda>r. bnd (gets sd_accounts) (\<lambda>accounts. ret (map_option (\<lambda>_. accounts) r))))"

definition en_discoverAccountsUsingMnemonic ::
  "('w, 'h) discovery \<Rightarrow> discovery_config \<Rightarrow> string \<Rightarrow> string option \<Rightarrow> string list option \<Rightarrow> nat \<Rightarrow>
   (('w, 'z) discovery_state_scheme, discovered_account list option) js" where
  "en_discoverAccountsUsingMnemonic D config mnemonic password supportedTokens F =
     discovered (discoverAccountsFromMnemonic (newSmartWalletDiscovery D supportedTokens) config mnemonic password F)"

definition en_discoverAccountsFromExtendedPublicKeys ::
  "('w, 'h) discovery \<Rightarrow> discovery_config \<Rightarrow> string list \<Rightarrow> string list option \<Rightarrow> nat \<Rightarrow>
   (('w, 'z) discovery_state_scheme, discovered_account list option) js" where
  "en_discoverAccountsFromExtendedPublicKeys D config extendedPublicKeys supportedTokens F =
     discovered (discoverAccountsFromExtendedPublicKeys (newSmartWalletDiscovery D supportedTokens) config extendedPublicKeys F)"

definition en_discoverAccounts ::
  "('w, 'h) discovery \<Rightarrow> discovery_config \<Rightarrow> (nat \<Rightarrow> ('w, string option) js) option \<Rightarrow> string list option \<Rightarrow> nat \<Rightarrow>
   (('w, 'z) discovery_state_scheme, discovered_account list option) js" where
  "en_discoverAccounts D config accountReader supportedTokens F =
     discovered (discoverAccounts (newSmartWalletDiscovery D supportedTokens) config accountReader F)"

end
