(* ===== verification/Commands.thy ===== *)
theory Commands
  imports EnvelopingApi
begin

text \<open>
  \<open>src/cli/CommandsLogic.ts\<close>: finding an account with funds, waiting for a relay, registering it and
  deploying the contracts. The state adds the configuration, which a deployment overwrites, and the
  hashes \<open>registerRelay\<close> collects. Loops that wait for a clock or for the user take a bound on their
  rounds; \<open>None\<close> is the result when it was too small.
\<close>

section \<open>State and collaborators\<close>

record ('w) commands_state = "'w interactor" +
  cs_config :: enveloping_config
  cs_transactions :: "string list"

datatype contract_kind =
  Penalizer | SmartWallet | SmartWalletFactory | CustomSmartWallet | CustomSmartWalletFactory | RelayHub
| VersionRegistryContract | DeployVerifier | CustomSmartWalletDeployVerifier | RelayVerifier

datatype deploy_arg = AddressArg string | IntArg int | TextArg string

record send_options =
  so_from :: string
  so_gas :: int
  so_value :: int
  so_gasPrice :: string

text \<open>
  \<open>cm_estimateDeploy\<close>, \<open>cm_sendDeploy\<close>: the two requests of a contract's deployment, the second with the
  address as its answer. \<open>cm_fund\<close>: \<open>eth.sendTransaction\<close>, with the hash of the receipt, if it has one, and
  its text. \<open>cm_read\<close>: a line of the user's. \<open>cm_BN\<close>: \<open>new BN\<close> of a decimal.
\<close>

record 'w commands =
  cm_node :: "'w node"
  cm_web3 :: web3_utils
  cm_http :: "'w http"
  cm_BN :: "string \<Rightarrow> exn + int"
  cm_getAccounts :: "('w, string list) js"
  cm_stakeForAddress :: "string \<Rightarrow> string \<Rightarrow> string \<Rightarrow> int \<Rightarrow> string \<Rightarrow> string \<Rightarrow> ('w, string) js"
  cm_fund :: "string \<Rightarrow> string \<Rightarrow> string \<Rightarrow> string \<Rightarrow> ('w, string option \<times> string) js"
  cm_estimateDeploy :: "contract_kind \<Rightarrow> deploy_arg list \<Rightarrow> ('w, int) js"
  cm_sendDeploy :: "contract_kind \<Rightarrow> deploy_arg list \<Rightarrow> send_options \<Rightarrow> ('w, string) js"
  cm_addVersion :: "string \<Rightarrow> string \<Rightarrow> string \<Rightarrow> string \<Rightarrow> string \<Rightarrow> ('w, unit) js"
  cm_read :: "('w, string) js"

text \<open>Sequencing of steps that may have run out of rounds.\<close>

definition bnd_rounds :: "('s, 'a option) js \<Rightarrow> ('a \<Rightarrow> ('s, 'b option) js) \<Rightarrow> ('s, 'b option) js" where
  "bnd_rounds m f = bnd m (\<lambda>r. case r of None \<Rightarrow> ret None | Some x \<Rightarrow> f x)"

lemma bnd_roundsE:
  assumes "bnd_rounds m f s = (Inr (Some y), u)"
  obtains x t where "m s = (Inr (Some x), t)" and "f x t = (Inr (Some y), u)"
  using assms by (auto simp: bnd_rounds_def elim!: bnd_InrE split: option.splits)

section \<open>Accounts and relays\<close>

primrec firstWealthy :: "'w commands \<Rightarrow> int \<Rightarrow> string list \<Rightarrow> (('w, 'z) net_scheme, string option) js" where
  "firstWealthy M requiredBalance [] = ret None"
| "firstWealthy M requiredBalance (account # accounts) =
     bnd (io (n_getBalance (cm_node M) account ''latest'')) (\<lambda>b.
     bnd (of_result (cm_BN M b)) (\<lambda>balance.
       if requiredBalance \<le> balance then ret (Some account) else firstWealthy M requiredBalance accounts))"

definition joinAccounts :: "string list \<Rightarrow> string" where
  "joinAccounts accounts = (case accounts of [] \<Rightarrow> '''' | a # r \<Rightarrow> a @ concat (map (\<lambda>x. nl @ '' - '' @ x) r))"

text \<open>\<open>ether('2')\<close> is the default of the required balance.\<close>

definition findWealthyAccount :: "'w commands \<Rightarrow> int option \<Rightarrow> (('w, 'z) net_scheme, string) js" where
  "findWealthyAccount M requiredBalance =
     bnd (catching (bnd (io (cm_getAccounts M)) (\<lambda>accounts. ret accounts)) (\<lambda>_. ret [])) (\<lambda>accounts.
     bnd (catching (firstWealthy M (or_else requiredBalance (2 * 10 ^ 18)) accounts) (\<lambda>_. ret None)) (\<lambda>found.
       case found of
         Some account \<Rightarrow> ret account
       | None \<Rightarrow> throw (Error (''could not find unlocked account with sufficient balance; all accounts:'' @ nl @ '' - '' @
           joinAccounts accounts))))"

definition isRelayReady :: "'w commands \<Rightarrow> string \<Rightarrow> (('w, 'z) net_scheme, bool) js" where
  "isRelayReady M relayUrl = bnd (getPingResponse (cm_http M) relayUrl None) (\<lambda>response. ret (pr_ready response))"

primrec wait_rounds :: "'w commands \<Rightarrow> string \<Rightarrow> int \<Rightarrow> int \<Rightarrow> nat \<Rightarrow> (('w, 'z) net_scheme, unit option) js" where
  "wait_rounds M relayUrl timeout endTime 0 = ret None"
| "wait_rounds M relayUrl timeout endTime (Suc n) =
     bnd (io (n_now (cm_node M))) (\<lambda>now.
       if now < endTime then
         bnd (catching (isRelayReady M relayUrl) (\<lambda>_. ret False)) (\<lambda>isReady.
           if isReady then ret (Some ())
           else andthen (io (n_sleep (cm_node M) 3000)) (wait_rounds M relayUrl timeout endTime n))
       else throw (Error (''Relay not ready after '' @ int_str timeout @ ''s'')))"

definition waitForRelay :: "'w commands \<Rightarrow> string \<Rightarrow> int \<Rightarrow> nat \<Rightarrow> (('w, 'z) net_scheme, unit option) js" where
  "waitForRelay M relayUrl timeout F =
     bnd (io (n_now (cm_node M))) (\<lambda>now. wait_rounds M relayUrl timeout (now + timeout * 1000) F)"

section \<open>Registering a relay\<close>

record register_options =
  rgo_from :: string
  rgo_gasPrice :: string
  rgo_stake :: string
  rgo_funds :: string
  rgo_relayUrl :: string
  rgo_unstakeDelay :: string

record registration_result =
  rgr_success :: bool
  rgr_transactions :: "string list option"
  rgr_error :: "string option"

definition pushTransaction :: "string \<Rightarrow> (('w, 'z) commands_state_scheme, unit) js" where
  "pushTransaction tx = modify (\<lambda>s. s\<lparr>cs_transactions := cs_transactions s @ [tx]\<rparr>)"

text \<open>Staking: what is missing to the stake, unless stake and delay are there.\<close>

definition stakeRelay ::
  "'w commands \<Rightarrow> register_options \<Rightarrow> string \<Rightarrow> string \<Rightarrow> stake_info \<Rightarrow> (('w, 'z) commands_state_scheme, unit) js" where
  "stakeRelay M options hub relayAddress info =
     bnd (of_result (w3_toBN (cm_web3 M) (si_unstakeDelay info))) (\<lambda>unstakeDelay.
     bnd (of_result (w3_toBN (cm_web3 M) (rgo_unstakeDelay options))) (\<lambda>wantedDelay.
     bnd (of_result (w3_toBN (cm_web3 M) (si_stake info))) (\<lambda>stake.
     bnd (of_result (w3_toBN (cm_web3 M) (rgo_stake options))) (\<lambda>wantedStake.
       if wantedDelay \<le> unstakeDelay \<and> wantedStake \<le> stake then ret ()
       else bnd (io (cm_stakeForAddress M hub relayAddress (rgo_unstakeDelay options) (wantedStake - stake)
           (rgo_from options) (rgo_gasPrice options))) pushTransaction))))"

text \<open>Funding: the failure is a result, not an exception.\<close>

definition fundRelay ::
  "'w commands \<Rightarrow> register_options \<Rightarrow> string \<Rightarrow> (('w, 'z) commands_state_scheme, registration_result option) js" where
  "fundRelay M options relayAddress =
     bnd (getBalance (cm_node M) relayAddress ''latest'') (\<lambda>b.
     bnd (of_result (w3_toBN (cm_web3 M) b)) (\<lambda>bal.
     bnd (of_result (w3_toBN (cm_web3 M) (rgo_funds options))) (\<lambda>funds.
       if funds < bal then ret None
       else bnd (io (cm_fund M (rgo_from options) relayAddress (rgo_funds options) (rgo_gasPrice options)))
         (\<lambda>(transactionHash, json). case transactionHash of
            None \<Rightarrow> ret (Some \<lparr>rgr_success = False, rgr_transactions = None, rgr_error = Some (''Fund transaction reverted: '' @ json)\<rparr>)
          | Some h \<Rightarrow> andthen (pushTransaction h) (ret None)))))"

definition stakeAndFund ::
  "'w commands \<Rightarrow> register_options \<Rightarrow> string \<Rightarrow> string \<Rightarrow> nat \<Rightarrow>
   (('w, 'z) commands_state_scheme, registration_result option) js" where
  "stakeAndFund M options relayHubAddress relayAddress F =
     bnd (createContract (cm_node M) ''IRelayHub'' relayHubAddress) (\<lambda>relayHub.
     bnd (io (n_getStakeInfo (cm_node M) relayHub relayAddress)) (\<lambda>info.
     andthen (throw_if (si_owner info \<noteq> ZERO_ADDRESS \<and> \<not> isSameAddress (si_owner info) (rgo_from options))
       (''Already owned by '' @ si_owner info @ '', our account='' @ rgo_from options))
     (andthen (stakeRelay M options relayHub relayAddress info)
     (bnd (fundRelay M options relayAddress) (\<lambda>failure. case failure of
        Some f \<Rightarrow> ret (Some f)
      | None \<Rightarrow> bnd_rounds (waitForRelay M (rgo_relayUrl options) 60 F) (\<lambda>_.
          bnd (gets cs_transactions) (\<lambda>transactions.
          ret (Some \<lparr>rgr_success = True, rgr_transactions = Some transactions, rgr_error = None\<rparr>))))))))"

definition registerSteps ::
  "'w commands \<Rightarrow> register_options \<Rightarrow> nat \<Rightarrow> (('w, 'z) commands_state_scheme, registration_result option) js" where
  "registerSteps M options F =
     bnd (catching (getPingResponse (cm_http M) (rgo_relayUrl options) None)
       (\<lambda>_. throw (Error ''could contact not relayer, is it running?''))) (\<lambda>response.
     if pr_ready response
     then ret (Some \<lparr>rgr_success = False, rgr_transactions = None, rgr_error = Some ''Already registered''\<rparr>)
     else
       bnd (gets isInitialized) (\<lambda>initialized.
       bnd (gets cs_config) (\<lambda>config.
       andthen (if initialized then ret () else ci_init (cm_node M) (cm_web3 M) config)
       (bnd (gets ci_chainId) (\<lambda>chainId.
       andthen (throw_if (pr_chainId response \<noteq> Some (int_str chainId))
         (''wrong chain-id: Relayer on ('' @ or_else (pr_chainId response) ''undefined'' @ '') but our provider is on ('' @ int_str chainId @ '')''))
       (stakeAndFund M options (ec_relayHubAddress config) (pr_relayManagerAddress response) F))))))"

definition registerRelay ::
  "'w commands \<Rightarrow> register_options \<Rightarrow> nat \<Rightarrow> (('w, 'z) commands_state_scheme, registration_result option) js" where
  "registerRelay M options F =
     andthen (modify (\<lambda>s. s\<lparr>cs_transactions := []\<rparr>))
     (catching (registerSteps M options F) (\<lambda>error.
       bnd (gets cs_transactions) (\<lambda>transactions.
       ret (Some \<lparr>rgr_success = False, rgr_transactions = Some transactions,
         rgr_error = Some (''Failed to fund relay: '' @ [CHR 0x27] @ exn_text (cm_web3 M) error @ [CHR 0x27])\<rparr>))))"

section \<open>Deploying the contracts\<close>

primrec confirm :: "'w commands \<Rightarrow> nat \<Rightarrow> (('w, 'z) net_scheme, unit option) js" where
  "confirm M 0 = ret None"
| "confirm M (Suc n) = bnd (io (cm_read M)) (\<lambda>input.
     if input = ''yes'' then ret (Some ())
     else if input = ''no'' then throw (Error ''User rejected'')
     else confirm M n)"

text \<open>\<open>BN.muln\<close> takes factors below \<open>2 ^ 26\<close>.\<close>

definition bn_muln :: "int \<Rightarrow> int \<Rightarrow> exn + int" where
  "bn_muln a k = (if k < 2 ^ 26 then Inr (a * k) else Inl (Error ''Assertion failed''))"

text \<open>The maximal cost, which the code computes to print it.\<close>

definition maxCost :: "'w commands \<Rightarrow> string \<Rightarrow> int \<Rightarrow> exn + int" where
  "maxCost M gasPrice gas = (case cm_BN M gasPrice of
     Inl e \<Rightarrow> Inl e
   | Inr price \<Rightarrow> (case bn_muln price gas of Inl e \<Rightarrow> Inl e | Inr cost \<Rightarrow> bn_toNumber cost))"

definition getContract ::
  "'w commands \<Rightarrow> contract_kind \<Rightarrow> deploy_arg list \<Rightarrow> string option \<Rightarrow> send_options \<Rightarrow> bool \<Rightarrow> nat \<Rightarrow>
   (('w, 'z) net_scheme, string option) js" where
  "getContract M kind args address options skipConfirmation F = (case address of
     Some a \<Rightarrow> ret (Some a)
   | None \<Rightarrow>
       bnd (io (cm_estimateDeploy M kind args)) (\<lambda>gas.
       bnd (of_result (maxCost M (so_gasPrice options) gas)) (\<lambda>_.
       bnd_rounds (if skipConfirmation then ret (Some ()) else confirm M F) (\<lambda>_.
       bnd (io (cm_sendDeploy M kind args (options\<lparr>so_gas := 5000000\<rparr>))) (\<lambda>a. ret (Some a))))))"

record deploy_options =
  dpo_from :: string
  dpo_gasPrice :: "string option"
  dpo_deployVerifierAddress :: "string option"
  dpo_relayVerifierAddress :: "string option"
  dpo_smartWalletFactoryAddress :: "string option"
  dpo_smartWalletTemplateAddress :: "string option"
  dpo_relayHubAddress :: "string option"
  dpo_penalizerAddress :: "string option"
  dpo_registryAddress :: "string option"
  dpo_customSmartWalletFactoryAddress :: "string option"
  dpo_customSmartWalletTemplateAddress :: "string option"
  dpo_customSmartWalletDeployVerifierAddress :: "string option"
  dpo_customSmartWalletRelayVerifierAddress :: "string option"
  dpo_registryHubId :: "string option"
  dpo_skipConfirmation :: "bool option"
  dpo_relayHubConfiguration :: relay_hub_configuration

text \<open>\<open>DeploymentResult\<close>, of addresses of type \<open>'a\<close>: strings, or what a file may not have.\<close>

record 'a deployment_result =
  dpr_relayHubAddress :: 'a
  dpr_penalizerAddress :: 'a
  dpr_smartWalletTemplateAddress :: 'a
  dpr_smartWalletFactoryAddress :: 'a
  dpr_versionRegistryAddress :: 'a
  dpr_relayVerifierAddress :: 'a
  dpr_deployVerifierAddress :: 'a
  dpr_customSmartWalletTemplateAddress :: 'a
  dpr_customSmartWalletFactoryAddress :: 'a
  dpr_customSmartWalletDeployVerifierAddress :: 'a
  dpr_customSmartWalletRelayVerifierAddress :: 'a

definition hubArguments :: "string \<Rightarrow> relay_hub_configuration \<Rightarrow> deploy_arg list" where
  "hubArguments penalizer c = [AddressArg penalizer, IntArg (rh_maxWorkerCount c), TextArg (rh_minimumEntryDepositValue c),
     IntArg (rh_minimumUnstakeDelay c), TextArg (rh_minimumStake c)]"

definition deployContracts ::
  "'w commands \<Rightarrow> deploy_options \<Rightarrow> nat \<Rightarrow> (('w, 'z) commands_state_scheme, string deployment_result option) js" where
  "deployContracts M deployOptions F =
     (let options = \<lparr>so_from = dpo_from deployOptions, so_gas = 0, so_value = 0,
            so_gasPrice = or_else (dpo_gasPrice deployOptions) (int_str (10 ^ 9))\<rparr>;
          get = (\<lambda>kind args address.
            getContract M kind args address options (or_else (dpo_skipConfirmation deployOptions) False) F)
      in
      bnd_rounds (get Penalizer [] (dpo_penalizerAddress deployOptions)) (\<lambda>penalizer.
      bnd_rounds (get SmartWallet [] (dpo_smartWalletTemplateAddress deployOptions)) (\<lambda>smartWallet.
      bnd_rounds (get SmartWalletFactory [AddressArg smartWallet] (dpo_smartWalletFactoryAddress deployOptions)) (\<lambda>smartWalletFactory.
      bnd_rounds (get CustomSmartWallet [] (dpo_customSmartWalletTemplateAddress deployOptions)) (\<lambda>customSmartWallet.
      bnd_rounds (get CustomSmartWalletFactory [AddressArg customSmartWallet]
        (dpo_customSmartWalletFactoryAddress deployOptions)) (\<lambda>customSmartWalletFactory.
      bnd_rounds (get RelayHub (hubArguments penalizer (dpo_relayHubConfiguration deployOptions))
        (dpo_relayHubAddress deployOptions)) (\<lambda>rInstance.
      bnd_rounds (get VersionRegistryContract [] (dpo_registryAddress deployOptions)) (\<lambda>regInstance.
      andthen (case dpo_registryHubId deployOptions of
          None \<Rightarrow> ret ()
        | Some i \<Rightarrow> io (cm_addVersion M regInstance (string32 i) (string32 ''1'') rInstance (dpo_from deployOptions)))
      (bnd_rounds (get DeployVerifier [AddressArg smartWalletFactory] (dpo_deployVerifierAddress deployOptions)) (\<lambda>deployVerifier.
      bnd_rounds (get CustomSmartWalletDeployVerifier [AddressArg customSmartWalletFactory]
        (dpo_customSmartWalletDeployVerifierAddress deployOptions)) (\<lambda>customDeployVerifier.
      bnd_rounds (get RelayVerifier [AddressArg smartWalletFactory] (dpo_relayVerifierAddress deployOptions)) (\<lambda>relayVerifier.
      bnd_rounds (get RelayVerifier [AddressArg customSmartWalletFactory]
        (dpo_customSmartWalletRelayVerifierAddress deployOptions)) (\<lambda>customRelayVerifier.
      andthen (modify (\<lambda>s. s\<lparr>cs_config := (cs_config s)\<lparr>ec_relayHubAddress := rInstance,
        ec_deployVerifierAddress := deployVerifier, ec_relayVerifierAddress := relayVerifier\<rparr>\<rparr>))
      (ret (Some \<lparr>dpr_relayHubAddress = rInstance, dpr_penalizerAddress = penalizer,
         dpr_smartWalletTemplateAddress = smartWallet, dpr_smartWalletFactoryAddress = smartWalletFactory,
         dpr_versionRegistryAddress = regInstance, dpr_relayVerifierAddress = relayVerifier,
         dpr_deployVerifierAddress = deployVerifier, dpr_customSmartWalletTemplateAddress = customSmartWallet,
         dpr_customSmartWalletFactoryAddress = customSmartWalletFactory,
         dpr_customSmartWalletDeployVerifierAddress = customDeployVerifier,
         dpr_customSmartWalletRelayVerifierAddress = customRelayVerifier\<rparr>)))))))))))))))"

definition deployVerifier ::
  "'w commands \<Rightarrow> send_options \<Rightarrow> bool option \<Rightarrow> nat \<Rightarrow> (('w, 'z) net_scheme, string option) js" where
  "deployVerifier M options skipConfirmation F =
     getContract M DeployVerifier [] None options (or_else skipConfirmation False) F"

end
