(* ===== verification/CliTools.thy ===== *)
theory CliTools
  imports Commands
begin

text \<open>
  \<open>src/cli/StatusLogic.ts\<close>, the statistics of a hub's relays, and of \<open>src/cli/utils.ts\<close> the names of
  networks, the files a deployment is saved in, what is printed of it and the options of the commands. Files are a map from paths to contents; reading a file
  that is not there throws.
\<close>

section \<open>Status\<close>

record status_config =
  sc_blockHistoryCount :: int
  sc_statusHubAddress :: string

record ping_attempt =
  pa_pingResponse :: "ping_response option"
  pa_error :: "exn option"

record statistics =
  st_totalStakesByRelays :: string
  st_relayRegisteredEvents :: "return_values list"
  st_relayPings :: "(string \<times> ping_attempt) list"
  st_balances :: "(string \<times> string) list"

definition pingAttempt :: "'w http \<Rightarrow> string \<Rightarrow> (('w, 'z) net_scheme, ping_attempt) js" where
  "pingAttempt H url = catching
     (bnd (getPingResponse H url None) (\<lambda>p. ret \<lparr>pa_pingResponse = Some p, pa_error = None\<rparr>))
     (\<lambda>e. ret \<lparr>pa_pingResponse = None, pa_error = Some e\<rparr>)"

definition gatherStatistics ::
  "'w node \<Rightarrow> web3_utils \<Rightarrow> 'w http \<Rightarrow> status_config \<Rightarrow> (('w, 'z) interactor_scheme, statistics) js" where
  "gatherStatistics N W H config =
     bnd (io (n_getBlockNumber N)) (\<lambda>curBlockNumber.
     bnd (createContract N ''IRelayHub'' (sc_statusHubAddress config)) (\<lambda>r.
     bnd (getBalance N r ''latest'') (\<lambda>totalStakesByRelays.
     bnd (getPastEventsForHub N W [] \<lparr>pe_fromBlock = max 1 (curBlockNumber - sc_blockHistoryCount config), pe_toBlock = None\<rparr>
       [RelayServerRegistered]) (\<lambda>relayRegisteredEventsData.
     let relayRegisteredEvents = map ev_returnValues relayRegisteredEventsData in
     bnd (fold_js (\<lambda>registerEvent (relayPings, balances).
         bnd (pingAttempt H (rv_relayUrl registerEvent)) (\<lambda>attempt.
         bnd (getBalance N (rv_relayManager registerEvent) ''latest'') (\<lambda>managerBalance.
         ret (AList.update (rv_relayUrl registerEvent) attempt relayPings,
              AList.update (rv_relayManager registerEvent) managerBalance balances))))
       relayRegisteredEvents ([], [])) (\<lambda>(relayPings, balances).
     ret \<lparr>st_totalStakesByRelays = totalStakesByRelays, st_relayRegisteredEvents = relayRegisteredEvents,
          st_relayPings = relayPings, st_balances = balances\<rparr>)))))"

section \<open>Networks\<close>

definition networks :: "(string \<times> string) list" where
  "networks = [(''localhost'', ''http://127.0.0.1:4444''), (''development'', ''http://127.0.0.1:4444''),
     (''rsktestnet'', ''https://public-node.testnet.rsk.co''), (''rskmainnet'', ''https://public-node.rsk.co'')]"

definition supportedNetworks :: "string list" where
  "supportedNetworks = map fst networks"

text \<open>The expression \<open>^(https?:\/\/.*)\<close> matches up to the end of the first line.\<close>

definition urlMatch :: "string \<Rightarrow> string option" where
  "urlMatch network = (if startsWith network ''http://'' \<or> startsWith network ''https://''
     then Some (takeWhile (\<lambda>c. c \<noteq> CHR 0x0A \<and> c \<noteq> CHR 0x0D) network) else None)"

definition getNetworkUrl :: "string \<Rightarrow> string option" where
  "getNetworkUrl network = (case map_of networks network of Some url \<Rightarrow> Some url | None \<Rightarrow> urlMatch network)"

section \<open>Files\<close>

record 'w cli_files = "'w commands_state" +
  fs_files :: "string \<Rightarrow> string option"

text \<open>
  \<open>cf_join\<close> is \<open>path.join\<close>, \<open>cf_addressOf\<close> the member \<open>address\<close> of the parsed content, which may be
  missing, \<open>cf_hubConfiguration\<close> the parsed content as a configuration of the hub.
\<close>

record file_tools =
  cf_join :: "string \<Rightarrow> string \<Rightarrow> string"
  cf_addressOf :: "string \<Rightarrow> exn + string option"
  cf_hubConfiguration :: "string \<Rightarrow> exn + relay_hub_configuration option"

definition readFile :: "string \<Rightarrow> (('w, 'z) cli_files_scheme, string) js" where
  "readFile path = bnd (gets (\<lambda>s. fs_files s path)) (\<lambda>c. case c of
     None \<Rightarrow> throw (Error (''ENOENT: no such file or directory, open '' @ path)) | Some text \<Rightarrow> ret text)"

definition getMnemonic :: "string option \<Rightarrow> (('w, 'z) cli_files_scheme, string option) js" where
  "getMnemonic mnemonicFile = (case mnemonicFile of
     None \<Rightarrow> ret None
   | Some f \<Rightarrow> bnd (readFile f) (\<lambda>text. ret (Some (filter (\<lambda>c. c \<noteq> CHR 0x0A \<and> c \<noteq> CHR 0x0D) text))))"

definition getRelayHubConfiguration ::
  "file_tools \<Rightarrow> string option \<Rightarrow> (('w, 'z) cli_files_scheme, relay_hub_configuration option) js" where
  "getRelayHubConfiguration J configFile = (case configFile of
     None \<Rightarrow> ret None
   | Some f \<Rightarrow> bnd (readFile f) (\<lambda>text. of_result (cf_hubConfiguration J text)))"

definition getAddressFromFile ::
  "file_tools \<Rightarrow> string \<Rightarrow> string option \<Rightarrow> (('w, 'z) cli_files_scheme, string option) js" where
  "getAddressFromFile J path defaultAddress = (case defaultAddress of
     Some a \<Rightarrow> ret (Some a)
   | None \<Rightarrow> bnd (gets (\<lambda>s. fs_files s path \<noteq> None)) (\<lambda>exists.
       if exists then bnd (readFile path) (\<lambda>text. of_result (cf_addressOf J text)) else ret None))"

definition getRelayHubAddress :: "file_tools \<Rightarrow> string option \<Rightarrow> (('w, 'z) cli_files_scheme, string option) js" where
  "getRelayHubAddress J = getAddressFromFile J ''build/enveloping/RelayHub.json''"

definition getRegistryAddress :: "file_tools \<Rightarrow> string option \<Rightarrow> (('w, 'z) cli_files_scheme, string option) js" where
  "getRegistryAddress J = getAddressFromFile J ''build/enveloping/VersionRegistry.json''"

definition getRelayVerifierAddress :: "file_tools \<Rightarrow> string option \<Rightarrow> (('w, 'z) cli_files_scheme, string option) js" where
  "getRelayVerifierAddress J = getAddressFromFile J ''build/enveloping/RelayVerifier.json''"

definition getDeployVerifierAddress :: "file_tools \<Rightarrow> string option \<Rightarrow> (('w, 'z) cli_files_scheme, string option) js" where
  "getDeployVerifierAddress J = getAddressFromFile J ''build/enveloping/DeployVerifier.json''"

definition getSmartWalletFactoryAddress :: "file_tools \<Rightarrow> string option \<Rightarrow> (('w, 'z) cli_files_scheme, string option) js" where
  "getSmartWalletFactoryAddress J = getAddressFromFile J ''build/enveloping/SmartWalletFactory.json''"

definition getCustomSmartWalletFactoryAddress :: "file_tools \<Rightarrow> string option \<Rightarrow> (('w, 'z) cli_files_scheme, string option) js" where
  "getCustomSmartWalletFactoryAddress J = getAddressFromFile J ''build/enveloping/CustomSmartWalletFactory.json''"

definition getCustomSmartWalletDeployVerifierAddress :: "file_tools \<Rightarrow> string option \<Rightarrow> (('w, 'z) cli_files_scheme, string option) js" where
  "getCustomSmartWalletDeployVerifierAddress J = getAddressFromFile J ''build/enveloping/CustomSmartWalletDeployVerifier.json''"

definition getCustomSmartWalletRelayVerifierAddress :: "file_tools \<Rightarrow> string option \<Rightarrow> (('w, 'z) cli_files_scheme, string option) js" where
  "getCustomSmartWalletRelayVerifierAddress J = getAddressFromFile J ''build/enveloping/CustomSmartWalletRelayVerifier.json''"

text \<open>The text of a saved contract; the quotation mark is \<open>CHR 0x22\<close>.\<close>

definition contractText :: "string \<Rightarrow> string" where
  "contractText address = ''{ '' @ [CHR 0x22] @ ''address'' @ [CHR 0x22] @ '': '' @ [CHR 0x22] @ address @ [CHR 0x22] @ '' }''"

definition saveContractToFile :: "file_tools \<Rightarrow> string \<Rightarrow> string \<Rightarrow> string \<Rightarrow> (('w, 'z) cli_files_scheme, unit) js" where
  "saveContractToFile J address workdir filename =
     modify (\<lambda>s. s\<lparr>fs_files := (fs_files s)(cf_join J workdir filename \<mapsto> contractText address)\<rparr>)"

text \<open>The files of a deployment, in the order in which they are written.\<close>

definition deploymentFiles :: "string deployment_result \<Rightarrow> (string \<times> string) list" where
  "deploymentFiles d = [(''Penalizer'', dpr_penalizerAddress d), (''RelayHub'', dpr_relayHubAddress d),
     (''RelayVerifier'', dpr_relayVerifierAddress d), (''DeployVerifier'', dpr_deployVerifierAddress d),
     (''SmartWallet'', dpr_smartWalletTemplateAddress d), (''SmartWalletFactory'', dpr_smartWalletFactoryAddress d),
     (''VersionRegistry'', dpr_versionRegistryAddress d), (''CustomSmartWallet'', dpr_customSmartWalletTemplateAddress d),
     (''CustomSmartWalletFactory'', dpr_customSmartWalletFactoryAddress d),
     (''CustomSmartWalletDeployVerifier'', dpr_customSmartWalletDeployVerifierAddress d),
     (''CustomSmartWalletRelayVerifier'', dpr_customSmartWalletRelayVerifierAddress d)]"

definition saveDeployment :: "file_tools \<Rightarrow> string deployment_result \<Rightarrow> string \<Rightarrow> (('w, 'z) cli_files_scheme, unit) js" where
  "saveDeployment J d workdir =
     for_each (\<lambda>(name, address). saveContractToFile J address workdir (name @ ''.json'')) (deploymentFiles d)"

text \<open>\<open>as string\<close>: an address that is not there is \<open>undefined\<close>, here \<open>None\<close>.\<close>

definition loadAddress :: "file_tools \<Rightarrow> string \<Rightarrow> string \<Rightarrow> (('w, 'z) cli_files_scheme, string option) js" where
  "loadAddress J workdir name = getAddressFromFile J (cf_join J workdir (name @ ''.json'')) None"

definition loadDeployment :: "file_tools \<Rightarrow> string \<Rightarrow> (('w, 'z) cli_files_scheme, string option deployment_result) js" where
  "loadDeployment J workdir = (let getAddress = loadAddress J workdir in
     bnd (getAddress ''RelayHub'') (\<lambda>relayHub.
     bnd (getAddress ''Penalizer'') (\<lambda>penalizer.
     bnd (getAddress ''SmartWallet'') (\<lambda>smartWallet.
     bnd (getAddress ''SmartWalletFactory'') (\<lambda>smartWalletFactory.
     bnd (getAddress ''VersionRegistry'') (\<lambda>versionRegistry.
     bnd (getAddress ''RelayVerifier'') (\<lambda>relayVerifier.
     bnd (getAddress ''DeployVerifier'') (\<lambda>deployVerifier.
     bnd (getAddress ''CustomSmartWallet'') (\<lambda>customSmartWallet.
     bnd (getAddress ''CustomSmartWalletFactory'') (\<lambda>customSmartWalletFactory.
     bnd (getAddress ''CustomSmartWalletDeployVerifier'') (\<lambda>customDeployVerifier.
     bnd (getAddress ''CustomSmartWalletRelayVerifier'') (\<lambda>customRelayVerifier.
       ret \<lparr>dpr_relayHubAddress = relayHub, dpr_penalizerAddress = penalizer,
         dpr_smartWalletTemplateAddress = smartWallet, dpr_smartWalletFactoryAddress = smartWalletFactory,
         dpr_versionRegistryAddress = versionRegistry, dpr_relayVerifierAddress = relayVerifier,
         dpr_deployVerifierAddress = deployVerifier, dpr_customSmartWalletTemplateAddress = customSmartWallet,
         dpr_customSmartWalletFactoryAddress = customSmartWalletFactory,
         dpr_customSmartWalletDeployVerifierAddress = customDeployVerifier,
         dpr_customSmartWalletRelayVerifierAddress = customRelayVerifier\<rparr>))))))))))))"

section \<open>What is printed and the options of the commands\<close>

definition showDeployment :: "string deployment_result \<Rightarrow> string option \<Rightarrow> string list" where
  "showDeployment d title = (case title of None \<Rightarrow> [] | Some t \<Rightarrow> [t]) @
     [concat (map (\<lambda>(name, address). nl @ ''  '' @ name @ '': '' @ address)
       [(''RelayHub'', dpr_relayHubAddress d), (''Penalizer'', dpr_penalizerAddress d),
        (''VersionRegistry'', dpr_versionRegistryAddress d), (''SmartWalletTemplate'', dpr_smartWalletTemplateAddress d),
        (''SmartWalletFactory'', dpr_smartWalletFactoryAddress d), (''RelayVerifier'', dpr_relayVerifierAddress d),
        (''DeployVerifier'', dpr_deployVerifierAddress d), (''CustomSmartWalletTemplate'', dpr_customSmartWalletTemplateAddress d),
        (''CustomSmartWalletFactory'', dpr_customSmartWalletFactoryAddress d),
        (''CustomSmartWalletDeployVerifier'', dpr_customSmartWalletDeployVerifierAddress d @ '')''),
        (''CustomSmartWalletRelayVerifier'', dpr_customSmartWalletRelayVerifierAddress d)])]"

datatype enveloping_option = Option_n | Option_f | Option_h | Option_m | Option_g

record commander_option =
  co_flags :: string
  co_description :: string
  co_default :: "string option"

fun commanderOption :: "enveloping_option \<Rightarrow> commander_option" where
  "commanderOption Option_n = \<lparr>co_flags = ''-n, --network <url|name>'',
     co_description = ''network name or URL to an RSK node'', co_default = Some ''localhost''\<rparr>"
| "commanderOption Option_f = \<lparr>co_flags = ''-f, --from <address>'',
     co_description = ''account to send transactions from (default: the first account with balance)'', co_default = None\<rparr>"
| "commanderOption Option_h = \<lparr>co_flags = ''-h, --hub <address>'',
     co_description = ''address of the hub contract (default: the address from build/enveloping/RelayHub.json if exists)'', co_default = None\<rparr>"
| "commanderOption Option_m = \<lparr>co_flags = ''-m, --mnemonic <mnemonic>'',
     co_description = ''mnemonic file to generate private key for account '' @ [CHR 0x27] @ ''from'' @ [CHR 0x27] @ '' (default: empty)'', co_default = None\<rparr>"
| "commanderOption Option_g = \<lparr>co_flags = ''-g, --gasPrice <number>'',
     co_description = ''gas price to give to the transaction. Defaults to 1 gwei.'', co_default = Some ''1000000000''\<rparr>"

text \<open>The options are added to those commander has.\<close>

definition envelopingCommander :: "enveloping_option list \<Rightarrow> commander_option list \<Rightarrow> commander_option list" where
  "envelopingCommander options commander = commander @ map commanderOption options"

end
