(* ===== verification/DevProviders.thy ===== *)
theory DevProviders
  imports Provider
begin

text \<open>
  The wrappers of a provider in \<open>src/common/dev\<close>: \<open>NetworkSimulatingProvider.ts\<close>, which holds raw
  transactions back until they are mined by hand, and \<open>ProfilingProvider.ts\<close>, which counts requests.
  The wrapped provider is the parameter \<open>origin\<close>, its answer the arguments of the callback.
\<close>

section \<open>Simulating a slow network\<close>

record 'w simulating_state = "'w net" +
  np_isDelayTransactionsOn :: bool
  np_mempool :: "(string \<times> rpc_payload) list"

definition setDelayTransactions :: "bool \<Rightarrow> (('w, 'z) simulating_state_scheme, unit) js" where
  "setDelayTransactions delayTransactions = modify (\<lambda>s. s\<lparr>np_isDelayTransactionsOn := delayTransactions\<rparr>)"

text \<open>\<open>sha3\<close> of web3 gives \<open>null\<close> for what it cannot hash.\<close>

definition calculateTxHash :: "(rpc_param option \<Rightarrow> string option) \<Rightarrow> rpc_payload \<Rightarrow> exn + string" where
  "calculateTxHash sha3 payload =
     (case sha3 (case rp_params payload of [] \<Rightarrow> None | p # _ \<Rightarrow> Some p) of
        None \<Rightarrow> Inl (Error ''Failed to hash transaction'') | Some h \<Rightarrow> Inr h)"

definition castId :: "rpc_id option \<Rightarrow> number" where
  "castId i = (case i of Some (IdString t) \<Rightarrow> parseInt t | Some (IdNumber n) \<Rightarrow> n | None \<Rightarrow> num 0)"

definition np_send ::
  "(rpc_param option \<Rightarrow> string option) \<Rightarrow> (rpc_payload \<Rightarrow> ('w, rpc_callback) js) \<Rightarrow> rpc_payload \<Rightarrow>
   (('w, 'z) simulating_state_scheme, rpc_callback) js" where
  "np_send sha3 origin payload =
     bnd (gets np_isDelayTransactionsOn) (\<lambda>delayed.
       if rp_method payload = ''eth_sendRawTransaction'' \<and> delayed then
         bnd (of_result (calculateTxHash sha3 payload)) (\<lambda>txHash.
         andthen (modify (\<lambda>s. s\<lparr>np_mempool := AList.update txHash payload (np_mempool s)\<rparr>))
         (ret (None, Some \<lparr>rr_id = castId (rp_id payload), rr_result = Some (ResultString txHash)\<rparr>)))
       else io (origin payload))"

definition mineTransaction ::
  "(rpc_payload \<Rightarrow> ('w, rpc_callback) js) \<Rightarrow> string \<Rightarrow> (('w, 'z) simulating_state_scheme, rpc_response) js" where
  "mineTransaction origin txHash =
     bnd (gets (\<lambda>s. map_of (np_mempool s) txHash)) (\<lambda>txPayload.
     andthen (modify (\<lambda>s. s\<lparr>np_mempool := AList.delete txHash (np_mempool s)\<rparr>))
     (case txPayload of
        None \<Rightarrow> throw (Error ''Transaction is not in simulated mempool. It must be already mined'')
      | Some payload \<Rightarrow> bnd (io (origin payload)) (\<lambda>(error, result). case error of
          Some e \<Rightarrow> throw e
        | None \<Rightarrow> (case result of None \<Rightarrow> throw (Exn None) | Some r \<Rightarrow> ret r))))"

section \<open>Counting requests\<close>

record 'w profiling_state = "'w net" +
  pp_methodsCount :: "(string \<times> nat) list"
  pp_requestsCount :: nat

definition pp_send ::
  "(rpc_payload \<Rightarrow> ('w, rpc_callback) js) \<Rightarrow> rpc_payload \<Rightarrow> (('w, 'z) profiling_state_scheme, rpc_callback) js" where
  "pp_send origin payload =
     andthen (modify (\<lambda>s. s\<lparr>pp_requestsCount := pp_requestsCount s + 1\<rparr>))
     (bnd (gets (\<lambda>s. or_else (map_of (pp_methodsCount s) (rp_method payload)) 0)) (\<lambda>currentCount.
      andthen (modify (\<lambda>s. s\<lparr>pp_methodsCount := AList.update (rp_method payload) (currentCount + 1) (pp_methodsCount s)\<rparr>))
      (io (origin payload))))"

definition pp_reset :: "(('w, 'z) profiling_state_scheme, unit) js" where
  "pp_reset = modify (\<lambda>s. s\<lparr>pp_requestsCount := 0, pp_methodsCount := []\<rparr>)"

text \<open>\<open>log\<close> prints the methods by descending count.\<close>

definition pp_log :: "('w, 'z) profiling_state_scheme \<Rightarrow> (string \<times> nat) list" where
  "pp_log s = sort_key (\<lambda>(_, count). - int count) (pp_methodsCount s)"

end
