(* ===== verification/AppProperties.thy ===== *)
theory AppProperties
  imports Example CliTools DevProviders
begin

text \<open>
  Properties of what stands around the client: the provider, the discovery of smart wallets, the
  interface for programs that build requests themselves, the command line tools and the providers for
  development.
\<close>

section \<open>Helper facts\<close>

lemma receipt_loop_Inr:
  "receipt_loop N h n b s = (Inr r, t) \<Longrightarrow> returns (n_getTransactionReceipt N h) (Some r)"
proof (induction n arbitrary: b s)
  case (Suc n)
  from Suc.prems obtain x u where x: "io (n_getTransactionReceipt N h) s = (Inr x, u)"
    "(case x of Some receipt \<Rightarrow> ret receipt
      | None \<Rightarrow> andthen (io (n_sleep N (of_int b))) (receipt_loop N h n (b * 2))) u = (Inr r, t)"
    by (auto elim!: bnd_InrE)
  show ?case
  proof (cases x)
    case None
    then show ?thesis using x(2) Suc.IH by (auto elim!: andthen_InrE)
  next
    case (Some y)
    then show ?thesis using x io_returns [OF x(1)] by simp
  qed
qed simp

text \<open>The log of a relayed transaction says that the recipient reverted.\<close>

definition reverted_log :: "(raw_log list \<Rightarrow> exn + decoded_log option list) \<Rightarrow> receipt \<Rightarrow> bool" where
  "reverted_log decodeLogs r \<longleftrightarrow> (\<exists>raw logs l. rc_logs r = Some raw \<and> raw \<noteq> [] \<and> decodeLogs raw = Inr logs \<and>
     Some l \<in> set logs \<and> dl_name l = TransactionRejectedByRecipient)"

lemma find_event_None: "find_event name logs = None \<longleftrightarrow> (\<forall>l. Some l \<in> set logs \<longrightarrow> dl_name l \<noteq> name)"
  by (induction logs) (auto simp: find_event_def split: option.splits)

lemma getRelayStatus_reverted:
  assumes "getRelayStatus decodeLogs r = Inr status"
  shows "ry_relayRevertedOnRecipient status \<longleftrightarrow> reverted_log decodeLogs r"
proof (cases "or_else (rc_logs r) []")
  case Nil
  then show ?thesis using assms by (cases "rc_logs r") (auto simp: getRelayStatus_def reverted_log_def)
next
  case (Cons a raw)
  then have logs: "rc_logs r = Some (a # raw)" by (cases "rc_logs r") auto
  with assms obtain logs where d: "decodeLogs (a # raw) = Inr logs"
    by (cases "decodeLogs (a # raw)") (auto simp: getRelayStatus_def)
  have "ry_relayRevertedOnRecipient status \<longleftrightarrow> find_event TransactionRejectedByRecipient logs \<noteq> None"
    using assms logs d by (cases "find_event TransactionRejectedByRecipient logs") (auto simp: getRelayStatus_def split: if_splits)
  then show ?thesis using logs d by (auto simp: reverted_log_def find_event_None)
qed

lemma getRelayStatus_relayed:
  "getRelayStatus decodeLogs r = Inr status \<Longrightarrow> ry_transactionRelayed status \<Longrightarrow> \<not> ry_relayRevertedOnRecipient status"
  by (auto simp: getRelayStatus_def map_sum_Inr split: list.splits option.splits if_splits)

text \<open>A transaction that was relayed: the client returned it for the details \<open>d\<close>.\<close>

definition relayed :: "('w, 'k, 'q, 't) client \<Rightarrow> transaction_details \<Rightarrow> ('w, 'k, 'z) client_state_scheme \<Rightarrow> 't \<Rightarrow> bool" where
  "relayed C d s tx \<longleftrightarrow> (\<exists>r t. rc_relayTransaction C d s = (Inr (Result r), t) \<and> re_transaction r = Some tx)"

lemma answerReceipt_Inr:
  assumes "answerReceipt P payload d tx s = (Inr (Result (None, resp)), t)"
  obtains receipt where "returns (n_getTransactionReceipt (cl_node (pv_client P)) (t_hash (cl_txlib (pv_client P)) tx)) (Some receipt)"
    "answerSent P payload tx receipt = Result (None, resp)"
proof -
  obtain receipt u where "rc_getTransactionReceipt (pv_client P) (t_hash (cl_txlib (pv_client P)) tx) (td_retries d) (td_initialBackoff d) s
      = (Inr receipt, u)" "answerSent P payload tx receipt = Result (None, resp)"
    using assms by (auto simp: answerReceipt_def Let_def catching_run bnd_run rejectedRelay_def split: sum.splits prod.splits)
  then show thesis
    by (intro that) (auto simp: rc_getTransactionReceipt_def getTransactionReceipt_def dest: receipt_loop_Inr)
qed

lemma answerSent_success:
  assumes "answerSent P payload tx receipt = Result (None, Some resp)"
  shows "rr_result resp = Some (ResultString (t_hash (cl_txlib (pv_client P)) tx))"
    and "\<not> reverted_log (pv_decodeLogs P) receipt"
  using assms getRelayStatus_reverted [of "pv_decodeLogs P" receipt] getRelayStatus_relayed [of "pv_decodeLogs P" receipt]
  by (auto simp: answerSent_def Let_def convertTransactionToRpcSendResponse_def split: sum.splits if_splits)

lemma ethSendTransaction_success:
  fixes s :: "('w, 'k, 'z) client_state_scheme"
  assumes "ethSendTransaction P payload d0 s = (Inr (Result (None, Some resp)), t)"
  obtains d tx receipt where "sendDetails (cl_web3 (pv_client P)) (pv_config P) d0 = Inr d" "relayed (pv_client P) d s tx"
    "returns (n_getTransactionReceipt (cl_node (pv_client P)) (t_hash (cl_txlib (pv_client P)) tx)) (Some receipt)"
    "rr_result resp = Some (ResultString (t_hash (cl_txlib (pv_client P)) tx))" "\<not> reverted_log (pv_decodeLogs P) receipt"
proof -
  obtain d r u tx where d: "sendDetails (cl_web3 (pv_client P)) (pv_config P) d0 = Inr d"
    "rc_relayTransaction (pv_client P) d s = (Inr (Result r), u)" "re_transaction r = Some tx"
    "answerReceipt P payload d tx u = (Inr (Result (None, Some resp)), t)"
    using assms by (auto simp: ethSendTransaction_def Let_def bnd_run catching_run rejectedRelay_def
        split: sum.splits prod.splits settles.splits option.splits)
  then have "relayed (pv_client P) d s tx" by (auto simp: relayed_def)
  with d(1) answerReceipt_Inr [OF d(4)] answerSent_success show thesis using that by metis
qed

lemma catching_throw_Inr: "catching m (\<lambda>e. throw (h e)) s = (Inr y, t) \<Longrightarrow> m s = (Inr y, t)"
  by (auto simp: catching_run split: sum.splits prod.splits)

lemma relay_outcome_Inr:
  assumes "bnd m (\<lambda>x. case x of Never \<Rightarrow> ret Never | Spinning \<Rightarrow> ret Spinning
      | Result r \<Rightarrow> (case re_transaction r of Some tx \<Rightarrow> ret (Result (f tx)) | None \<Rightarrow> throw (g r))) s = (Inr (Result y), t)"
  shows "\<exists>r tx. m s = (Inr (Result r), t) \<and> re_transaction r = Some tx \<and> y = f tx"
  using assms by (auto elim!: bnd_InrE split: settles.splits option.splits)

lemma map_of_delete_all: "map_of (foldl (\<lambda>p k. AList.delete k p) o' ks) k = (if k \<in> set ks then None else map_of o' k)"
  by (induction ks arbitrary: o') (auto simp: delete_conv')

section \<open>The deployment of the provider\<close>

definition provider_ex :: "(unit, unit, unit, tx_args) provider" where
  "provider_ex = \<lparr>pv_client = client_ex, pv_config = client_config_ex,
     pv_origSend = (\<lambda>p. ret (None, Some \<lparr>rr_id = num 1, rr_result = Some (ResultOther (rp_method p))\<rparr>)),
     pv_decodeLogs = (\<lambda>_. Inr [])\<rparr>"

lemma provider_ex_simps [simp]:
  "pv_client provider_ex = client_ex" "pv_config provider_ex = client_config_ex"
  "pv_origSend provider_ex = (\<lambda>p. ret (None, Some \<lparr>rr_id = num 1, rr_result = Some (ResultOther (rp_method p))\<rparr>))"
  "pv_decodeLogs provider_ex = (\<lambda>_. Inr [])"
  by (simp_all add: provider_ex_def)

definition members_ex :: "(string \<times> rpc_value) list" where
  "members_ex = [(''from'', RString ''0xuser''), (''data'', RString ''0x''), (''to'', RString ''0xto''),
     (''gasPrice'', RString ''0x64''), (''relayHub'', RString ''0xhub''), (''callForwarder'', RString ''0xfactory''),
     (''isSmartWalletDeploy'', RBool True), (''forceGasPrice'', RString ''0x64'')]"

definition payload_ex :: rpc_payload where
  "payload_ex = \<lparr>rp_method = ''eth_sendTransaction'', rp_params = [ObjectParam members_ex], rp_id = Some (IdNumber (num 1))\<rparr>"

lemma details_of_ex: "details_of members_ex = details_ex"
  by (simp add: details_of_def members_ex_def details_ex_def str_member_def bool_member_def int_member_def text_member_def Let_def)

definition completed_ex :: transaction_details where
  "completed_ex = details_ex\<lparr>td_onlyPreferredRelays := Some False\<rparr>"

lemma completed_ex:
  "deployDetails client_config_ex details_ex = completed_ex"
  "sendDetails web3_ex client_config_ex details_ex = Inr completed_ex"
  by (simp_all add: deployDetails_def sendDetails_def completed_ex_def details_ex_def notSet_def ZERO_ADDRESS_def
      client_config_ex_def defaultEnvelopingConfig_def)

lemma relay_run_completed_ex:
  "\<exists>res t. rc_relayTransaction client_ex completed_ex client_state_ex = (Inr (Result res), t) \<and> re_transaction res = Some sent_ex"
  by (simp add: client_run_defs attempt_defs js_run Let_def completed_ex_def details_ex_def client_config_ex_def
      defaultEnvelopingConfig_def register_event_ex_def ZERO_ADDRESS_def toBN_ex_def encodeABI_ex_def sent_ex_def
      set_of_list_def set_add_def fromWorker_def numeral_3_eq_3)

section \<open>A discovery\<close>

text \<open>One key, whose first address is the only active one; the wallets have no activity.\<close>

definition discovery_ex :: "(unit, string) discovery" where
  "discovery_ex = \<lparr>dy_node = node_ex\<lparr>n_getBalance := (\<lambda>a _. ret (if a = ''0xa'' then ''1'' else ''0'')),
       n_getTransactionCount := (\<lambda>_ _. ret 0)\<rparr>,
     dy_web3 = web3_ex, dy_newWeb3 = ret (), dy_encodeBalanceOf = Inr, dy_tokenBalance = (\<lambda>_ _. ret None), dy_BN = toBN_ex,
     dy_creationBytecode = (\<lambda>_. ret ''0x60''), dy_keccak256 = id, dy_globalWeb3 = True, dy_tokens = [], dy_reconnectionAttempts = 4,
     dy_derivePath = (\<lambda>h p. h @ p), dy_deriveChild = (\<lambda>h i. h @ replicate i CHR ''1''), dy_addressString = id,
     dy_fromExtendedKey = Inr, dy_validateMnemonic = (\<lambda>_ _. True), dy_fromMnemonic = (\<lambda>m _. m)\<rparr>"

definition discovery_config_ex :: discovery_config where
  "discovery_config_ex = newDiscoveryConfig \<lparr>do_eoaGap = Some 0, do_sWalletGap = Some 0, do_searchBalance = None,
     do_searchNonce = None, do_searchTokenBalance = None, do_searchDeployEvents = None, do_isTestNet = None,
     do_factory = ''0xfactory'', do_isCustomWallet = False, do_mnemonicLanguage = None, do_recoverer = None,
     do_logic = None, do_logicParamsHash = None, do_reconnectionAttempts = None\<rparr>"

definition discovery_state_ex :: "unit discovery_state" where
  "discovery_state_ex = \<lparr>world = (), sd_accounts = []\<rparr>"

lemma discovery_config_ex_simps [simp]:
  "dc_eoaGap discovery_config_ex = 0" "dc_sWalletGap discovery_config_ex = 0" "dc_isCustomWallet discovery_config_ex = False"
  by (simp_all add: discovery_config_ex_def newDiscoveryConfig_def)

lemma io_ret [simp]: "io (ret x) s = (Inr x, s)"
  by (simp add: io_run)

lemma searchTrx_ex [simp]: "searchTrx discovery_ex a u = (Inr (a = ''0xa''), u)"
  by (simp add: searchTrx_def retried_def hasBalance_def hasNonce_def discovery_ex_def js_run toBN_ex_def search_tokens.simps)

lemma discovery_addresses_ex [simp]:
  "childAddress discovery_ex h = (\<lambda>i. h @ replicate i CHR ''1'')"
  "walletAddress discovery_ex discovery_config_ex X a = (\<lambda>i. ''0x'')"
  "dy_fromExtendedKey discovery_ex = Inr" "dy_creationBytecode discovery_ex a = ret ''0x60''"
  "n_getChainId (dy_node discovery_ex) = ret 33" "dy_keccak256 discovery_ex = id" "dy_globalWeb3 discovery_ex"
  by (simp_all add: discovery_ex_def childAddress_def walletAddress_def create2Address_def fun_eq_iff)

text \<open>
  The same with a hash that keeps what it is given, so that every wallet has its own address; the first wallet of
  the first address is active as well.
\<close>

definition wallets_ex :: "(unit, string) discovery" where
  "wallets_ex = discovery_ex\<lparr>dy_node := node_ex\<lparr>n_getBalance := (\<lambda>a _. ret (if a = ''0xa'' \<or> a = ''0x0xa:0'' then ''1'' else ''0'')),
       n_getTransactionCount := (\<lambda>_ _. ret 0)\<rparr>,
     dy_web3 := web3_ex\<lparr>w3_soliditySha3 := (\<lambda>args. case args of
         [SolAddress owner, SolAddress r, SolUint256 i] \<Rightarrow> Some (owner @ '':'' @ int_str i)
       | [SolBytes1 b, SolAddress factory, SolBytes32 salt, SolBytes32 h] \<Rightarrow> Some (replicate 26 CHR ''0'' @ salt)
       | _ \<Rightarrow> None), w3_toChecksumAddress := (\<lambda>a _. a)\<rparr>\<rparr>"

lemma wallets_search_ex: "searchTrx wallets_ex a u = (Inr (a = ''0xa'' \<or> a = ''0x0xa:0''), u)"
  by (simp add: searchTrx_def retried_def hasBalance_def hasNonce_def wallets_ex_def discovery_ex_def js_run toBN_ex_def search_tokens.simps)

lemma wallets_addresses_ex [simp]:
  "childAddress wallets_ex h = (\<lambda>i. h @ replicate i CHR ''1'')" "dy_fromExtendedKey wallets_ex = Inr"
  "dy_addressString wallets_ex = id" "dy_derivePath wallets_ex h p = h @ p" "getRootExtKeyFromMnemonic wallets_ex m w l = Inr m"
  "walletAddress wallets_ex discovery_config_ex X a = (\<lambda>i. ''0x'' @ a @ '':'' @ int_str (int i))"
  by (simp_all add: wallets_ex_def discovery_ex_def childAddress_def walletAddress_def create2Address_def walletSalt_def
      getRootExtKeyFromMnemonic_def fun_eq_iff)

section \<open>Properties\<close>

text \<open>
  C13. The provider reports a sent transaction as a success only with the hash of a transaction that the
  client relayed for the request's details, with the configured forwarder and hub where the request
  names none, whose receipt the node has given and does not say that the recipient reverted.
\<close>

theorem provider_success_is_relayed:
  fixes s :: "('w, 'k, 'z) client_state_scheme"
  assumes "pv_send P payload s = (Inr (Result (None, Some resp)), t)"
    and "useEnveloping payload" "rp_method payload = ''eth_sendTransaction''"
  shows "\<exists>o' rest d tx receipt. rp_params payload = ObjectParam o' # rest \<and> map_of o' ''to'' \<noteq> None \<and>
    sendDetails (cl_web3 (pv_client P)) (pv_config P) (details_of o') = Inr d \<and> relayed (pv_client P) d s tx \<and>
    rr_result resp = Some (ResultString (t_hash (cl_txlib (pv_client P)) tx)) \<and>
    returns (n_getTransactionReceipt (cl_node (pv_client P)) (t_hash (cl_txlib (pv_client P)) tx)) (Some receipt) \<and>
    \<not> reverted_log (pv_decodeLogs P) receipt"
proof -
  let ?members = "case rp_params payload of ObjectParam o' # _ \<Rightarrow> o' | _ \<Rightarrow> []"
  have run: "map_of ?members ''to'' \<noteq> None" "ethSendTransaction P payload (details_of ?members) s = (Inr (Result (None, Some resp)), t)"
    using assms by (auto simp: pv_send_def Let_def andthen_run split: if_splits sum.splits prod.splits)
  obtain o' rest where o': "rp_params payload = ObjectParam o' # rest"
    using run(1) by (auto split: list.splits rpc_param.splits)
  have to: "map_of o' ''to'' \<noteq> None" using run(1) o' by simp
  have "ethSendTransaction P payload (details_of o') s = (Inr (Result (None, Some resp)), t)" using run(2) o' by simp
  from ethSendTransaction_success [OF this] o' to show ?thesis by metis
qed

theorem provider_success_is_relayed_witness:
  "\<exists>d tx. sendDetails web3_ex client_config_ex (details_of members_ex) = Inr d \<and> relayed client_ex d client_state_ex tx"
proof -
  obtain res u where run: "rc_relayTransaction client_ex completed_ex client_state_ex = (Inr (Result res), u)"
    "re_transaction res = Some sent_ex" using relay_run_completed_ex by blast
  have "\<exists>resp t. pv_send provider_ex payload_ex client_state_ex = (Inr (Result (None, Some resp)), t)"
    using run by (simp add: pv_send_def ethSendTransaction_def Let_def js_run payload_ex_def details_of_ex completed_ex
        useEnveloping_def bool_member_def answerReceipt_def rc_getTransactionReceipt_def getTransactionReceipt_def
        answerSent_def getRelayStatus_def receipt_ex_def WAIT_FOR_RECEIPT_RETRIES_def)
      (simp add: members_ex_def completed_ex_def details_ex_def numeral_eq_Suc js_run receipt_ex_def)
  then obtain resp t where "pv_send provider_ex payload_ex client_state_ex = (Inr (Result (None, Some resp)), t)" by blast
  from provider_success_is_relayed [OF this] show ?thesis
    by (simp add: payload_ex_def useEnveloping_def bool_member_def members_ex_def) blast
qed

text \<open>
  C25. \<open>deploySmartWallet\<close> returns the hash of a transaction the client relayed for the given details,
  completed to a deployment through a hub, and only for details whose token payment can be estimated.
\<close>

theorem deployed_wallet_is_relayed:
  fixes s :: "('w, 'k, 'z) client_state_scheme"
  assumes "deploySmartWallet P d s = (Inr (Result hash), t)"
  shows "\<exists>tx. relayed (pv_client P) (deployDetails (pv_config P) d) s tx \<and> hash = t_hash (cl_txlib (pv_client P)) tx \<and>
    td_isSmartWalletDeploy (deployDetails (pv_config P) d) = Some True \<and>
    needsWalletAddress (cl_web3 (pv_client P)) (deployDetails (pv_config P) d) = Inr False"
proof -
  let ?d = "deployDetails (pv_config P) d" and ?C = "pv_client P"
  obtain n where n: "or_else (td_isSmartWalletDeploy d) True" "needsWalletAddress (cl_web3 ?C) ?d = Inr n" "\<not> n"
    and run: "catching (bnd (rc_relayTransaction ?C ?d) (\<lambda>relayingResult. case relayingResult of
            Never \<Rightarrow> ret Never
          | Spinning \<Rightarrow> ret Spinning
          | Result r \<Rightarrow> (case re_transaction r of
              Some tx \<Rightarrow> ret (Result (t_hash (cl_txlib ?C) tx))
            | None \<Rightarrow> throw (Error (failedToRelay (cl_web3 ?C) r)))))
         (\<lambda>e. throw (Error (''Rejected deploy wallet call - Reason: '' @ reasonStr (cl_web3 ?C) e))) s = (Inr (Result hash), t)"
    using assms unfolding deploySmartWallet_def Let_def
    by (auto elim!: bnd_InrE andthen_InrE split: if_splits)
  have "\<exists>r tx. rc_relayTransaction ?C ?d s = (Inr (Result r), t) \<and> re_transaction r = Some tx \<and> hash = t_hash (cl_txlib ?C) tx"
    by (rule relay_outcome_Inr [OF catching_throw_Inr [OF run]])
  then obtain r tx where "rc_relayTransaction ?C ?d s = (Inr (Result r), t)" "re_transaction r = Some tx"
    "hash = t_hash (cl_txlib ?C) tx" by (elim exE conjE)
  then have "relayed ?C ?d s tx \<and> hash = t_hash (cl_txlib ?C) tx" by (auto simp: relayed_def)
  moreover have "td_isSmartWalletDeploy ?d = Some True"
    using n(1) by (cases "td_isSmartWalletDeploy d") (auto simp: deployDetails_def)
  ultimately show ?thesis using n by (intro exI [of _ tx]) simp
qed

theorem deployed_wallet_is_relayed_witness:
  "\<exists>tx. relayed client_ex completed_ex client_state_ex tx \<and> ''0xhash'' = t_hash (cl_txlib client_ex) tx"
proof -
  obtain res u where run: "rc_relayTransaction client_ex completed_ex client_state_ex = (Inr (Result res), u)"
    "re_transaction res = Some sent_ex" using relay_run_completed_ex by blast
  then have "\<exists>t. deploySmartWallet provider_ex details_ex client_state_ex = (Inr (Result ''0xhash''), t)"
    by (simp add: deploySmartWallet_def Let_def js_run completed_ex needsWalletAddress_def)
      (simp add: completed_ex_def details_ex_def js_run)
  then obtain t where "deploySmartWallet provider_ex details_ex client_state_ex = (Inr (Result ''0xhash''), t)" by blast
  from deployed_wallet_is_relayed [OF this] show ?thesis by (simp add: completed_ex)
qed

text \<open>
  C26. A request that is not handled here reaches the original provider with the same method, identifier and other
  parameters. Of the members of its object exactly nine of the client's are removed, and the others are unchanged.
  Among those that stay are \<open>relayHub\<close>, \<open>tokenGas\<close>, \<open>recoverer\<close> and \<open>index\<close>, which are the client's as well.
\<close>

theorem forwarded_request_is_stripped:
  assumes "useEnveloping payload \<longrightarrow> rp_method payload \<notin> {''eth_sendTransaction'', ''eth_getTransactionReceipt'', ''eth_accounts''}"
  shows "\<exists>payload'. pv_send P payload s = bnd (io (pv_origSend P payload')) (\<lambda>r. ret (Result r)) s \<and>
    rp_method payload' = rp_method payload \<and> rp_id payload' = rp_id payload \<and>
    length (rp_params payload') = length (rp_params payload) \<and> tl (rp_params payload') = tl (rp_params payload) \<and>
    (\<forall>o' rest. rp_params payload = ObjectParam o' # rest \<longrightarrow> (\<exists>o2. rp_params payload' = ObjectParam o2 # rest \<and>
      (\<forall>k. map_of o2 k = (if k \<in> {''useEnveloping'', ''callVerifier'', ''callForwarder'', ''forceGas'', ''forceGasPrice'',
           ''isSmartWalletDeploy'', ''onlyPreferredRelays'', ''tokenAmount'', ''tokenContract''} then None else map_of o' k))))"
proof (intro exI conjI)
  let ?payload = "getPayloadForRSKProvider payload"
  have m: "k \<in> {''useEnveloping'', ''callVerifier'', ''callForwarder'', ''forceGas'', ''forceGasPrice'',
      ''isSmartWalletDeploy'', ''onlyPreferredRelays'', ''tokenAmount'', ''tokenContract''} \<longleftrightarrow> k \<in> set removedMembers" for k
    by (auto simp: removedMembers_def)
  show "pv_send P payload s = bnd (io (pv_origSend P ?payload)) (\<lambda>r. ret (Result r)) s"
    using assms by (auto simp: pv_send_def Let_def)
  show "\<forall>o' rest. rp_params payload = ObjectParam o' # rest \<longrightarrow> (\<exists>o2. rp_params ?payload = ObjectParam o2 # rest \<and>
      (\<forall>k. map_of o2 k = (if k \<in> {''useEnveloping'', ''callVerifier'', ''callForwarder'', ''forceGas'', ''forceGasPrice'',
           ''isSmartWalletDeploy'', ''onlyPreferredRelays'', ''tokenAmount'', ''tokenContract''} then None else map_of o' k)))"
    unfolding m by (auto simp: getPayloadForRSKProvider_def map_of_delete_all)
qed (auto simp: getPayloadForRSKProvider_def split: list.split rpc_param.split)

theorem forwarded_request_is_stripped_witness:
  "\<exists>payload'. pv_send provider_ex (payload_ex\<lparr>rp_method := ''eth_call''\<rparr>) client_state_ex =
      bnd (io (pv_origSend provider_ex payload')) (\<lambda>r. ret (Result r)) client_state_ex \<and> rp_method payload' = ''eth_call''"
proof -
  have m: "rp_method (payload_ex\<lparr>rp_method := ''eth_call''\<rparr>) = ''eth_call''" by simp
  then have "useEnveloping (payload_ex\<lparr>rp_method := ''eth_call''\<rparr>) \<longrightarrow> rp_method (payload_ex\<lparr>rp_method := ''eth_call''\<rparr>) \<notin>
    {''eth_sendTransaction'', ''eth_getTransactionReceipt'', ''eth_accounts''}" by simp
  from forwarded_request_is_stripped [OF this] show ?thesis unfolding m by blast
qed

text \<open>
  C15. The three discoveries end: from extended public keys, from a mnemonic and from a reader of keys. When nothing is
  active from some account on, and in no account an address or a wallet from some index on, for the wallet addresses that
  follow from what the node answers, then this number and the gap limits bound the rounds of their loops.
\<close>

theorem discovery_ends:
  fixes D :: "('w, 'h) discovery" and s :: "('w, 'z) discovery_state_scheme"
  assumes "\<And>a (u :: ('w, 'z) discovery_state_scheme) v. searchTrx D a u = (Inr True, v) \<Longrightarrow> act a"
    and "\<And>X u. walletContext D cfg s = (Inr X, u) \<Longrightarrow>
      accounts_quiet D cfg X act N (\<lambda>n addr. n < N \<and> (\<exists>key h. key \<in> set keys \<and> dy_fromExtendedKey D key = Inr h \<and> addr = childAddress D h)) \<and>
      accounts_quiet D cfg X act N (\<lambda>n addr. \<exists>h. getRootExtKeyFromMnemonic D mnemonic password (Some (dc_mnemonicLanguage cfg)) = Inr h \<and>
        addr = (\<lambda>i. dy_addressString D (dy_derivePath D h (keyPath cfg n i)))) \<and>
      accounts_quiet D cfg X act N (\<lambda>n addr. \<exists>key h. returns (or_else reader getAccountExtendedPublicKey n) (Some key) \<and>
        dy_fromExtendedKey D key = Inr h \<and> addr = childAddress D h)"
    and "N + nat (dc_sWalletGap cfg + 1) < F" "N + nat (dc_eoaGap cfg + 1) < F" "0 < N"
  shows "fst (discoverAccountsFromExtendedPublicKeys D cfg keys F s) \<noteq> Inr None \<and>
    fst (discoverAccountsFromMnemonic D cfg mnemonic password F s) \<noteq> Inr None \<and>
    fst (discoverAccounts D cfg reader F s) \<noteq> Inr None"
proof (cases "walletContext D cfg s")
  case (Pair r u)
  show ?thesis
  proof (cases r)
    case (Inl e)
    then show ?thesis using Pair
      by (auto simp: discoverAccountsFromExtendedPublicKeys_def discoverAccountsFromMnemonic_def discoverAccounts_def bnd_run
          split: sum.split)
  next
    case (Inr X)
    have F: "N - 0 < F" using assms(3) by simp
    note quiet = assms(2) [OF Pair [unfolded Inr]]
    have keys: "quiet_from N act (childAddress D h) (\<lambda>i. walletAddress D cfg X (childAddress D h i))"
      if "key \<in> set keys" "dy_fromExtendedKey D key = Inr h" for key h
      using quiet that assms(5) unfolding accounts_quiet_def by (metis (full_types))
    have "fst (extended_keys D cfg X F keys u) \<noteq> Inr None"
      by (rule extended_keys_end [where act = act and N = N]) (erule assms(1), erule (1) keys, fact assms(3), fact assms(4))
    moreover have "fst (mnemonic_accounts D cfg X h F F 0 u) \<noteq> Inr None"
      if "getRootExtKeyFromMnemonic D mnemonic password (Some (dc_mnemonicLanguage cfg)) = Inr h" for h
      by (rule mnemonic_accounts_end [OF _ _ assms(3,4) F, where act = act])
        (erule assms(1), use quiet that in simp)
    moreover have "fst (reader_accounts D cfg X (or_else reader getAccountExtendedPublicKey) F F 0 u) \<noteq> Inr None"
      by (rule reader_accounts_end [OF _ _ assms(3,4) F, where act = act])
        (erule assms(1), use quiet in simp)
    ultimately show ?thesis using Pair Inr
      by (auto simp: discoverAccountsFromExtendedPublicKeys_def discoverAccountsFromMnemonic_def discoverAccounts_def bnd_run
          split: sum.split)
  qed
qed

theorem discovery_ends_witness:
  "fst (discoverAccountsFromExtendedPublicKeys wallets_ex discovery_config_ex [''0xa''] 3 discovery_state_ex) \<noteq> Inr None \<and>
   fst (discoverAccountsFromMnemonic wallets_ex discovery_config_ex ''words'' None 3 discovery_state_ex) \<noteq> Inr None \<and>
   fst (discoverAccounts wallets_ex discovery_config_ex (Some (\<lambda>n. ret (if n = 0 then Some ''0xa'' else None))) 3 discovery_state_ex) \<noteq> Inr None"
proof (rule discovery_ends [where act = "\<lambda>a. a = ''0xa'' \<or> a = ''0x0xa:0''" and N = 1])
  have zero: "int_str (int j) \<noteq> ''0''" if "1 \<le> j" for j
  proof
    assume "int_str (int j) = ''0''"
    then have "parse_int 0 (int_str (int j)) = parse_int 0 (int_str 0)" by simp
    then show False using that unfolding parse_int_int_str by simp
  qed
  have key: "quiet_from 1 (\<lambda>a. a = ''0xa'' \<or> a = ''0x0xa:0'') (\<lambda>i. ''0xa'' @ replicate i CHR ''1'')
      (\<lambda>i j. ''0x'' @ (''0xa'' @ replicate i CHR ''1'') @ '':'' @ int_str (int j))"
  proof -
    have "i = 0 \<and> xs = ''0''" if "replicate i CHR ''1'' @ CHR '':'' # xs = '':0''" for i xs using that by (cases i) auto
    then show ?thesis using zero unfolding quiet_from_def by (cases "0 :: nat") fastforce+
  qed
  have words: "quiet_from n (\<lambda>a. a = ''0xa'' \<or> a = ''0x0xa:0'') (\<lambda>i. ''words'' @ p i) (\<lambda>i j. ''0x'' @ (''words'' @ p i) @ q j)" for n p q
    by (simp add: quiet_from_def)
  show "accounts_quiet wallets_ex discovery_config_ex X (\<lambda>a. a = ''0xa'' \<or> a = ''0x0xa:0'') 1
        (\<lambda>n addr. n < 1 \<and> (\<exists>key h. key \<in> set [''0xa''] \<and> dy_fromExtendedKey wallets_ex key = Inr h \<and> addr = childAddress wallets_ex h)) \<and>
      accounts_quiet wallets_ex discovery_config_ex X (\<lambda>a. a = ''0xa'' \<or> a = ''0x0xa:0'') 1
        (\<lambda>n addr. \<exists>h. getRootExtKeyFromMnemonic wallets_ex ''words'' None (Some (dc_mnemonicLanguage discovery_config_ex)) = Inr h \<and>
        addr = (\<lambda>i. dy_addressString wallets_ex (dy_derivePath wallets_ex h (keyPath discovery_config_ex n i)))) \<and>
      accounts_quiet wallets_ex discovery_config_ex X (\<lambda>a. a = ''0xa'' \<or> a = ''0x0xa:0'') 1
        (\<lambda>n addr. \<exists>key h. returns (or_else (Some (\<lambda>n. ret (if n = 0 then Some ''0xa'' else None))) getAccountExtendedPublicKey n) (Some key) \<and>
        dy_fromExtendedKey wallets_ex key = Inr h \<and> addr = childAddress wallets_ex h)" for X
    using key words unfolding accounts_quiet_def by (auto simp: returns_def split: if_splits)
qed (auto simp: wallets_search_ex)

text \<open>
  C14. While the activity of addresses does not change, the discovery of one extended key finds exactly the
  active accounts before the first gap, each with exactly its active wallets before their first gap.
\<close>

theorem discovery_finds_active_accounts:
  fixes D :: "('w, 'h) discovery" and s :: "('w, 'z) discovery_state_scheme"
  assumes det: "\<And>a (u :: ('w, 'z) discovery_state_scheme) r v. searchTrx D a u = (Inr r, v) \<Longrightarrow> r = act a"
    and key: "dy_fromExtendedKey D key = Inr h" "\<And>i. childAddress D h i \<noteq> ZERO_ADDRESS"
    and run: "discoverAccountsFromExtendedPublicKeys D cfg [key] F s = (Inr (Some ()), t)"
  shows "\<exists>X. let addr = childAddress D h; wallet = (\<lambda>i. walletAddress D cfg X (addr i));
      active = account_active act (dc_sWalletGap cfg) addr wallet; gap = nat (dc_eoaGap cfg + 1) in
    (\<exists>k. gap_at active gap k) \<and>
    sd_accounts t = sd_accounts s @ map (account_at act (dc_sWalletGap cfg) addr wallet) (active_before active gap)"
proof -
  obtain X u c where X: "walletContext D cfg s = (Inr X, u)"
    "scan_addresses D cfg X (childAddress D h) F F 0 0 (0, 0) u = (Inr (Some c), t)"
    using run key(1) by (auto simp: discoverAccountsFromExtendedPublicKeys_def elim!: bnd_InrE split: option.splits)
  have "sd_accounts u = sd_accounts s"
    using X(1) by (auto simp: walletContext_def js_run split: sum.splits)
  moreover let ?wallet = "\<lambda>i. walletAddress D cfg X (childAddress D h i)"
  let ?active = "account_active act (dc_sWalletGap cfg) (childAddress D h) ?wallet" and ?G = "nat (dc_eoaGap cfg + 1)"
  have "\<exists>k\<ge>0. first_gap ?active ?G k \<and> sd_accounts t = sd_accounts u @
      map (account_at act (dc_sWalletGap cfg) (childAddress D h) ?wallet) (filter ?active [0..<k])"
    by (rule scan_addresses_found [OF _ key(2) X(2) gap_state_0]) (erule det)
  then obtain k where "first_gap ?active ?G k"
    "sd_accounts t = sd_accounts u @ map (account_at act (dc_sWalletGap cfg) (childAddress D h) ?wallet) (filter ?active [0..<k])"
    by blast
  ultimately show ?thesis
    using first_gap_Least [of ?active ?G k]
    by (intro exI [of _ X]) (auto simp: Let_def active_before_def first_gap_def)
qed

theorem discovery_finds_active_accounts_witness:
  "\<exists>k. gap_at (account_active (\<lambda>a. a = ''0xa'') 0 (\<lambda>i. ''0xa'' @ replicate i CHR ''1'') (\<lambda>_ _. ''0x'')) 1 k"
proof -
  have "\<exists>t. discoverAccountsFromExtendedPublicKeys discovery_ex discovery_config_ex [''0xa''] 3 discovery_state_ex = (Inr (Some ()), t)"
    by (simp add: discoverAccountsFromExtendedPublicKeys_def walletContext_def js_run numeral_3_eq_3 pushAccount_def Let_def
        ZERO_ADDRESS_def)
  then obtain t where "discoverAccountsFromExtendedPublicKeys discovery_ex discovery_config_ex [''0xa''] 3 discovery_state_ex
    = (Inr (Some ()), t)" by blast
  then show ?thesis
    using discovery_finds_active_accounts [of discovery_ex "\<lambda>a. a = ''0xa''" "''0xa''" "''0xa''" discovery_config_ex 3 discovery_state_ex t]
    by (auto simp: Let_def ZERO_ADDRESS_def)
qed

end
