(* ===== verification/ToolProperties.thy ===== *)
theory ToolProperties
  imports AppProperties
begin

text \<open>
  Properties of the interface for programs that build requests themselves, the command line tools and the
  providers for development, with a deployment whose world is a clock.
\<close>

section \<open>Helper facts\<close>

lemma getPing_clock:
  "clock w \<le> clock (snd (h_get H (url @ ''/getaddr'') w)) \<Longrightarrow> world s = w \<Longrightarrow> clock w \<le> clock (world (snd (getPingResponse H url None s)))"
  by (auto simp: getPingResponse_def Let_def bnd_run io_run split: sum.split option.split)

lemma catching_ret: "\<exists>b t. catching m (\<lambda>_. ret v) s = (Inr b, t)"
  by (cases "m s"; cases "fst (m s)") (auto simp: catching_run)

text \<open>The clock does not go back, and a pause of three seconds takes at least as long.\<close>

definition clock_laws :: "'w node \<Rightarrow> 'w http \<Rightarrow> ('w \<Rightarrow> int) \<Rightarrow> bool" where
  "clock_laws N H clock \<longleftrightarrow>
     (\<forall>w. fst (n_now N w) = Inr (clock w) \<and> clock w \<le> clock (snd (n_now N w))) \<and>
     (\<forall>w. clock w + 3000 \<le> clock (snd (n_sleep N 3000 w))) \<and>
     (\<forall>w url. clock w \<le> clock (snd (h_get H url w)))"

text \<open>
  Reading the clock takes at most \<open>P\<close>, and so does a ping; a pause of three seconds lasts at most \<open>P\<close> longer.
\<close>

definition clock_lags :: "'w node \<Rightarrow> 'w http \<Rightarrow> ('w \<Rightarrow> int) \<Rightarrow> int \<Rightarrow> bool" where
  "clock_lags N H clock P \<longleftrightarrow> 0 \<le> P \<and>
     (\<forall>w. clock (snd (n_now N w)) \<le> clock w + P) \<and>
     (\<forall>w. clock (snd (n_sleep N 3000 w)) \<le> clock w + 3000 + P) \<and>
     (\<forall>w url. clock (snd (h_get H url w)) \<le> clock w + P)"

lemma ready_lag:
  assumes "clock_lags (cm_node M) (cm_http M) clock P"
  shows "clock (world (snd (catching (isRelayReady M url) (\<lambda>_. ret False) s))) \<le> clock (world s) + P"
proof -
  have "clock (snd (h_get (cm_http M) (url @ ''/getaddr'') (world s))) \<le> clock (world s) + P" using assms by (simp add: clock_lags_def)
  then show ?thesis
    by (auto simp: isRelayReady_def getPingResponse_def Let_def catching_run bnd_run io_run split: sum.split prod.split option.split)
qed

lemma wait_rounds_bound:
  assumes lag: "clock_lags (cm_node M) (cm_http M) clock P" and laws: "clock_laws (cm_node M) (cm_http M) clock"
    and "e \<le> B" "clock (world s) \<le> B + 3000 + 3 * P"
  shows "clock (world (snd (wait_rounds M url timeout e n s))) \<le> B + 3000 + 4 * P"
  using assms(4)
proof (induction n arbitrary: s)
  case 0
  then show ?case using lag by (simp add: clock_lags_def)
next
  case (Suc n)
  let ?N = "cm_node M"
  let ?s1 = "s\<lparr>world := snd (n_now ?N (world s))\<rparr>"
  have P: "0 \<le> P" using lag by (simp add: clock_lags_def)
  have now: "io (n_now ?N) s = (Inr (clock (world s)), ?s1)" using laws by (simp add: io_run clock_laws_def)
  have c1: "clock (world ?s1) \<le> clock (world s) + P" using lag by (simp add: clock_lags_def)
  show ?case
  proof (cases "clock (world s) < e")
    case False
    then show ?thesis using now c1 Suc.prems by (simp add: bnd_run)
  next
    case True
    obtain b s2 where b: "catching (isRelayReady M url) (\<lambda>_. ret False) ?s1 = (Inr b, s2)"
      using catching_ret [of "isRelayReady M url" False ?s1] by blast
    have c2: "clock (world s2) \<le> B + 2 * P" using ready_lag [OF lag, of url ?s1] b c1 True assms(3) by simp
    let ?s3 = "s2\<lparr>world := snd (n_sleep ?N 3000 (world s2))\<rparr>"
    have c3: "clock (world ?s3) \<le> clock (world s2) + 3000 + P" using lag by (simp add: clock_lags_def)
    have "clock (world (snd (wait_rounds M url timeout e n ?s3))) \<le> B + 3000 + 4 * P" using c2 c3 by (intro Suc.IH) simp
    then show ?thesis using True now b c2 c3 P by (auto simp: bnd_run andthen_run io_run split: sum.split)
  qed
qed

lemma ready_clock:
  assumes "clock_laws (cm_node M) (cm_http M) clock"
  shows "clock (world s) \<le> clock (world (snd (catching (isRelayReady M url) (\<lambda>_. ret False) s)))"
  using assms getPing_clock [of clock "world s" "cm_http M" url s]
  by (auto simp: clock_laws_def isRelayReady_def catching_run bnd_run split: sum.split prod.split)

lemma wait_rounds_end:
  assumes "clock_laws (cm_node M) (cm_http M) clock" "0 < n" "e - clock (world s) \<le> 3000 * (int n - 1)"
  shows "fst (wait_rounds M url timeout e n s) \<noteq> Inr None"
  using assms(2,3)
proof (induction n arbitrary: s)
  case (Suc n)
  let ?N = "cm_node M"
  have now: "io (n_now ?N) s = (Inr (clock (world s)), s\<lparr>world := snd (n_now ?N (world s))\<rparr>)"
    using assms(1) by (simp add: io_run clock_laws_def)
  let ?s1 = "s\<lparr>world := snd (n_now ?N (world s))\<rparr>"
  have c1: "clock (world s) \<le> clock (world ?s1)" using assms(1) by (simp add: clock_laws_def)
  show ?case
  proof (cases "clock (world s) < e")
    case False
    then show ?thesis using now by (simp add: bnd_run)
  next
    case True
    obtain b s2 where b: "catching (isRelayReady M url) (\<lambda>_. ret False) ?s1 = (Inr b, s2)"
      using catching_ret [of "isRelayReady M url" False ?s1] by blast
    have c2: "clock (world ?s1) \<le> clock (world s2)" using ready_clock [OF assms(1), of ?s1 url] b by simp
    let ?s3 = "s2\<lparr>world := snd (n_sleep ?N 3000 (world s2))\<rparr>"
    have "clock (world s2) + 3000 \<le> clock (world ?s3)" using assms(1) by (simp add: clock_laws_def)
    then have "fst (wait_rounds M url timeout e n ?s3) \<noteq> Inr None"
      using Suc.prems True c1 c2 by (intro Suc.IH) auto
    then show ?thesis using True now b by (simp add: bnd_run andthen_run io_run split: sum.split)
  qed
qed simp

lemma wait_rounds_ready:
  "wait_rounds M url timeout e n s = (Inr (Some ()), t) \<Longrightarrow> \<exists>p. returns (h_get (cm_http M) (url @ ''/getaddr'')) (Some p) \<and> pr_ready p"
proof (induction n arbitrary: s)
  case (Suc n)
  then obtain now s1 b s2 where r: "io (n_now (cm_node M)) s = (Inr now, s1)" "now < e"
    "catching (isRelayReady M url) (\<lambda>_. ret False) s1 = (Inr b, s2)"
    "(if b then ret (Some ()) else andthen (io (n_sleep (cm_node M) 3000)) (wait_rounds M url timeout e n)) s2 = (Inr (Some ()), t)"
    by (auto elim!: bnd_InrE split: if_splits)
  show ?case
  proof (cases b)
    case True
    then obtain p u where "getPingResponse (cm_http M) url None s1 = (Inr p, u)" "pr_ready p"
      using r(3) by (auto simp: isRelayReady_def catching_run elim!: bnd_InrE split: sum.splits prod.splits)
    then show ?thesis using getPingResponse_Inr by fastforce
  next
    case False
    then show ?thesis using r(4) Suc.IH by (auto elim!: andthen_InrE)
  qed
qed simp

lemma io_Inr: "io m s = (Inr x, t) \<Longrightarrow> returns m x \<and> t = s\<lparr>world := world t\<rparr>"
  by (auto simp: io_run returns_def) (metis prod.collapse)

lemma catching_throw: "catching m (\<lambda>_. throw e) s = (Inr x, t) \<Longrightarrow> m s = (Inr x, t)"
  by (auto simp: catching_run split: sum.splits prod.splits)

lemma fundRelay_Inr: "fundRelay M opts a s = (Inr (Some f), t) \<Longrightarrow> \<not> rgr_success f"
  by (auto simp: fundRelay_def elim!: bnd_InrE andthen_InrE split: if_splits prod.splits option.splits)

text \<open>What holds when a registration has succeeded.\<close>

definition other_owner :: "stake_info \<Rightarrow> string \<Rightarrow> bool" where
  "other_owner info a \<longleftrightarrow> si_owner info \<noteq> ZERO_ADDRESS \<and> \<not> isSameAddress (si_owner info) a"

definition relay_ready :: "'w http \<Rightarrow> string \<Rightarrow> bool" where
  "relay_ready H url \<longleftrightarrow> (\<exists>p. returns (h_get H (url @ ''/getaddr'')) (Some p) \<and> pr_ready p)"

text \<open>
  What is sent to get a relay staked and funded: the stake that is missing, unless stake and delay suffice, and
  the funds, unless the relay has more. The hashes are those the node has given.
\<close>

definition stake_sent :: "'w commands \<Rightarrow> register_options \<Rightarrow> string \<Rightarrow> string \<Rightarrow> stake_info \<Rightarrow> string list \<Rightarrow> bool" where
  "stake_sent M options hub relayAddress info hashes \<longleftrightarrow> (\<exists>delay wantedDelay stake wantedStake.
     w3_toBN (cm_web3 M) (si_unstakeDelay info) = Inr delay \<and> w3_toBN (cm_web3 M) (rgo_unstakeDelay options) = Inr wantedDelay \<and>
     w3_toBN (cm_web3 M) (si_stake info) = Inr stake \<and> w3_toBN (cm_web3 M) (rgo_stake options) = Inr wantedStake \<and>
     (if wantedDelay \<le> delay \<and> wantedStake \<le> stake then hashes = []
      else \<exists>h. hashes = [h] \<and> returns (cm_stakeForAddress M hub relayAddress (rgo_unstakeDelay options) (wantedStake - stake)
        (rgo_from options) (rgo_gasPrice options)) h))"

definition fund_sent :: "'w commands \<Rightarrow> register_options \<Rightarrow> string \<Rightarrow> string list \<Rightarrow> bool" where
  "fund_sent M options relayAddress hashes \<longleftrightarrow> (\<exists>b bal funds.
     returns (n_getBalance (cm_node M) relayAddress ''latest'') b \<and> w3_toBN (cm_web3 M) b = Inr bal \<and>
     w3_toBN (cm_web3 M) (rgo_funds options) = Inr funds \<and>
     (if funds < bal then hashes = []
      else \<exists>h json. hashes = [h] \<and>
        returns (cm_fund M (rgo_from options) relayAddress (rgo_funds options) (rgo_gasPrice options)) (Some h, json)))"

lemma stakeRelay_sent:
  assumes "stakeRelay M opts hub a info s = (Inr u, t)"
  shows "\<exists>hs. cs_transactions t = cs_transactions s @ hs \<and> stake_sent M opts hub a info hs"
proof -
  obtain delay wantedDelay stake wantedStake where b: "w3_toBN (cm_web3 M) (si_unstakeDelay info) = Inr delay"
    "w3_toBN (cm_web3 M) (rgo_unstakeDelay opts) = Inr wantedDelay"
    "w3_toBN (cm_web3 M) (si_stake info) = Inr stake" "w3_toBN (cm_web3 M) (rgo_stake opts) = Inr wantedStake"
    and run: "(if wantedDelay \<le> delay \<and> wantedStake \<le> stake then ret ()
       else bnd (io (cm_stakeForAddress M hub a (rgo_unstakeDelay opts) (wantedStake - stake)
           (rgo_from opts) (rgo_gasPrice opts))) pushTransaction) s = (Inr u, t)"
    using assms unfolding stakeRelay_def by (elim bnd_InrE) (auto dest!: of_result_InrD simp del: of_result_run)
  show ?thesis
  proof (cases "wantedDelay \<le> delay \<and> wantedStake \<le> stake")
    case True
    then show ?thesis using run b by (intro exI [of _ "[]"]) (simp add: stake_sent_def)
  next
    case False
    then obtain h s1 where h: "io (cm_stakeForAddress M hub a (rgo_unstakeDelay opts) (wantedStake - stake)
        (rgo_from opts) (rgo_gasPrice opts)) s = (Inr h, s1)" "pushTransaction h s1 = (Inr u, t)"
      using run by (auto elim!: bnd_InrE)
    have "cs_transactions t = cs_transactions s1 @ [h]" using h(2) by (auto simp: pushTransaction_def)
    moreover have "cs_transactions s1 = cs_transactions s" using h(1) by (auto simp: io_run)
    ultimately show ?thesis using io_returns [OF h(1)] False b by (intro exI [of _ "[h]"]) (auto simp: stake_sent_def)
  qed
qed

lemma fundRelay_sent:
  assumes "fundRelay M opts a s = (Inr None, t)"
  shows "\<exists>hs. cs_transactions t = cs_transactions s @ hs \<and> fund_sent M opts a hs"
proof -
  obtain b s1 bal funds where b: "io (n_getBalance (cm_node M) a ''latest'') s = (Inr b, s1)"
    "w3_toBN (cm_web3 M) b = Inr bal" "w3_toBN (cm_web3 M) (rgo_funds opts) = Inr funds"
    and run: "(if funds < bal then ret None
       else bnd (io (cm_fund M (rgo_from opts) a (rgo_funds opts) (rgo_gasPrice opts)))
         (\<lambda>(transactionHash, json). case transactionHash of
            None \<Rightarrow> ret (Some \<lparr>rgr_success = False, rgr_transactions = None, rgr_error = Some (''Fund transaction reverted: '' @ json)\<rparr>)
          | Some h \<Rightarrow> andthen (pushTransaction h) (ret None))) s1 = (Inr None, t)"
    using assms unfolding fundRelay_def getBalance_def by (elim bnd_InrE) (auto dest!: of_result_InrD simp del: of_result_run)
  have s1: "cs_transactions s1 = cs_transactions s" using b(1) by (auto simp: io_run)
  show ?thesis
  proof (cases "funds < bal")
    case True
    then show ?thesis using run b s1 io_returns [OF b(1)] by (intro exI [of _ "[]"]) (auto simp: fund_sent_def)
  next
    case False
    then obtain h json s2 u where h: "io (cm_fund M (rgo_from opts) a (rgo_funds opts) (rgo_gasPrice opts)) s1 = (Inr (Some h, json), s2)"
      "pushTransaction h s2 = (Inr u, t)"
      using run by (auto elim!: bnd_InrE andthen_InrE split: option.splits)
    have "cs_transactions t = cs_transactions s2 @ [h]" using h(2) by (auto simp: pushTransaction_def)
    moreover have "cs_transactions s2 = cs_transactions s1" using h(1) by (auto simp: io_run)
    ultimately show ?thesis using io_returns [OF h(1)] io_returns [OF b(1)] False b s1
      by (intro exI [of _ "[h]"]) (auto simp: fund_sent_def)
  qed
qed

text \<open>Nothing else of a registration changes the list of what was sent.\<close>

definition sent_kept :: "('w, 'z) commands_state_scheme \<Rightarrow> ('w, 'z) commands_state_scheme \<Rightarrow> bool" where
  "sent_kept s t \<longleftrightarrow> cs_transactions t = cs_transactions s"

interpretation sent_kept: step_relation sent_kept
  by unfold_locales (auto simp: sent_kept_def)

lemma along_sent_io: "along sent_kept (io m)"
  by (rule along_io) (simp add: sent_kept_def)

lemma along_sent_wait: "along sent_kept (waitForRelay M url timeout F)"
proof -
  have "along sent_kept (wait_rounds M url timeout e n)" for e n
  proof (induction n)
    case 0
    show ?case unfolding wait_rounds.simps by (rule sent_kept.along_ret)
  next
    case (Suc n)
    then show ?case unfolding wait_rounds.simps isRelayReady_def getPingResponse_def Let_def
      by (intro sent_kept.along_rules along_sent_io)
  qed
  then show ?thesis unfolding waitForRelay_def by (intro sent_kept.along_rules along_sent_io)
qed

lemma along_sent_ping: "along sent_kept (getPingResponse H url v)"
  unfolding getPingResponse_def Let_def by (intro sent_kept.along_rules along_sent_io)

lemma along_sent_init: "along sent_kept (ci_init N W cfg)"
  unfolding ci_init_def initializeContracts_def createContract_def validateCompatibility_def validateVersion_def
    relayHubInstance_def instance_of_def
  by (intro sent_kept.along_rules along_sent_io sent_kept.along_modify) (auto simp: sent_kept_def)

lemma stakeAndFund_success:
  assumes "stakeAndFund M opts hub a F s = (Inr (Some r), t)" "rgr_success r"
  shows "(\<exists>info stakes funds. returns (n_getStakeInfo (cm_node M) hub a) info \<and> \<not> other_owner info (rgo_from opts) \<and>
      rgr_transactions r = Some (cs_transactions s @ stakes @ funds) \<and>
      stake_sent M opts hub a info stakes \<and> fund_sent M opts a funds) \<and> relay_ready (cm_http M) (rgo_relayUrl opts)"
proof -
  obtain h s1 info s2 u s3 failure s4 where h: "createContract (cm_node M) ''IRelayHub'' hub s = (Inr h, s1)"
    and info: "io (n_getStakeInfo (cm_node M) h a) s1 = (Inr info, s2)" "\<not> other_owner info (rgo_from opts)"
    and stake: "stakeRelay M opts h a info s2 = (Inr u, s3)"
    and fund: "fundRelay M opts a s3 = (Inr failure, s4)"
    and rest: "(case failure of Some f \<Rightarrow> ret (Some f)
      | None \<Rightarrow> bnd_rounds (waitForRelay M (rgo_relayUrl opts) 60 F) (\<lambda>_.
          bnd (gets cs_transactions) (\<lambda>transactions.
          ret (Some \<lparr>rgr_success = True, rgr_transactions = Some transactions, rgr_error = None\<rparr>)))) s4 = (Inr (Some r), t)"
    using assms(1) unfolding stakeAndFund_def other_owner_def
    by (elim bnd_InrE andthen_InrE) (drule throw_if_InrD, fastforce)
  have hub: "h = hub" and t1: "cs_transactions s1 = cs_transactions s"
    using h by (auto simp: createContract_def io_run elim!: andthen_InrE)
  have t2: "cs_transactions s2 = cs_transactions s1" using info(1) by (auto simp: io_run)
  have owner: "returns (n_getStakeInfo (cm_node M) hub a) info" using io_Inr [OF info(1)] hub by simp
  obtain stakes where stakes: "cs_transactions s3 = cs_transactions s2 @ stakes" "stake_sent M opts hub a info stakes"
    using stakeRelay_sent [OF stake] hub by blast
  have none: "failure = None" using fundRelay_Inr [of M opts a s3] fund rest assms(2) by (cases failure) auto
  obtain funds where funds: "cs_transactions s4 = cs_transactions s3 @ funds" "fund_sent M opts a funds"
    using fundRelay_sent fund none by blast
  obtain w s5 where w: "waitForRelay M (rgo_relayUrl opts) 60 F s4 = (Inr (Some w), s5)" "t = s5"
    "rgr_transactions r = Some (cs_transactions s5)"
    using rest none by (auto simp: bnd_rounds_def elim!: bnd_InrE split: option.splits)
  then have "relay_ready (cm_http M) (rgo_relayUrl opts)"
    using wait_rounds_ready unfolding waitForRelay_def relay_ready_def by (auto elim!: bnd_InrE)
  moreover have "cs_transactions s5 = cs_transactions s4"
    using alongD [OF along_sent_wait, of s4 M "rgo_relayUrl opts" 60 F] w(1) by (simp add: sent_kept_def)
  ultimately show ?thesis using owner info(2) w(3) stakes funds t1 t2 by auto
qed

text \<open>Initialization keeps the tools' configuration; what follows it keeps the chain's identifier.\<close>

definition config_kept :: "('w, 'z) commands_state_scheme \<Rightarrow> ('w, 'z) commands_state_scheme \<Rightarrow> bool" where
  "config_kept s t \<longleftrightarrow> cs_config t = cs_config s"

definition chain_kept :: "('w, 'z) commands_state_scheme \<Rightarrow> ('w, 'z) commands_state_scheme \<Rightarrow> bool" where
  "chain_kept s t \<longleftrightarrow> ci_chainId t = ci_chainId s"

interpretation config_kept: step_relation config_kept
  by unfold_locales (auto simp: config_kept_def)

interpretation chain_kept: step_relation chain_kept
  by unfold_locales (auto simp: chain_kept_def)

lemma along_config_io: "along config_kept (io m)"
  by (rule along_io) (simp add: config_kept_def)

lemma along_chain_io: "along chain_kept (io m)"
  by (rule along_io) (simp add: chain_kept_def)

lemma along_config_init: "along config_kept (ci_init N W cfg)"
  unfolding ci_init_def initializeContracts_def createContract_def validateCompatibility_def validateVersion_def
    relayHubInstance_def instance_of_def
  by (intro config_kept.along_rules along_config_io config_kept.along_modify) (auto simp: config_kept_def)

lemma along_config_ping: "along config_kept (getPingResponse H url v)"
  unfolding getPingResponse_def Let_def by (intro config_kept.along_rules along_config_io)

lemma along_chain_wait: "along chain_kept (wait_rounds M url timeout e n)"
proof (induction n)
  case 0
  show ?case unfolding wait_rounds.simps by (rule chain_kept.along_ret)
next
  case (Suc n)
  then show ?case unfolding wait_rounds.simps isRelayReady_def getPingResponse_def Let_def
    by (intro chain_kept.along_rules along_chain_io)
qed

lemma along_chain_stakeAndFund: "along chain_kept (stakeAndFund M opts hub a F)"
  unfolding stakeAndFund_def stakeRelay_def fundRelay_def createContract_def getBalance_def pushTransaction_def
    bnd_rounds_def waitForRelay_def
  by (intro chain_kept.along_rules along_chain_io along_chain_wait chain_kept.along_modify)
    (auto simp: chain_kept_def split: prod.split option.split
      intro!: chain_kept.along_rules chain_kept.along_modify)

section \<open>Deployments\<close>






text \<open>The deployment as it is read back: every address is there.\<close>

definition loaded :: "string deployment_result \<Rightarrow> string option deployment_result" where
  "loaded d = \<lparr>dpr_relayHubAddress = Some (dpr_relayHubAddress d), dpr_penalizerAddress = Some (dpr_penalizerAddress d),
     dpr_smartWalletTemplateAddress = Some (dpr_smartWalletTemplateAddress d),
     dpr_smartWalletFactoryAddress = Some (dpr_smartWalletFactoryAddress d),
     dpr_versionRegistryAddress = Some (dpr_versionRegistryAddress d),
     dpr_relayVerifierAddress = Some (dpr_relayVerifierAddress d),
     dpr_deployVerifierAddress = Some (dpr_deployVerifierAddress d),
     dpr_customSmartWalletTemplateAddress = Some (dpr_customSmartWalletTemplateAddress d),
     dpr_customSmartWalletFactoryAddress = Some (dpr_customSmartWalletFactoryAddress d),
     dpr_customSmartWalletDeployVerifierAddress = Some (dpr_customSmartWalletDeployVerifierAddress d),
     dpr_customSmartWalletRelayVerifierAddress = Some (dpr_customSmartWalletRelayVerifierAddress d)\<rparr>"

text \<open>How the promise of \<open>mineTransaction\<close> settles on the provider's callback.\<close>

definition settled_answer :: "exn + rpc_callback \<Rightarrow> exn + rpc_response" where
  "settled_answer r = (case r of Inl e \<Rightarrow> Inl e | Inr (error, result) \<Rightarrow> (case error of Some e \<Rightarrow> Inl e
     | None \<Rightarrow> (case result of None \<Rightarrow> Inl (Exn None) | Some x \<Rightarrow> Inr x)))"

section \<open>A deployment with a clock\<close>

text \<open>
  The state of the world is the time. The relay is ready from three seconds on; of the node only the clock,
  the contracts, the stake and the balances are used.
\<close>

definition fails :: "('s, 'a) js" where
  "fails = throw (Exn None)"

definition clock_node :: "int node" where
  "clock_node = \<lparr>n_getTransactionCount = (\<lambda>_ _. ret 4), n_getGasPrice = ret ''100'', n_getBalance = (\<lambda>_ _. ret ''0''),
     n_getBlockNumber = fails, n_getBlock = (\<lambda>_. fails), n_getTransaction = (\<lambda>_. fails),
     n_getTransactionReceipt = (\<lambda>_. fails), n_getCode = (\<lambda>_. fails), n_getChainId = ret 33,
     n_getNetworkId = fails, n_getNetworkType = fails, n_estimateGas = (\<lambda>_. fails), n_call = (\<lambda>_. fails),
     n_sendSignedTransaction = (\<lambda>_. fails), n_sendRawTransaction = (\<lambda>_. fails), n_getPastEvents = (\<lambda>_ _ _. fails),
     n_getStakeInfo = (\<lambda>_ _. ret \<lparr>si_stake = ''0'', si_unstakeDelay = ''0'', si_withdrawBlock = ''0'', si_owner = ZERO_ADDRESS\<rparr>),
     n_contractAt = (\<lambda>_ _. ret ()), n_versionHub = (\<lambda>_. fails), n_forwarderNonce = (\<lambda>_. ret ''0''),
     n_factoryNonce = (\<lambda>_ _. ret ''0''), n_getAcceptedTokens = (\<lambda>_. fails), n_methodCall = (\<lambda>_ _ _ _. fails),
     n_methodEstimateGas = (\<lambda>_ _ _. fails), n_registryEvents = (\<lambda>_ _ _. fails), n_registrySend = (\<lambda>_ _ _. fails),
     n_now = gets id, n_random = fails, n_sleep = (\<lambda>d. modify (\<lambda>w. w + \<lfloor>d\<rfloor>))\<rparr>"

definition clock_http :: "int http" where
  "clock_http = \<lparr>h_get = (\<lambda>_. gets (\<lambda>w. Some (ping_ex\<lparr>pr_ready := 3000 \<le> w\<rparr>))), h_post = (\<lambda>_ _. fails)\<rparr>"

definition commands_ex :: "int commands" where
  "commands_ex = \<lparr>cm_node = clock_node, cm_web3 = web3_ex, cm_http = clock_http, cm_BN = toBN_ex,
     cm_getAccounts = ret [''0xo''], cm_stakeForAddress = (\<lambda>_ _ _ _ _ _. ret ''0xstake''),
     cm_fund = (\<lambda>_ _ _ _. ret (Some ''0xfund'', ''{}'')), cm_estimateDeploy = (\<lambda>_ _. ret 1000),
     cm_sendDeploy = (\<lambda>_ _ _. ret ''0xnew''), cm_addVersion = (\<lambda>_ _ _ _ _. ret ()), cm_read = ret ''yes''\<rparr>"

definition commands_state_ex :: "int commands_state" where
  "commands_state_ex = \<lparr>world = 0, ci_relayHub = Some ''0xhub'', ci_relayVerifier = None, ci_deployVerifier = None,
     ci_rawTxOptions = Some (getRawTxOptions 33 33 None), ci_chainId = 33, ci_networkId = None, ci_networkType = None,
     cs_config = client_config_ex, cs_transactions = []\<rparr>"

definition register_options_ex :: register_options where
  "register_options_ex = \<lparr>rgo_from = ''0xo'', rgo_gasPrice = ''100'', rgo_stake = ''1'', rgo_funds = ''1'',
     rgo_relayUrl = ''http://relay'', rgo_unstakeDelay = ''100''\<rparr>"


text \<open>Paths are joined with a slash; the address of a file is what stands between its fourteenth and its third last character.\<close>

definition file_tools_ex :: file_tools where
  "file_tools_ex = \<lparr>cf_join = (\<lambda>d f. d @ ''/'' @ f),
     cf_addressOf = (\<lambda>t. Inr (Some (take (length t - 17) (drop 14 t)))), cf_hubConfiguration = (\<lambda>_. Inr None)\<rparr>"

definition cli_state_ex :: "int cli_files" where
  "cli_state_ex = \<lparr>world = 0, ci_relayHub = None, ci_relayVerifier = None, ci_deployVerifier = None,
     ci_rawTxOptions = None, ci_chainId = 33, ci_networkId = None, ci_networkType = None,
     cs_config = client_config_ex, cs_transactions = [], fs_files = \<lambda>_. None\<rparr>"

definition deployment_ex :: "string deployment_result" where
  "deployment_ex = \<lparr>dpr_relayHubAddress = ''0x1'', dpr_penalizerAddress = ''0x2'', dpr_smartWalletTemplateAddress = ''0x3'',
     dpr_smartWalletFactoryAddress = ''0x4'', dpr_versionRegistryAddress = ''0x5'', dpr_relayVerifierAddress = ''0x6'',
     dpr_deployVerifierAddress = ''0x7'', dpr_customSmartWalletTemplateAddress = ''0x8'',
     dpr_customSmartWalletFactoryAddress = ''0x9'', dpr_customSmartWalletDeployVerifierAddress = ''0xa'',
     dpr_customSmartWalletRelayVerifierAddress = ''0xb''\<rparr>"

definition enveloping_ex :: "(unit, unit, tx_args) enveloping" where
  "enveloping_ex = \<lparr>ev_node = node_ex, ev_web3 = web3_ex, ev_http = http_ex, ev_txlib = tx_ex, ev_config = client_config_ex,
     ev_relayWorkerAddress = ''0xw''\<rparr>"

lemma int_str_33: "int_str 33 = ''33''"
  by code_simp

lemma clock_laws_ex: "clock_laws clock_node clock_http id"
  by (simp add: clock_laws_def clock_node_def clock_http_def)

lemma clock_lags_ex: "clock_lags clock_node clock_http id 0"
  by (simp add: clock_lags_def clock_node_def clock_http_def)

text \<open>A file that is written once has the contents it was given.\<close>

lemma saved_file:
  assumes "distinct (map fst files)" "inj_on (\<lambda>name. cf_join J workdir (name @ ''.json'')) (fst ` set files)" "(name, a) \<in> set files"
  shows "fs_files (snd (for_each (\<lambda>(name, address). saveContractToFile J address workdir (name @ ''.json'')) files s))
    (cf_join J workdir (name @ ''.json'')) = Some (contractText a)"
proof -
  let ?p = "\<lambda>name. cf_join J workdir (name @ ''.json'')" and ?f = "\<lambda>(name, address). saveContractToFile J address workdir (name @ ''.json'')"
  have save: "saveContractToFile J b workdir (n @ ''.json'') s = (Inr (), s\<lparr>fs_files := (fs_files s)(?p n \<mapsto> contractText b)\<rparr>)"
    for b n and s :: "('a, 'b) cli_files_scheme" by (simp add: saveContractToFile_def js_run)
  have other: "fs_files (snd (for_each ?f fs s)) p = fs_files s p" if "p \<notin> ?p ` fst ` set fs" for fs p and s :: "('a, 'b) cli_files_scheme"
    using that by (induction fs arbitrary: s) (auto simp: save andthen_run)
  show ?thesis
    using assms
  proof (induction files arbitrary: s)
    case (Cons x files)
    let ?s = "s\<lparr>fs_files := (fs_files s)(?p (fst x) \<mapsto> contractText (snd x))\<rparr>"
    have step: "for_each ?f (x # files) s = for_each ?f files ?s" by (cases x) (simp add: save andthen_run)
    show ?case
    proof (cases "x = (name, a)")
      case True
      then have "?p name \<notin> ?p ` fst ` set files" using Cons.prems(1,2) by (auto simp: inj_on_def)
      then have "fs_files (snd (for_each ?f files ?s)) (?p name) = fs_files ?s (?p name)" by (rule other)
      moreover have "fs_files ?s (?p name) = Some (contractText a)" using True by simp
      ultimately show ?thesis unfolding step by (rule trans)
    next
      case False
      then have "(name, a) \<in> set files" "distinct (map fst files)" "inj_on ?p (fst ` set files)"
        using Cons.prems by (auto simp: inj_on_def)
      then show ?thesis unfolding step by (intro Cons.IH)
    qed
  qed simp
qed

section \<open>Properties\<close>

text \<open>
  C27. Waiting for a relay ends: its timeout bounds the rounds, each of which lasts three seconds at least. It may
  last longer than the timeout, because the last round ends with a ping and a pause of three seconds, but not more than
  these and the lag \<open>P\<close> of the clock. It returns only after the relay has answered that it is ready.
\<close>

theorem waiting_for_a_relay_ends:
  assumes "clock_laws (cm_node M) (cm_http M) clock" "clock_lags (cm_node M) (cm_http M) clock P"
    and "0 < F" "timeout * 1000 \<le> 3000 * (int F - 1)"
  shows "fst (waitForRelay M url timeout F s) \<noteq> Inr None \<and>
    clock (world (snd (waitForRelay M url timeout F s))) \<le> clock (world s) + 1000 * max 0 timeout + 3000 + 4 * P \<and>
    (\<forall>t. waitForRelay M url timeout F s = (Inr (Some ()), t) \<longrightarrow> relay_ready (cm_http M) url)"
proof (intro conjI allI impI)
  let ?s = "s\<lparr>world := snd (n_now (cm_node M) (world s))\<rparr>" and ?e = "clock (world s) + timeout * 1000"
  have run: "waitForRelay M url timeout F s = wait_rounds M url timeout ?e F ?s"
    using assms(1) by (simp add: waitForRelay_def bnd_run io_run clock_laws_def)
  have "clock (world s) \<le> clock (world ?s)" using assms(1) by (simp add: clock_laws_def)
  then show "fst (waitForRelay M url timeout F s) \<noteq> Inr None"
    unfolding run using assms(3,4) by (intro wait_rounds_end [OF assms(1)]) auto
  have "clock (world ?s) \<le> clock (world s) + P" "0 \<le> P" using assms(2) by (simp_all add: clock_lags_def)
  then show "clock (world (snd (waitForRelay M url timeout F s))) \<le> clock (world s) + 1000 * max 0 timeout + 3000 + 4 * P"
    unfolding run by (intro wait_rounds_bound [OF assms(2,1)]) auto
  show "relay_ready (cm_http M) url" if "waitForRelay M url timeout F s = (Inr (Some ()), t)" for t
    using that wait_rounds_ready unfolding run relay_ready_def by blast
qed

theorem waiting_for_a_relay_ends_witness:
  "fst (waitForRelay commands_ex ''http://relay'' 60 21 commands_state_ex) \<noteq> Inr None \<and>
   world (snd (waitForRelay commands_ex ''http://relay'' 60 21 commands_state_ex)) \<le> 63000"
proof -
  have "world commands_state_ex = 0" by (simp add: commands_state_ex_def)
  then show ?thesis
    using waiting_for_a_relay_ends [of commands_ex id 0 21 60 "''http://relay''" commands_state_ex] clock_laws_ex clock_lags_ex
    by (simp add: commands_ex_def)
qed

text \<open>
  C16. \<open>registerRelay\<close> never rejects, and reports a success only for a relay that was not ready before, is on
  the client's chain, is staked for by nobody else, and has answered that it is ready since. It then
  returns the hash of the stake it has sent, when the stake or the delay did not suffice, and then the hash of the funds it
  has sent, when the relay did not have more.
\<close>

theorem registered_relay_is_ready:
  "\<exists>r t. registerRelay M opts F s = (Inr r, t) \<and> (\<forall>x. r = Some x \<and> rgr_success x \<longrightarrow>
    relay_ready (cm_http M) (rgo_relayUrl opts) \<and>
    (\<exists>p info stakes funds. returns (h_get (cm_http M) (rgo_relayUrl opts @ ''/getaddr'')) (Some p) \<and> \<not> pr_ready p \<and>
       pr_chainId p = Some (int_str (ci_chainId t)) \<and>
       returns (n_getStakeInfo (cm_node M) (ec_relayHubAddress (cs_config s)) (pr_relayManagerAddress p)) info \<and>
       \<not> other_owner info (rgo_from opts) \<and> rgr_transactions x = Some (stakes @ funds) \<and>
       stake_sent M opts (ec_relayHubAddress (cs_config s)) (pr_relayManagerAddress p) info stakes \<and>
       fund_sent M opts (pr_relayManagerAddress p) funds))"
proof (cases "registerSteps M opts F (s\<lparr>cs_transactions := []\<rparr>)")
  case (Pair r t)
  show ?thesis
  proof (cases r)
    case (Inl e)
    then show ?thesis using Pair by (simp add: registerRelay_def js_run)
  next
    case (Inr v)
    have run: "registerRelay M opts F s = (Inr v, t)" using Pair Inr by (simp add: registerRelay_def js_run)
    show ?thesis
    proof (rule exI, rule exI, rule conjI, rule run, intro allI impI)
      fix x assume x: "v = Some x \<and> rgr_success x"
      obtain p s1 s2 where p: "getPingResponse (cm_http M) (rgo_relayUrl opts) None (s\<lparr>cs_transactions := []\<rparr>) = (Inr p, s1)"
        "\<not> pr_ready p" "s2 = s1 \<or> ci_init (cm_node M) (cm_web3 M) (cs_config s1) s1 = (Inr (), s2)"
        "pr_chainId p = Some (int_str (ci_chainId s2))"
        "stakeAndFund M opts (ec_relayHubAddress (cs_config s1)) (pr_relayManagerAddress p) F s2 = (Inr (Some x), t)"
        using Pair Inr x unfolding registerSteps_def
        by (auto simp del: throw_if_run dest!: catching_throw throw_if_InrD elim!: bnd_InrE andthen_InrE split: if_splits)
          blast+
      have cfg: "cs_config s1 = cs_config s" and sent1: "cs_transactions s1 = []"
        using alongD [OF along_config_ping, of "s\<lparr>cs_transactions := []\<rparr>" "cm_http M" "rgo_relayUrl opts" None]
          alongD [OF along_sent_ping, of "s\<lparr>cs_transactions := []\<rparr>" "cm_http M" "rgo_relayUrl opts" None] p(1)
        by (simp_all add: config_kept_def sent_kept_def)
      have sent2: "cs_transactions s2 = []"
        using alongD [OF along_sent_init, of s1 "cm_node M" "cm_web3 M" "cs_config s1"] p(3) sent1
        by (auto simp: sent_kept_def split: if_splits)
      have chain: "ci_chainId t = ci_chainId s2"
        using alongD [OF along_chain_stakeAndFund, of s2 M opts "ec_relayHubAddress (cs_config s1)" "pr_relayManagerAddress p" F] p(5)
        by (simp add: chain_kept_def)
      note ok = stakeAndFund_success [OF p(5), unfolded sent2 cfg append_Nil]
      then obtain info stakes funds where "returns (n_getStakeInfo (cm_node M) (ec_relayHubAddress (cs_config s)) (pr_relayManagerAddress p)) info"
        "\<not> other_owner info (rgo_from opts)" "rgr_transactions x = Some (stakes @ funds)"
        "stake_sent M opts (ec_relayHubAddress (cs_config s)) (pr_relayManagerAddress p) info stakes"
        "fund_sent M opts (pr_relayManagerAddress p) funds" "relay_ready (cm_http M) (rgo_relayUrl opts)"
        using x by blast
      then show "relay_ready (cm_http M) (rgo_relayUrl opts) \<and>
       (\<exists>p info stakes funds. returns (h_get (cm_http M) (rgo_relayUrl opts @ ''/getaddr'')) (Some p) \<and> \<not> pr_ready p \<and>
       pr_chainId p = Some (int_str (ci_chainId t)) \<and>
       returns (n_getStakeInfo (cm_node M) (ec_relayHubAddress (cs_config s)) (pr_relayManagerAddress p)) info \<and>
       \<not> other_owner info (rgo_from opts) \<and> rgr_transactions x = Some (stakes @ funds) \<and>
       stake_sent M opts (ec_relayHubAddress (cs_config s)) (pr_relayManagerAddress p) info stakes \<and>
       fund_sent M opts (pr_relayManagerAddress p) funds)"
        using p(2,4) chain getPingResponse_Inr [OF p(1)] by auto
    qed
  qed
qed

theorem registered_relay_is_ready_witness:
  "relay_ready clock_http ''http://relay'' \<and>
   rgr_transactions (the (projr (fst (registerRelay commands_ex register_options_ex 3 commands_state_ex)))) = Some [''0xstake'', ''0xfund'']"
proof -
  have run: "\<exists>t. registerRelay commands_ex register_options_ex 3 commands_state_ex =
      (Inr (Some \<lparr>rgr_success = True, rgr_transactions = Some [''0xstake'', ''0xfund''], rgr_error = None\<rparr>), t)"
    by (simp add: registerRelay_def registerSteps_def getPingResponse_def Let_def js_run commands_ex_def
        commands_state_ex_def register_options_ex_def clock_http_def isInitialized_def stakeAndFund_def createContract_def
        clock_node_def stakeRelay_def fundRelay_def toBN_ex_def getBalance_def pushTransaction_def bnd_rounds_def
        waitForRelay_def numeral_3_eq_3 isRelayReady_def parse_ex int_str_33)
  then obtain t where t: "registerRelay commands_ex register_options_ex 3 commands_state_ex =
      (Inr (Some \<lparr>rgr_success = True, rgr_transactions = Some [''0xstake'', ''0xfund''], rgr_error = None\<rparr>), t)" by blast
  from registered_relay_is_ready [of commands_ex register_options_ex 3 commands_state_ex] t
  have "relay_ready (cm_http commands_ex) (rgo_relayUrl register_options_ex)" by auto
  then show ?thesis using t by (simp add: commands_ex_def register_options_ex_def)
qed



text \<open>
  C29. A deployment that is saved in a directory is loaded from it unchanged, whatever other files there are,
  when the names of its own files are joined to different paths.
\<close>

theorem saved_deployment_is_loaded:
  assumes "inj_on (\<lambda>name. cf_join J workdir (name @ ''.json'')) (fst ` set (deploymentFiles d))"
    and "\<And>name a. (name, a) \<in> set (deploymentFiles d) \<Longrightarrow> cf_addressOf J (contractText a) = Inr (Some a)"
  shows "fst (loadDeployment J workdir (snd (saveDeployment J d workdir s))) = Inr (loaded d)"
proof -
  have "loadAddress J workdir name (snd (saveDeployment J d workdir s)) = (Inr (Some a), snd (saveDeployment J d workdir s))"
    if "map_of (deploymentFiles d) name = Some a" for name a
  proof -
    have m: "(name, a) \<in> set (deploymentFiles d)" by (rule map_of_SomeD [OF that])
    have "fs_files (snd (saveDeployment J d workdir s)) (cf_join J workdir (name @ ''.json'')) = Some (contractText a)"
      unfolding saveDeployment_def by (rule saved_file [OF _ assms(1) m]) (simp add: deploymentFiles_def)
    then show ?thesis using assms(2) [OF m] by (simp add: loadAddress_def getAddressFromFile_def readFile_def js_run)
  qed
  then show ?thesis
    by (simp add: loadDeployment_def Let_def bnd_run deploymentFiles_def loaded_def)
qed

theorem saved_deployment_is_loaded_witness:
  "fst (loadDeployment file_tools_ex ''build'' (snd (saveDeployment file_tools_ex deployment_ex ''build'' cli_state_ex)))
   = Inr (loaded deployment_ex)"
  by (rule saved_deployment_is_loaded) (simp_all add: file_tools_ex_def contractText_def inj_on_def)

text \<open>
  A raw transaction that is held back is answered with its hash and sent nowhere; mining the hash sends
  it once and gives the node's answer, mining it again is rejected and sends nothing.
\<close>

theorem delayed_transaction_is_mined_once:
  assumes "np_send sha3 origin payload s = (Inr (None, Some resp), t)"
    and "rp_method payload = ''eth_sendRawTransaction''" "np_isDelayTransactionsOn s"
  shows "\<exists>h. rr_result resp = Some (ResultString h) \<and> world t = world s \<and>
    fst (mineTransaction origin h t) = settled_answer (fst (origin payload (world s))) \<and>
    world (snd (mineTransaction origin h t)) = snd (origin payload (world s)) \<and>
    (\<exists>e. fst (mineTransaction origin h (snd (mineTransaction origin h t))) = Inl e) \<and>
    world (snd (mineTransaction origin h (snd (mineTransaction origin h t)))) = snd (origin payload (world s))"
proof -
  obtain h where h: "calculateTxHash sha3 payload = Inr h" "rr_result resp = Some (ResultString h)"
    "t = s\<lparr>np_mempool := AList.update h payload (np_mempool s)\<rparr>"
    using assms by (auto simp: np_send_def elim!: bnd_InrE andthen_InrE)
  let ?u = "snd (mineTransaction origin h t)"
  have mined: "fst (mineTransaction origin h t) = settled_answer (fst (origin payload (world s)))"
    "world ?u = snd (origin payload (world s))" "map_of (np_mempool ?u) h = None"
    using h(3) by (auto simp: mineTransaction_def js_run settled_answer_def update_conv' delete_conv'
        split: sum.split prod.split option.split)
  have "\<exists>e. fst (mineTransaction origin h ?u) = Inl e" "world (snd (mineTransaction origin h ?u)) = world ?u"
    using mined(3) by (simp_all add: mineTransaction_def js_run)
  then show ?thesis using h(2,3) mined by (intro exI [of _ h]) simp
qed

theorem delayed_transaction_is_mined_once_witness:
  "\<exists>h t. fst (mineTransaction (\<lambda>_. ret (None, None)) h (t :: unit simulating_state)) = Inl (Exn None)"
proof -
  let ?payload = "\<lparr>rp_method = ''eth_sendRawTransaction'', rp_params = [TextParam ''0xraw''], rp_id = None\<rparr>"
  let ?s = "\<lparr>world = (), np_isDelayTransactionsOn = True, np_mempool = []\<rparr>"
  have "\<exists>t. np_send (\<lambda>_. Some ''0xh'') (\<lambda>_. ret (None, None)) ?payload ?s =
    (Inr (None, Some \<lparr>rr_id = num 0, rr_result = Some (ResultString ''0xh'')\<rparr>), t)"
    by (simp add: np_send_def calculateTxHash_def js_run castId_def)
  then obtain t where "np_send (\<lambda>_. Some ''0xh'') (\<lambda>_. ret (None, None)) ?payload ?s =
    (Inr (None, Some \<lparr>rr_id = num 0, rr_result = Some (ResultString ''0xh'')\<rparr>), t)" by blast
  from delayed_transaction_is_mined_once [OF this]
  have "\<exists>h. fst (mineTransaction (\<lambda>_. ret (None, None)) h t) = settled_answer (Inr (None, None))" by auto
  then show ?thesis by (auto simp: settled_answer_def)
qed

text \<open>
  C24. A request that \<open>Enveloping\<close> builds passes the server's validation of its input when hub and worker are
  the server's and the gas price is high enough; both kinds are signed over the typed data of the contract
  they name as forwarder.
\<close>

theorem enveloping_request_is_accepted:
  fixes v :: "('w, 'd, 'z) server_state_scheme" and s2 :: "('n, 'y) net_scheme"
  assumes "createRelayRequest E from to forwarder data token amount gas limit price s = (Inr r, s1) \<or>
      createDeployRequest E from token amount gas price index recoverer s = (Inr r, s1)"
    and "generateRelayTransactionRequest E signature r s2 = (Inr req, s3)"
    and "sv_relayHubContract v = Some hub" "isSameAddress (ec_relayHubAddress (ev_config E)) hub"
    and "isSameAddress (ev_relayWorkerAddress E) (workerAddress D)"
    and "\<not> num_lt (parseInt (rd_gasPrice (relayData r))) (sv_gasPrice v)"
  shows "validateInput D req v = (Inr (), v) \<and> relayRequest req = r \<and> md_signature (metadata req) = signature \<and>
    (if isDeploy r then signDeployRequest E provider r else signRelayRequest E provider r) =
      signAndVerify provider (typedRequestData (ec_chainId (ev_config E)) (rd_callForwarder (relayData r)) r) r"
proof -
  have r: "rd_relayWorker (relayData r) = ev_relayWorkerAddress E \<and>
    (isDeploy r \<longrightarrow> rd_callForwarder (relayData r) = ec_smartWalletFactoryAddress (ev_config E))"
    using assms(1) by (auto simp: createRelayRequest_def createDeployRequest_def Let_def elim!: bnd_InrE)
  have req: "relayRequest req = r" "md_signature (metadata req) = signature"
    "md_relayHubAddress (metadata req) = ec_relayHubAddress (ev_config E)"
    using assms(2) by (auto simp: generateRelayTransactionRequest_def generateMetadata_def elim!: bnd_InrE)
  have "validateInput D req v = (Inr (), v)"
    using r req assms(3-) by (simp add: validateInput_def js_run instance_of_def isSameAddress_def)
  then show ?thesis using r req by (simp add: signDeployRequest_def signRelayRequest_def)
qed

theorem enveloping_request_is_accepted_witness:
  "\<exists>r req. validateInput deps_ex req server_ex = (Inr (), server_ex) \<and> relayRequest req = r"
proof -
  have "\<exists>r. createDeployRequest enveloping_ex ''0xuser'' ZERO_ADDRESS ''0'' ''0'' None None None client_state_ex = (Inr r, client_state_ex) \<and>
      rd_gasPrice (relayData r) = ''100''"
    by (simp add: createDeployRequest_def Let_def en_getFactoryNonce_def getFactoryNonce_def createContract_def gasPriceOr_def
        js_run enveloping_ex_def)
  then obtain r where r: "createDeployRequest enveloping_ex ''0xuser'' ZERO_ADDRESS ''0'' ''0'' None None None client_state_ex =
      (Inr r, client_state_ex)" "rd_gasPrice (relayData r) = ''100''" by blast
  have "\<exists>req. generateRelayTransactionRequest enveloping_ex ''0xsig'' r client_state_ex = (Inr req, client_state_ex)"
    by (simp add: generateRelayTransactionRequest_def generateMetadata_def js_run enveloping_ex_def)
  then obtain req where req: "generateRelayTransactionRequest enveloping_ex ''0xsig'' r client_state_ex = (Inr req, client_state_ex)"
    by blast
  have "sv_relayHubContract server_ex = Some ''0xhub''" "isSameAddress (ec_relayHubAddress (ev_config enveloping_ex)) ''0xhub''"
    "isSameAddress (ev_relayWorkerAddress enveloping_ex) (workerAddress deps_ex)"
    "\<not> num_lt (parseInt (rd_gasPrice (relayData r))) (sv_gasPrice server_ex)"
    using r(2) by (simp_all add: enveloping_ex_def client_config_ex_def)
  from enveloping_request_is_accepted [OF disjI2 [OF r(1)] req this] show ?thesis by blast
qed

end
