(* ===== verification/CommandLine.thy ===== *)
theory CommandLine
  imports CliTools
begin

text \<open>
  The commands of \<open>src/cli/commands\<close>: reading and changing the version registry, registering a relay,
  deploying the contracts and printing the state of the relays. The options are what commander has parsed
  from the command line, an option that was not given being \<open>None\<close> or \<open>False\<close>. A command returns the lines
  it prints as its result; \<open>error\<close>, which prints a message and ends the process, is an exception that nothing
  but the end of the command catches, and \<open>exit_code\<close> is the status of the process. Progress messages are
  left out.
\<close>

section \<open>Collaborators\<close>

text \<open>
  \<open>ct_logic\<close>: the node, libraries and accounts behind a URL, with the keys of a mnemonic if there is one.
  \<open>ct_formatDate\<close>: \<open>date-format\<close> with \<open>yyyy-MM-dd hh:mm\<close> of a number of milliseconds. \<open>ct_ether\<close>: an amount in
  ether as wei. \<open>ct_fromWei\<close>: the converse.
\<close>

record 'w cli_tools =
  ct_files :: file_tools
  ct_logic :: "string option \<Rightarrow> string option \<Rightarrow> exn + 'w commands"
  ct_formatDate :: "number \<Rightarrow> string"
  ct_ether :: "string \<Rightarrow> exn + int"
  ct_fromWei :: "string \<Rightarrow> exn + string"

text \<open>The constructor of \<open>CommandsLogic\<close>.\<close>

definition newCommandsLogic ::
  "'w cli_tools \<Rightarrow> string option \<Rightarrow> enveloping_config \<Rightarrow> string option \<Rightarrow> (('w, 'z) commands_state_scheme, 'w commands) js" where
  "newCommandsLogic T host config mnemonic =
     bnd (of_result (ct_logic T host mnemonic)) (\<lambda>M.
     andthen (newInteractor config)
     (andthen (modify (\<lambda>s. s\<lparr>cs_config := config\<rparr>)) (ret M)))"

definition fromOrWealthy :: "'w commands \<Rightarrow> string option \<Rightarrow> (('w, 'z) net_scheme, string) js" where
  "fromOrWealthy M from = (case from of Some a \<Rightarrow> ret a | None \<Rightarrow> findWealthyAccount M None)"

definition exit_code :: "('s, 'a) js \<Rightarrow> ('s, nat) js" where
  "exit_code command = catching (andthen command (ret 0)) (\<lambda>reason. ret 1)"

section \<open>The version registry\<close>

record registry_options =
  vo_network :: string
  vo_mnemonic :: "string option"
  vo_from :: "string option"
  vo_gasPrice :: string
  vo_registry :: "string option"
  vo_id :: "string option"
  vo_list :: bool
  vo_delay :: string
  vo_history :: bool
  vo_ver :: "string option"
  vo_date :: bool
  vo_add :: "string option"
  vo_cancel :: bool
  vo_reason :: "string option"
  vo_args :: "string list"

text \<open>\<open>parseFloat\<close> of digits and points: the longest prefix that is a decimal number.\<close>

definition parseFloat_digits :: "string \<Rightarrow> number" where
  "parseFloat_digits s =
     (let whole = takeWhile (is_digit_in 10) s;
          frac = (case dropWhile (is_digit_in 10) s of c # t \<Rightarrow> if c = CHR ''.'' then takeWhile (is_digit_in 10) t else [] | [] \<Rightarrow> [])
      in if whole = [] \<and> frac = [] then NaN
         else Some (rnd (of_nat (digits_value 10 (whole @ frac)) / 10 ^ length frac)))"

text \<open>The expression \<open>/^\s*([\d.]+)\s*([smhdw]?)/i\<close> and the seconds of its unit.\<close>

definition parseTime :: "string \<Rightarrow> exn + number" where
  "parseTime t =
     (let digit = (\<lambda>c. is_digit_in 10 c \<or> c = CHR ''.'');
          u = dropWhile is_white t; digits = takeWhile digit u; n = parseFloat_digits digits
      in if digits = [] then Inl (Error ''invalid --delay parameter: must be number with sec/min/hour/day suffix'')
         else Inr (case dropWhile is_white (dropWhile digit u) of
             [] \<Rightarrow> n
           | c # r \<Rightarrow> (let d = lower_char c in
               if d = CHR ''m'' then num_mul n (num 60)
               else if d = CHR ''h'' then num_mul n (num 3600)
               else if d = CHR ''d'' then num_mul (num_mul n (num 3600)) (num 24)
               else if d = CHR ''w'' then num_mul (num_mul (num_mul n (num 3600)) (num 24)) (num 7)
               else n)))"

definition trim :: "string \<Rightarrow> string" where
  "trim s = rev (dropWhile is_white (rev (dropWhile is_white s)))"

definition formatVersion :: "'w cli_tools \<Rightarrow> string \<Rightarrow> version_info \<Rightarrow> bool \<Rightarrow> string" where
  "formatVersion T i v showDate =
     (let dateInfo = (if showDate then ''['' @ ct_formatDate T (num_mul (vi_time v) (num 1000)) @ ''] '' else '''')
      in trim (i @ '' @ '' @ vi_version v @ '' = '' @ dateInfo @ '' '' @ vi_value v @ '' '' @
           (if vi_canceled v then ''- CANCELED '' @ or_else (vi_cancelReason v) ''undefined'' else '''')))"

text \<open>Without \<open>--add\<close> and \<open>--cancel\<close> the history or the version in use is printed.\<close>

definition registryView ::
  "'w cli_tools \<Rightarrow> 'w commands \<Rightarrow> string \<Rightarrow> registry_options \<Rightarrow> string \<Rightarrow> (('w, 'z) net_scheme, string list) js" where
  "registryView T M registry opts i =
     andthen (throw_if (vo_ver opts \<noteq> None) ''cannot specify --ver without --add or --cancel'')
     (if vo_history opts then
        andthen (throw_if (vo_delay opts \<noteq> ''0'') ''cannot specify --delay and --history'')
        (bnd (getAllVersions (cm_node M) registry i) (\<lambda>versions.
         ret (map (\<lambda>v. formatVersion T i v (vo_date opts)) versions)))
      else
        bnd (of_result (parseTime (vo_delay opts))) (\<lambda>delayPeriod.
        bnd (getVersion (cm_node M) registry i delayPeriod '''') (\<lambda>v.
        ret [formatVersion T i v (vo_date opts)])))"

definition registryChange ::
  "'w commands \<Rightarrow> string \<Rightarrow> registry_options \<Rightarrow> string \<Rightarrow> (('w, 'z) net_scheme, string list) js" where
  "registryChange M registry opts i =
     andthen (throw_if ((vo_add opts = None) = (\<not> vo_cancel opts)) ''must specify --add or --cancel, but not both'')
     (bnd (fromOrWealthy M (vo_from opts)) (\<lambda>from.
      let sendOptions = \<lparr>ro_from = Some from, ro_gas = Some 1000000, ro_gasPrice = Some (vo_gasPrice opts)\<rparr> in
      case vo_ver opts of
        None \<Rightarrow> throw (Error ''--add/--cancel commands require both --id and --ver'')
      | Some version \<Rightarrow> (case vo_add opts of
          Some add \<Rightarrow> andthen (addVersion (cm_node M) registry i version add sendOptions)
            (ret [''== Added version '' @ i @ '' @ '' @ version])
        | None \<Rightarrow> andthen (cancelVersion (cm_node M) registry i version (or_else (vo_reason opts) '''') sendOptions)
            (ret [''== Canceled version '' @ i @ '' @ '' @ version]))))"

definition registryMode ::
  "'w cli_tools \<Rightarrow> 'w commands \<Rightarrow> string \<Rightarrow> registry_options \<Rightarrow> (('w, 'z) net_scheme, string list) js" where
  "registryMode T M registry opts =
     bnd (isValid (cm_node M) registry) (\<lambda>valid.
     andthen (throw_if (\<not> valid) (''Not a valid registry address: '' @ registry))
     (andthen (throw_if (vo_args opts \<noteq> []) (''unexpected param(s): '' @ concat (map (\<lambda>a. a @ '', '') (butlast (vo_args opts))) @ last (vo_args opts)))
     (if vo_list opts then bnd (listIds (cm_node M) registry) (\<lambda>ids. ret (map (\<lambda>i. ''- '' @ i) ids))
      else (case vo_id opts of
         None \<Rightarrow> throw (Error ''must specify --id'')
       | Some i \<Rightarrow> if vo_add opts = None \<and> \<not> vo_cancel opts then registryView T M registry opts i else registryChange M registry opts i))))"

definition registryCommand ::
  "'w cli_tools \<Rightarrow> registry_options \<Rightarrow> (('w, 'z) cli_files_scheme, string list) js" where
  "registryCommand T opts =
     bnd (getMnemonic (vo_mnemonic opts)) (\<lambda>mnemonic.
     bnd (newCommandsLogic T (getNetworkUrl (vo_network opts)) (configure emptyConfig) mnemonic) (\<lambda>M.
     bnd (getRegistryAddress (ct_files T) (vo_registry opts)) (\<lambda>address. case address of
         None \<Rightarrow> throw (Error ''must specify --registry'')
       | Some registry \<Rightarrow> registryMode T M registry opts)))"

section \<open>Registering a relay\<close>

record relayer_options =
  ko_network :: string
  ko_hub :: "string option"
  ko_mnemonic :: "string option"
  ko_from :: "string option"
  ko_stake :: "string option"
  ko_funds :: "string option"
  ko_relayUrl :: "string option"
  ko_unstakeDelay :: "string option"
  ko_gasPrice :: "string option"

text \<open>
  The result is the status of the process; an exception ends it with 1 as well. A hub that is not known is
  \<open>undefined\<close>, which overrides the default and is no address, as the string of this name.
\<close>

definition registerCommand ::
  "'w cli_tools \<Rightarrow> relayer_options \<Rightarrow> nat \<Rightarrow> (('w, 'z) cli_files_scheme, nat option) js" where
  "registerCommand T opts F = catching
     (bnd (getRelayHubAddress (ct_files T) (ko_hub opts)) (\<lambda>hub.
      bnd (getMnemonic (ko_mnemonic opts)) (\<lambda>mnemonic.
      bnd (newCommandsLogic T (getNetworkUrl (ko_network opts)) (configure (emptyConfig\<lparr>pc_relayHubAddress := Some (or_else hub ''undefined'')\<rparr>)) mnemonic) (\<lambda>M.
      bnd (fromOrWealthy M (ko_from opts)) (\<lambda>from.
      bnd (of_result (ct_ether T (or_else (ko_stake opts) ''0.01''))) (\<lambda>stake.
      bnd (of_result (ct_ether T (or_else (ko_funds opts) ''0.02''))) (\<lambda>funds.
      let registerOptions = \<lparr>rgo_from = from, rgo_gasPrice = or_else (ko_gasPrice opts) ''60000000'', rgo_stake = int_str stake,
            rgo_funds = int_str funds, rgo_relayUrl = or_else (ko_relayUrl opts) ''http://localhost:8090'',
            rgo_unstakeDelay = or_else (ko_unstakeDelay opts) ''1000''\<rparr> in
      bnd_rounds (registerRelay M registerOptions F) (\<lambda>result.
        ret (Some (if rgr_success result then 0 else 1))))))))))
     (\<lambda>reason. ret (Some 1))"

section \<open>Deploying the contracts\<close>

record deploy_command_options =
  do_network :: string
  do_mnemonic :: "string option"
  do_from :: "string option"
  do_gasPrice :: "string option"
  do_workdir :: string
  do_factory :: "string option"
  do_sWalletTemplate :: "string option"
  do_deployVerifier :: "string option"
  do_relayVerifier :: "string option"
  do_relayHub :: "string option"
  do_penalizer :: "string option"
  do_registry :: "string option"
  do_registryHubId :: "string option"
  do_skipConfirmation :: "bool option"
  do_config :: "string option"

text \<open>
  \<open>getGasPrice\<close> reads a variable \<open>web3\<close> that the file does not define; commander gives the option a default.
\<close>

definition gasPriceOption :: "string option \<Rightarrow> ('s, string) js" where
  "gasPriceOption gasPrice = (case gasPrice of Some p \<Rightarrow> ret p | None \<Rightarrow> throw (Error ''web3 is not defined''))"

definition deployCommand ::
  "'w cli_tools \<Rightarrow> deploy_command_options \<Rightarrow> nat \<Rightarrow> (('w, 'z) cli_files_scheme, string deployment_result option) js" where
  "deployCommand T opts F =
     bnd (getMnemonic (do_mnemonic opts)) (\<lambda>mnemonic.
     bnd (getRelayHubConfiguration (ct_files T) (do_config opts)) (\<lambda>configuration.
     bnd (newCommandsLogic T (getNetworkUrl (do_network opts)) (configure emptyConfig) mnemonic) (\<lambda>M.
     bnd (fromOrWealthy M (do_from opts)) (\<lambda>from.
     bnd (gasPriceOption (do_gasPrice opts)) (\<lambda>gasPrice.
     bnd_rounds (deployContracts M
         \<lparr>dpo_from = from, dpo_gasPrice = Some gasPrice, dpo_deployVerifierAddress = do_deployVerifier opts,
          dpo_relayVerifierAddress = do_relayVerifier opts, dpo_smartWalletFactoryAddress = do_factory opts,
          dpo_smartWalletTemplateAddress = do_sWalletTemplate opts, dpo_relayHubAddress = do_relayHub opts,
          dpo_penalizerAddress = do_penalizer opts, dpo_registryAddress = do_registry opts,
          dpo_customSmartWalletFactoryAddress = None, dpo_customSmartWalletTemplateAddress = None,
          dpo_customSmartWalletDeployVerifierAddress = None, dpo_customSmartWalletRelayVerifierAddress = None,
          dpo_registryHubId = do_registryHubId opts, dpo_skipConfirmation = do_skipConfirmation opts,
          dpo_relayHubConfiguration = or_else configuration (en_relayHubConfiguration (getEnvironment (do_network opts)))\<rparr> F)
       (\<lambda>deploymentResult. andthen (saveDeployment (ct_files T) deploymentResult (do_workdir opts))
         (ret (Some deploymentResult))))))))"

section \<open>The state of the relays\<close>

definition relayStatus :: "web3_utils \<Rightarrow> ping_attempt option \<Rightarrow> string" where
  "relayStatus W pingResult = (case pingResult of None \<Rightarrow> ''unknown''
     | Some p \<Rightarrow> (case pa_pingResponse p of
         Some r \<Rightarrow> (if pr_ready r then ''true'' else ''false'')
       | None \<Rightarrow> (case pa_error p of Some e \<Rightarrow> exn_text W e | None \<Rightarrow> ''unknown'')))"

text \<open>The line of one relay; the tabulator is \<open>CHR 0x09\<close>.\<close>

definition relayLine :: "'w cli_tools \<Rightarrow> web3_utils \<Rightarrow> statistics \<Rightarrow> return_values \<Rightarrow> exn + string" where
  "relayLine T W statistics registeredEvent = map_sum id
     (\<lambda>balance. ''- '' @ rv_relayManager registeredEvent @ '' '' @ rv_relayUrl registeredEvent @ '' '' @
        [CHR 0x09] @ ''balance: '' @ balance @ '' '' @ [CHR 0x09] @ ''status: '' @
        relayStatus W (map_of (st_relayPings statistics) (rv_relayUrl registeredEvent)))
     (case map_of (st_balances statistics) (rv_relayManager registeredEvent) of
        None \<Rightarrow> Inr ''N/A'' | Some b \<Rightarrow> map_sum id (\<lambda>x. x @ '' RBTC'') (ct_fromWei T b))"

text \<open>The command makes its own contract interactor and does not initialize it.\<close>

definition statusCommand ::
  "'w cli_tools \<Rightarrow> 'w node \<Rightarrow> web3_utils \<Rightarrow> 'w http \<Rightarrow> string option \<Rightarrow> (('w, 'z) cli_files_scheme, string list) js" where
  "statusCommand T N W H hub =
     bnd (getRelayHubAddress (ct_files T) hub) (\<lambda>relayHubAddress. case relayHubAddress of
         None \<Rightarrow> throw (Error ''Please specify RelayHub address'')
       | Some address \<Rightarrow>
           andthen (newInteractor (configure (emptyConfig\<lparr>pc_relayHubAddress := Some address\<rparr>)))
           (bnd (gatherStatistics N W H \<lparr>sc_blockHistoryCount = 6000, sc_statusHubAddress = address\<rparr>) (\<lambda>statistics.
            bnd (of_result (ct_fromWei T (st_totalStakesByRelays statistics))) (\<lambda>total.
            bnd (fold_js (\<lambda>registeredEvent printed. bnd (of_result (relayLine T W statistics registeredEvent)) (\<lambda>line.
                ret (printed @ [line]))) (st_relayRegisteredEvents statistics) []) (\<lambda>relayLines.
            ret ([''Total stakes by all relays: '' @ total @ '' RBTC'', ''Hub address: '' @ address, ''# Relays:''] @ relayLines))))))"

section \<open>The subcommands\<close>

text \<open>
  The names of \<open>enveloping\<close>'s subcommands, each of which commander runs as the program \<open>enveloping-<name>\<close>, and
  what it says of them; \<open>relayer-run\<close> is the server process.
\<close>

definition envelopingCommands :: "(string \<times> string) list" where
  "envelopingCommands =
     [(''boot-test'', ''all-on-one: deploy all contracts, start relay. Warning: This should be used only for testing''),
      (''deploy'', ''deploy RelayHub and other Enveloping contracts instances''),
      (''relayer-register'', ''stake for a relayer and fund it''),
      (''relayer-run'', ''launch a relayer server''),
      (''status'', ''status of the Enveloping network''),
      (''registry'', ''VersionRegistry management'')]"

end
