(* ===== verification/SovrynScript.thy ===== *)
theory SovrynScript
  imports Provider CommandLine
begin

text \<open>
  \<open>src/sovryn/relayTest.ts\<close>: a script that, with the key of one user, deploys its smart wallet, sends a value or
  swaps tokens through the relay provider. The contracts of a network are constants of the script or of
  \<open>hardhat_contracts.json\<close>. Its contract calls, and web3's sending of a transaction through the provider, are
  parameters.
\<close>

section \<open>The networks\<close>

record script_network =
  sw_tokenContract :: string
  sw_smartWalletFactoryAddress :: string
  sw_relayVerifierAddress :: string
  sw_deployVerifierAddress :: string
  sw_relayHubAddress :: string
  sw_relayUrl :: string
  sw_rpcUrl :: string
  sw_chainId :: int
  sw_sovrynSwapNetworkAddress :: string
  sw_docTokenAddress :: string
  sw_wrbtcTokenAddress :: string

definition hardhatNetwork :: script_network where
  "hardhatNetwork =
     \<lparr>sw_tokenContract = ''0xf70bf925596DF3660FA2BF8304Df8Abf2a41ccF8'',
      sw_smartWalletFactoryAddress = ''0x1efC1161e8C20B1811DAeCa32a69832dd33E02Ca'',
      sw_relayVerifierAddress = ''0xb9559F885CBf048b1695AA866cc9C89F34B7A78d'',
      sw_deployVerifierAddress = ''0x68D38817589Cc68329A8555e46a4Aa219F18828E'',
      sw_relayHubAddress = ''0xFf503090902838baA214dEf87d49F6dC5aaBF2cf'', sw_relayUrl = ''http://localhost:8091'',
      sw_rpcUrl = ''http://localhost:8545'', sw_chainId = 31337, sw_sovrynSwapNetworkAddress = '''', sw_docTokenAddress = '''',
      sw_wrbtcTokenAddress = ''''\<rparr>"

definition testnetNetwork :: script_network where
  "testnetNetwork =
     \<lparr>sw_tokenContract = ''0x00EC33F09a2408A597EAFF4f79958bBC60db2A9F'',
      sw_smartWalletFactoryAddress = ''0x6cb6e91dc26a3de5f63a1a4c66b6161be9a2d24b'',
      sw_relayVerifierAddress = ''0xe337b746c602485d0890b6b63527a8c2a7643255'',
      sw_deployVerifierAddress = ''0xbc2699805e76558ab817b205022fd92320de3461'',
      sw_relayHubAddress = ''0xe891cc7212ebd7bba94a47fcfc31f0bf0c085f7b'', sw_relayUrl = ''http://localhost:8090'',
      sw_rpcUrl = ''https://testnet.sovryn.app/rpc'', sw_chainId = 31,
      sw_sovrynSwapNetworkAddress = ''0x61172b53423e205a399640e5283e51fe60ec2256'',
      sw_docTokenAddress = ''0xcb46c0ddc60d18efeb0e586c17af6ea36452dae0'',
      sw_wrbtcTokenAddress = ''0x69fe5cec81d5ef92600c1a0db1f11986ab3758ab''\<rparr>"

definition scriptNetwork :: "string \<Rightarrow> exn + script_network" where
  "scriptNetwork network =
     (if network = ''hardhat'' then Inr hardhatNetwork
      else if network = ''testnet'' then Inr testnetNetwork
      else Inl (Error (''unknown network '' @ network @ '', must be hardhat or testnet'')))"

definition scriptActions :: "string list" where
  "scriptActions = [''deploy-smart-wallet'', ''send-jamie-rbtc'', ''execute-swap'']"

section \<open>Collaborators\<close>

datatype script_call =
  Approve string int
| ConvertByPath "string list" string int string string string

text \<open>
  \<open>sn_readKey\<close>: the text of the file with the user's key, if there is one. \<open>sn_account\<close>: the address and key of
  such a text. \<open>sn_provider\<close>: the relay provider of a configuration over the node's. \<open>sn_transact\<close>: web3's
  \<open>sendTransaction\<close> through a provider, of the transaction with these members.
\<close>

type_synonym rpc_members = "(string \<times> rpc_value) list"

record ('w, 'k, 'q, 't) script =
  sn_dirname :: string
  sn_readKey :: "string \<Rightarrow> ('w, string option) js"
  sn_account :: "string \<Rightarrow> exn + string \<times> 'k"
  sn_node :: "string \<Rightarrow> 'w node"
  sn_providerInfo :: provider_info
  sn_provider :: "string \<Rightarrow> enveloping_config \<Rightarrow> ('w, 'k, 'q, 't) provider"
  sn_getSmartWalletAddress :: "string \<Rightarrow> string \<Rightarrow> string \<Rightarrow> int \<Rightarrow> ('w, string) js"
  sn_conversionPath :: "string \<Rightarrow> string \<Rightarrow> string \<Rightarrow> ('w, string list) js"
  sn_allowance :: "string \<Rightarrow> string \<Rightarrow> string \<Rightarrow> ('w, string) js"
  sn_encode :: "script_call \<Rightarrow> string"
  sn_toBN :: "string \<Rightarrow> exn + int"
  sn_transact :: "('w, 'k, 'q, 't) provider \<Rightarrow> rpc_members \<Rightarrow> (('w, 'k) client_state, string) js"

section \<open>The transactions\<close>

definition scriptConfig :: "script_network \<Rightarrow> partial_config" where
  "scriptConfig n = emptyConfig
     \<lparr>pc_onlyPreferredRelays := Some True, pc_preferredRelays := Some [sw_relayUrl n], pc_gasPriceFactorPercent := Some 0,
      pc_relayLookupWindowBlocks := Some 100000, pc_chainId := Some (sw_chainId n),
      pc_relayVerifierAddress := Some (sw_relayVerifierAddress n), pc_deployVerifierAddress := Some (sw_deployVerifierAddress n),
      pc_smartWalletFactoryAddress := Some (sw_smartWalletFactoryAddress n)\<rparr>"

text \<open>\<open>toWei('3.14')\<close> tokens for the relay.\<close>

definition commonTxParams :: "script_network \<Rightarrow> string \<Rightarrow> string \<Rightarrow> rpc_members" where
  "commonTxParams n account smartWalletAddress =
     [(''from'', RString account), (''callVerifier'', RString (sw_relayVerifierAddress n)),
      (''callForwarder'', RString smartWalletAddress), (''isSmartWalletDeploy'', RBool False),
      (''onlyPreferredRelays'', RBool True), (''tokenAmount'', RString ''3140000000000000000''),
      (''tokenContract'', RString (sw_tokenContract n)), (''retries'', RNumber 12)]"

definition scriptDeployment :: "script_network \<Rightarrow> string \<Rightarrow> string \<Rightarrow> transaction_details" where
  "scriptDeployment n account smartWalletAddress = details_of
     [(''from'', RString account), (''to'', RString ZERO_ADDRESS), (''gas'', RString ''0x27100''), (''value'', RString ''0''),
      (''callVerifier'', RString (sw_deployVerifierAddress n)), (''callForwarder'', RString (sw_smartWalletFactoryAddress n)),
      (''tokenContract'', RString (sw_tokenContract n)), (''tokenAmount'', RString ''5''), (''data'', RString ''0x''),
      (''index'', RString ''0''), (''recoverer'', RString ZERO_ADDRESS), (''isSmartWalletDeploy'', RBool True),
      (''onlyPreferredRelays'', RBool True), (''smartWalletAddress'', RString smartWalletAddress)]"

definition sendRbtc ::
  "('w, 'k, 'q, 't) script \<Rightarrow> ('w, 'k, 'q, 't) provider \<Rightarrow> rpc_members \<Rightarrow> (('w, 'k) client_state, string list settles) js" where
  "sendRbtc S P common =
     bnd (sn_transact S P (common @ [(''to'', RString ''0x1bb2b1beeda1fb25ee5da9cae6c0f12ced831128''),
       (''value'', RString ''5000000000000000''), (''data'', RString ''0x'')])) (\<lambda>tx. ret (Result [tx]))"

definition sellAmount :: int where
  "sellAmount = 5 * 10 ^ 18"

text \<open>The tokens of an approval and of a conversion are the smart wallet's.\<close>

definition executeSwap ::
  "('w, 'k, 'q, 't) script \<Rightarrow> ('w, 'k, 'q, 't) provider \<Rightarrow> script_network \<Rightarrow> string \<Rightarrow> rpc_members \<Rightarrow>
   (('w, 'k) client_state, string list settles) js" where
  "executeSwap S P n smartWalletAddress common =
     (let send = (\<lambda>contract call. sn_transact S P (common @ [(''to'', RString contract), (''data'', RString (sn_encode S call))])) in
      bnd (io (sn_conversionPath S (sw_sovrynSwapNetworkAddress n) (sw_docTokenAddress n) (sw_wrbtcTokenAddress n))) (\<lambda>conversionPath.
      bnd (io (sn_allowance S (sw_docTokenAddress n) smartWalletAddress (sw_sovrynSwapNetworkAddress n))) (\<lambda>a.
      bnd (of_result (sn_toBN S a)) (\<lambda>allowance.
      bnd (if allowance < sellAmount
           then bnd (send (sw_docTokenAddress n) (Approve (sw_sovrynSwapNetworkAddress n) (2 ^ 256 - 1))) (\<lambda>tx. ret [tx])
           else ret []) (\<lambda>approval.
      bnd (send (sw_sovrynSwapNetworkAddress n)
          (ConvertByPath conversionPath (int_str sellAmount) 1 smartWalletAddress ZERO_ADDRESS ''0'')) (\<lambda>tx.
      ret (Result (approval @ [tx]))))))))"

section \<open>The script\<close>

text \<open>The result is the hashes of what was sent. A transfer or a swap is made on the test network only.\<close>

definition scriptAction ::
  "('w, 'k, 'q, 't) script \<Rightarrow> ('w, 'k, 'q, 't) provider \<Rightarrow> string \<Rightarrow> script_network \<Rightarrow> string \<Rightarrow> string \<Rightarrow> string \<Rightarrow>
   (('w, 'k) client_state, string list settles) js" where
  "scriptAction S P network n action account smartWalletAddress =
     (let common = commonTxParams n account smartWalletAddress in
      if action = ''deploy-smart-wallet'' then
        bnd (deploySmartWallet P (scriptDeployment n account smartWalletAddress)) (\<lambda>r. case r of
          Never \<Rightarrow> ret Never | Spinning \<Rightarrow> ret Spinning | Result tx \<Rightarrow> ret (Result [tx]))
      else andthen (throw_if (network \<noteq> ''testnet'') ''network must be testnet'')
        (if action = ''send-jamie-rbtc'' then sendRbtc S P common else executeSwap S P n smartWalletAddress common))"

definition privateKeyFile :: "string \<Rightarrow> string" where
  "privateKeyFile dirname = dirname @ ''/../../privatekey_user''"

definition scriptMain ::
  "('w, 'k, 'q, 't) script \<Rightarrow> string \<Rightarrow> script_network \<Rightarrow> string \<Rightarrow> (('w, 'k) client_state, string list settles) js" where
  "scriptMain S network n action =
     bnd (io (sn_readKey S (privateKeyFile (sn_dirname S)))) (\<lambda>key. case key of
       None \<Rightarrow> throw (Error (''Private key not found at '' @ [CHR 0x22] @ privateKeyFile (sn_dirname S) @ [CHR 0x22]))
     | Some privateKey \<Rightarrow>
         bnd (of_result (sn_account S privateKey)) (\<lambda>(account, k).
         bnd (io (sn_getSmartWalletAddress S (sw_smartWalletFactoryAddress n) account ZERO_ADDRESS 0)) (\<lambda>smartWalletAddress.
         bnd (resolveConfiguration (sn_node S (sw_rpcUrl n)) (sn_providerInfo S) (scriptConfig n)) (\<lambda>config.
         let P = sn_provider S (sw_rpcUrl n) (config\<lparr>ec_relayHubAddress := sw_relayHubAddress n\<rparr>) in
         andthen (addAccount (cl_signer (pv_client P)) account k)
           (scriptAction S P network n action account smartWalletAddress)))))"

text \<open>The whole program; an exception ends it with status 1.\<close>

definition relayTest :: "('w, 'k, 'q, 't) script \<Rightarrow> string \<Rightarrow> string \<Rightarrow> (('w, 'k) client_state, string list settles) js" where
  "relayTest S network action =
     bnd (of_result (scriptNetwork network)) (\<lambda>n.
     andthen (throw_if (action \<notin> set scriptActions)
       (''invalid action '' @ action @ '', must be one of: '' @ concat (map (\<lambda>a. a @ '', '') (butlast scriptActions)) @ last scriptActions))
     (scriptMain S network n action))"

section \<open>Lemmas\<close>

text \<open>
  Every request of the script carries the forwarder, the verifier and the payment, and pays for the call that
  is relayed with the wallet the factory has named: what the provider makes of the members.
\<close>

lemma script_details:
  "details_of (commonTxParams n account wallet @ [(''to'', RString a), (''data'', RString x)]) =
     (details_of [])\<lparr>td_from := account, td_callVerifier := Some (sw_relayVerifierAddress n), td_callForwarder := Some wallet,
       td_isSmartWalletDeploy := Some False, td_onlyPreferredRelays := Some True,
       td_tokenAmount := Some ''3140000000000000000'', td_tokenContract := Some (sw_tokenContract n), td_retries := Some 12,
       td_to := a, td_data := x\<rparr>"
  by (simp add: commonTxParams_def details_of_def str_member_def text_member_def bool_member_def int_member_def Let_def)

text \<open>A wrong network or action ends the script before it does anything.\<close>

lemma relayTest_rejects:
  assumes "network \<notin> {''hardhat'', ''testnet''} \<or> action \<notin> set scriptActions"
  shows "\<exists>m. relayTest S network action s = (Inl (Error m), s)"
  using assms by (auto simp: relayTest_def scriptNetwork_def bnd_run andthen_run)

text \<open>On hardhat the script only deploys the wallet; everything else fails without a transaction.\<close>

lemma hardhat_only_deploys:
  assumes "action \<noteq> ''deploy-smart-wallet''" "network \<noteq> ''testnet''"
  shows "scriptAction S P network n action account wallet s = (Inl (Error ''network must be testnet''), s)"
  using assms by (simp add: scriptAction_def Let_def andthen_run)

text \<open>After a swap the last transaction is the conversion, and there is an approval before it exactly when the allowance was too small.\<close>

lemma executeSwap_Inr:
  assumes "executeSwap S P n wallet common s = (Inr r, t)"
  obtains path a allowance tx approval where
    "returns (sn_conversionPath S (sw_sovrynSwapNetworkAddress n) (sw_docTokenAddress n) (sw_wrbtcTokenAddress n)) path"
    "returns (sn_allowance S (sw_docTokenAddress n) wallet (sw_sovrynSwapNetworkAddress n)) a" "sn_toBN S a = Inr allowance"
    "r = Result (approval @ [tx])" "length approval = (if allowance < sellAmount then 1 else 0)"
    "returns (sn_transact S P (common @ [(''to'', RString (sw_sovrynSwapNetworkAddress n)),
       (''data'', RString (sn_encode S (ConvertByPath path (int_str sellAmount) 1 wallet ZERO_ADDRESS ''0'')))])) tx"
proof -
  obtain path a allowance tx approval s1 s2 s3 s4 s5 where
    1: "io (sn_conversionPath S (sw_sovrynSwapNetworkAddress n) (sw_docTokenAddress n) (sw_wrbtcTokenAddress n)) s = (Inr path, s1)"
      "io (sn_allowance S (sw_docTokenAddress n) wallet (sw_sovrynSwapNetworkAddress n)) s1 = (Inr a, s2)"
      "of_result (sn_toBN S a) s2 = (Inr allowance, s3)" and
    2: "(if allowance < sellAmount then bnd (sn_transact S P (common @ [(''to'', RString (sw_docTokenAddress n)),
          (''data'', RString (sn_encode S (Approve (sw_sovrynSwapNetworkAddress n) (2 ^ 256 - 1))))])) (\<lambda>tx. ret [tx])
        else ret []) s3 = (Inr approval, s4)" and
    3: "sn_transact S P (common @ [(''to'', RString (sw_sovrynSwapNetworkAddress n)),
          (''data'', RString (sn_encode S (ConvertByPath path (int_str sellAmount) 1 wallet ZERO_ADDRESS ''0'')))]) s4 = (Inr tx, s5)"
      "ret (Result (approval @ [tx])) s5 = (Inr r, t)"
    using assms unfolding executeSwap_def Let_def
    by - (erule bnd_InrE, erule bnd_InrE, erule bnd_InrE, erule bnd_InrE, erule bnd_InrE, rule that)
  show thesis
  proof (rule that)
    show "length approval = (if allowance < sellAmount then 1 else 0)" using 2 by (auto elim!: bnd_InrE split: if_splits)
    show "sn_toBN S a = Inr allowance" using 1(3) by simp
    show "returns (sn_transact S P (common @ [(''to'', RString (sw_sovrynSwapNetworkAddress n)),
       (''data'', RString (sn_encode S (ConvertByPath path (int_str sellAmount) 1 wallet ZERO_ADDRESS ''0'')))])) tx"
      using 3(1) unfolding returns_def by blast
  qed (use 1 3(2) in \<open>simp_all add: io_returns\<close>)
qed

end
