(* ===== verification/CommandProperties.thy ===== *)
theory CommandProperties
  imports ToolProperties CommandLine SovrynScript
begin

text \<open>Properties of the commands: what the registry command changes, and the units of its delay.\<close>

section \<open>Requests that change nothing\<close>

text \<open>
  \<open>changes\<close> reads off the state of the world the methods that were sent, each with the address of the registry it
  was sent to. Reading adds none, and sending adds the one that is sent; a request that fails may have been executed.
\<close>

definition same_changes :: "('w \<Rightarrow> (string \<times> registry_method) list) \<Rightarrow> 'w \<Rightarrow> 'w \<Rightarrow> bool" where
  "same_changes changes w v \<longleftrightarrow> changes v = changes w"

definition registry_laws :: "'w commands \<Rightarrow> ('w \<Rightarrow> (string \<times> registry_method) list) \<Rightarrow> bool" where
  "registry_laws M changes \<longleftrightarrow>
     (\<forall>a. along (same_changes changes) (n_getCode (cm_node M) a)) \<and>
     (\<forall>a e i. along (same_changes changes) (n_registryEvents (cm_node M) a e i)) \<and>
     (\<forall>b. along (same_changes changes) (n_getBlock (cm_node M) b)) \<and>
     (\<forall>a b. along (same_changes changes) (n_getBalance (cm_node M) a b)) \<and>
     along (same_changes changes) (cm_getAccounts M) \<and>
     (\<forall>a m ro w. case n_registrySend (cm_node M) a m ro w of
        (Inl e, v) \<Rightarrow> changes v = changes w \<or> changes v = changes w @ [(a, m)]
      | (Inr u, v) \<Rightarrow> changes v = changes w @ [(a, m)])"

definition unchanged :: "('w \<Rightarrow> (string \<times> registry_method) list) \<Rightarrow> ('w, 'z) net_scheme \<Rightarrow> ('w, 'z) net_scheme \<Rightarrow> bool" where
  "unchanged changes s t \<longleftrightarrow> same_changes changes (world s) (world t)"

interpretation unchanged: step_relation "unchanged changes" for changes :: "'w \<Rightarrow> (string \<times> registry_method) list"
  by unfold_locales (auto simp: unchanged_def same_changes_def)

lemma along_unchanged_io: "along (same_changes changes) m \<Longrightarrow> along (unchanged changes) (io m)"
  by (simp add: along_def io_run unchanged_def)

lemma registry_reads:
  assumes "registry_laws M changes"
  shows "along (unchanged changes) (io (n_getCode (cm_node M) a))"
    "along (unchanged changes) (io (n_registryEvents (cm_node M) a e i))"
    "along (unchanged changes) (io (n_getBlock (cm_node M) b))"
    "along (unchanged changes) (io (n_getBalance (cm_node M) a b))"
    "along (unchanged changes) (io (cm_getAccounts M))"
  using assms by (simp_all add: registry_laws_def along_unchanged_io)

lemma along_all_versions:
  "registry_laws M changes \<Longrightarrow> along (unchanged changes) (getAllVersions (cm_node M) registry i)"
  unfolding getAllVersions_def by (intro unchanged.along_rules registry_reads)

lemma along_first_wealthy: "registry_laws M changes \<Longrightarrow> along (unchanged changes) (firstWealthy M b accounts)"
  by (induction accounts) (auto intro!: unchanged.along_rules registry_reads)

lemma along_from:
  "registry_laws M changes \<Longrightarrow> along (unchanged changes) (fromOrWealthy M from)"
  unfolding fromOrWealthy_def findWealthyAccount_def
  by (cases "from") (auto intro!: unchanged.along_rules registry_reads along_first_wealthy)

lemma along_check:
  "registry_laws M changes \<Longrightarrow> along (unchanged changes) (checkVersion (cm_node M) registry i v b)"
  unfolding checkVersion_def by (intro unchanged.along_rules along_all_versions)

lemma along_view: "registry_laws M changes \<Longrightarrow> along (unchanged changes) (registryView T M registry opts i)"
  unfolding registryView_def getVersion_def
  by (intro unchanged.along_rules along_all_versions registry_reads) (auto intro!: unchanged.along_rules split: option.split)

lemma along_files:
  "along (unchanged changes) (getMnemonic f)" "along (unchanged changes) (getRegistryAddress J a)"
  unfolding getMnemonic_def getRegistryAddress_def getAddressFromFile_def readFile_def
  by (auto intro!: unchanged.along_rules split: option.split)

lemma along_logic: "along (unchanged changes) (newCommandsLogic T host config mnemonic)"
  unfolding newCommandsLogic_def newInteractor_def
  by (intro unchanged.along_rules unchanged.along_modify) (simp_all add: unchanged_def same_changes_def)

section \<open>A change\<close>

text \<open>What the options ask for, and what the command has read before it asks for it.\<close>

definition requested :: "registry_options \<Rightarrow> string \<Rightarrow> string \<Rightarrow> registry_method \<Rightarrow> bool" where
  "requested opts i v c \<longleftrightarrow> vo_id opts = Some i \<and> vo_ver opts = Some v \<and> (case vo_add opts of
     Some value \<Rightarrow> \<not> vo_cancel opts \<and> c = AddVersion (string32 i) (string32 v) value
   | None \<Rightarrow> vo_cancel opts \<and> c = CancelVersion (string32 i) (string32 v) (or_else (vo_reason opts) ''''))"

definition version_read :: "'w node \<Rightarrow> string \<Rightarrow> string \<Rightarrow> string \<Rightarrow> bool \<Rightarrow> bool" where
  "version_read N registry i v exists \<longleftrightarrow>
     (let request = n_registryEvents N registry ''allEvents'' (Some (string32 i)) in
      (\<exists>events. returns request events \<and> (v \<in> vi_version ` set (allVersions events)) = exists) \<or>
      (\<not> exists \<and> (\<exists>w e. fst (request w) = Inl e)))"

definition changed_at ::
  "('w \<Rightarrow> (string \<times> registry_method) list) \<Rightarrow> (string \<times> registry_method \<Rightarrow> bool) \<Rightarrow> (('w, 'z) net_scheme, 'a) js \<Rightarrow>
   ('w, 'z) net_scheme \<Rightarrow> bool" where
  "changed_at changes P m s \<longleftrightarrow>
     (\<exists>e. fst (m s) = Inl e) \<and> unchanged changes s (snd (m s)) \<or>
     (\<exists>c. P c \<and> changes (world (snd (m s))) = changes (world s) @ [c])"

definition changed_as ::
  "('w \<Rightarrow> (string \<times> registry_method) list) \<Rightarrow> (string \<times> registry_method \<Rightarrow> bool) \<Rightarrow> (('w, 'z) net_scheme, 'a) js \<Rightarrow> bool" where
  "changed_as changes P m \<longleftrightarrow> (\<forall>s. changed_at changes P m s)"

lemma changed_at_mono: "changed_at changes P m s \<Longrightarrow> (\<And>c. P c \<Longrightarrow> Q c) \<Longrightarrow> changed_at changes Q m s"
  unfolding changed_at_def by blast

lemma changed_as_mono: "changed_as changes P m \<Longrightarrow> (\<And>c. P c \<Longrightarrow> Q c) \<Longrightarrow> changed_as changes Q m"
  unfolding changed_as_def using changed_at_mono by blast

lemma changed_at_throw: "changed_at changes P (throw e) s"
  by (simp add: changed_at_def unchanged.R_refl)

lemma changed_as_throw: "changed_as changes P (throw e)"
  by (simp add: changed_as_def changed_at_throw)

lemma changed_at_bnd:
  assumes "along (unchanged changes) m" "\<And>x t. m s = (Inr x, t) \<Longrightarrow> changed_at changes P (f x) t"
  shows "changed_at changes P (bnd m f) s"
proof -
  obtain r t where m: "m s = (r, t)" by (cases "m s")
  have u: "unchanged changes s t" using alongD [OF assms(1), of s] m by simp
  show ?thesis
  proof (cases r)
    case (Inl e)
    then show ?thesis using m u by (simp add: changed_at_def bnd_run)
  next
    case (Inr x)
    have "changed_at changes P (f x) t" using assms(2) m Inr by simp
    then show ?thesis using m u Inr
      by (auto simp: changed_at_def bnd_run unchanged_def same_changes_def)
  qed
qed

lemma changed_as_bnd:
  assumes "along (unchanged changes) m" "\<And>s x t. m s = (Inr x, t) \<Longrightarrow> changed_as changes P (f x)"
  shows "changed_as changes P (bnd m f)"
  using changed_at_bnd [OF assms(1)] assms(2) unfolding changed_as_def by blast

lemma changed_as_andthen:
  "along (unchanged changes) m \<Longrightarrow> (\<And>s x t. m s = (Inr x, t) \<Longrightarrow> changed_as changes P n) \<Longrightarrow> changed_as changes P (andthen m n)"
  unfolding andthen_def by (rule changed_as_bnd)

lemma changed_as_ret:
  assumes "changed_as changes P m" shows "changed_as changes P (andthen m (ret x))"
  unfolding changed_as_def
proof
  fix s
  show "changed_at changes P (andthen m (ret x)) s"
    using assms [unfolded changed_as_def, rule_format, of s]
    by (cases "m s") (auto simp: changed_at_def andthen_run split: sum.split)
qed

lemma changed_as_send:
  fixes changes :: "'w \<Rightarrow> (string \<times> registry_method) list"
  assumes "registry_laws M changes" "P (registry, c)"
  shows "changed_as changes P (io (n_registrySend (cm_node M) registry c ro) :: (('w, 'z) net_scheme, unit) js)"
  unfolding changed_as_def
proof
  fix s :: "('w, 'z) net_scheme"
  have "case n_registrySend (cm_node M) registry c ro (world s) of
      (Inl e, v) \<Rightarrow> changes v = changes (world s) \<or> changes v = changes (world s) @ [(registry, c)]
    | (Inr u, v) \<Rightarrow> changes v = changes (world s) @ [(registry, c)]"
    using assms(1) by (simp add: registry_laws_def)
  then show "changed_at changes P (io (n_registrySend (cm_node M) registry c ro)) s"
    using assms(2) by (auto simp: changed_at_def io_run unchanged_def same_changes_def split: prod.splits sum.splits)
qed

lemma checkVersion_read:
  assumes "checkVersion N registry i v b s = (Inr u, t)" shows "version_read N registry i v b"
proof -
  let ?request = "n_registryEvents N registry ''allEvents'' (Some (string32 i))"
  obtain versions s1 where g: "catching (getAllVersions N registry i) (\<lambda>_. ret []) s = (Inr versions, s1)"
    and v: "(find (\<lambda>x. vi_version x = v) versions \<noteq> None) = b"
    using assms by (auto simp: checkVersion_def elim!: bnd_InrE dest!: throw_if_InrD)
  have b: "(v \<in> vi_version ` set versions) = b" using v by (auto simp: find_None_iff)
  show ?thesis
  proof (cases "fst (?request (world s))")
    case (Inl e)
    then have "versions = []" using g by (simp add: getAllVersions_def js_run)
    then show ?thesis using Inl b by (auto simp: version_read_def Let_def)
  next
    case (Inr events)
    then have "versions = allVersions events" using g by (simp add: getAllVersions_def js_run)
    moreover have "returns ?request events" using Inr unfolding returns_def by (metis prod.collapse)
    ultimately show ?thesis using b by (auto simp: version_read_def Let_def)
  qed
qed

lemma changed_as_change:
  assumes laws: "registry_laws M changes" and i: "vo_id opts = Some i"
  shows "changed_as changes (\<lambda>(a, c). a = registry \<and> (\<exists>v. requested opts i v c \<and> version_read (cm_node M) registry i v (vo_cancel opts)))
    (registryChange M registry opts i)"
proof (cases "(vo_add opts = None) = (\<not> vo_cancel opts)")
  case True
  then show ?thesis
    by (simp add: registryChange_def changed_as_def changed_at_def js_run unchanged.R_refl)
next
  case False
  then have one: "vo_add opts = None \<longleftrightarrow> vo_cancel opts" by blast
  show ?thesis
    unfolding registryChange_def Let_def addVersion_def cancelVersion_def
    by (intro changed_as_andthen changed_as_bnd along_from [OF laws] unchanged.along_throw_if;
        cases "vo_ver opts"; cases "vo_add opts")
      (use one i in \<open>auto intro!: changed_as_throw changed_as_ret changed_as_andthen changed_as_send [OF laws]
        along_check [OF laws] simp: requested_def dest!: checkVersion_read\<close>)
qed

lemma changed_as_mode:
  assumes "registry_laws M changes" "\<not> vo_list opts" "vo_add opts \<noteq> None \<or> vo_cancel opts"
  shows "changed_as changes (\<lambda>(a, c). a = registry \<and> (\<exists>i v. requested opts i v c \<and> version_read (cm_node M) registry i v (vo_cancel opts)))
    (registryMode T M registry opts)"
proof -
  have "changed_as changes (\<lambda>(a, c). a = registry \<and> (\<exists>i v. requested opts i v c \<and> version_read (cm_node M) registry i v (vo_cancel opts)))
      (registryChange M registry opts i)" if "vo_id opts = Some i" for i
    by (rule changed_as_mono [OF changed_as_change [OF assms(1) that]]) blast
  moreover have "along (unchanged changes) (isValid (cm_node M) registry)"
    unfolding isValid_def by (intro unchanged.along_rules registry_reads [OF assms(1)])
  ultimately show ?thesis
    using assms(2,3) unfolding registryMode_def
    by (intro changed_as_bnd changed_as_andthen unchanged.along_throw_if)
      (auto intro: changed_as_throw split: option.split)
qed

lemma along_mode:
  assumes "registry_laws M changes" "vo_list opts \<or> vo_add opts = None \<and> \<not> vo_cancel opts"
  shows "along (unchanged changes) (registryMode T M registry opts)"
  using assms(2) unfolding registryMode_def isValid_def listIds_def
  by (intro unchanged.along_rules registry_reads [OF assms(1)])
    (auto intro!: unchanged.along_rules registry_reads [OF assms(1)] along_view [OF assms(1)] split: option.split)

text \<open>The address of the registry is read from the files as they are when the command starts.\<close>

lemma files_read: "fs_files u = fs_files s \<Longrightarrow> fst (getRegistryAddress J a u) = fst (getRegistryAddress J a s)"
  by (auto simp: getRegistryAddress_def getAddressFromFile_def readFile_def js_run split: option.split sum.split)

lemma getMnemonic_files: "getMnemonic f s = (r, t) \<Longrightarrow> fs_files t = fs_files s"
  by (auto simp: getMnemonic_def readFile_def js_run split: option.splits sum.splits)

lemma newCommandsLogic_files:
  "newCommandsLogic T h cfg m s = (Inr M, t) \<Longrightarrow> fs_files t = fs_files s"
  by (auto simp: newCommandsLogic_def newInteractor_def elim!: bnd_InrE andthen_InrE)

section \<open>A registry in which every change is recorded\<close>

definition ledger_commands :: "(string \<times> registry_method) list commands" where
  "ledger_commands = \<lparr>cm_node =
     \<lparr>n_getTransactionCount = (\<lambda>_ _. fails), n_getGasPrice = fails, n_getBalance = (\<lambda>_ _. fails),
      n_getBlockNumber = fails, n_getBlock = (\<lambda>_. fails), n_getTransaction = (\<lambda>_. fails),
      n_getTransactionReceipt = (\<lambda>_. fails), n_getCode = (\<lambda>_. ret ''0x60''), n_getChainId = fails,
      n_getNetworkId = fails, n_getNetworkType = fails, n_estimateGas = (\<lambda>_. fails), n_call = (\<lambda>_. fails),
      n_sendSignedTransaction = (\<lambda>_. fails), n_sendRawTransaction = (\<lambda>_. fails), n_getPastEvents = (\<lambda>_ _ _. fails),
      n_getStakeInfo = (\<lambda>_ _. fails), n_contractAt = (\<lambda>_ _. fails), n_versionHub = (\<lambda>_. fails),
      n_forwarderNonce = (\<lambda>_. fails), n_factoryNonce = (\<lambda>_ _. fails), n_getAcceptedTokens = (\<lambda>_. fails),
      n_methodCall = (\<lambda>_ _ _ _. fails), n_methodEstimateGas = (\<lambda>_ _ _. fails), n_registryEvents = (\<lambda>_ _ _. ret []),
      n_registrySend = (\<lambda>a m _. modify (\<lambda>w. w @ [(a, m)])), n_now = fails, n_random = fails, n_sleep = (\<lambda>_. fails)\<rparr>,
     cm_web3 = web3_ex, cm_http = \<lparr>h_get = (\<lambda>_. fails), h_post = (\<lambda>_ _. fails)\<rparr>, cm_BN = toBN_ex,
     cm_getAccounts = ret [], cm_stakeForAddress = (\<lambda>_ _ _ _ _ _. fails), cm_fund = (\<lambda>_ _ _ _. fails),
     cm_estimateDeploy = (\<lambda>_ _. fails), cm_sendDeploy = (\<lambda>_ _ _. fails), cm_addVersion = (\<lambda>_ _ _ _ _. fails),
     cm_read = fails\<rparr>"

definition ledger_tools :: "(string \<times> registry_method) list cli_tools" where
  "ledger_tools = \<lparr>ct_files = file_tools_ex, ct_logic = (\<lambda>_ _. Inr ledger_commands), ct_formatDate = (\<lambda>_. []),
     ct_ether = toBN_ex, ct_fromWei = Inr\<rparr>"

definition ledger_state :: "(string \<times> registry_method) list cli_files" where
  "ledger_state = \<lparr>world = [], ci_relayHub = None, ci_relayVerifier = None, ci_deployVerifier = None,
     ci_rawTxOptions = None, ci_chainId = 33, ci_networkId = None, ci_networkType = None,
     cs_config = client_config_ex, cs_transactions = [], fs_files = \<lambda>_. None\<rparr>"

definition add_options :: registry_options where
  "add_options = \<lparr>vo_network = ''localhost'', vo_mnemonic = None, vo_from = Some ''0xo'', vo_gasPrice = ''100'',
     vo_registry = Some ''0xreg'', vo_id = Some ''hub'', vo_list = False, vo_delay = ''0'', vo_history = False,
     vo_ver = Some ''2'', vo_date = False, vo_add = Some ''0xhub'', vo_cancel = False, vo_reason = None, vo_args = []\<rparr>"

lemma ledger_laws: "registry_laws ledger_commands (\<lambda>w. w)"
  by (simp add: registry_laws_def ledger_commands_def along_def same_changes_def fails_def)

section \<open>The status command\<close>

text \<open>
  The contract interactor of the status command is never initialized, and the events of the hub are read
  through the hub it does not have: the command always ends with an error.
\<close>

lemma gatherStatistics_needs_hub:
  assumes "ci_relayHub s = None"
  shows "\<exists>e. fst (gatherStatistics N W H config s) = Inl e"
  using assms by (simp add: gatherStatistics_def getPastEventsForHub_def relayHubInstance_def instance_of_def
      createContract_def getBalance_def js_run split: sum.split)

lemma new_interactor_gather:
  "\<exists>e. fst (andthen (newInteractor config) (bnd (gatherStatistics N W H c) f) s) = Inl e"
  using gatherStatistics_needs_hub [of "snd (newInteractor config s)" N W H c]
  by (auto simp: newInteractor_def andthen_run bnd_run split: prod.split sum.split)

lemma statusCommand_fails: "fst (exit_code (statusCommand T N W H hub) s) = Inr 1"
proof -
  have "\<exists>e. fst (statusCommand T N W H hub s) = Inl e"
    unfolding statusCommand_def bnd_run [of "getRelayHubAddress (ct_files T) hub"]
    by (simp add: new_interactor_gather split: prod.split sum.split option.split)
  then show ?thesis by (auto simp: exit_code_def catching_run andthen_run split: prod.split)
qed

section \<open>The delay of a version\<close>

lemma parseTime_units:
  assumes "n * 604800 \<le> 2 ^ 53" "map_of [(CHR ''s'', 1), (CHR ''m'', 60), (CHR ''h'', 3600), (CHR ''d'', 86400), (CHR ''w'', 604800)] u = Some k"
  shows "parseTime (digits_in 10 n @ [u]) = Inr (num (int n * k))"
proof -
  let ?d = "digits_in 10 n"
  have d: "list_all (is_digit_in 10) ?d" "digits_value 10 ?d = n" by (simp_all add: digits_str_all digits_value_str)
  have u: "\<not> is_digit_in 10 u" "u \<noteq> CHR ''.''" "\<not> is_white u"
    using assms(2) by (auto simp: is_digit_in_def digit_value_def is_white_def split: if_splits)
  have t: "takeWhile (is_digit_in 10) ?d = ?d" "dropWhile (is_digit_in 10) ?d = []"
    "takeWhile (\<lambda>c. is_digit_in 10 c \<or> c = CHR ''.'') (?d @ [u]) = ?d"
    "dropWhile (\<lambda>c. is_digit_in 10 c \<or> c = CHR ''.'') (?d @ [u]) = [u]"
    using d(1) u by (simp_all add: list_all_iff takeWhile_append dropWhile_append)
  have w: "dropWhile is_white (?d @ [u]) = ?d @ [u]"
    using d(1) digit_not_special(1) [of 10] by (cases ?d) auto
  have r: "rnd (of_nat n) = of_nat n" "rnd (of_nat n * 60) = of_nat n * 60" "rnd (of_nat n * 3600) = of_nat n * 3600"
    "rnd (of_nat n * 86400) = of_nat n * 86400" "rnd (of_nat n * 604800) = of_nat n * 604800"
    using assms(1) rnd_of_int [of "int n"] rnd_of_int [of "int n * 60"] rnd_of_int [of "int n * 3600"]
      rnd_of_int [of "int n * 86400"] rnd_of_int [of "int n * 604800"] by simp_all
  have p: "parseFloat_digits ?d = num (int n)"
    by (simp add: parseFloat_digits_def Let_def t(1,2) d(2) r(1) num_def)
  have "parseTime (?d @ [u]) = Inr (let d = lower_char u; m = num (int n) in
      if d = CHR ''m'' then num_mul m (num 60)
      else if d = CHR ''h'' then num_mul m (num 3600)
      else if d = CHR ''d'' then num_mul (num_mul m (num 3600)) (num 24)
      else if d = CHR ''w'' then num_mul (num_mul (num_mul m (num 3600)) (num 24)) (num 7)
      else m)"
    by (simp add: parseTime_def Let_def w t p u del: takeWhile_append dropWhile_append)
  then show ?thesis
    using assms(2) r by (auto simp: lower_char_def num_mul_def num_def mult.assoc split: if_splits)
qed

section \<open>Properties\<close>

text \<open>
  C40. The registry command changes a registry only when it is asked to add or to cancel, then at most once,
  exactly as its options say, and the registry they name; it reports success only after the change. A version it
  cancels was in the answer of this registry. A version it adds was missing in the answer, or the registry could not be
  read: \<open>checkVersion\<close> takes a failed request for an empty registry, so that the version is added unchecked.
\<close>

theorem registry_changes_as_requested:
  fixes s :: "('w, 'z) cli_files_scheme"
  assumes "\<forall>host mnemonic M. ct_logic T host mnemonic = Inr M \<longrightarrow> registry_laws M changes"
    and "registryCommand T opts s = (r, t)"
  shows "if vo_list opts \<or> vo_add opts = None \<and> \<not> vo_cancel opts then changes (world t) = changes (world s)
    else (\<exists>e. r = Inl e) \<and> changes (world t) = changes (world s) \<or>
      (\<exists>host mnemonic M registry i v c. ct_logic T host mnemonic = Inr M \<and>
        fst (getRegistryAddress (ct_files T) (vo_registry opts) s) = Inr (Some registry) \<and> requested opts i v c \<and>
        version_read (cm_node M) registry i v (vo_cancel opts) \<and> changes (world t) = changes (world s) @ [(registry, c)])"
proof -
  have M: "\<exists>host mnemonic. ct_logic T host mnemonic = Inr M" if "newCommandsLogic T h cfg m u = (Inr M, u')" for h cfg m u u' M
    using that by (auto simp: newCommandsLogic_def elim!: bnd_InrE andthen_InrE) blast
  have laws: "registry_laws M changes" if "ct_logic T h m = Inr M" for h m M
    using assms(1) that by blast
  show ?thesis
  proof (cases "vo_list opts \<or> vo_add opts = None \<and> \<not> vo_cancel opts")
    case True
    have "along (unchanged changes) (registryCommand T opts)"
      unfolding registryCommand_def
      by (intro unchanged.along_bnd along_files unchanged.along_bnd_returns [OF along_logic] unchanged.along_option
          unchanged.along_throw along_mode [OF _ True]) (auto simp: returns_def dest!: M laws)
    from alongD [OF this, of s] show ?thesis using True assms(2) by (simp add: unchanged_def same_changes_def)
  next
    case False
    define P where "P = (\<lambda>(registry, c). \<exists>host mnemonic M i v. ct_logic T host mnemonic = Inr M \<and>
      fst (getRegistryAddress (ct_files T) (vo_registry opts) s) = Inr (Some registry) \<and> requested opts i v c \<and>
      version_read (cm_node M) registry i v (vo_cancel opts))"
    have mode: "changed_at changes P (registryMode T M registry opts) u"
      if M: "ct_logic T h m = Inr M" and a: "fst (getRegistryAddress (ct_files T) (vo_registry opts) s) = Inr (Some registry)"
      for M registry h m and u :: "('w, 'z) cli_files_scheme"
    proof -
      have "changed_as changes (\<lambda>(a, c). a = registry \<and> (\<exists>i v. requested opts i v c \<and> version_read (cm_node M) registry i v (vo_cancel opts)))
          (registryMode T M registry opts :: (('w, 'z) cli_files_scheme, string list) js)"
        by (rule changed_as_mode [OF laws [OF M]]) (use False in auto)
      then have "changed_at changes (\<lambda>(a, c). a = registry \<and> (\<exists>i v. requested opts i v c \<and> version_read (cm_node M) registry i v (vo_cancel opts)))
          (registryMode T M registry opts) u" by (simp add: changed_as_def)
      then show ?thesis
      proof (rule changed_at_mono)
        fix c assume "case c of (a, c) \<Rightarrow> a = registry \<and> (\<exists>i v. requested opts i v c \<and> version_read (cm_node M) registry i v (vo_cancel opts))"
        then show "P c" using M a unfolding P_def by (cases c) (simp only: prod.case, blast)
      qed
    qed
    have "changed_at changes P (registryCommand T opts) s"
      unfolding registryCommand_def
    proof (intro changed_at_bnd along_files along_logic)
      fix mnemonic M registry and s1 s2 s3 :: "('w, 'z) cli_files_scheme"
      assume "getMnemonic (vo_mnemonic opts) s = (Inr mnemonic, s1)"
        "newCommandsLogic T (getNetworkUrl (vo_network opts)) (configure emptyConfig) mnemonic s1 = (Inr M, s2)"
        "getRegistryAddress (ct_files T) (vo_registry opts) s2 = (Inr registry, s3)"
      then obtain h m where "ct_logic T h m = Inr M" "fst (getRegistryAddress (ct_files T) (vo_registry opts) s) = Inr registry"
        using M files_read [of s2 s "ct_files T" "vo_registry opts"] newCommandsLogic_files getMnemonic_files
        by (metis fst_conv)
      then show "changed_at changes P (case registry of None \<Rightarrow> throw (Error ''must specify --registry'')
          | Some registry \<Rightarrow> registryMode T M registry opts) s3"
        using mode by (cases registry) (auto simp: changed_at_throw)
    qed
    then show ?thesis
      using False assms(2) by (auto simp: changed_at_def P_def unchanged_def same_changes_def)
  qed
qed

theorem registry_changes_as_requested_witness:
  "\<exists>t. registryCommand ledger_tools add_options ledger_state = (Inr [''== Added version hub @ 2''], t) \<and>
     world t = [(''0xreg'', AddVersion (string32 ''hub'') (string32 ''2'') ''0xhub'')]"
proof -
  have "\<exists>t. registryCommand ledger_tools add_options ledger_state = (Inr [''== Added version hub @ 2''], t)"
    by (simp add: registryCommand_def getMnemonic_def add_options_def newCommandsLogic_def newInteractor_def ledger_tools_def
        js_run ledger_state_def getRegistryAddress_def getAddressFromFile_def registryMode_def isValid_def ledger_commands_def
        registryChange_def fromOrWealthy_def addVersion_def checkVersion_def getAllVersions_def allVersions_def cancelReasons_def)
  then obtain t where t: "registryCommand ledger_tools add_options ledger_state = (Inr [''== Added version hub @ 2''], t)" by blast
  have "\<forall>h m M. ct_logic ledger_tools h m = Inr M \<longrightarrow> registry_laws M (\<lambda>w. w)"
    using ledger_laws by (simp add: ledger_tools_def)
  from registry_changes_as_requested [OF this t] show ?thesis
    using t by (auto simp: add_options_def requested_def ledger_state_def getRegistryAddress_def getAddressFromFile_def)
qed

end
