(* ===== verification/ServerProcess.thy ===== *)
theory ServerProcess
  imports ServerRequests
begin

text \<open>
  The server as a process (\<open>src/relayserver/runServer.ts\<close>, the constructors of \<open>RelayServer\<close>,
  \<open>TransactionManager\<close> and \<open>TxStoreManager\<close>, the listening part of \<open>HttpServer.ts\<close>): what happens from the
  command line to the first request, and the life of the process after it as a state machine whose steps
  are the timer's ticks and the requests, each run to its end. The file system is part of the world
  that the node's requests see. The invariants of all reachable states are proved in the locale
  \<open>server_inv\<close>, which says what a single send of each kind has to keep.
\<close>

section \<open>The collaborators\<close>

record ('w, 'seed, 'd, 'k, 't) process_env =
  px_minimist :: "string list \<Rightarrow> string list \<Rightarrow> obj \<Rightarrow> string list \<times> obj"
  px_readJson :: "string \<Rightarrow> (exn + obj) option"
  px_parseList :: "string \<Rightarrow> exn + string list"
  px_nodeAt :: "string \<Rightarrow> 'w node"
  px_web3 :: web3_utils
  px_txlib :: "('k, 't) txlib"
  px_nedb :: "'d nedb"
  px_keys :: "('w, 'seed, 'k) key_env"
  px_unlinkSync :: "string \<Rightarrow> ('w, unit) js"
  px_openStore :: "string \<Rightarrow> ('w, 'd) js"

text \<open>
  The HTTP server: \<open>hs_serverInstance\<close> when \<open>listen\<close> has been called, \<open>hs_listening\<close> when its callback has
  run, \<open>hs_closeOnUnstaked\<close> while the listener of \<open>once('unstaked')\<close> is there. The server of the event
  \<open>removed\<close>, which nothing emits, has no listener here.
\<close>

record ('w, 'd) process_state = "('w, 'd) server_state" +
  hs_serverInstance :: bool
  hs_listening :: bool
  hs_closeOnUnstaked :: bool

definition TXSTORE_FILENAME :: string where
  "TXSTORE_FILENAME = ''txstore.db''"

definition storeFile :: "string \<Rightarrow> string" where
  "storeFile workdir = workdir @ ''/'' @ TXSTORE_FILENAME"

text \<open>The constructor of \<open>TxStoreManager\<close>: the documents of the file are loaded, the indexes are made.\<close>

definition newTxStoreManager ::
  "('w, 'seed, 'd, 'k, 't) process_env \<Rightarrow> string \<Rightarrow> (('w, 'd, 'z) store_state_scheme, unit) js" where
  "newTxStoreManager E workdir =
     bnd (io (px_openStore E (storeFile workdir))) (\<lambda>d. modify (\<lambda>s. s\<lparr>txstore := d\<rparr>))"

definition removeStore ::
  "('w, 'seed, 'd, 'k, 't) process_env \<Rightarrow> string \<Rightarrow> (('w, 'z) net_scheme, unit) js" where
  "removeStore E workdir =
     bnd (io (ke_existsSync (px_keys E) (storeFile workdir))) (\<lambda>there.
       if there then io (px_unlinkSync E (storeFile workdir)) else ret ())"

definition newTransactionManager ::
  "('w, 'd, 'k, 't) deps \<Rightarrow> ('w, 'd, 'z) tm_state_scheme \<Rightarrow> ('w, 'd, 'z) tm_state_scheme" where
  "newTransactionManager D s = s\<lparr>nonces := initNonces D, nonceMutex := False\<rparr>"

text \<open>\<open>Number.MAX_SAFE_INTEGER\<close> rounds count as successful before the first one.\<close>

definition newRelayServer :: "('w, 'd, 'k, 't) deps \<Rightarrow> (('w, 'd, 'z) server_state_scheme, unit) js" where
  "newRelayServer D = modify (\<lambda>s. (newTransactionManager D s)
     \<lparr>rg_unstaked := False, sv_lastScannedBlock := 0, sv_lastRefreshBlock := 0, sv_ready := False,
      sv_lastSuccessfulRounds := 2 ^ 53 - 1, sv_gasPrice := num 0, sv_workerSemaphoreOn := False,
      sv_alerted := False, sv_alertedBlock := 0, sv_initialized := False, sv_lastMinedActive := None,
      sv_relayHubContract := None, sv_trustedVerifiers := [],
      sv_workerBalanceRequired := newAmountRequired ''Worker Balance'' (sc_workerMinBalance (dp_config D)),
      sv_workerTask := False, sv_polling := False\<rparr>)"

section \<open>The HTTP server\<close>

definition newHttpServer :: "(('w, 'd, 'z) process_state_scheme, unit) js" where
  "newHttpServer = modify (\<lambda>s. s\<lparr>hs_serverInstance := False, hs_listening := False, hs_closeOnUnstaked := True\<rparr>)"

definition hs_start :: "(('w, 'd, 'z) process_state_scheme, unit) js" where
  "hs_start = bnd (gets hs_serverInstance) (\<lambda>i.
     if \<not> i then modify (\<lambda>s. s\<lparr>hs_serverInstance := True\<rparr>) else ret ())"

definition startBackend :: "(('w, 'd, 'z) server_state_scheme, unit) js" where
  "startBackend = catching start (\<lambda>e. ret ())"

definition hs_stop :: "(('w, 'd, 'z) process_state_scheme, unit) js" where
  "hs_stop = modify (\<lambda>s. if hs_serverInstance s then s\<lparr>hs_listening := False\<rparr> else s)"

text \<open>
  The listener of \<open>once('unstaked')\<close>. The event is emitted in a round of the worker; what the listener
  changes is not read by the rest of the round, so it is run after it.
\<close>

definition deliverUnstaked :: "('w, 'd, 'z) process_state_scheme \<Rightarrow> ('w, 'd, 'z) process_state_scheme" where
  "deliverUnstaked s = (if rg_unstaked s \<and> hs_closeOnUnstaked s
     then snd (close (s\<lparr>hs_closeOnUnstaked := False\<rparr>)) else s)"

section \<open>\<open>run\<close>\<close>

definition interactorConfig :: "obj \<Rightarrow> enveloping_config" where
  "interactorConfig config = configure (emptyConfig
     \<lparr>pc_relayHubAddress := Some (member_str config ''relayHubAddress''),
      pc_deployVerifierAddress := Some (member_str config ''deployVerifierAddress''),
      pc_relayVerifierAddress := Some (member_str config ''relayVerifierAddress'')\<rparr>)"

text \<open>The members of the server's objects that do not change: \<open>ServerDependencies\<close> and the configuration.\<close>

definition serverDependencies ::
  "('w, 'seed, 'd, 'k, 't) process_env \<Rightarrow> 'w node \<Rightarrow> 'k key_manager \<Rightarrow> 'k key_manager \<Rightarrow> obj \<Rightarrow> ('w, 'd, 'k, 't) deps" where
  "serverDependencies E N managerKeys workersKeys config =
     \<lparr>dp_node = N, dp_web3 = px_web3 E, dp_db = px_nedb E, dp_tx = px_txlib E, dp_managerKeys = managerKeys,
      dp_workersKeys = workersKeys, dp_config = toServerConfig (configureServer config)\<rparr>"

text \<open>The contract interactor, the relay server and its HTTP server, once keys and store are there.\<close>

definition bootServer ::
  "('w, 'd, 'k, 't) deps \<Rightarrow> enveloping_config \<Rightarrow> (('w, 'd, 'z) process_state_scheme, ('w, 'd, 'k, 't) deps) js" where
  "bootServer D cfg =
     andthen (newInteractor cfg)
     (andthen (ci_init (dp_node D) (dp_web3 D) cfg)
     (andthen (newRelayServer D)
     (andthen (sv_init D)
     (andthen newHttpServer
     (andthen hs_start (ret D))))))"

text \<open>From the resolved configuration on.\<close>

definition launch ::
  "('w, 'seed, 'd, 'k, 't) process_env \<Rightarrow> 'w node \<Rightarrow> obj \<Rightarrow> (('w, 'd, 'z) process_state_scheme, ('w, 'd, 'k, 't) deps) js" where
  "launch E N config =
     (let workdir = member_str config ''workdir'' in
      andthen (if member_bool config ''devMode'' then removeStore E workdir else ret ())
      (bnd (io (newKeyManager (px_keys E) 1 (Some (workdir @ ''/manager'')) None)) (\<lambda>managerKeys.
       bnd (io (newKeyManager (px_keys E) 1 (Some (workdir @ ''/workers'')) None)) (\<lambda>workersKeys.
       andthen (newTxStoreManager E workdir)
       (bootServer (serverDependencies E N managerKeys workersKeys config) (interactorConfig config))))))"

text \<open>
  A configuration that is rejected ends the process with \<open>exit(1)\<close>, a later error is an unhandled rejection;
  either way nothing is served, and \<open>runServer\<close> throws.
\<close>

definition runServer ::
  "('w, 'seed, 'd, 'k, 't) process_env \<Rightarrow> string list \<Rightarrow> obj \<Rightarrow> (('w, 'd, 'z) process_state_scheme, ('w, 'd, 'k, 't) deps) js" where
  "runServer E args env =
     bnd (of_result (parseServerConfig (px_minimist E) (px_readJson E) args env)) (\<lambda>conf.
     let N = px_nodeAt E (member_str conf ''rskNodeUrl'') in
     bnd (runServerConfig N (px_web3 E) (px_parseList E) (Inr conf)) (launch E N))"

section \<open>The life of the process\<close>

datatype server_event =
  Listening
| Tick
| ReadyTimeout
| GetAddr
| GetStatus
| GetTokens "string option"
| GetVerifiers
| PostRelay relay_transaction_request

fun enabled :: "server_event \<Rightarrow> ('w, 'd, 'z) process_state_scheme \<Rightarrow> bool" where
  "enabled Listening s = (hs_serverInstance s \<and> \<not> hs_listening s)"
| "enabled Tick s = sv_polling s"
| "enabled ReadyTimeout s = sv_workerTask s"
| "enabled ev s = hs_listening s"

fun serve ::
  "('w, 'd, 'k, 't) deps \<Rightarrow> server_event \<Rightarrow> ('w, 'd, 'z) process_state_scheme \<Rightarrow>
   http_response option \<times> ('w, 'd, 'z) process_state_scheme" where
  "serve D Listening s = (None, snd (startBackend (s\<lparr>hs_listening := True\<rparr>)))"
| "serve D Tick s = (None, deliverUnstaked (snd (intervalHandler D s)))"
| "serve D ReadyTimeout s = (None, ready_timeout D s)"
| "serve D GetAddr s = map_prod Some id (http_pingHandler D s)"
| "serve D GetStatus s = map_prod Some id (statusHandler s)"
| "serve D (GetTokens verifier) s = map_prod Some id (http_tokenHandler D verifier s)"
| "serve D GetVerifiers s = map_prod Some id (http_verifierHandler s)"
| "serve D (PostRelay body) s = map_prod Some id (relayHandler D body s)"

text \<open>Between two steps the rest of the world goes on.\<close>

inductive server_reachable ::
  "('w, 'seed, 'd, 'k, 't) process_env \<Rightarrow> string list \<Rightarrow> obj \<Rightarrow> ('w, 'd, 'k, 't) deps \<Rightarrow> ('w, 'd, 'z) process_state_scheme \<Rightarrow> bool"
  for E :: "('w, 'seed, 'd, 'k, 't) process_env" and args :: "string list" and env :: obj and D :: "('w, 'd, 'k, 't) deps" where
  started: "runServer E args env s = (Inr D, t) \<Longrightarrow> server_reachable E args env D t"
| served: "server_reachable E args env D s \<Longrightarrow> enabled ev s \<Longrightarrow> server_reachable E args env D (snd (serve D ev s))"
| world_changed: "server_reachable E args env D s \<Longrightarrow> server_reachable E args env D (s\<lparr>world := w\<rparr>)"

section \<open>What every step keeps\<close>

text \<open>
  An invariant of the server that rests on what its own sends keep: a registration, an added worker, a
  refill of the worker, a return of funds to the owner known, the call of a request that has been
  accepted, and the resending and forgetting of stored transactions. Every handler keeps it.
\<close>

locale server_inv =
  fixes D :: "('w, 'd, 'k, 't) deps" and I :: "('w, 'd, 'z) process_state_scheme \<Rightarrow> bool"
  assumes inv_world: "I s \<Longrightarrow> I (s\<lparr>world := w\<rparr>)"
    and inv_balance: "I s \<Longrightarrow> I (s\<lparr>rg_balanceRequired := a\<rparr>)"
    and inv_delayed: "I s \<Longrightarrow> I (s\<lparr>rg_delayedEvents := es\<rparr>)"
    and inv_register: "I s \<Longrightarrow> I (s\<lparr>rg_lastMinedRegister := e\<rparr>)"
    and inv_worker: "I s \<Longrightarrow> I (s\<lparr>rg_lastWorkerAdded := e\<rparr>)"
    and inv_unstaked: "I s \<Longrightarrow> I (s\<lparr>rg_unstaked := b\<rparr>)"
    and inv_refreshed: "I s \<Longrightarrow> I (s\<lparr>sv_lastRefreshBlock := n\<rparr>)"
    and inv_scanned: "I s \<Longrightarrow> I (s\<lparr>sv_lastScannedBlock := n\<rparr>)"
    and inv_ready: "I s \<Longrightarrow> I (s\<lparr>sv_ready := b\<rparr>)"
    and inv_rounds: "I s \<Longrightarrow> I (s\<lparr>sv_lastSuccessfulRounds := n\<rparr>)"
    and inv_gasPrice: "I s \<Longrightarrow> I (s\<lparr>sv_gasPrice := p\<rparr>)"
    and inv_semaphore: "I s \<Longrightarrow> I (s\<lparr>sv_workerSemaphoreOn := b\<rparr>)"
    and inv_alerted: "I s \<Longrightarrow> I (s\<lparr>sv_alerted := b\<rparr>)"
    and inv_alertedBlock: "I s \<Longrightarrow> I (s\<lparr>sv_alertedBlock := n\<rparr>)"
    and inv_active: "I s \<Longrightarrow> I (s\<lparr>sv_lastMinedActive := e\<rparr>)"
    and inv_required: "I s \<Longrightarrow> I (s\<lparr>sv_workerBalanceRequired := a\<rparr>)"
    and inv_task: "I s \<Longrightarrow> I (s\<lparr>sv_workerTask := b\<rparr>)"
    and inv_polling: "I s \<Longrightarrow> I (s\<lparr>sv_polling := b\<rparr>)"
    and inv_listening: "I s \<Longrightarrow> I (s\<lparr>hs_listening := b\<rparr>)"
    and inv_closing: "I s \<Longrightarrow> I (s\<lparr>hs_closeOnUnstaked := b\<rparr>)"
    and keep_poll: "along (keeps I) (pollNonce D (workerAddress D))"
    and keep_init: "along (keeps I) (sv_init D)"
    and keep_stake: "along (keeps I) (refreshStake D)"
    and keep_boost: "along (keeps I) (boostUnderpricedPendingTransactionsForSigner D k n)"
    and keep_remove: "along (keeps I) (removeConfirmedTransactions D n)"
    and keep_registerServer: "along (keeps I) (sendTransaction D
          (hub_call D REGISTER_SERVER (RegisterRelayServer (registerUrl (dp_config D))) g n))"
    and keep_addWorker: "along (keeps I) (sendTransaction D (hub_call D ADD_WORKER (AddRelayWorkers [workerAddress D]) g n))"
    and keep_refill: "along (keeps I) (sendTransaction D (refill_details D v n))"
    and keep_toOwner: "I s \<Longrightarrow> k \<in> {managerAddress D, workerAddress D} \<Longrightarrow>
          along (keeps I) (sendTransaction D (to_owner D k (rg_ownerAddress s) price v n))"
    and keep_relay: "I s \<Longrightarrow> acceptable D req s \<Longrightarrow> along (keeps I) (sendTransaction D (relay_details D req l n))"
begin

lemma along_inv_modify: "(\<And>s. I s \<Longrightarrow> I (f s)) \<Longrightarrow> along (keeps I) (modify f)"
  by (rule along_keepsI) simp

lemma along_inv_io: "along (keeps I) (io m)"
  by (rule along_keepsI) (simp add: io_run inv_world)

lemmas io_rules = keeping.along_rules along_inv_io

lemma along_inv_hub: "along (keeps I) relayHubInstance"
  unfolding relayHubInstance_def instance_of_def by (intro io_rules)

lemma along_inv_events: "along (keeps I) (getPastEventsForHub N W ts opts ns)"
  "along (keeps I) (getPastEventsForStakeManagement N W ns ts opts)"
  unfolding getPastEventsForHub_def getPastEventsForStakeManagement_def getPastEvents_def Let_def
  by (intro io_rules along_inv_hub)+

lemma along_inv_methods: "along (keeps I) (getRegisterRelayMethod url)" "along (keeps I) (getAddRelayWorkersMethod ws)"
  unfolding getRegisterRelayMethod_def getAddRelayWorkersMethod_def by (intro io_rules along_inv_hub)+

lemma along_inv_pending: "along (keeps I) (isActionPending DB a d)"
  unfolding isActionPending_def getAll_def by (intro io_rules)

lemma along_inv_estimate: "along (keeps I) (attemptEstimateGas D m a)"
  unfolding attemptEstimateGas_def by (cases m) (simp, intro io_rules)

lemma along_inv_balance: "along (keeps I) (getBalance N a b)"
  unfolding getBalance_def by (rule along_inv_io)

lemmas read_rules = io_rules along_inv_hub along_inv_events along_inv_methods along_inv_pending
  along_inv_estimate along_inv_balance

lemma along_inv_refreshBalance: "along (keeps I) (refreshBalance D)"
  unfolding refreshBalance_def by (intro read_rules along_inv_modify inv_balance)

lemma along_inv_owner:
  "k \<in> {managerAddress D, workerAddress D} \<Longrightarrow> along (keeps I) (bnd (gets rg_ownerAddress) (\<lambda>owner.
     bnd (sendTransaction D (to_owner D k owner p v n)) (\<lambda>r. ret [sx_transactionHash r])))"
  by (rule along_keeps_gets) (intro keeping.along_bnd keep_toOwner keeping.along_ret)

lemma along_inv_withdraw: "along (keeps I) (withdrawAllFunds D m n)"
  unfolding withdrawAllFunds_def sendWorkersEthBalancesToOwner_def sendManagerEthBalanceToOwner_def Let_def
  by (intro keeping.along_bnd keeping.along_andthen keeping.along_if along_inv_owner along_inv_io along_inv_balance
      keeping.along_of_result keeping.along_ret along_inv_modify inv_unstaked) simp_all

lemma along_inv_addWorker: "along (keeps I) (addRelayWorker D n)"
  unfolding addRelayWorker_def
proof (rule keeping.along_bnd_returns)
  show "along (keeps I) (getAddRelayWorkersMethod [workerAddress D])" by (rule along_inv_methods)
  fix m assume "returns (getAddRelayWorkersMethod [workerAddress D]) m"
  then have m: "snd m = AddRelayWorkers [workerAddress D]"
    by (auto simp: returns_def getAddRelayWorkersMethod_def elim!: bnd_InrE)
  show "along (keeps I) (bnd (attemptEstimateGas D m (managerAddress D)) (\<lambda>gasLimit.
     bnd (sendTransaction D (hub_call D ADD_WORKER (snd m) gasLimit n)) (\<lambda>r. ret (sx_transactionHash r))))"
    unfolding m by (intro read_rules keep_addWorker)
qed

lemma along_inv_registerServer:
  "along (keeps I) (bnd (getRegisterRelayMethod (registerUrl (dp_config D))) (\<lambda>m.
     bnd (attemptEstimateGas D m (managerAddress D)) (\<lambda>gasLimit.
     bnd (sendTransaction D (hub_call D REGISTER_SERVER (snd m) gasLimit n)) (\<lambda>r. ret (ts @ [sx_transactionHash r])))))"
proof (rule keeping.along_bnd_returns)
  show "along (keeps I) (getRegisterRelayMethod (registerUrl (dp_config D)))" by (rule along_inv_methods)
  fix m assume "returns (getRegisterRelayMethod (registerUrl (dp_config D))) m"
  then have m: "snd m = RegisterRelayServer (registerUrl (dp_config D))"
    by (auto simp: returns_def getRegisterRelayMethod_def elim!: bnd_InrE)
  show "along (keeps I) (bnd (attemptEstimateGas D m (managerAddress D)) (\<lambda>gasLimit.
     bnd (sendTransaction D (hub_call D REGISTER_SERVER (snd m) gasLimit n)) (\<lambda>r. ret (ts @ [sx_transactionHash r]))))"
    unfolding m by (intro read_rules keep_registerServer)
qed

lemma along_inv_attempt: "along (keeps I) (attemptRegistration D n)"
  unfolding attemptRegistration_def
  by (intro keeping.along_bnd keeping.along_if along_inv_registerServer along_inv_addWorker along_inv_pending
      keeping.along_gets keeping.along_ret)

lemma inv_hub_events: "I s \<Longrightarrow> I (foldl (\<lambda>t e. handle_hub_event e t) s es)"
  by (induction es arbitrary: s) (simp_all add: handle_hub_event_def inv_register inv_worker)

lemma along_inv_past: "along (keeps I) (handlePastEvents D es l c f)"
  unfolding handlePastEvents_def handle_stake_event_def handle_due_event_def
    handleStakeUnlockedEvent_def handleStakeWithdrawnEvent_def
  by (intro read_rules along_inv_modify keep_stake along_inv_withdraw along_inv_attempt inv_delayed inv_hub_events)

lemma along_inv_workerBalance: "along (keeps I) (getWorkerBalance D)"
  unfolding getWorkerBalance_def by (intro read_rules)

lemma along_inv_replenish: "along (keeps I) (replenishServer D n)"
  unfolding replenishServer_def defaultReplenishFunction_def getManagerBalance_def Let_def
  by (intro read_rules along_inv_workerBalance along_inv_modify keep_refill inv_required)

lemma along_inv_hubEvents: "along (keeps I) (handlePastHubEvents b es)"
  unfolding handlePastHubEvents_def handleTransactionRejectedByRecipientEvent_def
  by (intro read_rules along_inv_modify) (simp add: inv_alerted inv_alertedBlock)

lemma along_inv_setReady: "along (keeps I) (setReadyState b)"
  unfolding setReadyState_def by (intro along_inv_modify inv_ready)

lemma along_inv_decide: "along (keeps I) (decideReady D n es hs)"
  unfolding decideReady_def
  by (intro read_rules along_inv_modify along_inv_replenish along_inv_workerBalance along_inv_hubEvents along_inv_setReady)
    (simp add: exit_alerted_def inv_alerted)

lemma along_inv_latest: "along (keeps I) (updateLatestTxBlockNumber D es)"
  unfolding updateLatestTxBlockNumber_def queryLatestActiveEvent_def
  by (cases "getLatestEventData es") (simp, intro read_rules along_inv_modify inv_active)

lemma along_inv_changes: "along (keeps I) (handleChanges D n)"
  unfolding handleChanges_def getAllHubEventsSinceLastScan_def shouldRegisterAgain_def boostStuckPendingTransactions_def
  by (intro read_rules along_inv_modify along_inv_latest along_inv_past along_inv_decide keep_remove keep_boost inv_scanned)

lemma along_inv_refreshGasPrice: "along (keeps I) (refreshGasPrice D)"
  unfolding refreshGasPrice_def Let_def by (intro read_rules along_inv_modify inv_gasPrice)

lemma along_inv_work: "along (keeps I) (worker D n)"
  unfolding worker_def
  by (intro read_rules along_inv_modify keep_init along_inv_refreshGasPrice along_inv_refreshBalance along_inv_setReady
      along_inv_changes inv_refreshed)

lemma along_inv_interval: "along (keeps I) (intervalHandler D)"
  unfolding intervalHandler_def workerSemaphore_def
  by (intro read_rules along_inv_modify along_inv_work keeping.along_finally)
    (simp_all add: inv_rounds inv_semaphore keeps_def)

lemma along_inv_gas: "along (keeps I) (maxPossibleGasOf D req)"
  unfolding maxPossibleGasOf_def walletFactoryEstimateGasOfDeployCall_def estimateDestinationContractCallGas_def
    estimateRelayTransactionMaxPossibleGasWithTransactionRequest_def createContract_def
  by (cases "relayRequest req") (simp_all, (intro read_rules)+)

lemma along_inv_validated: "along (keeps I) (validated_request D req)"
  unfolding validated_request_def validateInputTypes_def alerted_delay_def validateInput_def instance_of_def
    validateMaxNonce_def validateRequestWithVerifier_def createContract_def Let_def
  by (intro read_rules keep_poll along_inv_gas)

lemma along_inv_create: "along (keeps I) (createRelayTransaction D req)"
  unfolding createRelayTransaction_validated
proof (rule along_keeps_bnd_run [OF along_inv_validated])
  fix s g t assume "I s" "validated_request D req s = (Inr g, t)"
  then have "along (keeps I) (sendTransaction D (relay_details D req l n))" for l n
    using keep_relay validated_request_acceptable by blast
  then show "along (keeps I) (bnd (gets sv_relayHubContract) (\<lambda>h. bnd (instance_of h) (\<lambda>hub.
      andthen (validateViewCallSucceeds D hub (relay_method req) req g)
      (bnd (io (n_getBlockNumber (dp_node D))) (\<lambda>currentBlock.
       bnd (of_result (bn_toNumber g)) (\<lambda>gasLimit.
       bnd (sendTransaction D (relay_details D req gasLimit currentBlock)) (\<lambda>txDetails.
       andthen (replenishServer D currentBlock) (ret txDetails))))))))"
    unfolding instance_of_def validateViewCallSucceeds_def by (intro read_rules along_inv_replenish)
qed

lemma along_inv_tokens: "along (keeps I) (sv_tokenHandler D verifier)"
  unfolding sv_tokenHandler_def createContract_def by (intro read_rules)

lemma inv_http_handler: "along (keeps I) m \<Longrightarrow> I s \<Longrightarrow> I (snd (http_handler m h s))"
  using along_keepsD [of I m s] by (auto simp: http_handler_def split: prod.split sum.split)

lemma inv_deliver: "I s \<Longrightarrow> I (deliverUnstaked s)"
  by (simp add: deliverUnstaked_def close_def stop_def bnd_run andthen_run inv_closing inv_polling)

lemma inv_serve: "I s \<Longrightarrow> I (snd (serve D ev s))"
  by (cases ev) (simp_all add: startBackend_def start_def catching_run inv_listening inv_task inv_polling
      inv_deliver along_keepsD [OF along_inv_interval] ready_timeout_def inv_rounds http_pingHandler_def
      statusHandler_def http_tokenHandler_def http_verifierHandler_def relayHandler_def inv_http_handler
      keeping.along_bnd keeping.along_gets keeping.along_ret along_inv_tokens along_inv_create)

text \<open>An invariant of the process that has been started is an invariant of its life.\<close>

lemma inv_reachable:
  assumes "server_reachable E args env D s"
    and "\<And>s0 t. runServer E args env s0 = (Inr D, t) \<Longrightarrow> I t"
  shows "I s"
  using assms(1) by (induction rule: server_reachable.induct) (simp_all add: assms(2) inv_serve inv_world)

end

end
