(* ===== verification/ServerInvariants.thy ===== *)
theory ServerInvariants
  imports ServerProcess
begin

text \<open>
  What holds in every state the server process can reach: its hub, its verifiers and the nonces of its
  two keys (\<open>settled\<close>, \<open>nonce_state\<close>), the purposes its keys are used for (locale \<open>process_store\<close>), and
  what it knows of its registration while it is ready (\<open>ready_inv\<close>).
\<close>

section \<open>After the start\<close>

text \<open>The addresses the server works with, once it is initialized.\<close>

definition owner_reported :: "('w, 'd, 'k, 't) deps \<Rightarrow> string \<Rightarrow> bool" where
  "owner_reported D a \<longleftrightarrow> (\<exists>info. returns (n_getStakeInfo (dp_node D) (hubAddress D) (managerAddress D)) info \<and> si_owner info = a)"

definition settled :: "('w, 'd, 'k, 't) deps \<Rightarrow> ('w, 'd, 'z) server_state_scheme \<Rightarrow> bool" where
  "settled D s \<longleftrightarrow> sv_initialized s \<and> ci_relayHub s = Some (hubAddress D) \<and> sv_relayHubContract s = Some (hubAddress D) \<and>
     sv_trustedVerifiers s = initTrustedVerifiers (dp_config D) \<and> (\<forall>a. rg_ownerAddress s = Some a \<longrightarrow> owner_reported D a)"

lemma settled_update:
  "settled D s \<Longrightarrow> sv_initialized t = sv_initialized s \<Longrightarrow> ci_relayHub t = ci_relayHub s \<Longrightarrow>
     sv_relayHubContract t = sv_relayHubContract s \<Longrightarrow> sv_trustedVerifiers t = sv_trustedVerifiers s \<Longrightarrow>
     rg_ownerAddress t = rg_ownerAddress s \<Longrightarrow> settled D t"
  by (simp add: settled_def)

text \<open>The sends do not look at any of it, and the owner that is learned is one the node has reported.\<close>

interpretation settled_kept: tm_blind "keeps (settled D)" for D
  by unfold_locales (auto simp: keeps_def elim: settled_update)

lemma along_settled_init: "along (keeps (settled D)) (sv_init D)"
  by (rule along_keepsI) (simp add: sv_init_def bnd_run andthen_run settled_def)

lemma along_settled_stake:
  fixes D :: "('w, 'd, 'k, 't) deps"
  shows "along (keeps (settled D)) (refreshStake D)"
  unfolding refreshStake_def
proof (rule along_keeps_bnd_run)
  show "along (keeps (settled D)) (getStakeInfo (dp_node D) (managerAddress D))"
    by (rule settled_kept.along_blind_stake)
  fix s t :: "('w, 'd, 'z) server_state_scheme" and info
  assume s: "settled D s" "getStakeInfo (dp_node D) (managerAddress D) s = (Inr info, t)"
  then have "returns (n_getStakeInfo (dp_node D) (hubAddress D) (managerAddress D)) info"
    by (auto simp: getStakeInfo_def relayHubInstance_def instance_of_def settled_def bnd_run dest: io_returns)
  then have owner: "owner_reported D (si_owner info)" by (auto simp: owner_reported_def)
  show "along (keeps (settled D)) (bnd (of_result (w3_toBN (dp_web3 D) (si_stake info))) (\<lambda>stake.
       if stake = 0 then ret ()
       else modify (\<lambda>s. s\<lparr>rg_isStakeLocked := (si_withdrawBlock info = ''0''),
              rg_stakeRequired := fst (set_currentValue stake (rg_stakeRequired s)),
              rg_ownerAddress := (case rg_ownerAddress s of None \<Rightarrow> Some (si_owner info) | Some a \<Rightarrow> Some a)\<rparr>)))"
    by (intro settled_kept.tm_rules along_keepsI)
      (use owner in \<open>auto simp: settled_def split: option.split\<close>)
qed

interpretation settled: server_inv D "settled D" for D
  by unfold_locales (rule along_settled_init along_settled_stake settled_kept.along_blind_poll settled_kept.along_blind_boost
      settled_kept.along_blind_remove settled_kept.along_blind_send | (erule settled_update, simp_all))+

text \<open>The parts of the state the queries of the registration manager's \<open>init\<close> leave alone.\<close>

definition start_view where
  "start_view s = (txstore s, nonces s, nonceMutex s, ci_relayHub s, rg_ownerAddress s, rg_unstaked s, sv_relayHubContract s,
     sv_trustedVerifiers s, sv_ready s, sv_workerSemaphoreOn s, sv_polling s, sv_workerTask s)"

lemma along_start_io: "along (untouched start_view) (io m)"
  by (rule along_same) (simp add: io_run start_view_def)

lemma along_start_reg_init: "along (untouched start_view) (reg_init D)"
  unfolding reg_init_def queryLatestRegistrationEvent_def queryLatestWorkerAddedEvent_def getPastEventsForHub_def
    getPastEvents_def relayHubInstance_def instance_of_def Let_def
  by (intro same.along_rules along_start_io same.along_modify) (simp_all add: untouched_def start_view_def)

lemma reg_init_view: "reg_init D s = (r, t) \<Longrightarrow> start_view t = start_view s"
  using alongD [OF along_start_reg_init, of s D] by (simp add: untouched_def)

lemma sv_init_Inr:
  fixes s :: "('w, 'd, 'z) server_state_scheme"
  assumes "sv_init D s = (Inr u, t)"
  obtains hub where "ci_relayHub s = Some hub" "ci_relayHub t = Some hub" "sv_relayHubContract t = Some hub"
    "sv_trustedVerifiers t = initTrustedVerifiers (dp_config D)" "sv_initialized t" "rg_ownerAddress t = None"
    "txstore t = txstore s" "nonces t = nonces s" "nonceMutex t = nonceMutex s" "rg_unstaked t = rg_unstaked s"
    "sv_ready t = sv_ready s" "sv_workerSemaphoreOn t = sv_workerSemaphoreOn s" "sv_polling t = sv_polling s"
    "sv_workerTask t = sv_workerTask s"
proof -
  define s2 where "s2 = s\<lparr>sv_trustedVerifiers := initTrustedVerifiers (dp_config D), sv_relayHubContract := ci_relayHub s\<rparr>"
  have tm: "tm_init s = (r, s1) \<Longrightarrow> s1 = s" for r and s1 :: "('w, 'd, 'z) server_state_scheme"
    by (auto simp: tm_init_def ci_getRawTxOptions_def bnd_run andthen_run split: option.splits)
  obtain hub code v w and s3 s4 s5 s6 :: "('w, 'd, 'z) server_state_scheme" where
    1: "relayHubInstance s2 = (Inr hub, s3)" "io (n_getCode (dp_node D) hub) s3 = (Inr code, s4)"
      "newRegistrationManager D s4 = (Inr v, s5)" "reg_init D s5 = (Inr w, s6)" and
    2: "sv_initialized t" "start_view t = start_view s6"
    using assms unfolding sv_init_def
    by (elim bnd_InrE andthen_InrE, clarsimp dest!: throw_if_InrD tm simp del: throw_if_run,
        clarsimp simp: s2_def [symmetric] getNetworkId_def start_view_def io_run elim!: bnd_InrE)
      (auto split: option.splits)
  have hub: "ci_relayHub s = Some hub" "s3 = s2"
    using 1(1) by (auto simp: relayHubInstance_def instance_of_def bnd_run s2_def split: option.splits)
  have "start_view t = start_view s5" using 2(2) reg_init_view [OF 1(4)] by simp
  moreover have "start_view s5 = start_view (s2\<lparr>rg_ownerAddress := None\<rparr>)"
    using 1(2,3) unfolding hub(2) newRegistrationManager_def
    by (elim bnd_InrE) (clarsimp simp: start_view_def io_run)
  ultimately show thesis
    by (intro that [of hub]) (use hub 2 in \<open>simp_all add: start_view_def s2_def\<close>)
qed

text \<open>The interactor has the hub it was configured with, unless that is the zero address.\<close>

definition hub_view where
  "hub_view s = (ci_relayHub s, txstore s)"

lemma initializeContracts_hub:
  "initializeContracts N cfg s = (Inr u, t) \<Longrightarrow>
     hub_view t = (if ec_relayHubAddress cfg = ZERO_ADDRESS then ci_relayHub s else Some (ec_relayHubAddress cfg), txstore s)"
  unfolding initializeContracts_def createContract_def
  by (elim andthen_InrE) (auto simp: hub_view_def io_run bnd_run andthen_run split: if_splits sum.splits)

lemma along_hub_io: "along (untouched hub_view) (io m)"
  by (rule along_same) (simp add: io_run hub_view_def)

lemma ci_init_hub:
  fixes s :: "('w, 'd, 'z) server_state_scheme"
  assumes "ci_init N W cfg s = (Inr u, t)"
  shows "hub_view t = (if ec_relayHubAddress cfg = ZERO_ADDRESS then ci_relayHub s else Some (ec_relayHubAddress cfg), txstore s)"
proof -
  obtain v w and s1 s2 :: "('w, 'd, 'z) server_state_scheme" where 1: "initializeContracts N cfg s = (Inr v, s1)"
    "catching (validateCompatibility N W cfg) (\<lambda>_. ret ()) s1 = (Inr w, s2)" "hub_view t = hub_view s2"
    using assms unfolding ci_init_def
    by (elim bnd_InrE andthen_InrE) (auto simp: io_run hub_view_def dest!: throw_if_InrD simp del: throw_if_run)
  have "along (untouched hub_view) (catching (validateCompatibility N W cfg) (\<lambda>_. ret ()))"
    unfolding validateCompatibility_def relayHubInstance_def instance_of_def validateVersion_def
    by (intro same.along_rules along_hub_io)
  from alongD [OF this, of s1] show ?thesis using initializeContracts_hub [OF 1(1)] 1 by (simp add: untouched_def)
qed

lemma interactorConfig_hub: "ec_relayHubAddress (interactorConfig config) = member_str config ''relayHubAddress''"
  by (simp add: interactorConfig_def configure_def override_def emptyConfig_def)

text \<open>The resolved configuration has every parameter once, so the defaults added again change nothing.\<close>

lemma configureServer_keeps_member:
  "distinct (map fst c) \<Longrightarrow> map_of c k = Some v \<Longrightarrow> map_of (configureServer c) k = Some v"
  by (simp add: configureServer_member)

text \<open>A key manager that was made with one key has an address of index 0, which the nonces are counted for.\<close>

lemma newKeyManager_address:
  assumes "returns (newKeyManager K 1 workdir seed) km"
  shows "getAddress km 0 \<noteq> None"
proof -
  obtain g where "generateKeys_opt (ke_master K) g 1 = Inr km"
    using assms unfolding returns_def newKeyManager_def by (auto elim!: bnd_InrE andthen_InrE dest!: of_result_InrD)
  then have "\<exists>g. km = generateKeys (ke_master K g) 1" by (auto simp: generateKeys_opt_def split: option.splits)
  then obtain g where km: "km = generateKeys (ke_master K g) 1" by blast
  have "(fst \<circ> ke_master K g) 0 \<in> set (getAddresses km)"
    unfolding km generateKeys_addresses(1) by (rule imageI) simp
  then have "getAddresses km \<noteq> []" by (metis empty_iff empty_set)
  then show ?thesis by (simp add: getAddress_def)
qed

lemma initNonces_keys:
  assumes "getAddress (dp_managerKeys D) 0 \<noteq> None" "getAddress (dp_workersKeys D) 0 \<noteq> None"
  shows "initNonces D (managerAddress D) = Some 0" "initNonces D (workerAddress D) = Some 0"
  using assms by (auto simp: initNonces_def managerAddress_def workerAddress_def)

text \<open>What is there when the server has been launched.\<close>

definition launched :: "('w, 'd, 'k, 't) deps \<Rightarrow> ('w, 'd, 'z) process_state_scheme \<Rightarrow> bool" where
  "launched D t \<longleftrightarrow> settled D t \<and> nonces t (managerAddress D) = Some 0 \<and> nonces t (workerAddress D) = Some 0 \<and> \<not> nonceMutex t \<and> \<not> rg_unstaked t \<and> \<not> sv_ready t \<and>
     \<not> sv_workerSemaphoreOn t \<and> \<not> sv_polling t \<and> \<not> sv_workerTask t \<and> hs_closeOnUnstaked t \<and> hs_serverInstance t \<and> \<not> hs_listening t"

lemma http_started:
  fixes s :: "('w, 'd, 'z) process_state_scheme"
  shows "andthen newHttpServer (andthen hs_start (ret D)) s =
     (Inr D, s\<lparr>hs_listening := False, hs_closeOnUnstaked := True, hs_serverInstance := True\<rparr>)"
  by (simp add: newHttpServer_def hs_start_def andthen_run bnd_run)

lemma bootServer_Inr:
  fixes s :: "('w, 'd, 'z) process_state_scheme"
  assumes "bootServer D cfg s = (Inr D', t)" "ec_relayHubAddress cfg = hubAddress D"
    and "getAddress (dp_managerKeys D) 0 \<noteq> None" "getAddress (dp_workersKeys D) 0 \<noteq> None"
  shows "launched D t" and "txstore t = txstore s" and "D' = D"
proof -
  obtain u2 u3 u4 u5 and s3 s4 s5 s6 :: "('w, 'd, 'z) process_state_scheme" where
    1: "newInteractor cfg s = (Inr u2, s3)" "ci_init (dp_node D) (dp_web3 D) cfg s3 = (Inr u3, s4)" "newRelayServer D s4 = (Inr u4, s5)" and
    2: "sv_init D s5 = (Inr u5, s6)" "andthen newHttpServer (andthen hs_start (ret D)) s6 = (Inr D', t)"
    using assms(1) unfolding bootServer_def by - (erule andthen_InrE, erule andthen_InrE, erule andthen_InrE, erule andthen_InrE, rule that)
  have t: "t = s6\<lparr>hs_listening := False, hs_closeOnUnstaked := True, hs_serverInstance := True\<rparr>" and "D' = D"
    using 2(2) unfolding http_started by blast+
  then show "D' = D" by blast
  have counted: "initNonces D (managerAddress D) = Some 0" "initNonces D (workerAddress D) = Some 0"
    by (rule initNonces_keys [OF assms(3,4)])+
  have v4: "hub_view s4 = (if hubAddress D = ZERO_ADDRESS then None else Some (hubAddress D), txstore s)"
    using ci_init_hub [OF 1(2)] 1(1) by (auto simp: newInteractor_def assms(2))
  have s5: "s5 = (newTransactionManager D s4)
     \<lparr>rg_unstaked := False, sv_lastScannedBlock := 0, sv_lastRefreshBlock := 0, sv_ready := False,
      sv_lastSuccessfulRounds := 2 ^ 53 - 1, sv_gasPrice := num 0, sv_workerSemaphoreOn := False,
      sv_alerted := False, sv_alertedBlock := 0, sv_initialized := False, sv_lastMinedActive := None,
      sv_relayHubContract := None, sv_trustedVerifiers := [],
      sv_workerBalanceRequired := newAmountRequired ''Worker Balance'' (sc_workerMinBalance (dp_config D)),
      sv_workerTask := False, sv_polling := False\<rparr>" using 1(3) by (simp add: newRelayServer_def)
  obtain h where h: "ci_relayHub s5 = Some h" "ci_relayHub s6 = Some h" "sv_relayHubContract s6 = Some h"
    "sv_trustedVerifiers s6 = initTrustedVerifiers (dp_config D)" "sv_initialized s6" "rg_ownerAddress s6 = None"
    "txstore s6 = txstore s5" "nonces s6 = nonces s5" "nonceMutex s6 = nonceMutex s5" "rg_unstaked s6 = rg_unstaked s5"
    "sv_ready s6 = sv_ready s5" "sv_workerSemaphoreOn s6 = sv_workerSemaphoreOn s5" "sv_polling s6 = sv_polling s5"
    "sv_workerTask s6 = sv_workerTask s5" by (rule sv_init_Inr [OF 2(1)])
  have "h = hubAddress D" using h(1) v4 by (auto simp: s5 hub_view_def newTransactionManager_def split: if_splits)
  then show "launched D t" using h counted by (auto simp: launched_def settled_def t s5 newTransactionManager_def)
  show "txstore t = txstore s" using h(7) v4 by (simp add: s5 t hub_view_def newTransactionManager_def)
qed

lemma launch_Inr:
  fixes s :: "('w, 'd, 'z) process_state_scheme"
  assumes "launch E N config s = (Inr D, t)" "distinct (map fst config)" "map_of config ''relayHubAddress'' \<noteq> None"
  shows "launched D t \<and> (\<exists>dir. returns (px_openStore E dir) (txstore t)) \<and>
    (\<exists>km kw. D = serverDependencies E N km kw config)"
proof -
  obtain km kw d1 d2 dir u1 and s1 s2 :: "('w, 'd, 'z) process_state_scheme" where
    1: "newTxStoreManager E dir s1 = (Inr u1, s2)" "returns (newKeyManager (px_keys E) 1 d1 None) km"
      "returns (newKeyManager (px_keys E) 1 d2 None) kw"
      "bootServer (serverDependencies E N km kw config) (interactorConfig config) s2 = (Inr D, t)"
    using assms(1) unfolding launch_def Let_def by (elim bnd_InrE andthen_InrE) (auto dest!: io_returns)
  let ?D = "serverDependencies E N km kw config"
  have "ec_relayHubAddress (interactorConfig config) = hubAddress ?D"
    using configureServer_keeps_member [OF assms(2)] assms(3)
    by (auto simp: hubAddress_def serverDependencies_def toServerConfig_def member_str_def interactorConfig_hub)
  note b = bootServer_Inr [OF 1(4) this]
  have "launched ?D t" "txstore t = txstore s2" "D = ?D"
    by (rule b; simp add: serverDependencies_def newKeyManager_address [OF 1(2)] newKeyManager_address [OF 1(3)])+
  moreover have "returns (px_openStore E (storeFile dir)) (txstore s2)"
    using 1(1) unfolding newTxStoreManager_def by (elim bnd_InrE) (clarsimp, rule io_returns)
  ultimately show ?thesis by auto
qed

lemma runServer_Inr:
  fixes s :: "('w, 'd, 'z) process_state_scheme"
  assumes "runServer E args env s = (Inr D, t)"
  shows "launched D t" and "\<exists>dir. returns (px_openStore E dir) (txstore t)"
    and "dp_db D = px_nedb E" and "dp_tx D = px_txlib E" and "sc_successfulRoundsForReady (dp_config D) = 3"
proof -
  obtain conf config N and s0 s1 :: "('w, 'd, 'z) process_state_scheme" where
    1: "parseServerConfig (px_minimist E) (px_readJson E) args env = Inr conf"
      "runServerConfig N (px_web3 E) (px_parseList E) (Inr conf) s0 = (Inr config, s1)" "launch E N config s1 = (Inr D, t)"
    using assms unfolding runServer_def Let_def by (auto elim!: bnd_InrE dest!: of_result_InrD simp del: of_result_run)
  note c = runServerConfig_Inr [OF 1(2)]
  note l = launch_Inr [OF 1(3) c(1,2)]
  show "launched D t" "\<exists>dir. returns (px_openStore E dir) (txstore t)" using l by blast+
  obtain km kw where D: "D = serverDependencies E N km kw config" using l by blast
  show "dp_db D = px_nedb E" "dp_tx D = px_txlib E" by (simp_all add: D serverDependencies_def)
  let ?k = "''successfulRoundsForReady''"
  have "map_of ConfigParamsTypes ?k = None" "?k \<notin> set objectPrototype" by (code_simp, code_simp)
  then have "map_of config ?k = map_of serverDefaultConfiguration ?k"
    using c(3) [of ?k] parsed_known [OF 1(1)] by simp
  moreover have d: "map_of serverDefaultConfiguration ?k = Some (VInt 3)" by code_simp
  ultimately have "map_of (configureServer config) ?k = Some (VInt 3)"
    using configureServer_keeps_member [OF c(1)] by simp
  then show "sc_successfulRoundsForReady (dp_config D) = 3"
    by (simp add: D serverDependencies_def toServerConfig_def member_int_def)
qed

section \<open>The nonces and their mutex\<close>

text \<open>Compared with the state \<open>s0\<close> no nonce is lower, and no send is left in the mutex.\<close>

definition nonce_state :: "('w, 'd, 'z) tm_state_scheme \<Rightarrow> ('w, 'd, 'z) tm_state_scheme \<Rightarrow> bool" where
  "nonce_state s0 s \<longleftrightarrow> nonces_grow s0 s \<and> \<not> nonceMutex s"

lemma nonce_state_update: "nonce_state s0 s \<Longrightarrow> nonces t = nonces s \<Longrightarrow> nonceMutex t = nonceMutex s \<Longrightarrow> nonce_state s0 t"
  by (simp add: nonce_state_def nonces_grow_def)

interpretation nonce_kept: tm_growing "keeps (nonce_state s0)" for s0
proof
  fix s :: "('a, 'b, 'c) tm_state_scheme" and a n m
  assume "nonces s a = Some n" "n \<le> m"
  then have "nonces_grow s (s\<lparr>nonces := (nonces s)(a := Some m)\<rparr>)" by (auto simp: nonces_grow_def)
  then show "keeps (nonce_state s0) s (s\<lparr>nonces := (nonces s)(a := Some m)\<rparr>)"
    by (auto simp: keeps_def nonce_state_def intro: nonces_grow_trans)
qed (auto simp: keeps_def elim: nonce_state_update)

lemma along_nonce_send: "along (keeps (nonce_state s0)) (sendTransaction D d)"
proof (rule along_keepsI)
  fix s assume "nonce_state s0 s"
  then show "nonce_state s0 (snd (sendTransaction D d s))"
    using alongD [OF growing.along_blind_send, of s D d] sendTransaction_mutex [of D d s]
    by (auto simp: nonce_state_def intro: nonces_grow_trans)
qed

lemma along_nonce_modify:
  "(\<And>s. nonces (f s) = nonces s) \<Longrightarrow> (\<And>s. nonceMutex (f s) = nonceMutex s) \<Longrightarrow> along (keeps (nonce_state s0)) (modify f)"
  by (rule along_keepsI) (simp add: nonce_state_update)

lemma along_nonce_init: "along (keeps (nonce_state s0)) (sv_init D)"
  unfolding sv_init_def tm_init_def ci_getRawTxOptions_def newRegistrationManager_def reg_init_def getNetworkId_def
    queryLatestRegistrationEvent_def queryLatestWorkerAddedEvent_def
  by (intro nonce_kept.growing_rules along_nonce_modify) simp_all

lemma along_nonce_stake: "along (keeps (nonce_state s0)) (refreshStake D)"
  unfolding refreshStake_def by (intro nonce_kept.growing_rules along_nonce_modify) simp_all

interpretation nonce: server_inv D "nonce_state s0" for D s0
  by unfold_locales (rule along_nonce_init along_nonce_stake along_nonce_send nonce_kept.along_blind_poll
      nonce_kept.along_blind_boost nonce_kept.along_blind_remove | (erule nonce_state_update, simp, simp))+

text \<open>The nonces of both keys are counted from the start on.\<close>

lemma counted_reachable:
  assumes "server_reachable E args env D s"
  shows "\<not> nonceMutex s \<and> nonces s (managerAddress D) \<noteq> None \<and> nonces s (workerAddress D) \<noteq> None"
  using assms
proof (induction rule: server_reachable.induct)
  case (started s t)
  from runServer_Inr(1) [OF this] show ?case by (simp add: launched_def)
next
  case (served s ev)
  then have "nonce_state s s" by (simp add: nonce_state_def nonces_grow_def)
  then have "nonce_state s (snd (serve D ev s))" by (rule nonce.inv_serve)
  then show ?case using served.IH by (auto simp: nonce_state_def nonces_grow_def)
qed simp

section \<open>What the keys are used for\<close>

text \<open>
  The transactions the server may sign: the call of an accepted request by the worker, the registration
  of its URL and of its worker by the manager, and plain transfers, from the manager to the worker or from
  either of them to an owner of the stake that the node has reported (or to nobody, when none is known).
\<close>

definition call_data :: "('w, 'd, 'k, 't) deps \<Rightarrow> hub_method \<Rightarrow> string" where
  "call_data D m = toLowerCase (''0x'' @ drop 2 (w3_encodeABI (dp_web3 D) m))"

definition purpose :: "('w, 'd, 'k, 't) deps \<Rightarrow> server_action \<Rightarrow> string \<Rightarrow> string \<Rightarrow> string \<Rightarrow> bool" where
  "purpose D action from to data \<longleftrightarrow> (case action of
     RELAY_CALL \<Rightarrow> from = workerAddress D \<and> isSameAddress to (hubAddress D) \<and>
       (\<exists>req. isSameAddress (rd_relayWorker (relayData (relayRequest req))) (workerAddress D) \<and>
          toLowerCase (rd_callVerifier (relayData (relayRequest req))) \<in> set (initTrustedVerifiers (dp_config D)) \<and>
          data = call_data D (relay_method req))
   | REGISTER_SERVER \<Rightarrow> from = managerAddress D \<and> isSameAddress to (hubAddress D) \<and>
       data = call_data D (RegisterRelayServer (registerUrl (dp_config D)))
   | ADD_WORKER \<Rightarrow> from = managerAddress D \<and> isSameAddress to (hubAddress D) \<and>
       data = call_data D (AddRelayWorkers [workerAddress D])
   | VALUE_TRANSFER \<Rightarrow> data = ''0x'' \<and>
       (from = managerAddress D \<and> isSameAddress to (workerAddress D) \<or>
        from \<in> {managerAddress D, workerAddress D} \<and>
          (to = ''0x'' \<or> (\<exists>a. owner_reported D a \<and> isSameAddress to a)))
   | _ \<Rightarrow> False)"

definition serves_purpose :: "('w, 'd, 'k, 't) deps \<Rightarrow> stored_tx \<Rightarrow> bool" where
  "serves_purpose D x = purpose D (st_serverAction x) (st_from x) (st_to x) (st_data x)"

text \<open>
  What the transaction library (ethereumjs-tx) documents of a signed transaction: it has the recipient
  and the data it was made with, as hexadecimal text in lower case; no recipient is the empty one.
\<close>

definition tx_members :: "('k, 't) txlib \<Rightarrow> bool" where
  "tx_members T \<longleftrightarrow> (\<forall>a x k. t_new T a = Inr x \<longrightarrow>
     t_to T (t_sign T k x) = toLowerCase (or_else (ta_to a) ''0x'') \<and> t_data T (t_sign T k x) = toLowerCase (ta_data a))"

lemma serves_purpose_stored [simp]: "serves_purpose D (store_doc x) = serves_purpose D x"
  "serves_purpose D (set_fields x y) = serves_purpose D x"
  "serves_purpose D (x\<lparr>st_minedBlockNumber := n\<rparr>) = serves_purpose D x"
  by (simp_all add: serves_purpose_def) (simp_all add: store_doc_def)

lemma toLowerCase_0x [simp]: "toLowerCase ''0x'' = ''0x''"
  by code_simp

lemma isSameAddress_lower: "isSameAddress (toLowerCase a) b = isSameAddress a b"
  by (simp add: isSameAddress_def)

text \<open>What the transactions made for each kind of send are for, and those made again.\<close>

lemma signed_for:
  assumes "tx_members (dp_tx D)" "t_new (dp_tx D) (new_tx_args D d p n) = Inr x"
  shows "serves_purpose D (createStoredTransaction (dp_tx D) (t_sign (dp_tx D) k x) (first_metadata d)) =
    purpose D (sd_serverAction d) (sd_signer d) (toLowerCase (or_else (sd_destination d) ''0x''))
      (toLowerCase (''0x'' @ drop 2 (encoded_call D d)))"
  using assms by (simp add: serves_purpose_def createStoredTransaction_def first_metadata_def tx_members_def new_tx_args_def)

lemma resigned_for:
  assumes "tx_members (dp_tx D)" "t_new (dp_tx D) (resend_args tx p) = Inr x" "serves_purpose D tx"
  shows "serves_purpose D (createStoredTransaction (dp_tx D) (t_sign (dp_tx D) k x)
    \<lparr>tm_from = st_from tx, tm_attempts = a, tm_serverAction = st_serverAction tx,
         tm_creationBlockNumber = c, tm_boostBlockNumber = b, tm_minedBlockNumber = m\<rparr>)"
proof -
  have "st_data tx = toLowerCase (st_data tx)"
    using assms(3) by (auto simp: serves_purpose_def purpose_def call_data_def split: server_action.splits)
  moreover have "st_to tx = ''0x'' \<Longrightarrow> toLowerCase (st_to tx) = ''0x''" by simp
  ultimately show ?thesis using assms
    by (auto simp: serves_purpose_def createStoredTransaction_def tx_members_def resend_args_def purpose_def
        isSameAddress_lower split: server_action.splits)
qed

lemma hub_call_purpose:
  "purpose D REGISTER_SERVER (managerAddress D) (toLowerCase (hubAddress D)) (call_data D (RegisterRelayServer (registerUrl (dp_config D))))"
  "purpose D ADD_WORKER (managerAddress D) (toLowerCase (hubAddress D)) (call_data D (AddRelayWorkers [workerAddress D]))"
  by (simp_all add: purpose_def isSameAddress_lower)

lemma refill_purpose: "purpose D VALUE_TRANSFER (managerAddress D) (toLowerCase (workerAddress D)) ''0x''"
  by (simp add: purpose_def isSameAddress_lower)

lemma to_owner_purpose:
  assumes "\<And>a. owner = Some a \<Longrightarrow> owner_reported D a" "k \<in> {managerAddress D, workerAddress D}"
  shows "purpose D VALUE_TRANSFER k (toLowerCase (or_else owner ''0x'')) ''0x''"
  using assms by (cases owner) (auto simp: purpose_def isSameAddress_lower)

lemma relay_purpose:
  assumes "settled D s" "acceptable D req s"
  shows "purpose D RELAY_CALL (workerAddress D) (toLowerCase (md_relayHubAddress (metadata req))) (call_data D (relay_method req))"
  using assms by (auto simp: purpose_def isSameAddress_lower acceptable_def settled_def isTrustedVerifier_def)

text \<open>
  The store the manager keeps them in. The database opened at the start may hold what an earlier run of
  the same server has left.
\<close>

locale process_store = nedb_laws DB docs ok
  for DB :: "'d nedb" and docs :: "'d \<Rightarrow> stored_tx set" and ok :: "'d \<Rightarrow> bool" +
  fixes D :: "('w, 'd, 'k, 't) deps"
  assumes db: "dp_db D = DB" and members: "tx_members (dp_tx D)"
begin

definition purposeful :: "'d \<Rightarrow> bool" where
  "purposeful d \<longleftrightarrow> wf_store d \<and> (\<forall>x\<in>docs d. serves_purpose D x)"

definition purpose_inv :: "('w, 'd, 'z) server_state_scheme \<Rightarrow> bool" where
  "purpose_inv s \<longleftrightarrow> purposeful (txstore s) \<and> settled D s"

lemma purpose_inv_update:
  "purpose_inv s \<Longrightarrow> purposeful (txstore t) \<Longrightarrow> sv_initialized t = sv_initialized s \<Longrightarrow> ci_relayHub t = ci_relayHub s \<Longrightarrow>
     sv_relayHubContract t = sv_relayHubContract s \<Longrightarrow> sv_trustedVerifiers t = sv_trustedVerifiers s \<Longrightarrow>
     rg_ownerAddress t = rg_ownerAddress s \<Longrightarrow> purpose_inv t"
  unfolding purpose_inv_def using settled_update [of D s t] by simp

lemma purpose_inv_store: "purpose_inv s \<Longrightarrow> purposeful (txstore s)"
  by (simp add: purpose_inv_def)

lemma purpose_inv_same:
  "purpose_inv s \<Longrightarrow> txstore t = txstore s \<Longrightarrow> sv_initialized t = sv_initialized s \<Longrightarrow> ci_relayHub t = ci_relayHub s \<Longrightarrow>
     sv_relayHubContract t = sv_relayHubContract s \<Longrightarrow> sv_trustedVerifiers t = sv_trustedVerifiers s \<Longrightarrow>
     rg_ownerAddress t = rg_ownerAddress s \<Longrightarrow> purpose_inv t"
  using purpose_inv_update [of s t] purpose_inv_store [of s] by simp

lemma along_purpose_modify:
  assumes "\<And>s. txstore (f s) = txstore s" "\<And>s. sv_initialized (f s) = sv_initialized s" "\<And>s. ci_relayHub (f s) = ci_relayHub s"
    "\<And>s. sv_relayHubContract (f s) = sv_relayHubContract s" "\<And>s. sv_trustedVerifiers (f s) = sv_trustedVerifiers s"
    "\<And>s. rg_ownerAddress (f s) = rg_ownerAddress s"
  shows "along (keeps purpose_inv) (modify f)"
  by (rule along_keepsI) (simp, erule purpose_inv_same, simp_all add: assms)

lemma along_purpose_io: "along (keeps purpose_inv) (io m)"
  by (rule along_keepsI) (simp add: io_run, erule purpose_inv_same, simp_all)

lemma along_purpose_increment: "along (keeps purpose_inv) (increment_nonce a)"
  unfolding increment_nonce_def by (rule along_purpose_modify) simp_all

lemma along_purpose_poll: "along (keeps purpose_inv) (pollNonce D a)"
  unfolding pollNonce_def
  by (intro keeping.along_rules along_purpose_io along_purpose_modify) (auto split: option.split)

lemma purposeful_put:
  assumes "purposeful (txstore s)" "serves_purpose D tx" "putTx DB tx u s = (r, t)"
  shows "purposeful (txstore t) \<and> t = s\<lparr>txstore := txstore t\<rparr>"
proof (cases r)
  case (Inl e)
  then show ?thesis using putTx_Inl [of DB tx u s e t] assms by simp
next
  case (Inr v)
  have wf: "wf_store (txstore s)" using assms(1) by (simp add: purposeful_def)
  obtain d where d: "t = s\<lparr>txstore := d\<rparr>" "wf_store d" "pending DB d = put_spec tx (pending DB (txstore s))"
    using putTx_Inr [OF wf assms(3) [unfolded Inr]] by blast
  have "serves_purpose D x" if x: "x \<in> docs d" for x
  proof -
    have p: "put_spec tx (pending DB (txstore s)) (tx_key x) = Some x"
      using x docs_pending [OF d(2)] d(3) by simp
    show ?thesis
    proof (cases "tx_key x = tx_key tx")
      case True
      then show ?thesis using p assms(2) by (auto simp: put_spec_def split: option.splits)
    next
      case False
      then have "x \<in> docs (txstore s)" using p docs_pending [OF wf] by (simp add: put_spec_def)
      then show ?thesis using assms(1) by (simp add: purposeful_def)
    qed
  qed
  then show ?thesis using d by (simp add: purposeful_def)
qed

lemma along_purpose_put: "serves_purpose D tx \<Longrightarrow> along (keeps purpose_inv) (putTx DB tx u)"
proof (rule along_keepsI)
  fix s :: "('w, 'd, 'z) server_state_scheme" assume tx: "serves_purpose D tx" and s: "purpose_inv s"
  obtain r t where r: "putTx DB tx u s = (r, t)" by fastforce
  have t: "purposeful (txstore t)" "t = s\<lparr>txstore := txstore t\<rparr>"
    using purposeful_put [OF purpose_inv_store [OF s] tx r] by auto
  have "purpose_inv (s\<lparr>txstore := txstore t\<rparr>)" by (rule purpose_inv_update [OF s]) (simp_all add: t(1))
  then show "purpose_inv (snd (putTx DB tx u s))" using r t(2) by simp
qed

lemma along_purpose_removal: "along (keeps purpose_inv) (removeTxsUntilNonce DB a n)"
proof (rule along_keepsI)
  fix s :: "('w, 'd, 'z) server_state_scheme" assume s: "purpose_inv s"
  obtain r t where r: "removeTxsUntilNonce DB a n s = (r, t)" by fastforce
  have p: "purposeful (txstore s)" by (rule purpose_inv_store [OF s])
  show "purpose_inv (snd (removeTxsUntilNonce DB a n s))"
  proof (cases r)
    case (Inl e)
    then show ?thesis using removeTxsUntilNonce_Inl [of DB a n s e t] r s by simp
  next
    case (Inr v)
    have wf: "wf_store (txstore s)" using p by (simp add: purposeful_def)
    obtain d where d: "t = s\<lparr>txstore := d\<rparr>" "wf_store d" "pending DB d = remove_spec a n (pending DB (txstore s))"
      using removeTxsUntilNonce_Inr [OF wf r [unfolded Inr]] by blast
    have "x \<in> docs (txstore s)" if "x \<in> docs d" for x
      using that docs_pending [OF d(2)] docs_pending [OF wf] d(3)
      by (auto simp: remove_spec_def split: prod.splits if_splits)
    then have "purposeful d" using p d(2) by (auto simp: purposeful_def)
    then have "purpose_inv (s\<lparr>txstore := d\<rparr>)" by (intro purpose_inv_update [OF s]) simp_all
    then show ?thesis using r d(1) by simp
  qed
qed

lemmas purpose_rules = keeping.along_rules along_purpose_io along_purpose_increment along_purpose_poll

text \<open>What is sent and sent again.\<close>

lemma along_purpose_broadcast: "along (keeps purpose_inv) (broadcast_checked D x y)"
  unfolding broadcast_checked_def by (intro purpose_rules)

lemma along_purpose_sign:
  assumes "purpose D (sd_serverAction d) (sd_signer d) (toLowerCase (or_else (sd_destination d) ''0x''))
    (toLowerCase (''0x'' @ drop 2 (encoded_call D d)))"
  shows "along (keeps purpose_inv) (sign_and_store D d p)"
  unfolding sign_and_store_def db
proof (intro keeping.along_bnd_returns [OF along_purpose_poll] keeping.along_bnd_returns [OF keeping.along_of_result])
  fix nonce x xs
  assume "returns (of_result (t_new (dp_tx D) (new_tx_args D d p nonce)) :: (('w, 'd, 'z) server_state_scheme, _) js) x"
    and s: "returns (of_result (signTransaction (dp_tx D) (keysOf D (sd_signer d)) (sd_signer d) x) :: (('w, 'd, 'z) server_state_scheme, _) js) xs"
  then have x: "t_new (dp_tx D) (new_tx_args D d p nonce) = Inr x" by (auto simp: returns_def)
  obtain k where k: "fst xs = t_sign (dp_tx D) k x"
    using s by (cases xs) (auto simp: returns_def signTransaction_Inr)
  have "serves_purpose D (createStoredTransaction (dp_tx D) (fst xs) (first_metadata d))"
    unfolding k signed_for [OF members x] by (rule assms)
  then show "along (keeps purpose_inv) (case xs of (tx, signedTx) \<Rightarrow>
     let storedTx = createStoredTransaction (dp_tx D) tx (first_metadata d) in
     andthen (increment_nonce (sd_signer d)) (andthen (putTx DB storedTx False) (ret (signedTx, storedTx))))"
    by (cases xs) (simp add: Let_def, intro purpose_rules along_purpose_put)
qed

lemma along_purpose_send:
  assumes "purpose D (sd_serverAction d) (sd_signer d) (toLowerCase (or_else (sd_destination d) ''0x''))
    (toLowerCase (''0x'' @ drop 2 (encoded_call D d)))"
  shows "along (keeps purpose_inv) (sendTransaction D d)"
  unfolding sendTransaction_def resolve_gasPrice_def acquire_def
proof (intro purpose_rules along_purpose_modify keeping.along_finally along_purpose_sign [OF assms])
  show "keeps purpose_inv s (release s)" for s
    unfolding keeps_def release_def by (intro impI, erule purpose_inv_same, simp_all)
qed (auto split: prod.split intro: along_purpose_broadcast)

lemma along_purpose_resend:
  assumes "serves_purpose D tx"
  shows "along (keeps purpose_inv) (resendTransaction D tx b p)"
  unfolding resendTransaction_def updateTransactionWithAttempt_def db
proof (intro keeping.along_bnd_returns [OF keeping.along_of_result])
  fix x xs
  assume "returns (of_result (t_new (dp_tx D) (resend_args tx p)) :: (('w, 'd, 'z) server_state_scheme, _) js) x"
    and s: "returns (of_result (signTransaction (dp_tx D) (keysOf D (st_from tx)) (st_from tx) x) :: (('w, 'd, 'z) server_state_scheme, _) js) xs"
  then have x: "t_new (dp_tx D) (resend_args tx p) = Inr x" by (auto simp: returns_def)
  obtain k where k: "fst xs = t_sign (dp_tx D) k x"
    using s by (cases xs) (auto simp: returns_def signTransaction_Inr)
  note r = resigned_for [OF members x assms, of k, folded k]
  show "along (keeps purpose_inv) (case xs of (signed, signedTx) \<Rightarrow>
     bnd (let storedTx = createStoredTransaction (dp_tx D) signed
        \<lparr>tm_from = st_from tx, tm_attempts = st_attempts tx + 1, tm_serverAction = st_serverAction tx,
         tm_creationBlockNumber = st_creationBlockNumber tx, tm_boostBlockNumber = Some b,
         tm_minedBlockNumber = st_minedBlockNumber tx\<rparr>
      in andthen (putTx DB storedTx True) (ret storedTx)) (\<lambda>storedTx.
     bnd (io (n_getTransactionCount (dp_node D) (st_from tx) None)) (\<lambda>_.
     broadcast_checked D signedTx storedTx)))"
    using r by (cases xs) (simp add: Let_def, intro purpose_rules along_purpose_put along_purpose_broadcast)
qed

text \<open>What is found in the store serves a purpose.\<close>

lemma purposeful_find: "purposeful d \<Longrightarrow> x \<in> set (db_find DB q d) \<Longrightarrow> serves_purpose D x"
  using find_set [of d q] by (auto simp: purposeful_def wf_store_def)

lemma along_purpose_fold:
  "(\<And>x b. x \<in> set xs \<Longrightarrow> along (keeps purpose_inv) (f x b)) \<Longrightarrow> along (keeps purpose_inv) (fold_js f xs acc)"
  by (induction xs arbitrary: acc) (auto intro: keeping.along_ret keeping.along_bnd)

lemma along_purpose_for:
  "(\<And>x. x \<in> set xs \<Longrightarrow> along (keeps purpose_inv) (f x)) \<Longrightarrow> along (keeps purpose_inv) (for_each f xs)"
  by (induction xs) (auto intro: keeping.along_ret keeping.along_andthen)

lemma set_underpriced: "set (snd (underpriced cfg txs n b)) \<subseteq> set txs"
  by (auto simp: underpriced_def Let_def split: list.splits)

lemma along_purpose_boost: "along (keeps purpose_inv) (boostUnderpricedPendingTransactionsForSigner D a b)"
  unfolding boostUnderpricedPendingTransactionsForSigner_def getAllBySigner_def db
proof (rule along_keeps_gets)
  fix s :: "('w, 'd, 'z) server_state_scheme" assume "purpose_inv s"
  then have "serves_purpose D x" if "x \<in> set (sort_key st_nonce (db_find DB (by_signer a) (txstore s)))" for x
    using that purposeful_find [OF purpose_inv_store] by simp
  then have all: "serves_purpose D x"
    if "x \<in> set (snd (underpriced (dp_config D) (sort_key st_nonce (db_find DB (by_signer a) (txstore s))) n b))" for x n
    using that set_underpriced by blast
  show "along (keeps purpose_inv) (if sort_key st_nonce (db_find DB (by_signer a) (txstore s)) = [] then ret []
      else bnd (io (n_getTransactionCount (dp_node D) a None)) (\<lambda>nonce.
         (case underpriced (dp_config D) (sort_key st_nonce (db_find DB (by_signer a) (txstore s))) nonce b of
           (newGasPrice, underpricedTransactions) \<Rightarrow>
             fold_js (\<lambda>transaction boosted.
               bnd (resendTransaction D transaction b newGasPrice) (\<lambda>details.
                 ret (AList.update (st_txId transaction) details boosted))) underpricedTransactions [])))"
  proof (intro purpose_rules)
    fix n
    show "along (keeps purpose_inv) (case underpriced (dp_config D) (sort_key st_nonce (db_find DB (by_signer a) (txstore s))) n b of
           (newGasPrice, underpricedTransactions) \<Rightarrow>
             fold_js (\<lambda>transaction boosted.
               bnd (resendTransaction D transaction b newGasPrice) (\<lambda>details.
                 ret (AList.update (st_txId transaction) details boosted))) underpricedTransactions [])"
      using all [of _ n]
      by (cases "underpriced (dp_config D) (sort_key st_nonce (db_find DB (by_signer a) (txstore s))) n b")
        (simp, intro along_purpose_fold keeping.along_bnd keeping.along_ret along_purpose_resend)
  qed
qed

lemma along_purpose_removeConfirmed:
  "serves_purpose D tx \<Longrightarrow> along (keeps purpose_inv) (removeConfirmed D b tx)"
  unfolding removeConfirmed_def updateTransactionWithMinedBlock_def db
  by (intro purpose_rules along_purpose_removal along_purpose_put) simp

lemma along_purpose_remove: "along (keeps purpose_inv) (removeConfirmedTransactions D b)"
  unfolding removeConfirmedTransactions_def getAll_def db
  by (rule along_keeps_gets, rule along_purpose_for, rule along_purpose_removeConfirmed)
    (use purposeful_find [OF purpose_inv_store] in simp)

lemma along_purpose_settled:
  "along (keeps (settled D)) m \<Longrightarrow> (\<And>s. txstore (snd (m s)) = txstore s) \<Longrightarrow> along (keeps purpose_inv) m"
  by (simp add: along_def keeps_def purpose_inv_def)

lemma along_purpose_stake: "along (keeps purpose_inv) (refreshStake D)"
proof (rule along_purpose_settled [OF along_settled_stake])
  show "txstore (snd (refreshStake D s)) = txstore s" for s
    by (simp add: refreshStake_def getStakeInfo_def relayHubInstance_def instance_of_def bnd_run io_run
        split: prod.split sum.split option.split)
qed

lemma along_purpose_init: "along (keeps purpose_inv) (sv_init D)"
  by (rule along_keepsI) (simp add: sv_init_def bnd_run andthen_run purpose_inv_def settled_def)

lemma along_purpose_toOwner:
  assumes "purpose_inv s" "k \<in> {managerAddress D, workerAddress D}"
  shows "along (keeps purpose_inv) (sendTransaction D (to_owner D k (rg_ownerAddress s) price v n))"
  using to_owner_purpose [OF _ assms(2), of "rg_ownerAddress s"] assms(1)
  by (intro along_purpose_send) (auto simp: to_owner_def encoded_call_def purpose_inv_def settled_def)

lemma along_purpose_hub:
  "along (keeps purpose_inv) (sendTransaction D (hub_call D REGISTER_SERVER (RegisterRelayServer (registerUrl (dp_config D))) g n))"
  "along (keeps purpose_inv) (sendTransaction D (hub_call D ADD_WORKER (AddRelayWorkers [workerAddress D]) g n))"
  using hub_call_purpose [of D] by (intro along_purpose_send; simp add: hub_call_def encoded_call_def call_data_def)+

lemma along_purpose_refill: "along (keeps purpose_inv) (sendTransaction D (refill_details D v n))"
  using refill_purpose [of D] by (intro along_purpose_send) (simp add: refill_details_def encoded_call_def)

lemma along_purpose_relay:
  "purpose_inv s \<Longrightarrow> acceptable D req s \<Longrightarrow> along (keeps purpose_inv) (sendTransaction D (relay_details D req l n))"
  using relay_purpose [of D s req]
  by (intro along_purpose_send) (simp add: relay_details_def encoded_call_def call_data_def purpose_inv_def)

end

text \<open>Every handler of the process keeps the purposes.\<close>

sublocale process_store \<subseteq> purposes: server_inv D purpose_inv
proof unfold_locales
  show "along (keeps purpose_inv) (sendTransaction D (to_owner D k (rg_ownerAddress s) price v n))"
    if "purpose_inv s" "k \<in> {managerAddress D, workerAddress D}" for s k price v n
    by (rule along_purpose_toOwner [OF that])
  show "along (keeps purpose_inv) (sendTransaction D (relay_details D req l n))"
    if "purpose_inv s" "acceptable D req s" for s req l n
    by (rule along_purpose_relay [OF that])
qed (rule along_purpose_poll along_purpose_init along_purpose_stake along_purpose_boost along_purpose_remove
      along_purpose_hub along_purpose_refill | (erule purpose_inv_same, simp_all))+

context process_store
begin

lemma stored_purpose:
  fixes s :: "('w, 'd, 'z) process_state_scheme"
  assumes "server_reachable E args env D s"
    and "\<And>(s0 :: ('w, 'd, 'z) process_state_scheme) t. runServer E args env s0 = (Inr D, t) \<Longrightarrow> purpose_inv t"
    and "x \<in> docs (txstore s)"
  shows "serves_purpose D x"
proof -
  have "purpose_inv s" by (rule purposes.inv_reachable [OF assms(1)]) (rule assms(2))
  then show ?thesis using assms(3) by (simp add: purpose_inv_def purposeful_def)
qed

end

section \<open>Readiness and the end of polling\<close>

text \<open>What answering a request leaves alone.\<close>

definition serve_view where
  "serve_view s = (registration_view s, sv_ready s, sv_lastSuccessfulRounds s, sv_gasPrice s, rg_unstaked s, sv_polling s,
     sv_workerTask s, sv_workerSemaphoreOn s, hs_listening s, hs_closeOnUnstaked s, hs_serverInstance s)"

interpretation serving: tm_blind "untouched serve_view"
  by unfold_locales (simp_all add: untouched_def serve_view_def registration_view_def)

lemma along_serving_replenish: "along (untouched serve_view) (replenishServer D b)"
  unfolding replenishServer_def defaultReplenishFunction_def getManagerBalance_def getWorkerBalance_def Let_def
  by (intro serving.tm_rules same.along_modify) (simp add: untouched_def serve_view_def registration_view_def)

lemma along_serving_gas: "along (untouched serve_view) (maxPossibleGasOf D req)"
  unfolding maxPossibleGasOf_def walletFactoryEstimateGasOfDeployCall_def estimateDestinationContractCallGas_def
    estimateRelayTransactionMaxPossibleGasWithTransactionRequest_def createContract_def
  by (cases "relayRequest req") (simp_all, (intro serving.tm_rules)+)

lemma along_serving_create: "along (untouched serve_view) (createRelayTransaction D req)"
  unfolding createRelayTransaction_def validateInputTypes_def alerted_delay_def validateInput_def instance_of_def
    validateMaxNonce_def validateRequestWithVerifier_def createContract_def validateViewCallSucceeds_def Let_def
  by (intro serving.tm_rules along_serving_gas along_serving_replenish)

lemma along_serving_tokens: "along (untouched serve_view) (sv_tokenHandler D verifier)"
  unfolding sv_tokenHandler_def createContract_def by (intro serving.tm_rules)

lemma http_handler_view: "along (untouched f) m \<Longrightarrow> f (snd (http_handler m h s)) = f s"
  using alongD [of "untouched f" m s] by (auto simp: http_handler_def untouched_def split: prod.split sum.split)

lemma requests_view:
  "ev \<notin> {Listening, Tick, ReadyTimeout} \<Longrightarrow> serve_view (snd (serve D ev s)) = serve_view s"
  by (cases ev) (simp_all add: http_pingHandler_def statusHandler_def http_tokenHandler_def http_verifierHandler_def
      relayHandler_def http_handler_view same.along_bnd same.along_gets same.along_ret along_serving_create along_serving_tokens)

text \<open>A tick of the timer leaves the timer and the HTTP server alone.\<close>

definition life_view where
  "life_view s = (sv_polling s, sv_workerTask s, hs_listening s, hs_closeOnUnstaked s)"

interpretation life: scan_blind "untouched life_view" b for b
  by unfold_locales (simp_all add: untouched_def life_view_def)

lemma along_life_init: "along (untouched life_view) (sv_init D)"
  unfolding sv_init_def newRegistrationManager_def getNetworkId_def tm_init_def ci_getRawTxOptions_def
  by (intro life.reg_rules same.along_modify) (simp_all add: untouched_def life_view_def)

lemma along_life_worker: "along (untouched life_view) (worker D b)"
  unfolding worker_def refreshGasPrice_def setReadyState_def Let_def
  by (intro life.reg_rules same.along_modify along_life_init life.along_scan_changes)
    (simp_all add: untouched_def life_view_def)

lemma interval_life: "life_view (snd (intervalHandler D s)) = life_view s"
proof -
  have "along (untouched life_view) (intervalHandler D)"
    unfolding intervalHandler_def workerSemaphore_def
    by (intro life.reg_rules same.along_modify same.along_finally along_life_worker)
      (simp_all add: untouched_def life_view_def)
  from alongD [OF this] show ?thesis by (simp add: untouched_def)
qed

text \<open>The worker is entered by ticks only, and by none after the funds have been returned.\<close>

definition life_inv :: "('w, 'd, 'z) process_state_scheme \<Rightarrow> bool" where
  "life_inv s \<longleftrightarrow> \<not> sv_workerSemaphoreOn s \<and> (rg_unstaked s \<longrightarrow> \<not> sv_polling s) \<and> (\<not> rg_unstaked s \<longrightarrow> hs_closeOnUnstaked s) \<and>
     (sv_polling s \<longrightarrow> sv_workerTask s) \<and> (sv_workerTask s \<longrightarrow> hs_listening s) \<and> (\<not> hs_listening s \<longrightarrow> \<not> rg_unstaked s)"

lemma interval_semaphore:
  assumes "\<not> sv_workerSemaphoreOn s"
  shows "\<not> sv_workerSemaphoreOn (snd (intervalHandler D s))"
proof -
  have "\<not> sv_workerSemaphoreOn (snd (workerSemaphore D b (s\<lparr>world := w\<rparr>)))" for b w
    by (rule workerSemaphore_released) (simp add: assms)
  then show ?thesis using assms
    by (simp add: intervalHandler_def catching_run bnd_run io_run split: prod.split sum.split)
      (metis snd_conv)
qed

lemma life_inv_serve:
  assumes "life_inv s" "enabled ev s"
  shows "life_inv (snd (serve D ev s))"
proof (cases ev)
  case Listening
  then show ?thesis using assms by (auto simp: life_inv_def startBackend_def start_def catching_run)
next
  case Tick
  let ?t = "snd (intervalHandler D s)"
  have v: "life_view ?t = life_view s" by (rule interval_life)
  have "\<not> sv_workerSemaphoreOn ?t" by (rule interval_semaphore) (use assms(1) in \<open>simp add: life_inv_def\<close>)
  then show ?thesis using assms v Tick
    by (auto simp: life_inv_def life_view_def deliverUnstaked_def close_def stop_def bnd_run andthen_run)
next
  case ReadyTimeout
  then show ?thesis using assms by (simp add: life_inv_def ready_timeout_def)
qed (use requests_view [of ev D s] assms in \<open>simp_all add: life_inv_def serve_view_def\<close>)

lemma life_reachable:
  assumes "server_reachable E args env D s"
  shows "life_inv s"
  using assms
proof (induction rule: server_reachable.induct)
  case (started s t)
  from runServer_Inr(1) [OF this] show ?case by (simp add: launched_def life_inv_def)
qed (auto simp: life_inv_serve, simp add: life_inv_def)

text \<open>
  While it is ready, the server is registered and the price it asks for is the one of its last round: what
  the counter of successful rounds is for.
\<close>

definition price_current :: "('w, 'd, 'k, 't) deps \<Rightarrow> ('w, 'd, 'z) server_state_scheme \<Rightarrow> bool" where
  "price_current D s \<longleftrightarrow> (\<exists>g. returns (n_getGasPrice (dp_node D)) g \<and> sv_gasPrice s \<noteq> num 0 \<and>
     sv_gasPrice s = math_floor (num_mul (parseInt g) (sc_gasPriceFactor (dp_config D))))"

definition ready_inv :: "('w, 'd, 'k, 't) deps \<Rightarrow> ('w, 'd, 'z) server_state_scheme \<Rightarrow> bool" where
  "ready_inv D s \<longleftrightarrow> (1 \<le> sv_lastSuccessfulRounds s \<and> sv_ready s \<longrightarrow> isRegistered D s \<and> worker_funded D \<and> price_current D s)"

interpretation price: scan_blind "untouched sv_gasPrice" b for b
  by unfold_locales (simp_all add: untouched_def)

lemma refreshGasPrice_Inr:
  assumes "refreshGasPrice D s = (Inr u, t)" shows "price_current D t"
proof -
  obtain g s1 where g: "io (n_getGasPrice (dp_node D)) s = (Inr g, s1)"
    "sv_gasPrice t = math_floor (num_mul (parseInt g) (sc_gasPriceFactor (dp_config D)))" "sv_gasPrice t \<noteq> num 0"
    using assms unfolding refreshGasPrice_def Let_def
    by (elim bnd_InrE andthen_InrE) (auto dest!: throw_if_InrD simp del: throw_if_run)
  show ?thesis unfolding price_current_def using io_returns [OF g(1)] g(2,3) by blast
qed

lemma worker_ready:
  fixes s :: "('w, 'd, 'z) server_state_scheme"
  assumes "worker D b s = (Inr hs, t)" "sv_initialized s" "ready_inv D s" "1 \<le> sc_successfulRoundsForReady (dp_config D)"
    and "sv_ready t"
  shows "isRegistered D t \<and> worker_funded D \<and> price_current D t"
proof (cases "shouldRefreshState D b s")
  case False
  then have "t = s" using assms(1,2) by (auto simp: worker_def bnd_run andthen_run split: if_splits)
  moreover have "isReady D s" using False by (simp add: shouldRefreshState_def)
  ultimately show ?thesis using assms(3,4) by (simp add: ready_inv_def isReady_def split: if_splits)
next
  case True
  obtain u1 u2 and s1 s2 s3 :: "('w, 'd, 'z) server_state_scheme" where
    1: "refreshGasPrice D s1 = (Inr u1, s2)" "refreshBalance D s2 = (Inr u2, s3)" and
    2: "(if \<not> isSatisfied (rg_balanceRequired s3) then andthen (setReadyState False) (ret []) else handleChanges D b) s3 = (Inr hs, t)"
    using assms(1,2) True unfolding worker_def
    by (elim bnd_InrE andthen_InrE, clarsimp dest!: throw_if_InrD simp del: throw_if_run)
      (elim andthen_InrE bnd_InrE, auto)
  have f: "handleChanges D b s3 = (Inr hs, t)" using 2 assms(5) by (auto simp: andthen_run setReadyState_def split: if_splits)
  have "sv_gasPrice t = sv_gasPrice s2"
    using alongD [OF price.along_reg_refreshBalance, of s2 D] alongD [OF price.along_scan_changes, of s3 D b] 1(2) f
    by (simp add: untouched_def)
  then have "price_current D t" using refreshGasPrice_Inr [OF 1(1)] by (simp add: price_current_def)
  then show ?thesis using handleChanges_ready [OF f assms(5)] by simp
qed

lemma semaphore_ready:
  assumes "sv_initialized s" "ready_inv D s" "1 \<le> sc_successfulRoundsForReady (dp_config D)"
    and "workerSemaphore D b s = (Inr u, t)"
  shows "ready_inv D t"
proof (cases "sv_workerSemaphoreOn s")
  case True
  then show ?thesis using assms(2,4) by (simp add: workerSemaphore_busy)
next
  case False
  let ?s = "s\<lparr>sv_workerSemaphoreOn := True\<rparr>"
  obtain hs t1 where w: "worker D b ?s = (Inr hs, t1)"
    "t = t1\<lparr>sv_lastSuccessfulRounds := sv_lastSuccessfulRounds t1 + 1, sv_workerSemaphoreOn := False\<rparr>"
    using assms(4) False
    by (auto simp: workerSemaphore_def bnd_run andthen_run finally_do_run split: sum.splits prod.splits)
  have same: "isRegistered D ?s = isRegistered D s" by (rule isRegistered_view) (simp add: registration_view_def)
  have "ready_inv D ?s" using assms(2) same by (simp add: ready_inv_def price_current_def)
  from worker_ready [OF w(1) _ this assms(3)] assms(1)
  have r: "sv_ready t1 \<Longrightarrow> isRegistered D t1 \<and> worker_funded D \<and> price_current D t1" by simp
  have "isRegistered D t = isRegistered D t1" by (rule isRegistered_view) (simp add: registration_view_def w(2))
  then show ?thesis using r w(2) by (simp add: ready_inv_def price_current_def)
qed

lemma ready_inv_frame:
  "ready_inv D s \<Longrightarrow> registration_view t = registration_view s \<Longrightarrow> sv_ready t = sv_ready s \<Longrightarrow>
     sv_lastSuccessfulRounds t = sv_lastSuccessfulRounds s \<Longrightarrow> sv_gasPrice t = sv_gasPrice s \<Longrightarrow> ready_inv D t"
  using isRegistered_view [of t s D] by (simp add: ready_inv_def price_current_def)

lemma interval_ready:
  fixes s :: "('w, 'd, 'z) server_state_scheme"
  assumes "sv_initialized s" "ready_inv D s" "1 \<le> sc_successfulRoundsForReady (dp_config D)"
  shows "ready_inv D (snd (intervalHandler D s))"
proof -
  let ?m = "bnd (io (n_getBlock (dp_node D) ''latest'')) (\<lambda>block. bnd (gets sv_lastScannedBlock) (\<lambda>l.
    if l < bl_number block then workerSemaphore D (bl_number block) else ret ()))"
  obtain r t where m: "?m s = (r, t)" by fastforce
  show ?thesis
  proof (cases r)
    case (Inl e)
    then show ?thesis using m by (simp add: intervalHandler_def catching_run ready_inv_def)
  next
    case (Inr u)
    obtain block and s1 :: "('w, 'd, 'z) server_state_scheme" where b: "io (n_getBlock (dp_node D) ''latest'') s = (Inr block, s1)"
      "(if sv_lastScannedBlock s1 < bl_number block then workerSemaphore D (bl_number block) else ret ()) s1 = (Inr u, t)"
      using m [unfolded Inr] by (elim bnd_InrE) auto
    have s1: "s1 = s\<lparr>world := world s1\<rparr>" using b(1) by (auto simp: io_run)
    have i: "sv_initialized s1" by (subst s1) (simp add: assms(1))
    have p: "ready_inv D s1" by (subst s1, rule ready_inv_frame [OF assms(2)]) (simp_all add: registration_view_def)
    have "ready_inv D t"
      using b(2) semaphore_ready [OF i p assms(3), of "bl_number block" u t] p by (auto split: if_splits)
    then show ?thesis using m Inr by (simp add: intervalHandler_def catching_run)
  qed
qed

lemma ready_serve:
  assumes "sv_initialized s" "ready_inv D s" "1 \<le> sc_successfulRoundsForReady (dp_config D)"
  shows "ready_inv D (snd (serve D ev s))"
proof (cases ev)
  case Listening
  then show ?thesis using assms(2)
    by (simp add: startBackend_def start_def catching_run) (erule ready_inv_frame, simp_all add: registration_view_def)
next
  case Tick
  have t: "ready_inv D (snd (intervalHandler D s))" by (rule interval_ready [OF assms])
  then show ?thesis unfolding Tick
    by (simp add: deliverUnstaked_def close_def stop_def bnd_run andthen_run)
      (intro conjI impI; erule ready_inv_frame; simp add: registration_view_def)
next
  case ReadyTimeout
  then show ?thesis using assms(2) by (simp add: ready_timeout_def) (simp add: ready_inv_def)
next
  case (PostRelay body)
  then show ?thesis using requests_view [of ev D s] by (intro ready_inv_frame [OF assms(2)]) (simp_all add: serve_view_def)
qed (use requests_view [of ev D s] in \<open>intro ready_inv_frame [OF assms(2)]; simp add: serve_view_def\<close>)+

text \<open>What is made of the collaborators, and the start of every life of the process.\<close>

lemma reachable_deps:
  assumes "server_reachable E args env D s"
  shows "dp_db D = px_nedb E" and "dp_tx D = px_txlib E" and "sc_successfulRoundsForReady (dp_config D) = 3"
  using assms by (induction rule: server_reachable.induct) (auto dest: runServer_Inr(3-5))

lemma settled_reachable: "server_reachable E args env D s \<Longrightarrow> settled D s"
  using settled.inv_reachable runServer_Inr(1) unfolding launched_def by blast

lemma ready_reachable:
  assumes "server_reachable E args env D s"
  shows "ready_inv D s"
  using assms
proof (induction rule: server_reachable.induct)
  case (started s t)
  from runServer_Inr(1) [OF this] show ?case by (simp add: launched_def ready_inv_def)
next
  case (served s ev)
  have "sv_initialized s" using settled_reachable [OF served.hyps(1)] by (simp add: settled_def)
  then show ?case using ready_serve [of s D ev] served.IH reachable_deps(3) [OF served.hyps(1)] by simp
next
  case (world_changed s w)
  show ?case by (rule ready_inv_frame [OF world_changed.IH]) (simp_all add: registration_view_def)
qed

lemma reachable_ready:
  assumes "server_reachable E args env D s" "isReady D s"
  shows "isRegistered D s" "worker_funded D" "price_current D s"
  using ready_reachable [OF assms(1)] reachable_deps(3) [OF assms(1)] assms(2)
  by (simp_all add: ready_inv_def isReady_def split: if_splits)

end
