(* ===== verification/ProcessProperties.thy ===== *)
theory ProcessProperties
  imports ServerInvariants ServingProperties
begin

text \<open>
  What holds in every state the relay server can reach from its command line (the states of
  \<open>server_reachable\<close>), with a concrete process for the theorems' hypotheses: a node that reports a stake and
  a registration, a file system with the seeds of both keys, and a configuration of strings.
\<close>

section \<open>A process\<close>

definition process_conf_ex :: obj where
  "process_conf_ex = [(''url'', VStr ''http://relay''), (''relayHubAddress'', VStr ''0xhub''), (''rskNodeUrl'', VStr ''http://node''),
     (''workdir'', VStr ''/w''),
     (''deployVerifierAddress'', VStr ''0xdv''), (''relayVerifierAddress'', VStr ''0xrv'')]"

definition stake_event_ex :: event_data where
  "stake_event_ex = register_event_ex\<lparr>ev_event := StakeAdded\<rparr>"

definition process_node_ex :: "unit node" where
  "process_node_ex = node_ex\<lparr>n_getBalance := (\<lambda>_ _. ret ''10000000000000000''),
     n_getPastEvents := (\<lambda>_ topics _. ret
     (if RelayServerRegistered \<in> set (hd topics) then [register_event_ex]
      else if StakeAdded \<in> set (hd topics) then [stake_event_ex] else []))\<rparr>"

definition process_tx_ex :: "(unit, tx_args) txlib" where
  "process_tx_ex = tx_ex\<lparr>t_new := (\<lambda>a. if a = sent_ex then Inr a else Inl (Error ''unexpected'')),
     t_to := (\<lambda>a. toLowerCase (or_else (ta_to a) ''0x'')), t_data := (\<lambda>a. toLowerCase (ta_data a))\<rparr>"

definition process_keys_ex :: "(unit, string, unit) key_env" where
  "process_keys_ex = \<lparr>ke_existsSync = (\<lambda>_. ret True), ke_mkdirSync = (\<lambda>_. ret ()), ke_readSeed = ret,
     ke_writeSeed = (\<lambda>_ _. ret ()), ke_generate = ret '''',
     ke_master = (\<lambda>seed _. (if seed = ''/w/manager/keystore'' then ''0xm'' else ''0xw'', ()))\<rparr>"

definition process_ex :: "stored_tx list \<Rightarrow> (unit, string, stored_tx list, unit, tx_args) process_env" where
  "process_ex opened = \<lparr>px_minimist = (\<lambda>_ _ _. ([], process_conf_ex)), px_readJson = (\<lambda>_. None), px_parseList = (\<lambda>_. Inr []),
     px_nodeAt = (\<lambda>_. process_node_ex), px_web3 = web3_ex, px_txlib = process_tx_ex, px_nedb = list_nedb,
     px_keys = process_keys_ex, px_unlinkSync = (\<lambda>_. ret ()), px_openStore = (\<lambda>_. ret opened)\<rparr>"

definition process_config_ex :: obj where
  "process_config_ex = spread (spread [] serverDefaultConfiguration) process_conf_ex"

lemma process_parses: "parseServerConfig (\<lambda>_ _ _. ([], process_conf_ex)) (\<lambda>_. None) [] [] = Inr process_conf_ex"
  by code_simp

lemma process_members:
  "member_str process_config_ex ''relayHubAddress'' = ''0xhub''" "member_str process_config_ex ''workdir'' = ''/w''"
  "member_bool process_config_ex ''devMode'' = False" 
  "member_str process_config_ex ''relayVerifierAddress'' = ''0xrv''" "member_str process_config_ex ''deployVerifierAddress'' = ''0xdv''"
  by code_simp+

definition process_deps_ex :: "(unit, stored_tx list, unit, tx_args) deps" where
  "process_deps_ex = serverDependencies (process_ex []) process_node_ex
     \<lparr>km_privateKeys = [(''0xm'', ())], km_nonces = [(0, 0)]\<rparr> \<lparr>km_privateKeys = [(''0xw'', ())], km_nonces = [(0, 0)]\<rparr> process_config_ex"

lemma process_resolved: "runServerConfig process_node_ex web3_ex (\<lambda>_. Inr []) (Inr process_conf_ex) s = (Inr process_config_ex, s)"
proof -
  have m: "map_of process_conf_ex ''rskNodeUrl'' = Some (VStr ''http://node'')" "map_of process_conf_ex ''trustedVerifiers'' = None"
    "map_of process_conf_ex ''versionRegistryAddress'' = None" "map_of process_conf_ex ''relayHubAddress'' = Some (VStr ''0xhub'')"
    "map_of process_conf_ex ''url'' = Some (VStr ''http://relay'')" "map_of process_conf_ex ''workdir'' = Some (VStr ''/w'')"
    "member_str process_conf_ex ''relayHubAddress'' = ''0xhub''" by code_simp+
  show ?thesis
    by (simp add: runServerConfig_def resolveServerConfig_def js_run m validateAddress_def isContractDeployed_def
        process_node_ex_def process_config_ex_def)
qed

lemma process_keys: "newKeyManager process_keys_ex 1 (Some ''/w/manager'') None s = (Inr \<lparr>km_privateKeys = [(''0xm'', ())], km_nonces = [(0, 0)]\<rparr>, s)"
  "newKeyManager process_keys_ex 1 (Some ''/w/workers'') None s = (Inr \<lparr>km_privateKeys = [(''0xw'', ())], km_nonces = [(0, 0)]\<rparr>, s)"
  by (simp_all add: newKeyManager_def keystoreSeed_def process_keys_ex_def js_run Let_def generateKeys_opt_def generateKeys_def)

lemma process_deps_simps [simp]:
  "dp_node process_deps_ex = process_node_ex" "dp_web3 process_deps_ex = web3_ex" "dp_db process_deps_ex = list_nedb"
  "dp_tx process_deps_ex = process_tx_ex" "workerAddress process_deps_ex = ''0xw''" "managerAddress process_deps_ex = ''0xm''"
  by (simp_all add: process_deps_ex_def serverDependencies_def process_ex_def workerAddress_def managerAddress_def
      getAddress_def getAddresses_def)

lemma process_lookup: "map_of process_config_ex k = (case map_of (rev process_conf_ex) k of
     Some v \<Rightarrow> Some v | None \<Rightarrow> map_of serverDefaultConfiguration k)"
  "map_of (configureServer process_config_ex) k = map_of process_config_ex k"
proof -
  have d: "distinct (map fst serverDefaultConfiguration)" by code_simp
  show 1: "map_of process_config_ex k = (case map_of (rev process_conf_ex) k of
     Some v \<Rightarrow> Some v | None \<Rightarrow> map_of serverDefaultConfiguration k)" for k
    by (simp add: process_config_ex_def map_of_spread map_of_rev_distinct [OF d] split: option.split)
  have "distinct (map fst process_config_ex)" by (simp add: process_config_ex_def distinct_spread)
  then show "map_of (configureServer process_config_ex) k = map_of process_config_ex k"
    by (auto simp: configureServer_member 1 split: option.split)
qed

lemma process_values:
  "member_str (configureServer process_config_ex) ''url'' = ''http://relay''"
  "member_int (configureServer process_config_ex) ''port'' = 0"
  "member_str (configureServer process_config_ex) ''managerMinStake'' = ''1''"
  "member_bool (configureServer process_config_ex) ''customReplenish'' = False"
  "member_int (configureServer process_config_ex) ''managerMinBalance'' = 1000000000000000"
  "member_int (configureServer process_config_ex) ''workerMinBalance'' = 1000000000000000"
  "member_int (configureServer process_config_ex) ''managerTargetBalance'' = 3000000000000000"
  "member_int (configureServer process_config_ex) ''registrationBlockRate'' = 0"
  "member_int (configureServer process_config_ex) ''successfulRoundsForReady'' = 3"
  "member_int (configureServer process_config_ex) ''refreshStateTimeoutBlocks'' = 5"
  "member_int (configureServer process_config_ex) ''alertedBlockDelay'' = 0"
  "map_of (configureServer process_config_ex) ''gasPriceFactor'' = Some (VInt 1)"
  by (simp_all add: member_str_def member_int_def member_bool_def process_lookup process_conf_ex_def
      serverDefaultConfiguration_def value_text_def)

lemma process_config_simps:
  "sc_url (dp_config process_deps_ex) = ''http://relay''" "sc_port (dp_config process_deps_ex) = 0"
  "sc_managerMinStake (dp_config process_deps_ex) = ''1''" "sc_customReplenish (dp_config process_deps_ex) = False"
  "sc_managerMinBalance (dp_config process_deps_ex) = 1000000000000000"
  "sc_workerMinBalance (dp_config process_deps_ex) = 1000000000000000"
  "sc_managerTargetBalance (dp_config process_deps_ex) = 3000000000000000"
  "sc_registrationBlockRate (dp_config process_deps_ex) = 0" "sc_successfulRoundsForReady (dp_config process_deps_ex) = 3"
  "sc_refreshStateTimeoutBlocks (dp_config process_deps_ex) = 5"
  "sc_alertedBlockDelay (dp_config process_deps_ex) = 0" "sc_gasPriceFactor (dp_config process_deps_ex) = num 1"
  by (simp_all add: process_deps_ex_def serverDependencies_def process_values toServerConfig_def member_num_def)

lemma process_ex_simps [simp]:
  "px_web3 (process_ex opened) = web3_ex" "px_txlib (process_ex opened) = process_tx_ex" "px_nedb (process_ex opened) = list_nedb"
  "px_keys (process_ex opened) = process_keys_ex" "px_openStore (process_ex opened) = (\<lambda>_. ret opened)"
  "px_nodeAt (process_ex opened) = (\<lambda>_. process_node_ex)"
  by (simp_all add: process_ex_def)

lemma process_node_simps [simp]:
  "n_getBalance process_node_ex = (\<lambda>_ _. ret ''10000000000000000'')" "n_getCode process_node_ex = n_getCode node_ex"
  "n_getNetworkType process_node_ex = ret ''private''" "n_getChainId process_node_ex = ret 33"
  "n_getNetworkId process_node_ex = ret 33" "n_contractAt process_node_ex = (\<lambda>_ _. ret ())"
  "n_versionHub process_node_ex = (\<lambda>_. ret ''2.0.1'')" "n_getBlock process_node_ex = (\<lambda>_. ret block_ex)"
  "n_getPastEvents process_node_ex = (\<lambda>_ topics _. ret
     (if RelayServerRegistered \<in> set (hd topics) then [register_event_ex]
      else if StakeAdded \<in> set (hd topics) then [stake_event_ex] else []))"
  "n_getGasPrice process_node_ex = ret ''100''" "n_getStakeInfo process_node_ex = n_getStakeInfo node_ex"
  by (simp_all add: process_node_ex_def)

lemma process_interactor:
  "ec_relayHubAddress (interactorConfig process_config_ex) = ''0xhub''"
  "ec_relayVerifierAddress (interactorConfig process_config_ex) = ''0xrv''"
  "ec_deployVerifierAddress (interactorConfig process_config_ex) = ''0xdv''"
  by (simp_all add: interactorConfig_def configure_def override_def emptyConfig_def process_members)

lemma process_deps_fold: "serverDependencies (process_ex opened) process_node_ex
     \<lparr>km_privateKeys = [(''0xm'', ())], km_nonces = [(0, 0)]\<rparr> \<lparr>km_privateKeys = [(''0xw'', ())], km_nonces = [(0, 0)]\<rparr> process_config_ex =
   process_deps_ex"
  by (simp add: process_deps_ex_def serverDependencies_def)

lemmas start_defs = newTxStoreManager_def newInteractor_def ci_init_def isInitialized_def initializeContracts_def createContract_def
  validateCompatibility_def relayHubInstance_def instance_of_def validateVersion_def newRelayServer_def newTransactionManager_def
  sv_init_def tm_init_def ci_getRawTxOptions_def newRegistrationManager_def reg_init_def queryLatestWorkerAddedEvent_def
  queryLatestRegistrationEvent_def getPastEventsForHub_def getPastEvents_def getNetworkId_def newHttpServer_def hs_start_def
  event2topic_def event_name_defs

lemmas launch_defs = launch_def bootServer_def Let_def process_members js_run process_keys [simplified] process_deps_fold process_interactor
  process_config_simps start_defs ZERO_ADDRESS_def toBN_ex_def

lemma process_init_ex:
  fixes s :: "(unit, stored_tx list) process_state"
  shows "\<exists>t. launch (process_ex opened) process_node_ex process_config_ex s = (Inr process_deps_ex, t)"
  by (simp add: launch_defs)

lemma process_run_ex:
  fixes s :: "(unit, stored_tx list) process_state"
  shows "\<exists>t. runServer (process_ex opened) [] [] s = (Inr process_deps_ex, t)"
  using process_init_ex [of opened s]
  by (simp add: runServer_def Let_def bnd_run process_ex_def process_parses process_resolved)

lemmas tick_defs = startBackend_def start_def deliverUnstaked_def intervalHandler_def workerSemaphore_def worker_def
  shouldRefreshState_def isReady_def refreshGasPrice_def refreshBalance_def handle_stake_event_def refreshStake_def getStakeInfo_def
  newAmountRequired_def change_defs pending_defs

lemma balance_ex: "parse_int 0 ''10000000000000000'' = Some 10000000000000000"
  by (simp add: parse_ex)

lemma process_ready_ex:
  fixes s :: "(unit, stored_tx list) process_state"
  shows "\<exists>t. launch (process_ex []) process_node_ex process_config_ex s = (Inr process_deps_ex, t) \<and>
     isReady process_deps_ex (snd (serve process_deps_ex Tick (snd (serve process_deps_ex Listening t))))"
  by (simp add: launch_defs) (simp add: tick_defs js_run process_config_simps block_ex_def balance_ex list_nedb_def
      register_event_ex_def stake_event_ex_def Let_def num_mul_def num_def math_floor_def)

lemma process_ticked:
  assumes "runServer E args env s = (Inr D, t)"
  shows "server_reachable E args env D (snd (serve D Tick (snd (serve D Listening t))))"
proof -
  have "hs_serverInstance t \<and> \<not> hs_listening t"
    using runServer_Inr(1) [OF assms] by (simp add: launched_def)
  then have "server_reachable E args env D (snd (serve D Listening t))"
    by (intro server_reachable.served [OF server_reachable.started [OF assms]]) simp
  then show ?thesis by (rule server_reachable.served) (simp add: startBackend_def start_def catching_run)
qed

text \<open>Its store, with the purposes its documents serve.\<close>

lemma process_tx_law: "tx_members process_tx_ex"
  by (simp add: tx_members_def process_tx_ex_def)

interpretation process_example: process_store list_nedb set unique_list process_deps_ex
proof (intro process_store.intro process_store_axioms.intro)
  show "nedb_laws list_nedb set unique_list" by (rule list_laws)
qed (simp_all add: process_tx_law)

section \<open>The process serves a request\<close>

lemma process_node_more [simp]:
  "n_getTransactionCount process_node_ex = (\<lambda>_ _. ret 4)" "n_methodEstimateGas process_node_ex = (\<lambda>_ _ _. ret 60000)"
  "n_methodCall process_node_ex = (\<lambda>_ _ _ _. ret \<lparr>cr_true = True, cr_returnValue = None\<rparr>)"
  "n_getBlockNumber process_node_ex = ret 100" "n_sendSignedTransaction process_node_ex = n_sendSignedTransaction node_ex"
  "n_sendRawTransaction process_node_ex = n_sendRawTransaction node_ex" "n_estimateGas process_node_ex = n_estimateGas node_ex"
  "n_getTransaction process_node_ex = n_getTransaction node_ex" "n_getTransactionReceipt process_node_ex = n_getTransactionReceipt node_ex"
  "n_factoryNonce process_node_ex = n_factoryNonce node_ex" "n_now process_node_ex = n_now node_ex"
  by (simp_all add: process_node_ex_def)

lemma process_served:
  "dp_managerKeys process_deps_ex = \<lparr>km_privateKeys = [(''0xm'', ())], km_nonces = [(0, 0)]\<rparr>"
  "dp_workersKeys process_deps_ex = \<lparr>km_privateKeys = [(''0xw'', ())], km_nonces = [(0, 0)]\<rparr>"
  "initNonces process_deps_ex = (\<lambda>a. if a = ''0xm'' \<or> a = ''0xw'' then Some 0 else None)"
  "sc_relayVerifierAddress (dp_config process_deps_ex) = ''0xrv''" "sc_deployVerifierAddress (dp_config process_deps_ex) = ''0xdv''"
  "sc_trustedVerifiers (dp_config process_deps_ex) = []" "sc_workerTargetBalance (dp_config process_deps_ex) = 3000000000000000"
  "isMinorSameOrNewer web3_ex VERSION ''2.0.1''" "toLowerCase ''0xdv'' = ''0xdv''"
   by (simp_all add: process_deps_ex_def serverDependencies_def toServerConfig_def initNonces_def workerAddress_def managerAddress_def
      getAddress_def getAddresses_def process_lookup member_str_def member_int_def member_list_def process_conf_ex_def isMinorSameOrNewer_def
      serverDefaultConfiguration_def value_text_def)

lemma process_numbers: "number_str (Some 100) = ''100''" "int_str 33 = ''33''"
  by code_simp+

lemma process_serve_ex:
  fixes s :: "(unit, stored_tx list) process_state"
  shows "\<exists>t r R'. launch (process_ex []) process_node_ex process_config_ex s = (Inr process_deps_ex, t) \<and>
     (let R = snd (serve process_deps_ex Tick (snd (serve process_deps_ex Listening t))) in
      hs_listening R \<and> sv_pingHandler process_deps_ex R = ping_ex \<and>
      createRelayTransaction process_deps_ex request_ex R = (Inr r, R') \<and> sx_signedTx r = ''0xraw'' \<and>
      (\<exists>x\<in>set (txstore R'). st_serverAction x = RELAY_CALL))"
  by (simp add: launch_defs process_served)
    (simp add: tick_defs js_run process_config_simps block_ex_def balance_ex list_nedb_def
      register_event_ex_def stake_event_ex_def Let_def num_mul_def num_def math_floor_def,
     simp add: relay_defs send_defs js_run ZERO_ADDRESS_def request_ex_def relay_data_ex_def deploy_ex_def process_served
      initTrustedVerifiers_def set_add_def process_config_simps process_tx_ex_def encodeABI_ex_def sent_ex_def
      sv_pingHandler_def ping_ex_def balance_ex num_def num_lt_def process_numbers)

text \<open>A transfer to the worker, which an earlier run has left in the store.\<close>

definition left_ex :: stored_tx where
  "left_ex = \<lparr>st_to = ''0xw'', st_gas = 21000, st_gasPrice = 100, st_data = ''0x'', st_nonce = 3,
     st_txId = ''0xhash'', st_from = ''0xm'', st_attempts = 1, st_serverAction = VALUE_TRANSFER,
     st_creationBlockNumber = 60, st_boostBlockNumber = None, st_minedBlockNumber = None,
     st_nonceSigner = Some (3, ''0xm'')\<rparr>"

definition process_state_ex :: "(unit, stored_tx list) process_state" where
  "process_state_ex = server_state.extend server_ex \<lparr>hs_serverInstance = False, hs_listening = False, hs_closeOnUnstaked = False\<rparr>"

text \<open>It is ready after its first tick, and relays a request.\<close>

lemma process_relayed:
  obtains R where "server_reachable (process_ex []) [] [] process_deps_ex (R :: (unit, stored_tx list) process_state)" "hs_listening R"
    "\<exists>x\<in>set (txstore (snd (serve process_deps_ex (PostRelay request_ex) R))). st_serverAction x = RELAY_CALL"
proof -
  obtain t r R' where l: "launch (process_ex []) process_node_ex process_config_ex process_state_ex = (Inr process_deps_ex, t)"
    and served: "let R = snd (serve process_deps_ex Tick (snd (serve process_deps_ex Listening t))) in
      hs_listening R \<and> sv_pingHandler process_deps_ex R = ping_ex \<and>
      createRelayTransaction process_deps_ex request_ex R = (Inr r, R') \<and> sx_signedTx r = ''0xraw'' \<and>
      (\<exists>x\<in>set (txstore R'). st_serverAction x = RELAY_CALL)"
    using process_serve_ex [of process_state_ex] by blast
  have run: "runServer (process_ex []) [] [] process_state_ex = (Inr process_deps_ex, t)"
    using l by (simp add: runServer_def Let_def bnd_run process_ex_def process_parses process_resolved)
  show thesis
    by (rule that [OF process_ticked [OF run]]) (use served in \<open>simp_all add: Let_def relayHandler_cases\<close>)
qed

text \<open>A price that is not negative is positive when it is not zero.\<close>

lemma floored_positive:
  assumes "math_floor (num_mul a b) \<noteq> num 0" "a = Some x \<and> 0 \<le> x \<and> b = Some y \<and> 0 \<le> y"
  shows "num_lt (num 0) (math_floor (num_mul a b))"
proof -
  have "0 \<le> rnd (x * y)" using assms(2) by (simp add: rnd_nonneg)
  then have "0 \<le> \<lfloor>rnd (x * y)\<rfloor>" by (simp only: zero_le_floor)
  moreover have "\<lfloor>rnd (x * y)\<rfloor> \<noteq> 0"
    using assms unfolding math_floor_def num_mul_def num_def by (auto simp del: floor_eq_iff)
  ultimately have "0 < \<lfloor>rnd (x * y)\<rfloor>" by linarith
  then show ?thesis using assms(2) by (simp add: math_floor_def num_mul_def num_def num_lt_def)
qed

section \<open>Properties\<close>

text \<open>
  C4. The keys serve their purpose. Whatever the node answers and whatever is requested, every transaction
  in the store of a running server is the call of a request by the worker to the configured hub, the
  registration of the configured URL or of the worker by the manager, or a plain transfer: from the manager to
  the worker, or from one of them to an address the node has reported as the owner of the stake, or to nobody
  (\<open>0x\<close>): \<open>_sendManagerHubBalanceToOwner\<close> and its like do not check that an owner is known. It is a hypothesis that this
  also holds of the documents of a store that is opened, which an earlier run of the same server has left.
\<close>

theorem keys_serve_their_purpose:
  fixes s :: "('w, 'd, 'z) process_state_scheme"
  assumes "nedb_laws (px_nedb E) docs ok" "tx_members (px_txlib E)" "server_reachable E args env D s"
    and "\<And>dir d. returns (px_openStore E dir) d \<Longrightarrow> nedb_laws.wf_store docs ok d \<and> (\<forall>x\<in>docs d. serves_purpose D x)"
    and "x \<in> docs (txstore s)"
  shows "serves_purpose D x"
proof -
  have p: "process_store (px_nedb E) docs ok D"
    using assms(1,2) reachable_deps [OF assms(3)] by (simp add: process_store_def process_store_axioms_def)
  show ?thesis
  proof (rule process_store.stored_purpose [OF p assms(3) _ assms(5)])
    fix s0 t :: "('w, 'd, 'z) process_state_scheme"
    assume run: "runServer E args env s0 = (Inr D, t)"
    obtain dir where "returns (px_openStore E dir) (txstore t)" using runServer_Inr(2) [OF run] by blast
    then have "process_store.purposeful docs ok D (txstore t)"
      using assms(4) by (simp add: process_store.purposeful_def [OF p])
    then show "process_store.purpose_inv docs ok D t"
      using runServer_Inr(1) [OF run] by (simp add: process_store.purpose_inv_def [OF p] launched_def)
  qed
qed

theorem keys_serve_their_purpose_witness:
  "(\<exists>t :: (unit, stored_tx list) process_state. server_reachable (process_ex [left_ex]) [] [] process_deps_ex t \<and>
     left_ex \<in> set (txstore t) \<and> serves_purpose process_deps_ex left_ex) \<and>
   (\<exists>(t :: (unit, stored_tx list) process_state) x. server_reachable (process_ex []) [] [] process_deps_ex t \<and>
     x \<in> set (txstore t) \<and> st_serverAction x = RELAY_CALL \<and> serves_purpose process_deps_ex x)"
proof -
  have laws: "nedb_laws (px_nedb (process_ex opened)) set unique_list" for opened using list_laws by simp
  have law: "tx_members (px_txlib (process_ex opened))" for opened by (simp add: process_tx_law)
  have lower: "toLowerCase ''0xhash'' = ''0xhash''" by code_simp
  have opened: "nedb_laws.wf_store set unique_list d \<and> (\<forall>x\<in>set d. serves_purpose process_deps_ex x)"
    if "returns (px_openStore (process_ex opened) dir) d" "opened = [] \<or> opened = [left_ex]" for dir d opened
    using that by (auto simp: returns_def list_db.wf_store_def unique_list_def left_ex_def keyed_def tx_key_def
        serves_purpose_def purpose_def)
  obtain t where run: "runServer (process_ex [left_ex]) [] [] process_state_ex = (Inr process_deps_ex, t)"
    using process_run_ex by blast
  have reach: "server_reachable (process_ex [left_ex]) [] [] process_deps_ex t" by (rule server_reachable.started [OF run])
  obtain dir where "returns (px_openStore (process_ex [left_ex]) dir) (txstore t)" using runServer_Inr(2) [OF run] by blast
  then have "txstore t = [left_ex]" by (auto simp: returns_def)
  then have left: "left_ex \<in> set (txstore t)" by simp
  then have "serves_purpose process_deps_ex left_ex"
    by (intro keys_serve_their_purpose [OF laws law reach]) (rule opened [OF _ disjI2 [OF refl]])
  moreover obtain R R' x where served: "server_reachable (process_ex []) [] [] process_deps_ex (R :: (unit, stored_tx list) process_state)"
    "hs_listening R" "R' = snd (serve process_deps_ex (PostRelay request_ex) R)" "x \<in> set (txstore R')" "st_serverAction x = RELAY_CALL"
    using process_relayed by blast
  then have "server_reachable (process_ex []) [] [] process_deps_ex R'"
    using server_reachable.served [OF served(1), of "PostRelay request_ex"] served(2,3) by simp
  moreover from this have "serves_purpose process_deps_ex x"
    by (rule keys_serve_their_purpose [OF laws law _ _ served(4)]) (rule opened [OF _ disjI1 [OF refl]], simp_all)
  ultimately show ?thesis using reach left served(4,5) by blast
qed

text \<open>
  C5. In every state a running server can reach it is initialized, works with the hub and the verifiers
  of its configuration, counts the nonces of both keys and holds neither the mutex nor the semaphore; when
  it has returned its funds the worker is not entered any more; and no step lowers a nonce.
\<close>

theorem server_invariant:
  fixes s :: "('w, 'd, 'z) process_state_scheme"
  assumes "server_reachable E args env D s"
  shows "settled D s \<and> life_inv s \<and> \<not> nonceMutex s \<and> nonces s (managerAddress D) \<noteq> None \<and> nonces s (workerAddress D) \<noteq> None \<and>
    nonces_grow s (snd (serve D ev s))"
proof -
  have "nonce_state s s" using counted_reachable [OF assms] by (simp add: nonce_state_def nonces_grow_def)
  then have "nonces_grow s (snd (serve D ev s))" using nonce.inv_serve [of s s D ev] by (simp add: nonce_state_def)
  then show ?thesis using settled_reachable [OF assms] life_reachable [OF assms] counted_reachable [OF assms] by blast
qed

theorem server_invariant_witness:
  "\<exists>t :: (unit, stored_tx list) process_state. server_reachable (process_ex []) [] [] process_deps_ex t \<and>
     ci_relayHub t = Some (hubAddress process_deps_ex) \<and> nonces_grow t (snd (serve process_deps_ex (PostRelay request_ex) t))"
proof -
  obtain t where run: "runServer (process_ex []) [] [] process_state_ex = (Inr process_deps_ex, t)"
    using process_run_ex by blast
  have reach: "server_reachable (process_ex []) [] [] process_deps_ex t" by (rule server_reachable.started [OF run])
  from server_invariant [OF reach, of "PostRelay request_ex"] reach show ?thesis by (auto simp: settled_def)
qed

text \<open>
  C6. Whenever a running server is ready it is registered, with a locked stake above the minimum and its
  own URL in the latest registration, and its worker has had the minimum balance. The price it asks of requests
  is the floor of a price the node has reported times the configured factor, and it is not zero; it is positive
  when the reported price parses to a number that is not negative and the factor is one.
\<close>

theorem ready_server_is_registered:
  assumes "server_reachable E args env D s" "isReady D s"
  shows "isRegistered D s \<and> worker_funded D \<and>
    (\<exists>g. returns (n_getGasPrice (dp_node D)) g \<and> sv_gasPrice s \<noteq> num 0 \<and>
       sv_gasPrice s = math_floor (num_mul (parseInt g) (sc_gasPriceFactor (dp_config D))) \<and>
       (\<forall>x y. parseInt g = Some x \<and> 0 \<le> x \<and> sc_gasPriceFactor (dp_config D) = Some y \<and> 0 \<le> y \<longrightarrow>
          num_lt (num 0) (sv_gasPrice s)))"
proof -
  have r: "isRegistered D s" "worker_funded D" "price_current D s" using reachable_ready [OF assms] by blast+
  then obtain g where g: "returns (n_getGasPrice (dp_node D)) g" "sv_gasPrice s \<noteq> num 0"
    "sv_gasPrice s = math_floor (num_mul (parseInt g) (sc_gasPriceFactor (dp_config D)))"
    by (auto simp: price_current_def)
  moreover have "\<forall>x y. parseInt g = Some x \<and> 0 \<le> x \<and> sc_gasPriceFactor (dp_config D) = Some y \<and> 0 \<le> y \<longrightarrow>
      num_lt (num 0) (sv_gasPrice s)"
    using floored_positive g(2) unfolding g(3) by blast
  ultimately show ?thesis using r by blast
qed

theorem ready_server_is_registered_witness:
  "\<exists>t :: (unit, stored_tx list) process_state. server_reachable (process_ex []) [] [] process_deps_ex t \<and>
     isReady process_deps_ex t \<and> isRegistered process_deps_ex t \<and> sv_gasPrice t \<noteq> num 0"
proof -
  obtain t where l: "launch (process_ex []) process_node_ex process_config_ex process_state_ex = (Inr process_deps_ex, t)"
    and ready: "isReady process_deps_ex (snd (serve process_deps_ex Tick (snd (serve process_deps_ex Listening t))))"
    using process_ready_ex [of process_state_ex] by blast
  have run: "runServer (process_ex []) [] [] process_state_ex = (Inr process_deps_ex, t)"
    using l by (simp add: runServer_def Let_def bnd_run process_ex_def process_parses process_resolved)
  have "server_reachable (process_ex []) [] [] process_deps_ex (snd (serve process_deps_ex Tick (snd (serve process_deps_ex Listening t))))"
    by (rule process_ticked [OF run])
  from ready_server_is_registered [OF this ready] this ready show ?thesis by blast
qed

end
