(* ===== verification/ClientWorld.thy ===== *)
theory ClientWorld
  imports RelayClient
begin

text \<open>
  What the client does to the world: it changes it by its requests to the node, to relays and to the
  signing provider, and by nothing else. A property of the world that each of these requests keeps is
  kept by the whole of \<open>relayTransaction\<close> (locale \<open>client_requests\<close>), and a transaction that is
  returned is the answer of a relay to a request that was posted while the property held.
\<close>

section \<open>Requests that keep a property of the world\<close>

definition node_keeps :: "('w \<Rightarrow> bool) \<Rightarrow> 'w node \<Rightarrow> bool" where
  "node_keeps Q N \<longleftrightarrow>
     (\<forall>a b. along (keeps Q) (n_getTransactionCount N a b)) \<and> along (keeps Q) (n_getGasPrice N) \<and>
     (\<forall>a b. along (keeps Q) (n_getBalance N a b)) \<and> along (keeps Q) (n_getBlockNumber N) \<and>
     (\<forall>h. along (keeps Q) (n_getTransaction N h)) \<and> (\<forall>h. along (keeps Q) (n_getTransactionReceipt N h)) \<and>
     along (keeps Q) (n_getChainId N) \<and> along (keeps Q) (n_getNetworkId N) \<and> along (keeps Q) (n_getNetworkType N) \<and>
     (\<forall>c. along (keeps Q) (n_estimateGas N c)) \<and> (\<forall>x. along (keeps Q) (n_sendSignedTransaction N x)) \<and>
     (\<forall>a ts opts. along (keeps Q) (n_getPastEvents N a ts opts)) \<and> (\<forall>i a. along (keeps Q) (n_contractAt N i a)) \<and>
     (\<forall>a. along (keeps Q) (n_versionHub N a)) \<and> (\<forall>a. along (keeps Q) (n_forwarderNonce N a)) \<and>
     (\<forall>a b. along (keeps Q) (n_factoryNonce N a b)) \<and> (\<forall>a m c b. along (keeps Q) (n_methodCall N a m c b)) \<and>
     (\<forall>a m c. along (keeps Q) (n_methodEstimateGas N a m c)) \<and> along (keeps Q) (n_now N) \<and>
     (\<forall>a b. along (keeps Q) (n_getStakeInfo N a b)) \<and> (\<forall>t. along (keeps Q) (n_sleep N t))"

definition http_keeps :: "('w \<Rightarrow> bool) \<Rightarrow> 'w http \<Rightarrow> bool" where
  "http_keeps Q H \<longleftrightarrow> (\<forall>u. along (keeps Q) (h_get H u)) \<and> (\<forall>u req. along (keeps Q) (h_post H u req))"

lemma along_keeps_io:
  fixes m :: "('w, 'a) js"
  shows "along (keeps Q) m \<Longrightarrow> along (keeps (\<lambda>s :: ('w, 'z) net_scheme. Q (world s))) (io m)"
  by (simp add: along_def keeps_def io_run split: prod.split)

lemma along_sum: "(\<And>e. along R (f e)) \<Longrightarrow> (\<And>x. along R (g x)) \<Longrightarrow> along R (case v of Inl e \<Rightarrow> f e | Inr x \<Rightarrow> g x)"
  by (cases v) simp_all

lemma along_prod: "(\<And>x y. along R (f x y)) \<Longrightarrow> along R (case v of (x, y) \<Rightarrow> f x y)"
  "(\<And>x y. along R (g x y b)) \<Longrightarrow> along R ((case v of (x, y) \<Rightarrow> g x y) b)"
  by (cases v; simp)+

lemma along_settles:
  "along R a \<Longrightarrow> along R b \<Longrightarrow> (\<And>x. along R (f x)) \<Longrightarrow> along R (case v of Never \<Rightarrow> a | Spinning \<Rightarrow> b | Result x \<Rightarrow> f x)"
  by (cases v) simp_all

lemma along_keeps_modify: "(\<And>s. world (f s) = world s) \<Longrightarrow> along (keeps (\<lambda>s. Q (world s))) (modify f)"
  by (simp add: along_def keeps_def)

lemma along_keeps_both: "along (keeps I) m \<Longrightarrow> along (keeps I) n \<Longrightarrow> along (keeps I) (both m n)"
  by (auto simp: along_def keeps_def both_def split: prod.split)

text \<open>What a computation that keeps an invariant returns.\<close>

definition yields :: "('s \<Rightarrow> bool) \<Rightarrow> ('s, 'a) js \<Rightarrow> ('a \<Rightarrow> bool) \<Rightarrow> bool" where
  "yields I m P \<longleftrightarrow> (\<forall>s. I s \<longrightarrow> I (snd (m s)) \<and> (\<forall>x. fst (m s) = Inr x \<longrightarrow> P x))"

lemma yieldsD: "yields I m P \<Longrightarrow> I s \<Longrightarrow> m s = (Inr x, t) \<Longrightarrow> P x \<and> I t"
  unfolding yields_def by (metis fst_conv snd_conv)

lemma yields_along: "along (keeps I) m \<Longrightarrow> (\<And>s x t. I s \<Longrightarrow> m s = (Inr x, t) \<Longrightarrow> P x) \<Longrightarrow> yields I m P"
  unfolding yields_def along_def keeps_def by (metis prod.collapse)

lemma yields_keeps: "yields I m P \<Longrightarrow> along (keeps I) m"
  by (simp add: yields_def along_def keeps_def)

lemma yields_ret: "P x \<Longrightarrow> yields I (ret x) P"
  by (simp add: yields_def)

lemma yields_weaken: "yields I m A \<Longrightarrow> (\<And>x. A x \<Longrightarrow> P x) \<Longrightarrow> yields I m P"
  by (simp add: yields_def)

lemma yields_bnd:
  assumes "yields I m A" "\<And>x. A x \<Longrightarrow> yields I (f x) P"
  shows "yields I (bnd m f) P"
proof -
  have "I (snd (bnd m f s)) \<and> (\<forall>x. fst (bnd m f s) = Inr x \<longrightarrow> P x)" if "I s" for s
  proof (cases "m s")
    case (Pair r t)
    then show ?thesis
    proof (cases r)
      case (Inl e)
      then show ?thesis using assms(1) that Pair by (auto simp: yields_def bnd_run)
    next
      case (Inr x)
      have "A x \<and> I t" using yieldsD [OF assms(1) that] Pair Inr by simp
      then have "I (snd (f x t))" "\<And>y. fst (f x t) = Inr y \<Longrightarrow> P y" using assms(2) [of x] by (auto simp: yields_def)
      then show ?thesis using Pair Inr by (simp add: bnd_run)
    qed
  qed
  then show ?thesis by (simp add: yields_def)
qed

lemma yields_bnd_along: "along (keeps I) m \<Longrightarrow> (\<And>x. yields I (f x) P) \<Longrightarrow> yields I (bnd m f) P"
  by (rule yields_bnd [where A = "\<lambda>_. True"]) (simp_all add: yields_along)

lemma yields_andthen: "along (keeps I) m \<Longrightarrow> yields I n P \<Longrightarrow> yields I (andthen m n) P"
  unfolding andthen_def by (rule yields_bnd_along)

lemma yields_catching:
  assumes "yields I m P" "\<And>e. yields I (h e) P"
  shows "yields I (catching m h) P"
proof -
  have "I (snd (catching m h s)) \<and> (\<forall>x. fst (catching m h s) = Inr x \<longrightarrow> P x)" if "I s" for s
    using assms that by (cases "m s") (force simp: yields_def catching_run split: sum.split)
  then show ?thesis by (simp add: yields_def)
qed

lemma yields_settles:
  "P Never \<Longrightarrow> P Spinning \<Longrightarrow> yields I n P \<Longrightarrow> (\<And>r. yields I (f r) P) \<Longrightarrow>
     yields I (case y of Never \<Rightarrow> ret Never | Spinning \<Rightarrow> ret Spinning | Result None \<Rightarrow> n | Result (Some r) \<Rightarrow> f r) P"
  by (auto simp: yields_def split: settles.split option.split)

lemma yields_option:
  "(v = None \<Longrightarrow> yields I n P) \<Longrightarrow> (\<And>x. v = Some x \<Longrightarrow> yields I (m x) P) \<Longrightarrow>
     yields I (case v of None \<Rightarrow> n | Some x \<Rightarrow> m x) P"
  by (cases v) simp_all

lemma yields_sum:
  "(\<And>e. v = Inl e \<Longrightarrow> yields I (f e) P) \<Longrightarrow> (\<And>x. v = Inr x \<Longrightarrow> yields I (g x) P) \<Longrightarrow>
     yields I (case v of Inl e \<Rightarrow> f e | Inr x \<Rightarrow> g x) P"
  by (cases v) simp_all

lemma yields_if: "(b \<Longrightarrow> yields I m P) \<Longrightarrow> (\<not> b \<Longrightarrow> yields I n P) \<Longrightarrow> yields I (if b then m else n) P"
  by simp

lemma yields_of_result: "yields I (of_result r) (\<lambda>x. r = Inr x)"
  by (simp add: yields_def)

section \<open>The client's requests\<close>

locale client_requests =
  fixes Q :: "'w \<Rightarrow> bool" and C :: "('w, 'k, 'q, 't) client"
  assumes node: "node_keeps Q (cl_node C)" and http: "http_keeps Q (se_http (cl_selector C))"
    and provider: "along (keeps Q) (sg_signWithProvider (cl_signer C) x)"
begin

abbreviation held :: "('w, 'z) net_scheme \<Rightarrow> bool" where
  "held \<equiv> (\<lambda>s. Q (world s))"

lemma node_requests:
  "along (keeps held) (io (n_getTransactionCount (cl_node C) a b))" "along (keeps held) (io (n_getGasPrice (cl_node C)))"
  "along (keeps held) (io (n_getBalance (cl_node C) a a'))" "along (keeps held) (io (n_getBlockNumber (cl_node C)))"
  "along (keeps held) (io (n_getTransaction (cl_node C) a))" "along (keeps held) (io (n_getTransactionReceipt (cl_node C) a))"
  "along (keeps held) (io (n_getChainId (cl_node C)))" "along (keeps held) (io (n_getNetworkId (cl_node C)))"
  "along (keeps held) (io (n_getNetworkType (cl_node C)))" "along (keeps held) (io (n_estimateGas (cl_node C) c))"
  "along (keeps held) (io (n_sendSignedTransaction (cl_node C) a))" "along (keeps held) (io (n_getPastEvents (cl_node C) a ts opts))"
  "along (keeps held) (io (n_contractAt (cl_node C) i a))" "along (keeps held) (io (n_versionHub (cl_node C) a))"
  "along (keeps held) (io (n_forwarderNonce (cl_node C) a))" "along (keeps held) (io (n_factoryNonce (cl_node C) a a'))"
  "along (keeps held) (io (n_methodCall (cl_node C) a m c b))" "along (keeps held) (io (n_methodEstimateGas (cl_node C) a m c))"
  "along (keeps held) (io (n_now (cl_node C)))"
  using node unfolding node_keeps_def by (auto intro: along_keeps_io)

lemma other_requests:
  "along (keeps held) (io (h_get (se_http (cl_selector C)) u))" "along (keeps held) (io (h_post (se_http (cl_selector C)) u req))"
  "along (keeps held) (io (sg_signWithProvider (cl_signer C) x))"
  using http provider unfolding http_keeps_def by (auto intro: along_keeps_io)

lemmas request_rules = keeping.along_rules along_sum along_prod along_settles along_keeps_both node_requests other_requests

lemma held_hub: "along (keeps held) relayHubInstance"
  unfolding relayHubInstance_def instance_of_def by (intro request_rules)

lemma held_init: "along (keeps held) (rc_init C)"
  unfolding rc_init_def ci_init_def initializeContracts_def createContract_def validateCompatibility_def validateVersion_def
  by (intro request_rules held_hub along_keeps_modify) simp_all

lemma held_events: "along (keeps held) (ContractInteractor.getPastEventsForHub (cl_node C) W ts opts ns)"
  "along (keeps held) (getPastEventsForStakeManagement (cl_node C) W ns ts opts)"
  unfolding ContractInteractor.getPastEventsForHub_def getPastEventsForStakeManagement_def getPastEvents_def Let_def
  by (intro request_rules held_hub)+

lemma held_past: "along (keeps held) (past_events_loop (cl_node C) W cfg f b n)"
proof (induction n)
  case (Suc n)
  then show ?case unfolding past_events_loop.simps request_parts_def
    by (intro request_rules held_events along_keeps_modify) simp_all
qed (simp only: past_events_loop.simps keeping.along_throw)

lemma held_managers: "along (keeps held) (getRelayInfoForManagers (cl_node C) W f ms)"
  unfolding getRelayInfoForManagers_def Let_def by (intro request_rules held_events)

lemma held_refresh: "along (keeps held) (refresh (cl_node C) W cfg f)"
  unfolding refresh_def refreshFailures_def fetchRecentlyActiveRelayManagers_def kr_getPastEventsForHub_def Let_def
  by (intro request_rules held_past held_managers along_keeps_modify) simp_all

lemma held_settle: "along (keeps held) (settle (cl_selector C) d n rs errs)"
proof (induction rs arbitrary: errs)
  case (Cons r rs)
  then show ?case unfolding settle.simps getRelayAddressPing_def getPingResponse_def Let_def by (intro request_rules)
qed (simp only: settle.simps keeping.along_ret)

lemma held_next: "along (keeps held) (nextRelayInternal (cl_selector C) d rs)"
  unfolding nextRelayInternal_def raceToSuccess_def handleRaceResults_def
  by (intro request_rules held_settle held_managers along_keeps_modify) (auto intro!: request_rules held_managers split: list.split)

lemma held_select: "along (keeps held) (selectNextRelay (cl_selector C) d)"
proof -
  have 1: "along (keeps held) (nextOfAll (cl_selector C) d n)" for n
  proof (induction n)
    case (Suc n)
    then show ?case unfolding nextOfAll.simps getNextSlice_def
      by (intro request_rules held_next) (auto intro!: request_rules split: settles.split option.split)
  qed (simp only: nextOfAll.simps keeping.along_ret)
  have 2: "along (keeps held) (nextOfPreferred (cl_selector C) d n i)" for n i
  proof (induction n arbitrary: i)
    case (Suc n)
    then show ?case unfolding nextOfPreferred.simps getPreferredRelaysNextSlice_def
      by (intro request_rules held_next) (auto intro!: request_rules split: settles.split option.split)
  qed (simp only: nextOfPreferred.simps keeping.along_ret)
  show ?thesis unfolding selectNextRelay_def by (intro request_rules 1 2)
qed

lemma held_estimates: "along (keeps held) (estimateTokenTransferGas C d w)" "along (keeps held) (priced C d)"
  "along (keeps held) (walletFactoryEstimateGasOfDeployCall (cl_node C) req)"
  "along (keeps held) (estimateRelayTransactionMaxPossibleGas (cl_node C) W r sig)"
  "along (keeps held) (gassed C d)"
  unfolding estimateTokenTransferGas_def walletFactoryEstimateGasOfDeployCall_def createContract_def priced_def calculateGasPrice_def
    estimateRelayTransactionMaxPossibleGas_def gassed_def estimateDestinationContractCallGas_def Let_def
  by (intro request_rules held_hub)+

lemma held_sign: "along (keeps held) (sign W (cl_signer C) r)"
  unfolding sign_def Let_def by (intro request_rules)

lemma held_prepare:
  "along (keeps held) (prepareDeployHttpRequest C w d)" "along (keeps held) (prepareRelayHttpRequest C w d)"
  unfolding prepareDeployHttpRequest_def prepareRelayHttpRequest_def signAndComplete_def getFactoryNonce_def
    getSenderNonce_def createContract_def
  by (intro request_rules held_sign)+

lemma held_accept:
  "along (keeps held) (validateAcceptDeployCall (cl_node C) W req)" "along (keeps held) (validateAcceptRelayCall (cl_node C) W r sig)"
  unfolding validateAcceptDeployCall_def validateAcceptRelayCall_def getMaxViewableDeployGasLimit_def
    getMaxViewableRelayGasLimit_def getBalance_def instance_of_def Let_def
  by (intro request_rules held_estimates)+

lemma held_broadcast: "along (keeps held) (broadcastRawTx (cl_node C) T tx)"
  unfolding broadcastRawTx_def isAlreadySubmitted_def by (intro request_rules)

lemma held_failure: "along (keeps held) (saveFailure (cl_node C) r)"
  unfolding saveFailure_def by (intro request_rules along_keeps_modify) (simp add: saveRelayFailure_def)

text \<open>A relay's answer to a request that was posted while the property held.\<close>

definition posted :: "relay_transaction_request \<Rightarrow> string \<Rightarrow> bool" where
  "posted req hex \<longleftrightarrow> (\<exists>url u v. Q u \<and> h_post (se_http (cl_selector C)) url req u = (Inr (Some hex, None), v))"

definition relayed_posted :: "transaction_details \<Rightarrow> 't \<Rightarrow> bool" where
  "relayed_posted d x \<longleftrightarrow> (\<exists>req hex. posted req hex \<and> t_decode (cl_txlib C) hex = Inr x \<and> carries d (relayRequest req) \<and>
     signed_by_sender C req \<and> accepted_response C req x)"

lemma yields_answer: "yields held (relayTransaction (se_http (cl_selector C)) url req) (posted req)"
proof (rule yields_along)
  show "along (keeps held) (relayTransaction (se_http (cl_selector C)) url req)"
    unfolding relayTransaction_def by (intro request_rules)
  fix s t :: "('w, 'z) net_scheme" and hex
  assume "held s" "relayTransaction (se_http (cl_selector C)) url req s = (Inr hex, t)"
  then show "posted req hex"
    by (auto simp: relayTransaction_def bnd_run io_run posted_def split: option.splits sum.splits prod.splits)
      (metis prod.collapse)
qed

lemma yields_reply:
  "yields held (catching (bnd (relayTransaction (se_http (cl_selector C)) url req) (\<lambda>tx. ret (Inr tx)))
       (\<lambda>e. andthen (if c e then saveFailure (cl_node C) r else ret ()) (ret (Inl e))))
     (\<lambda>v. \<forall>hex. v = Inr hex \<longrightarrow> posted req hex)"
  by (intro yields_catching yields_bnd [OF yields_answer] yields_andthen keeping.along_if held_failure keeping.along_ret yields_ret) auto

lemma yields_checked:
  assumes "t_decode (cl_txlib C) hex = Inr x"
  shows "yields held (validateRelayResponse (cl_txlib C) (cl_web3 C) (cl_config C) req hex) (\<lambda>valid. valid \<longrightarrow> accepted_response C req x)"
  by (rule yields_along, unfold validateRelayResponse_def ci_getRawTxOptions_def, intro request_rules,
      fold ci_getRawTxOptions_def, fold validateRelayResponse_def) (auto intro: validated [OF _ assms])

lemma yields_sendToRelay:
  "yields held (sendToRelay C r req) (\<lambda>a. \<forall>x. at_transaction a = Some x \<longrightarrow>
     (\<exists>hex. posted req hex \<and> t_decode (cl_txlib C) hex = Inr x) \<and> accepted_response C req x)"
  unfolding sendToRelay_def
proof (rule yields_bnd [OF yields_reply], intro yields_sum yields_andthen yields_bnd [OF yields_of_result])
  show "along (keeps held) ci_getRawTxOptions" unfolding ci_getRawTxOptions_def by (intro request_rules)
  fix v hex x assume "\<forall>hex. v = Inr hex \<longrightarrow> posted req hex" "v = Inr hex" "t_decode (cl_txlib C) hex = Inr x"
  then show "yields held (bnd (validateRelayResponse (cl_txlib C) (cl_web3 C) (cl_config C) req hex) (\<lambda>valid.
      if \<not> valid then andthen (saveFailure (cl_node C) r)
        (ret (failed_with (Error ''Returned transaction did not pass validation'')))
      else andthen (broadcastRawTx (cl_node C) (cl_txlib C) x) (ret \<lparr>at_transaction = Some x, at_error = None\<rparr>)))
    (\<lambda>a. \<forall>x. at_transaction a = Some x \<longrightarrow>
     (\<exists>hex. posted req hex \<and> t_decode (cl_txlib C) hex = Inr x) \<and> accepted_response C req x)"
    by (intro yields_bnd [OF yields_checked] yields_if yields_andthen held_failure held_broadcast yields_ret) auto
qed (simp add: yields_ret del: ret_run)

lemma yields_attempt:
  "yields held (attemptRelay C r d) (\<lambda>a. \<forall>x. at_transaction a = Some x \<longrightarrow> relayed_posted d x)"
proof -
  let ?w = "pr_relayWorkerAddress (pi_pingResponse r)" and ?deploy = "or_else (td_isSmartWalletDeploy d) False"
  have prepared: "yields held (if ?deploy then prepareDeployHttpRequest C ?w d else prepareRelayHttpRequest C ?w d)
      (\<lambda>req. carries d (relayRequest req) \<and> signed_by_sender C req)"
    using prepareDeploy_Inr [of C ?w d] prepareRelay_Inr [of C ?w d]
    by (intro yields_along keeping.along_if held_prepare) (auto split: if_splits)
  show ?thesis unfolding attemptRelay_def Let_def
  proof (rule yields_bnd [OF prepared], intro yields_bnd_along request_rules held_accept)
    fix req and err :: "exn option" assume req: "carries d (relayRequest req) \<and> signed_by_sender C req"
    show "yields held (case err of Some e \<Rightarrow> ret (failed_with e) | None \<Rightarrow> sendToRelay C r req)
       (\<lambda>a. \<forall>x. at_transaction a = Some x \<longrightarrow> relayed_posted d x)"
    proof (cases err)
      case None
      then show ?thesis using req by (simp, intro yields_weaken [OF yields_sendToRelay]) (unfold relayed_posted_def, blast)
    qed (simp add: yields_def)
  qed
qed

lemma relayed_posted_upd: "relayed_posted (d\<lparr>td_tokenGas := k\<rparr>) x = relayed_posted d x"
  by (simp add: relayed_posted_def)

lemma yields_details:
  "yields held (if g then bnd (estimateTokenTransferGas C d w) (\<lambda>g. ret (d\<lparr>td_tokenGas := Some (number_str g)\<rparr>)) else ret d)
     (\<lambda>d'. relayed_posted d' = relayed_posted d)"
  by (intro yields_along request_rules held_estimates)
    (auto elim!: bnd_InrE split: if_splits simp: fun_eq_iff relayed_posted_upd)

lemma yields_caught:
  "relayed_posted d' = relayed_posted d \<Longrightarrow> yields held (catching (attemptRelay C r d') (\<lambda>e. ret (failed_with e)))
     (\<lambda>a. \<forall>x. at_transaction a = Some x \<longrightarrow> relayed_posted d x)"
  using yields_attempt [of r d'] by (intro yields_catching yields_ret) simp_all

lemma yields_rounds:
  "yields held (relay_rounds C g n d errs) (\<lambda>x. \<forall>res tx. x = Result res \<longrightarrow> re_transaction res = Some tx \<longrightarrow> relayed_posted d tx)"
proof (induction n arbitrary: d errs)
  case 0
  then show ?case by (simp only: relay_rounds.simps, rule yields_ret) simp
next
  case (Suc n)
  show ?case unfolding relay_rounds.simps
    by (intro yields_bnd_along [OF held_select] yields_settles yields_bnd [OF yields_details], simp, simp,
        rule yields_bnd_along [OF keeping.along_gets], simp add: yields_ret del: ret_run, rule yields_bnd [OF yields_caught],
        assumption, intro yields_option, rule yields_weaken [OF Suc.IH], simp,
        rule yields_bnd_along [OF keeping.along_gets], simp add: yields_ret del: ret_run)
qed

text \<open>The whole of \<open>relayTransaction\<close>.\<close>

lemma yields_relayTransaction:
  "yields held (rc_relayTransaction C d0) (\<lambda>x. \<forall>res tx. x = Result res \<longrightarrow> re_transaction res = Some tx \<longrightarrow> relayed_posted d0 tx)"
proof -
  have 1: "yields held (priced C d0) (\<lambda>d1. \<forall>r. carries d1 r = carries d0 r)"
    by (intro yields_along held_estimates) (auto dest: priced_Inr)
  have 2: "yields held (gassed C d1) (\<lambda>d. \<forall>r. carries d r = carries d1 r)" for d1
    by (intro yields_along held_estimates) (auto dest: gassed_Inr)
  have new: "along (keeps held) (newRelaySelectionManager C d)" for d
    unfolding newRelaySelectionManager_def rs_init_def by (intro request_rules along_keeps_modify) simp_all
  show ?thesis unfolding rc_relayTransaction_def
  proof (intro yields_andthen held_init held_refresh yields_bnd [OF 1] yields_bnd [OF 2] new yields_bnd_along request_rules)
    fix d1 d and count :: nat
    assume "\<forall>r. carries d1 r = carries d0 r" "\<forall>r. carries d r = carries d1 r"
    then have "relayed_posted d tx = relayed_posted d0 tx" for tx by (simp add: relayed_posted_def)
    then show "yields held (relay_rounds C (needsTokenGas d1) (Suc count) d [])
       (\<lambda>x. \<forall>res tx. x = Result res \<longrightarrow> re_transaction res = Some tx \<longrightarrow> relayed_posted d0 tx)"
      using yields_rounds [of "needsTokenGas d1" "Suc count" d "[]"] by simp
  qed
qed

end

end
