(* ===== verification/RelaySystem.thy ===== *)
theory RelaySystem
  imports ClientWorld ServerInvariants
begin

text \<open>
  A client and a server together: the world of the client is the process of the server, whose world is
  the chain. The client's requests to the node go through to the chain, its HTTP requests to the
  server's URL are answered by the handlers of the process (the routes of \<open>src/relayserver/HttpServer.ts\<close>,
  the requests of \<open>src/relayclient/HttpClient.ts\<close>). Before each of them the parameter \<open>meanwhile\<close> runs what
  else happens: ticks of the server's timer, requests of other clients, new blocks.
\<close>

section \<open>The composition\<close>

definition during ::
  "(('w, 'd, 'z) process_state_scheme \<Rightarrow> ('w, 'd, 'z) process_state_scheme) \<Rightarrow> ('w, 'a) js \<Rightarrow>
   (('w, 'd, 'z) process_state_scheme, 'a) js" where
  "during meanwhile m = (\<lambda>s. io m (meanwhile s))"

definition chainNode ::
  "(('w, 'd, 'z) process_state_scheme \<Rightarrow> ('w, 'd, 'z) process_state_scheme) \<Rightarrow> 'w node \<Rightarrow>
   ('w, 'd, 'z) process_state_scheme node" where
  "chainNode f N =
     \<lparr>n_getTransactionCount = (\<lambda>a b. during f (n_getTransactionCount N a b)), n_getGasPrice = during f (n_getGasPrice N),
      n_getBalance = (\<lambda>a b. during f (n_getBalance N a b)), n_getBlockNumber = during f (n_getBlockNumber N),
      n_getBlock = (\<lambda>b. during f (n_getBlock N b)), n_getTransaction = (\<lambda>h. during f (n_getTransaction N h)),
      n_getTransactionReceipt = (\<lambda>h. during f (n_getTransactionReceipt N h)), n_getCode = (\<lambda>a. during f (n_getCode N a)),
      n_getChainId = during f (n_getChainId N), n_getNetworkId = during f (n_getNetworkId N),
      n_getNetworkType = during f (n_getNetworkType N), n_estimateGas = (\<lambda>c. during f (n_estimateGas N c)),
      n_call = (\<lambda>c. during f (n_call N c)), n_sendSignedTransaction = (\<lambda>x. during f (n_sendSignedTransaction N x)),
      n_sendRawTransaction = (\<lambda>x. during f (n_sendRawTransaction N x)),
      n_getPastEvents = (\<lambda>a ts opts. during f (n_getPastEvents N a ts opts)),
      n_getStakeInfo = (\<lambda>a b. during f (n_getStakeInfo N a b)), n_contractAt = (\<lambda>i a. during f (n_contractAt N i a)),
      n_versionHub = (\<lambda>a. during f (n_versionHub N a)), n_forwarderNonce = (\<lambda>a. during f (n_forwarderNonce N a)),
      n_factoryNonce = (\<lambda>a b. during f (n_factoryNonce N a b)), n_getAcceptedTokens = (\<lambda>a. during f (n_getAcceptedTokens N a)),
      n_methodCall = (\<lambda>a m c b. during f (n_methodCall N a m c b)),
      n_methodEstimateGas = (\<lambda>a m c. during f (n_methodEstimateGas N a m c)),
      n_registryEvents = (\<lambda>a i b. during f (n_registryEvents N a i b)),
      n_registrySend = (\<lambda>a m opts. during f (n_registrySend N a m opts)), n_now = during f (n_now N),
      n_random = during f (n_random N), n_sleep = (\<lambda>t. during f (n_sleep N t))\<rparr>"

text \<open>The answers of a server at \<open>url\<close>; a URL that nothing listens at, or no route of the server, is an error of axios.\<close>

definition answerGet :: "http_response option \<Rightarrow> ping_response option" where
  "answerGet r = (case r of Some (PingBody p) \<Rightarrow> Some p | _ \<Rightarrow> None)"

definition answerPost :: "http_response option \<Rightarrow> string option \<times> string option" where
  "answerPost r = (case r of Some (SignedTxBody tx) \<Rightarrow> (Some tx, None) | Some (ErrorBody m) \<Rightarrow> (None, m) | _ \<Rightarrow> (None, None))"

definition serverHttp ::
  "(('w, 'd, 'z) process_state_scheme \<Rightarrow> ('w, 'd, 'z) process_state_scheme) \<Rightarrow> ('w, 'd, 'k, 't) deps \<Rightarrow> string \<Rightarrow>
   ('w, 'd, 'z) process_state_scheme http" where
  "serverHttp meanwhile D url =
     \<lparr>h_get = (\<lambda>u s. let t = meanwhile s in
        if hs_listening t \<and> (u = url @ ''/getaddr'' \<or> startsWith u (url @ ''/getaddr?''))
        then map_prod (\<lambda>r. Inr (answerGet r)) id (serve D GetAddr t)
        else (Inl (Error ''Request failed''), t)),
      h_post = (\<lambda>u req s. let t = meanwhile s in
        if hs_listening t \<and> u = url @ ''/relay''
        then map_prod (\<lambda>r. Inr (answerPost r)) id (serve D (PostRelay req) t)
        else (Inl (Error ''Request failed''), t))\<rparr>"

section \<open>The client cannot leave the server's reachable states\<close>

lemma along_during:
  assumes "\<And>s. I s \<Longrightarrow> I (meanwhile s)" "\<And>s w. I s \<Longrightarrow> I (s\<lparr>world := w\<rparr>)"
  shows "along (keeps I) (during meanwhile m)"
  by (rule along_keepsI) (simp add: during_def io_run assms split: prod.split)

lemma chainNode_keeps:
  assumes "\<And>s. I s \<Longrightarrow> I (meanwhile s)" "\<And>s w. I s \<Longrightarrow> I (s\<lparr>world := w\<rparr>)"
  shows "node_keeps I (chainNode meanwhile N)"
  by (simp add: node_keeps_def chainNode_def along_during [OF assms])

lemma serverHttp_keeps:
  assumes "\<And>s. I s \<Longrightarrow> I (meanwhile s)" "\<And>s ev. I s \<Longrightarrow> enabled ev s \<Longrightarrow> I (snd (serve D ev s))"
  shows "http_keeps I (serverHttp meanwhile D url)"
  unfolding http_keeps_def serverHttp_def
  using assms(2) [of _ GetAddr] assms(2) [of _ "PostRelay req" for req]
  by (auto simp: Let_def assms(1) intro!: along_keepsI)

definition served_by ::
  "('w, 'seed, 'd, 'k, 'u) process_env \<Rightarrow> string list \<Rightarrow> obj \<Rightarrow> ('w, 'd, 'k, 'u) deps \<Rightarrow> string \<Rightarrow>
   (('w, 'd, 'z) process_state_scheme \<Rightarrow> ('w, 'd, 'z) process_state_scheme) \<Rightarrow>
   (('w, 'd, 'z) process_state_scheme, 'c, 'q, 't) client \<Rightarrow> bool" where
  "served_by E args env D url meanwhile C \<longleftrightarrow>
     cl_node C = chainNode meanwhile (dp_node D) \<and> se_http (cl_selector C) = serverHttp meanwhile D url \<and>
     (\<forall>t. server_reachable E args env D t \<longrightarrow> server_reachable E args env D (meanwhile t)) \<and>
     (\<forall>x. along (keeps (server_reachable E args env D)) (sg_signWithProvider (cl_signer C) x))"

lemma served_requests: "served_by E args env D url meanwhile C \<Longrightarrow> client_requests (server_reachable E args env D) C"
  unfolding served_by_def
  by unfold_locales (auto intro!: chainNode_keeps serverHttp_keeps server_reachable.served server_reachable.world_changed)

lemma post_answered:
  "h_post (serverHttp meanwhile D url) u req s = (Inr (Some tx, None), v) \<Longrightarrow>
     \<exists>r. createRelayTransaction D req (meanwhile s) = (Inr r, v) \<and> sx_signedTx r = tx"
  by (auto simp: serverHttp_def Let_def answerPost_def relayHandler_cases split: if_splits prod.splits sum.splits option.splits
      http_response.splits)

text \<open>
  However \<open>relayTransaction\<close> ends, the server's state after it is one it can reach. What the client returns as
  relayed has been accepted by the server, in a state it can reach, which is registered and ready.
\<close>

lemma relaying_keeps_server:
  fixes C :: "(('w, 'd, 'z) process_state_scheme, 'c, 'q, 't) client" and D :: "('w, 'd, 'k, 'u) deps"
  assumes "served_by E args env D url meanwhile C" "server_reachable E args env D (world s)" "rc_relayTransaction C d s = (r, t)"
  shows "server_reachable E args env D (world t)"
proof -
  have "client_requests (server_reachable E args env D) C" by (rule served_requests [OF assms(1)])
  from alongD [OF yields_keeps [OF client_requests.yields_relayTransaction [OF this]], of s d]
  show ?thesis using assms(2,3) by (simp add: keeps_def)
qed

lemma relayed_was_accepted:
  fixes C :: "(('w, 'd, 'z) process_state_scheme, 'c, 'q, 't) client" and D :: "('w, 'd, 'k, 'u) deps"
  assumes "served_by E args env D url meanwhile C" "server_reachable E args env D (world s)"
    and "rc_relayTransaction C d s = (Inr (Result res), t)" "re_transaction res = Some tx"
  shows "\<exists>req r (u :: ('w, 'd, 'z) process_state_scheme) v. server_reachable E args env D u \<and>
       createRelayTransaction D req u = (Inr r, v) \<and> acceptable D req u \<and> isRegistered D u \<and>
       t_decode (cl_txlib C) (sx_signedTx r) = Inr tx \<and> carries d (relayRequest req) \<and> signed_by_sender C req"
proof -
  let ?Q = "server_reachable E args env D :: ('w, 'd, 'z) process_state_scheme \<Rightarrow> bool"
  have c: "client_requests ?Q C" by (rule served_requests [OF assms(1)])
  note run = yieldsD [OF client_requests.yields_relayTransaction [OF c] _ assms(3)]
  have posted: "client_requests.relayed_posted ?Q C d tx" using run assms(2,4) by blast
  obtain req hex url' u v where p: "?Q u" "h_post (se_http (cl_selector C)) url' req u = (Inr (Some hex, None), v)"
    "t_decode (cl_txlib C) hex = Inr tx" "carries d (relayRequest req)" "signed_by_sender C req"
    using posted by (auto simp: client_requests.relayed_posted_def [OF c] client_requests.posted_def [OF c])
  have m: "?Q (meanwhile u)" using assms(1) p(1) by (simp add: served_by_def)
  obtain r where r: "createRelayTransaction D req (meanwhile u) = (Inr r, v)" "sx_signedTx r = hex"
    using p(2) assms(1) post_answered [of meanwhile D url url' req u hex v] by (auto simp: served_by_def)
  have "acceptable D req (meanwhile u)" by (rule createRelayTransaction_Inr(1) [OF r(1)])
  moreover from this have "isRegistered D (meanwhile u)"
    by (intro reachable_ready [OF m]) (simp add: acceptable_def)
  ultimately show "\<exists>req r (u :: ('w, 'd, 'z) process_state_scheme) v. server_reachable E args env D u \<and>
       createRelayTransaction D req u = (Inr r, v) \<and> acceptable D req u \<and> isRegistered D u \<and>
       t_decode (cl_txlib C) (sx_signedTx r) = Inr tx \<and> carries d (relayRequest req) \<and> signed_by_sender C req"
    using m r p(3,4,5) by blast
qed

section \<open>What the server accepts is relayed\<close>

text \<open>
  What the transaction library (ethereumjs-tx) documents: the serialization of a signed transaction
  decodes to the transaction that was signed, and its sender is the address of the key; hexadecimal text
  is read back in lower case. \<open>encodeABI\<close> gives lower case text with its prefix.
\<close>

definition tx_laws :: "('k, 't) txlib \<Rightarrow> ('k \<Rightarrow> string) \<Rightarrow> bool" where
  "tx_laws T addressOf \<longleftrightarrow> (\<forall>a x k. t_new T a = Inr x \<longrightarrow>
     (\<exists>y. t_decode T (t_raw T (t_sign T k x)) = Inr y \<and> t_sender T y = Inr (addressOf k) \<and>
       (\<forall>b. ta_to a = Some b \<longrightarrow> isSameAddress (t_to T y) b) \<and> t_data T y = toLowerCase (ta_data a) \<and>
       t_nonce T y = or_else (ta_nonce a) 0))"

definition abi_laws :: "web3_utils \<Rightarrow> bool" where
  "abi_laws W \<longleftrightarrow> (\<forall>m. startsWith (w3_encodeABI W m) ''0x'' \<and> toLowerCase (w3_encodeABI W m) = w3_encodeABI W m)"

lemma tx_lawsD:
  assumes "tx_laws T addressOf" "t_new T a = Inr x"
  obtains y where "t_decode T (t_raw T (t_sign T k x)) = Inr y" "t_sender T y = Inr (addressOf k)"
    "\<And>b. ta_to a = Some b \<Longrightarrow> isSameAddress (t_to T y) b" "t_data T y = toLowerCase (ta_data a)"
    "t_nonce T y = or_else (ta_nonce a) 0"
  using assms unfolding tx_laws_def by blast

lemma startsWith_0x: "startsWith s ''0x'' \<Longrightarrow> ''0x'' @ drop 2 s = s"
  by (cases s; cases "tl s") (auto simp: startsWith_def)

lemma relay_call_encoded:
  "abi_laws (dp_web3 D) \<Longrightarrow> ta_data (new_tx_args D (relay_details D req g b) p n) = encodeCall (dp_web3 D) req"
  using startsWith_0x by (simp add: new_tx_args_def encoded_call_def relay_details_def relay_method_def encodeCall_def abi_laws_def Let_def)

text \<open>What a server answers to a request passes the client's validation unless the nonce has grown too far.\<close>

definition too_high :: "int \<Rightarrow> int \<Rightarrow> exn" where
  "too_high m n = Error (''Relay used a tx nonce higher than requested. Requested '' @ int_str m @ '' got '' @ int_str n)"

lemma answer_validated:
  fixes s :: "('w, 'd, 'z) server_state_scheme" and u :: "('v, 'y) interactor_scheme"
  assumes "tx_laws (dp_tx D) addressOf" "abi_laws (dp_web3 D)"
    and "\<And>k. map_of (km_privateKeys (keysOf D (workerAddress D))) (workerAddress D) = Some k \<Longrightarrow>
      isSameAddress (addressOf k) (workerAddress D)"
    and "createRelayTransaction D req s = (Inr r, t)"
    and "isSameAddress (md_relayHubAddress (metadata req)) (ec_relayHubAddress cfg)" "ci_rawTxOptions u \<noteq> None"
  obtains n y where "t_decode (dp_tx D) (sx_signedTx r) = Inr y" "t_nonce (dp_tx D) y = n"
    "validateRelayResponse (dp_tx D) (dp_web3 D) cfg req (sx_signedTx r) u =
      (if n \<le> md_relayMaxNonce (metadata req) then Inr True else Inl (too_high (md_relayMaxNonce (metadata req)) n), u)"
proof -
  let ?T = "dp_tx D" and ?W = "dp_web3 D" and ?max = "md_relayMaxNonce (metadata req)"
  obtain g b and s1 s2 :: "('w, 'd, 'z) server_state_scheme" where
    acc: "acceptable D req s" and send: "sendTransaction D (relay_details D req g b) s1 = (Inr r, s2)"
    using createRelayTransaction_Inr [OF assms(4)] by blast
  let ?d = "relay_details D req g b"
  obtain p stx and s3 t3 :: "('w, 'd, 'z) server_state_scheme" where
    "sign_and_store D ?d p (s3\<lparr>nonceMutex := True\<rparr>) = (Inr (sx_signedTx r, stx), t3)"
    using send by (rule sendTransaction_Inr)
  then obtain nonce tx key where tx: "t_new ?T (new_tx_args D ?d p nonce) = Inr tx"
    "map_of (km_privateKeys (keysOf D (sd_signer ?d))) (sd_signer ?d) = Some key"
    "sx_signedTx r = t_raw ?T (t_sign ?T key tx)" by (rule sign_and_store_Inr)
  have signer: "sd_signer ?d = workerAddress D" by (simp add: relay_details_def)
  obtain y where y: "t_decode ?T (sx_signedTx r) = Inr y" "t_sender ?T y = Inr (addressOf key)"
    "isSameAddress (t_to ?T y) (md_relayHubAddress (metadata req))"
    "t_data ?T y = toLowerCase (ta_data (new_tx_args D ?d p nonce))" "t_nonce ?T y = or_else nonce 0"
  proof -
    have args: "ta_to (new_tx_args D ?d p nonce) = Some (md_relayHubAddress (metadata req))"
      "ta_nonce (new_tx_args D ?d p nonce) = nonce" by (simp_all add: new_tx_args_def relay_details_def)
    from tx_lawsD [OF assms(1) tx(1), of key] args that tx(3) show thesis by metis
  qed
  have to: "isSameAddress (t_to ?T y) (ec_relayHubAddress cfg)" using y(3) assms(5) by (rule isSameAddress_trans)
  have data: "t_data ?T y = encodeCall ?W req"
    unfolding y(4) relay_call_encoded [OF assms(2)] using assms(2) by (simp add: encodeCall_def abi_laws_def Let_def)
  have worker: "isSameAddress (rd_relayWorker (relayData (relayRequest req))) (addressOf key)"
    using acc assms(3) [OF tx(2) [unfolded signer]] unfolding acceptable_def
    by (meson isSameAddress_sym isSameAddress_trans)
  obtain opts where "ci_rawTxOptions u = Some opts" using assms(6) by blast
  then have "validateRelayResponse ?T ?W cfg req (sx_signedTx r) u =
    (if or_else nonce 0 \<le> ?max then Inr True
     else Inl (too_high ?max (or_else nonce 0)), u)"
    using y(1,2,5) to data worker
    by (simp add: validateRelayResponse_def too_high_def ci_getRawTxOptions_def andthen_run bnd_run ret_def throw_def throw_if_def
        gets_def of_result_def)
  then show thesis by (rule that [OF y(1) y(5)])
qed

text \<open>A node's errors are \<open>Error\<close> objects, which have a message; then broadcasting does not throw.\<close>

definition named :: "('s, 'a) js \<Rightarrow> bool" where
  "named m \<longleftrightarrow> (\<forall>s e. fst (m s) = Inl e \<longrightarrow> message e \<noteq> None)"

definition named_errors :: "'w node \<Rightarrow> bool" where
  "named_errors N \<longleftrightarrow> (\<forall>x. named (n_getTransactionReceipt N x) \<and> named (n_getTransaction N x) \<and> named (n_sendSignedTransaction N x))"

lemma named_simple: "named (ret x)" "named m \<Longrightarrow> named (during f m)" "named m \<Longrightarrow> named (io m)"
  by (auto simp: named_def during_def io_run split: prod.split)

lemma namedD: "named m \<Longrightarrow> m s = (Inl e, t) \<Longrightarrow> message e \<noteq> None"
  unfolding named_def by (metis fst_conv)

lemma namedI: "(\<And>s e t. m s = (Inl e, t) \<Longrightarrow> message e \<noteq> None) \<Longrightarrow> named m"
  unfolding named_def by (metis prod.collapse)

lemma named_bnd: "named m \<Longrightarrow> (\<And>x. named (f x)) \<Longrightarrow> named (bnd m f)"
  by (rule namedI) (auto simp: bnd_run split: prod.splits sum.splits dest: namedD)

lemma named_both: "named m \<Longrightarrow> named n \<Longrightarrow> named (both m n)"
proof (rule namedI)
  fix s e t assume n: "named m" "named n" and "both m n s = (Inl e, t)"
  moreover obtain r u q w where "m s = (r, u)" "n u = (q, w)" by fastforce
  ultimately show "message e \<noteq> None"
    using namedD [OF n(1), of s e u] namedD [OF n(2), of u e w] by (cases r; cases q) (auto simp: both_def)
qed

lemma named_caught:
  assumes "named m" "\<And>e t. message e \<noteq> None \<Longrightarrow> \<exists>b. fst (h e t) = Inr b"
  shows "\<exists>b. fst (catching m h s) = Inr b"
proof (cases "m s")
  case (Pair r t)
  then show ?thesis using namedD [OF assms(1), of s _ t] assms(2) by (cases r) (simp_all add: catching_run)
qed

lemma broadcast_returns:
  assumes "named_errors N"
  obtains b t where "broadcastRawTx (chainNode meanwhile N) T x s = (Inr b, t)"
proof -
  let ?M = "chainNode meanwhile N" and ?done = "\<lparr>br_hasReceipt = True, br_broadcastError = None, br_wrongNonce = None\<rparr>"
  have "named (bnd (isAlreadySubmitted ?M (t_hash T x)) (\<lambda>submitted. if submitted then ret ?done
      else andthen (io (n_sendSignedTransaction ?M (t_raw T x))) (ret ?done)))"
    unfolding isAlreadySubmitted_def andthen_def using assms
    by (intro named_bnd named_both) (auto simp: named_errors_def chainNode_def intro!: named_simple named_bnd)
  then have "\<exists>b. fst (broadcastRawTx ?M T x s) = Inr b"
    unfolding broadcastRawTx_def by (rule named_caught) (simp split: option.split)
  then show thesis using that by (metis prod.collapse)
qed

text \<open>
  A request that the server accepts when it arrives is relayed: the attempt of the client returns the
  server's transaction, unless the worker's nonce has passed the one agreed on.
\<close>

lemma accepted_is_relayed:
  fixes C :: "(('w, 'd, 'z) process_state_scheme, 'c, 'k, 't) client" and D :: "('w, 'd, 'k, 't) deps"
  assumes "tx_laws (dp_tx D) addressOf" "abi_laws (dp_web3 D)" "named_errors (dp_node D)"
    and "\<And>k. map_of (km_privateKeys (keysOf D (workerAddress D))) (workerAddress D) = Some k \<Longrightarrow>
      isSameAddress (addressOf k) (workerAddress D)"
    and "cl_txlib C = dp_tx D" "cl_web3 C = dp_web3 D" "cl_node C = chainNode meanwhile (dp_node D)"
      "se_http (cl_selector C) = serverHttp meanwhile D (ri_relayUrl (pi_relayInfo relay))"
    and "isSameAddress (md_relayHubAddress (metadata req)) (ec_relayHubAddress (cl_config C))" "ci_rawTxOptions s \<noteq> None"
    and "hs_listening (meanwhile (world s))" "createRelayTransaction D req (meanwhile (world s)) = (Inr r, v)"
  shows "\<exists>n y. t_decode (dp_tx D) (sx_signedTx r) = Inr y \<and> t_nonce (dp_tx D) y = n \<and>
    fst (sendToRelay C relay req s) = (if n \<le> md_relayMaxNonce (metadata req)
      then Inr \<lparr>at_transaction = Some y, at_error = None\<rparr> else Inl (too_high (md_relayMaxNonce (metadata req)) n))"
proof -
  let ?u = "s\<lparr>world := v\<rparr>"
  have post: "relayTransaction (se_http (cl_selector C)) (ri_relayUrl (pi_relayInfo relay)) req s = (Inr (sx_signedTx r), ?u)"
    using assms(11,12)
    by (simp add: relayTransaction_def assms(8) serverHttp_def Let_def bnd_run io_run relayHandler_cases answerPost_def)
  have opts: "ci_rawTxOptions ?u \<noteq> None" using assms(10) by (cases s) simp
  obtain n y where v: "t_decode (dp_tx D) (sx_signedTx r) = Inr y" "t_nonce (dp_tx D) y = n"
    "validateRelayResponse (dp_tx D) (dp_web3 D) (cl_config C) req (sx_signedTx r) ?u =
      (if n \<le> md_relayMaxNonce (metadata req) then Inr True else Inl (too_high (md_relayMaxNonce (metadata req)) n), ?u)"
    by (rule answer_validated [OF assms(1,2,4,12,9) opts])
  obtain b t where b: "broadcastRawTx (cl_node C) (cl_txlib C) y ?u = (Inr b, t)"
    unfolding assms(7) by (rule broadcast_returns [OF assms(3)])
  have "fst (sendToRelay C relay req s) = (if n \<le> md_relayMaxNonce (metadata req)
      then Inr \<lparr>at_transaction = Some y, at_error = None\<rparr> else Inl (too_high (md_relayMaxNonce (metadata req)) n))"
    using opts v b
    by (auto simp: sendToRelay_def catching_run bnd_run andthen_run post ci_getRawTxOptions_def assms(5,6))
  then show ?thesis using v(1,2) by blast
qed

end
