(* ===== verification/SystemExample.thy ===== *)
theory SystemExample
  imports ProcessProperties RelaySystem
begin

text \<open>
  A concrete client and the concrete server of \<open>ProcessProperties\<close> together: after its first tick the server
  is ready and serves the request of the client, which returns the transaction of the server's worker.
\<close>

section \<open>The client of the server\<close>

definition system_selector_ex :: "(unit, stored_tx list) process_state selector" where
  "system_selector_ex = \<lparr>se_node = chainNode id process_node_ex, se_web3 = web3_ex,
     se_http = serverHttp id process_deps_ex ''http://relay'', se_config = client_config_ex, se_relayFilter = EmptyFilter,
     se_scoreCalculator = DefaultRelayScore, se_pingFilter = GasPricePingFilter, se_pingText = (\<lambda>_. ''{}''), se_order = id\<rparr>"

definition system_client_ex :: "((unit, stored_tx list) process_state, unit, unit, tx_args) client" where
  "system_client_ex = \<lparr>cl_selector = system_selector_ex,
     cl_signer = \<lparr>sg_address = (\<lambda>_. ''0xuser''), sg_generate = ret (), sg_signTypedData = (\<lambda>_ _. Inr ''0xsig''),
       sg_recover = (\<lambda>_ _. Inr ''0xuser''), sg_signWithProvider = (\<lambda>_. ret ''0xsig''), sg_chainId = 33\<rparr>,
     cl_txlib = process_tx_ex\<rparr>"

definition system_state_ex :: "(unit, stored_tx list) process_state \<Rightarrow> ((unit, stored_tx list) process_state, unit) client_state" where
  "system_state_ex R = \<lparr>world = R, ci_relayHub = Some ''0xhub'', ci_relayVerifier = Some ''0xrv'', ci_deployVerifier = Some ''0xdv'',
     ci_rawTxOptions = Some (getRawTxOptions 33 33 None), ci_chainId = 33, ci_networkId = Some 33,
     ci_networkType = Some ''private'', kr_latestScannedBlock = 0, kr_relayFailures = [], kr_relayLookupWindowParts = 1,
     kr_preferredRelayers = [], kr_allRelayers = [relay_ex], rs_remainingRelays = [[], [relay_ex]], rs_isInitialized = True,
     rs_errors = [], ac_accounts = [(''0xuser'', ())], cl_initialized = True\<rparr>"

lemma during_ret: "during id (ret x) = ret x"
  by (rule ext) (simp add: during_def io_run)

lemma system_node_simps [simp]:
  "n_getTransactionCount (chainNode id process_node_ex) = (\<lambda>_ _. ret 4)" "n_getGasPrice (chainNode id process_node_ex) = ret ''100''"
  "n_getBalance (chainNode id process_node_ex) = (\<lambda>_ _. ret ''10000000000000000'')"
  "n_getBlockNumber (chainNode id process_node_ex) = ret 100" "n_now (chainNode id process_node_ex) = ret 0"
  "n_methodCall (chainNode id process_node_ex) = (\<lambda>_ _ _ _. ret \<lparr>cr_true = True, cr_returnValue = None\<rparr>)"
  "n_methodEstimateGas (chainNode id process_node_ex) = (\<lambda>_ _ _. ret 60000)" "n_contractAt (chainNode id process_node_ex) = (\<lambda>_ _. ret ())"
  "n_factoryNonce (chainNode id process_node_ex) = (\<lambda>_ _. ret ''0'')"
  "n_getTransaction (chainNode id process_node_ex) = (\<lambda>_. ret (Some \<lparr>ti_blockNumber = Some 80, ti_nonce = 3, ti_from = ''0xw''\<rparr>))"
  "n_getTransactionReceipt (chainNode id process_node_ex) = (\<lambda>_. ret (Some receipt_ex))"
  "n_sendSignedTransaction (chainNode id process_node_ex) = (\<lambda>_. ret receipt_ex)"
  "n_getPastEvents (chainNode id process_node_ex) = (\<lambda>_ topics _. ret
     (if RelayServerRegistered \<in> set (hd topics) then [register_event_ex]
      else if StakeAdded \<in> set (hd topics) then [stake_event_ex] else []))"
  by (simp_all add: chainNode_def during_ret process_node_ex_def)

lemma system_client_simps [simp]:
  "cl_selector system_client_ex = system_selector_ex" "cl_txlib system_client_ex = process_tx_ex"
  "sg_chainId (cl_signer system_client_ex) = 33" "sg_recover (cl_signer system_client_ex) = (\<lambda>_ _. Inr ''0xuser'')"
  "sg_signTypedData (cl_signer system_client_ex) = (\<lambda>_ _. Inr ''0xsig'')" "sg_signWithProvider (cl_signer system_client_ex) = (\<lambda>_. ret ''0xsig'')"
  "se_node system_selector_ex = chainNode id process_node_ex" "se_web3 system_selector_ex = web3_ex"
  "se_http system_selector_ex = serverHttp id process_deps_ex ''http://relay''" "se_config system_selector_ex = client_config_ex"
  "se_relayFilter system_selector_ex = EmptyFilter" "se_scoreCalculator system_selector_ex = DefaultRelayScore"
  "se_pingFilter system_selector_ex = GasPricePingFilter" "se_pingText system_selector_ex = (\<lambda>_. ''{}'')" "se_order system_selector_ex = id"
  by (simp_all add: system_client_ex_def system_selector_ex_def)

lemma system_state_simps [simp]:
  "world (system_state_ex R) = R" "ci_relayHub (system_state_ex R) = Some ''0xhub''"
  "ci_relayVerifier (system_state_ex R) = Some ''0xrv''" "ci_deployVerifier (system_state_ex R) = Some ''0xdv''"
  "ci_rawTxOptions (system_state_ex R) = Some (getRawTxOptions 33 33 None)" "kr_relayFailures (system_state_ex R) = []"
  "kr_relayLookupWindowParts (system_state_ex R) = 1" "ac_accounts (system_state_ex R) = [(''0xuser'', ())]"
  "cl_initialized (system_state_ex R) = True"
  by (simp_all add: system_state_ex_def)

lemma system_http:
  fixes R R' :: "(unit, stored_tx list) process_state"
  assumes "hs_listening R" "sv_pingHandler process_deps_ex R = ping_ex"
    "createRelayTransaction process_deps_ex request_ex R = (Inr r, R')" "sx_signedTx r = ''0xraw''"
  shows "h_get (serverHttp id process_deps_ex ''http://relay'') ''http://relay/getaddr'' R = (Inr (Some ping_ex), R)"
    "h_post (serverHttp id process_deps_ex ''http://relay'') ''http://relay/relay'' request_ex R = (Inr (Some ''0xraw'', None), R')"
  using assms by (simp_all add: serverHttp_def http_pingHandler_def http_handler_def bnd_run answerGet_def answerPost_def relayHandler_cases)

lemma system_numbers: "int_str 100 = ''100''" "toLowerCase ''0x04'' = ''0x04''"
  by code_simp+

text \<open>The members of a client whose world is a record with the same members.\<close>

lemma world_update_interactor:
  "ci_rawTxOptions (s\<lparr>world := w\<rparr>) = ci_rawTxOptions s" "ci_relayHub (s\<lparr>world := w\<rparr>) = ci_relayHub s"
  "ci_relayVerifier (s\<lparr>world := w\<rparr>) = ci_relayVerifier s" "ci_deployVerifier (s\<lparr>world := w\<rparr>) = ci_deployVerifier s"
  by (cases s; simp)+

lemma system_run_ex:
  fixes R R' :: "(unit, stored_tx list) process_state"
  assumes "hs_listening R" "sv_pingHandler process_deps_ex R = ping_ex"
    "createRelayTransaction process_deps_ex request_ex R = (Inr r, R')" "sx_signedTx r = ''0xraw''"
  shows "\<exists>res t. rc_relayTransaction system_client_ex details_ex (system_state_ex R) = (Inr (Result res), t) \<and> re_transaction res = Some sent_ex"
  using system_http(2) [OF assms, unfolded request_ex_def deploy_ex_def relay_data_ex_def ZERO_ADDRESS_def]
  by (simp add: client_run_defs attempt_defs js_run Let_def details_ex_def client_config_ex_def defaultEnvelopingConfig_def
      register_event_ex_def stake_event_ex_def ZERO_ADDRESS_def toBN_ex_def encodeABI_ex_def sent_ex_def set_of_list_def set_add_def fromWorker_def
      numeral_3_eq_3 system_http(1) [OF assms] process_tx_ex_def balance_ex addressOrZero_def getDomainSeparatorHash_def system_numbers world_update_interactor)

text \<open>The laws that the concrete libraries obey.\<close>

lemma system_laws: "tx_laws process_tx_ex (\<lambda>_. ''0xw'')" "abi_laws web3_ex" "named_errors process_node_ex"
proof -
  have lower: "toLowerCase ''0x01'' = ''0x01''" "toLowerCase ''0x02'' = ''0x02''" "toLowerCase ''0x03'' = ''0x03''"
    "toLowerCase ''0x05'' = ''0x05''" "toLowerCase ''0x06'' = ''0x06''" by code_simp+
  show "tx_laws process_tx_ex (\<lambda>_. ''0xw'')" by (simp add: tx_laws_def process_tx_ex_def sent_ex_def system_numbers isSameAddress_def)
  show "abi_laws web3_ex"
    by (auto simp: abi_laws_def encodeABI_ex_def startsWith_def lower system_numbers split: hub_method.split)
  show "named_errors process_node_ex" by (simp add: named_errors_def named_def)
qed

text \<open>The ready server and what it answers.\<close>

lemma system_server_ex:
  obtains R r R' where "server_reachable (process_ex []) [] [] process_deps_ex (R :: (unit, stored_tx list) process_state)"
    "hs_listening R" "sv_pingHandler process_deps_ex R = ping_ex"
    "createRelayTransaction process_deps_ex request_ex R = (Inr r, R')" "sx_signedTx r = ''0xraw''"
proof -
  obtain t r R' where l: "launch (process_ex []) process_node_ex process_config_ex process_state_ex = (Inr process_deps_ex, t)"
    and served: "let R = snd (serve process_deps_ex Tick (snd (serve process_deps_ex Listening t))) in
      hs_listening R \<and> sv_pingHandler process_deps_ex R = ping_ex \<and>
      createRelayTransaction process_deps_ex request_ex R = (Inr r, R') \<and> sx_signedTx r = ''0xraw'' \<and>
      (\<exists>x\<in>set (txstore R'). st_serverAction x = RELAY_CALL)"
    using process_serve_ex [of process_state_ex] by blast
  have run: "runServer (process_ex []) [] [] process_state_ex = (Inr process_deps_ex, t)"
    using l by (simp add: runServer_def Let_def bnd_run process_ex_def process_parses process_resolved)
  have "server_reachable (process_ex []) [] [] process_deps_ex (snd (serve process_deps_ex Tick (snd (serve process_deps_ex Listening t))))"
    by (rule process_ticked [OF run])
  then show thesis using served that unfolding Let_def by blast
qed

lemma system_served: "served_by (process_ex []) [] [] process_deps_ex ''http://relay'' id system_client_ex"
  by (simp add: served_by_def keeping.along_ret)

interpretation system: client_requests "server_reachable (process_ex []) [] [] process_deps_ex" system_client_ex
  by (rule served_requests [OF system_served])

end
