(* ===== verification/CommandWorld.thy ===== *)
theory CommandWorld
  imports Commands ClientWorld
begin

text \<open>
  What the command line tools do to the world: their requests to the node, to a relay, to the accounts and
  to the user, and nothing else. A property of the world that each of these keeps (locale
  \<open>command_requests\<close>) is kept by finding an account, by a deployment, by a registration and while waiting
  for a relay; and when the waiting ends, the last thing that happened is that the relay said it is ready.
\<close>

locale command_requests =
  fixes Q :: "'w \<Rightarrow> bool" and M :: "'w commands"
  assumes node: "node_keeps Q (cm_node M)" and http: "http_keeps Q (cm_http M)"
    and accounts: "along (keeps Q) (cm_getAccounts M)"
    and stake: "along (keeps Q) (cm_stakeForAddress M hub a delay v from price)"
    and fund: "along (keeps Q) (cm_fund M from a value price)"
    and estimate: "along (keeps Q) (cm_estimateDeploy M kind args)"
    and send: "along (keeps Q) (cm_sendDeploy M kind args options)"
    and version: "along (keeps Q) (cm_addVersion M registry i ver value from)"
    and user: "along (keeps Q) (cm_read M)"
begin

abbreviation held :: "('w, 'z) net_scheme \<Rightarrow> bool" where
  "held \<equiv> (\<lambda>s. Q (world s))"

lemma node_requests:
  "along (keeps held) (io (n_getBalance (cm_node M) a a'))" "along (keeps held) (io (n_getChainId (cm_node M)))"
  "along (keeps held) (io (n_getNetworkId (cm_node M)))" "along (keeps held) (io (n_getNetworkType (cm_node M)))"
  "along (keeps held) (io (n_contractAt (cm_node M) i a))" "along (keeps held) (io (n_versionHub (cm_node M) a))"
  "along (keeps held) (io (n_getStakeInfo (cm_node M) a a'))" "along (keeps held) (io (n_now (cm_node M)))"
  "along (keeps held) (io (n_sleep (cm_node M) d))"
  using node unfolding node_keeps_def by (auto intro: along_keeps_io)

lemma other_requests:
  "along (keeps held) (io (h_get (cm_http M) u))" "along (keeps held) (io (cm_getAccounts M))"
  "along (keeps held) (io (cm_stakeForAddress M hub a delay v from price))" "along (keeps held) (io (cm_fund M from a value price))"
  "along (keeps held) (io (cm_estimateDeploy M kind args))" "along (keeps held) (io (cm_sendDeploy M kind args options))"
  "along (keeps held) (io (cm_addVersion M registry i ver value from))" "along (keeps held) (io (cm_read M))"
  using http accounts stake fund estimate send version user unfolding http_keeps_def by (auto intro: along_keeps_io)

lemmas request_rules = keeping.along_rules along_sum along_prod node_requests other_requests

lemma held_rounds: "along (keeps held) m \<Longrightarrow> (\<And>x. along (keeps held) (f x)) \<Longrightarrow> along (keeps held) (bnd_rounds m f)"
  unfolding bnd_rounds_def by (intro request_rules)

lemma held_ping: "along (keeps held) (getPingResponse (cm_http M) url v)"
  unfolding getPingResponse_def Let_def by (intro request_rules)

lemma held_init: "along (keeps held) (ci_init (cm_node M) (cm_web3 M) cfg)"
  unfolding ci_init_def initializeContracts_def createContract_def validateCompatibility_def validateVersion_def
    relayHubInstance_def instance_of_def
  by (intro request_rules along_keeps_modify) simp_all

lemma held_wealthy: "along (keeps held) (findWealthyAccount M required)"
proof -
  have "along (keeps held) (firstWealthy M b accounts)" for b accounts
  proof (induction accounts)
    case (Cons a accounts)
    then show ?case unfolding firstWealthy.simps by (intro request_rules)
  qed (simp only: firstWealthy.simps keeping.along_ret)
  then show ?thesis unfolding findWealthyAccount_def by (intro request_rules)
qed

lemma held_wait: "along (keeps held) (waitForRelay M url timeout F)"
proof -
  have "along (keeps held) (wait_rounds M url timeout e F)" for e
  proof (induction F)
    case (Suc F)
    then show ?case unfolding wait_rounds.simps isRelayReady_def by (intro request_rules held_ping)
  qed (simp only: wait_rounds.simps keeping.along_ret)
  then show ?thesis unfolding waitForRelay_def by (intro request_rules)
qed

lemma held_register: "along (keeps held) (registerRelay M options F)"
  unfolding registerRelay_def registerSteps_def stakeAndFund_def stakeRelay_def fundRelay_def pushTransaction_def
    createContract_def getBalance_def
  by (intro request_rules held_rounds held_ping held_init held_wait along_keeps_modify) simp_all

lemma held_contract: "along (keeps held) (getContract M kind args address options skip F)"
proof -
  have "along (keeps held) (confirm M F)"
  proof (induction F)
    case (Suc F)
    then show ?case unfolding confirm.simps by (intro request_rules)
  qed (simp only: confirm.simps keeping.along_ret)
  then show ?thesis unfolding getContract_def by (intro request_rules held_rounds)
qed

lemma held_deploy: "along (keeps held) (deployContracts M options F)"
  unfolding deployContracts_def Let_def
  by (intro request_rules held_rounds held_contract along_keeps_modify) simp

text \<open>The last answer while waiting.\<close>

lemma wait_ready:
  fixes s :: "('w, 'z) net_scheme"
  assumes "waitForRelay M url timeout F s = (Inr (Some u), t)" "held s"
  shows "\<exists>w p. Q w \<and> h_get (cm_http M) (url @ ''/getaddr'') w = (Inr (Some p), world t) \<and> pr_ready p"
proof -
  have rounds: "wait_rounds M url timeout e F s = (Inr (Some u), t) \<Longrightarrow> held s \<Longrightarrow>
     \<exists>w p. Q w \<and> h_get (cm_http M) (url @ ''/getaddr'') w = (Inr (Some p), world t) \<and> pr_ready p" for e and s :: "('w, 'z) net_scheme"
  proof (induction F arbitrary: s)
    case (Suc F)
    let ?m = "catching (isRelayReady M url) (\<lambda>_. ret False)"
    obtain now b and s1 s2 :: "('w, 'z) net_scheme" where 1: "io (n_now (cm_node M)) s = (Inr now, s1)" "?m s1 = (Inr b, s2)"
      "(if b then ret (Some ()) else andthen (io (n_sleep (cm_node M) 3000)) (wait_rounds M url timeout e F)) s2 = (Inr (Some u), t)"
      using Suc.prems(1) by (auto elim!: bnd_InrE split: if_splits)
    have h1: "held s1" using along_keepsD [OF node_requests(8) Suc.prems(2)] 1(1) by simp
    have "along (keeps held) ?m" unfolding isRelayReady_def by (intro request_rules held_ping)
    then have h2: "held s2" using along_keepsD [of held ?m s1] h1 1(2) by simp
    show ?case
    proof (cases b)
      case True
      then have "isRelayReady M url s1 = (Inr True, s2)" "t = s2" using 1(2,3) by (auto simp: catching_run split: prod.splits sum.splits)
      then obtain p where "pr_ready p" "h_get (cm_http M) (url @ ''/getaddr'') (world s1) = (Inr (Some p), world t)"
        by (cases "h_get (cm_http M) (url @ ''/getaddr'') (world s1)")
          (auto simp: isRelayReady_def getPingResponse_def io_run bnd_run Let_def split: sum.splits option.splits)
      then show ?thesis using h1 by blast
    next
      case False
      then obtain x and s3 :: "('w, 'z) net_scheme" where "io (n_sleep (cm_node M) 3000) s2 = (Inr x, s3)"
        "wait_rounds M url timeout e F s3 = (Inr (Some u), t)" using 1(3) by (auto elim!: andthen_InrE)
      moreover from this(1) have "held s3" using along_keepsD [OF node_requests(9) h2, of 3000] by simp
      ultimately show ?thesis using Suc.IH by blast
    qed
  qed simp
  obtain now and s1 :: "('w, 'z) net_scheme" where 1: "io (n_now (cm_node M)) s = (Inr now, s1)"
    "wait_rounds M url timeout (now + timeout * 1000) F s1 = (Inr (Some u), t)"
    using assms(1) unfolding waitForRelay_def by (elim bnd_InrE)
  have "held s1" using along_keepsD [OF node_requests(8) assms(2)] 1(1) by simp
  then show ?thesis using rounds 1(2) by blast
qed

end

end
