(* ===== verification/TestBed.thy ===== *)
theory TestBed
  imports RelaySystem CommandLine CommandWorld Dependencies
begin

text \<open>
  The test environment (\<open>src/relayclient/TestEnvironment.ts\<close>): one process that deploys the contracts, runs a
  relay server with keys and a store in memory, registers it and gives the caller a provider that prefers it.
  The world of the tools is the process of the server, with the reference \<open>te_httpServer\<close> to it; its
  requests to \<open>http://127.0.0.1\<close> are answered by that server.
\<close>

section \<open>State and collaborators\<close>

record ('w, 'd, 'k, 't) test_world = "('w, 'd) process_state" +
  te_httpServer :: "('w, 'd, 'k, 't) deps option"

text \<open>
  \<open>tv_emptyStore\<close>: a database without a file. \<open>tv_listen\<close>: a socket that listens at a free port, which is
  \<open>None\<close> when its address has none, and is closed again.
\<close>

record ('w, 'seed, 'd, 'k, 't) test_env =
  tv_process :: "('w, 'seed, 'd, 'k, 't) process_env"
  tv_emptyStore :: 'd
  tv_cli :: "('w, 'd, 'k, 't) test_world cli_tools"
  tv_listen :: "(('w, 'd, 'k, 't) test_world, int option) js"

record ('w, 'd, 'k, 't) test_info =
  ti_deploymentResult :: "string deployment_result"
  ti_relayProvider :: "(string, unit, unit) relay_provider"
  ti_relayUrl :: string
  ti_httpServer :: "('w, 'd, 'k, 't) deps option"

section \<open>The server\<close>

definition te_stop :: "(('w, 'd, 'k, 't) test_world, unit) js" where
  "te_stop = bnd (gets te_httpServer) (\<lambda>h. case h of
      None \<Rightarrow> ret ()
    | Some D \<Rightarrow>
        andthen hs_stop
        (andthen close
        (andthen (clearAll (dp_db D))
        (modify (\<lambda>s. s\<lparr>te_httpServer := None\<rparr>)))))"

definition resolveAvailablePort :: "('w, 'seed, 'd, 'k, 't) test_env \<Rightarrow> (('w, 'd, 'k, 't) test_world, int) js" where
  "resolveAvailablePort V = bnd (tv_listen V) (\<lambda>address. case address of
      None \<Rightarrow> throw (Error ''Could not find available port'')
    | Some port \<Rightarrow> ret port)"

definition testServerParams :: "string deployment_result \<Rightarrow> string \<Rightarrow> int \<Rightarrow> obj" where
  "testServerParams deploymentResult relayUrl workerTargetBalance =
     [(''devMode'', VBool True), (''url'', VStr relayUrl), (''relayHubAddress'', VStr (dpr_relayHubAddress deploymentResult)),
      (''gasPriceFactor'', VInt 1), (''logLevel'', VInt 1), (''checkInterval'', VInt 10),
      (''relayVerifierAddress'', VStr (dpr_relayVerifierAddress deploymentResult)),
      (''deployVerifierAddress'', VStr (dpr_deployVerifierAddress deploymentResult)),
      (''workerTargetBalance'', VInt workerTargetBalance)]"

definition testInteractorConfig :: "string deployment_result \<Rightarrow> environment \<Rightarrow> enveloping_config" where
  "testInteractorConfig deploymentResult environment = configure (emptyConfig
     \<lparr>pc_relayHubAddress := Some (dpr_relayHubAddress deploymentResult), pc_chainId := Some (en_chainId environment),
      pc_relayVerifierAddress := Some (dpr_relayVerifierAddress deploymentResult),
      pc_deployVerifierAddress := Some (dpr_deployVerifierAddress deploymentResult)\<rparr>)"

definition te_runServer ::
  "('w, 'seed, 'd, 'k, 't) test_env \<Rightarrow> string \<Rightarrow> string deployment_result \<Rightarrow> string \<Rightarrow> int \<Rightarrow> environment \<Rightarrow>
   (('w, 'd, 'k, 't) test_world, unit) js" where
  "te_runServer V host deploymentResult relayUrl workerTargetBalance environment =
     bnd (gets te_httpServer) (\<lambda>h. if h \<noteq> None then ret () else
       bnd (io (newKeyManager (px_keys (tv_process V)) 1 None None)) (\<lambda>managerKeyManager.
       bnd (io (newKeyManager (px_keys (tv_process V)) 1 None None)) (\<lambda>workersKeyManager.
       andthen (modify (\<lambda>s. s\<lparr>txstore := tv_emptyStore V\<rparr>))
       (bnd (bootServer (serverDependencies (tv_process V) (px_nodeAt (tv_process V) host) managerKeyManager workersKeyManager
             (testServerParams deploymentResult relayUrl workerTargetBalance))
           (testInteractorConfig deploymentResult environment)) (\<lambda>D.
         modify (\<lambda>s. s\<lparr>te_httpServer := Some D\<rparr>))))))"

section \<open>Starting and stopping the environment\<close>

definition testDeployOptions :: "string \<Rightarrow> environment \<Rightarrow> deploy_options" where
  "testDeployOptions from environment =
     \<lparr>dpo_from = from, dpo_gasPrice = Some ''1'', dpo_deployVerifierAddress = None, dpo_relayVerifierAddress = None,
      dpo_smartWalletFactoryAddress = None, dpo_smartWalletTemplateAddress = None, dpo_relayHubAddress = None,
      dpo_penalizerAddress = None, dpo_registryAddress = None, dpo_customSmartWalletFactoryAddress = None,
      dpo_customSmartWalletTemplateAddress = None, dpo_customSmartWalletDeployVerifierAddress = None,
      dpo_customSmartWalletRelayVerifierAddress = None, dpo_registryHubId = None, dpo_skipConfirmation = Some True,
      dpo_relayHubConfiguration = en_relayHubConfiguration environment\<rparr>"

definition testRegisterOptions :: "string \<Rightarrow> string \<Rightarrow> register_options" where
  "testRegisterOptions from relayUrl =
     \<lparr>rgo_from = from, rgo_gasPrice = ''1e9'', rgo_stake = int_str (10 ^ 18), rgo_funds = int_str (10 ^ 18),
      rgo_relayUrl = relayUrl, rgo_unstakeDelay = ''2000''\<rparr>"

text \<open>The partial configuration of the provider: it is \<open>configure\<close>d once more by the provider's constructor.\<close>

definition testClientConfig :: "string deployment_result \<Rightarrow> string \<Rightarrow> environment \<Rightarrow> partial_config" where
  "testClientConfig deploymentResult relayUrl environment = emptyConfig
     \<lparr>pc_relayHubAddress := Some (dpr_relayHubAddress deploymentResult),
      pc_relayVerifierAddress := Some (dpr_relayVerifierAddress deploymentResult),
      pc_deployVerifierAddress := Some (dpr_deployVerifierAddress deploymentResult),
      pc_preferredRelays := Some [relayUrl], pc_chainId := Some (en_chainId environment)\<rparr>"

definition joined :: "string \<Rightarrow> string list \<Rightarrow> string" where
  "joined separator xs = (case xs of [] \<Rightarrow> '''' | x # r \<Rightarrow> x @ concat (map (\<lambda>y. separator @ y) r))"

text \<open>The relay that has been started is registered and awaited; the result is the provider.\<close>

definition registerTestRelay ::
  "('w, 'd, 'k, 't) test_world commands \<Rightarrow> string \<Rightarrow> string \<Rightarrow> nat \<Rightarrow>
   ((('w, 'd, 'k, 't) test_world, 'z) commands_state_scheme, unit option) js" where
  "registerTestRelay M from relayUrl F =
     bnd_rounds (registerRelay M (testRegisterOptions from relayUrl) F) (\<lambda>registrationResult.
       if rgr_success registrationResult then waitForRelay M relayUrl 60 F
       else throw (Error (''Failed to fund relay: '' @ or_else (rgr_error registrationResult) ''undefined'' @ '' : '' @
         (case rgr_transactions registrationResult of None \<Rightarrow> ''undefined'' | Some ts \<Rightarrow> joined '','' ts))))"

definition te_start ::
  "('w, 'seed, 'd, 'k, 't) test_env \<Rightarrow> string option \<Rightarrow> int option \<Rightarrow> environment option \<Rightarrow> nat \<Rightarrow>
   ((('w, 'd, 'k, 't) test_world, 'z) commands_state_scheme, ('w, 'd, 'k, 't) test_info option) js" where
  "te_start V host target chosen F =
     (let environment = or_else chosen defaultEnvironment; workerTargetBalance = or_else target (3 * 10 ^ 15) in
      andthen (io te_stop)
      (case getNetworkUrl (or_else host '''') of
         None \<Rightarrow> throw (Error (''start: expected network ('' @ joined ''|'' supportedNetworks @ '') or url''))
       | Some url \<Rightarrow>
           bnd (newCommandsLogic (tv_cli V) (Some url) (configure (emptyConfig\<lparr>pc_chainId := Some (en_chainId environment)\<rparr>)) None) (\<lambda>M.
           bnd (findWealthyAccount M None) (\<lambda>from.
           bnd_rounds (deployContracts M (testDeployOptions from environment) F) (\<lambda>deploymentResult.
           bnd (io (resolveAvailablePort V)) (\<lambda>port.
           let relayUrl = ''http://127.0.0.1:'' @ int_str port in
           andthen (io (te_runServer V url deploymentResult relayUrl workerTargetBalance environment))
           (bnd (io (gets te_httpServer)) (\<lambda>started.
           andthen (throw_if (started = None) ''Failed to run a local Relay Server'')
           (bnd_rounds (registerTestRelay M from relayUrl F) (\<lambda>_.
           bnd (of_result (newRelayProvider url (testClientConfig deploymentResult relayUrl environment) [] None)) (\<lambda>relayProvider.
           bnd (io (gets te_httpServer)) (\<lambda>httpServer.
           ret (Some \<lparr>ti_deploymentResult = deploymentResult, ti_relayProvider = relayProvider,
             ti_relayUrl = relayUrl, ti_httpServer = httpServer\<rparr>)))))))))))))"

section \<open>The boot test\<close>

text \<open>
  \<open>src/cli/commands/enveloping-boot-test.ts\<close>: the environment is started and its deployment saved. The result
  is what is printed; an error is printed as an error and the process goes on.
\<close>

definition bootTestCommand ::
  "('w, 'seed, 'd, 'k, 't) test_env \<Rightarrow> string \<Rightarrow> string \<Rightarrow> nat \<Rightarrow> ((('w, 'd, 'k, 't) test_world, 'z) cli_files_scheme, string list option) js" where
  "bootTestCommand V network workdir F = catching
     (bnd_rounds (te_start V (Some network) None None F) (\<lambda>env.
        andthen (saveDeployment (ct_files (tv_cli V)) (ti_deploymentResult env) workdir)
        (ret (Some (showDeployment (ti_deploymentResult env) (Some ''Enveloping started'') @
          [''Relay is active, URL = '' @ ti_relayUrl env @ '' . Press Ctrl-C to abort''])))))
     (\<lambda>e. ret (Some []))"

section \<open>What goes on besides\<close>

text \<open>Between two requests of the tools the server that is there takes its steps, and the chain goes on.\<close>

inductive bed_step :: "('w, 'd, 'k, 't) test_world \<Rightarrow> ('w, 'd, 'k, 't) test_world \<Rightarrow> bool" where
  bed_served: "te_httpServer s = Some D \<Longrightarrow> enabled ev s \<Longrightarrow> bed_step s (snd (serve D ev s))"
| bed_world: "bed_step s (s\<lparr>world := w\<rparr>)"

definition bedHttp ::
  "(('w, 'd, 'k, 't) test_world \<Rightarrow> ('w, 'd, 'k, 't) test_world) \<Rightarrow> ('w, 'd, 'k, 't) test_world http" where
  "bedHttp meanwhile =
     \<lparr>h_get = (\<lambda>u s. let t = meanwhile s in case te_httpServer t of
        None \<Rightarrow> (Inl (Error ''Request failed''), t)
      | Some D \<Rightarrow> h_get (serverHttp id D (sc_url (dp_config D))) u t),
      h_post = (\<lambda>u req s. let t = meanwhile s in case te_httpServer t of
        None \<Rightarrow> (Inl (Error ''Request failed''), t)
      | Some D \<Rightarrow> h_post (serverHttp id D (sc_url (dp_config D))) u req t)\<rparr>"

definition bed_commands ::
  "(('w, 'd, 'k, 't) test_world \<Rightarrow> ('w, 'd, 'k, 't) test_world) \<Rightarrow> ('w, 'd, 'k, 't) test_world commands \<Rightarrow> bool" where
  "bed_commands meanwhile M \<longleftrightarrow> (\<forall>s. bed_step\<^sup>*\<^sup>* s (meanwhile s)) \<and>
     (\<exists>N. cm_node M = chainNode meanwhile N) \<and> cm_http M = bedHttp meanwhile \<and>
     along bed_step\<^sup>*\<^sup>* (cm_getAccounts M) \<and>
     (\<forall>hub a delay v from price. along bed_step\<^sup>*\<^sup>* (cm_stakeForAddress M hub a delay v from price)) \<and>
     (\<forall>from a v price. along bed_step\<^sup>*\<^sup>* (cm_fund M from a v price)) \<and>
     (\<forall>kind args. along bed_step\<^sup>*\<^sup>* (cm_estimateDeploy M kind args)) \<and>
     (\<forall>kind args opts. along bed_step\<^sup>*\<^sup>* (cm_sendDeploy M kind args opts)) \<and>
     (\<forall>r i ver v from. along bed_step\<^sup>*\<^sup>* (cm_addVersion M r i ver v from)) \<and> along bed_step\<^sup>*\<^sup>* (cm_read M)"

definition bed_laws :: "('w, 'seed, 'd, 'k, 't) test_env \<Rightarrow> (('w, 'd, 'k, 't) test_world \<Rightarrow> ('w, 'd, 'k, 't) test_world) \<Rightarrow> bool" where
  "bed_laws V meanwhile \<longleftrightarrow> (\<forall>url M. ct_logic (tv_cli V) (Some url) None = Inr M \<longrightarrow> bed_commands meanwhile M) \<and>
     along bed_step\<^sup>*\<^sup>* (tv_listen V)"

text \<open>A server that is there is initialized, and registered while it is ready.\<close>

definition bed_inv :: "('w, 'd, 'k, 't) deps option \<Rightarrow> ('w, 'd, 'k, 't) test_world \<Rightarrow> bool" where
  "bed_inv h s \<longleftrightarrow> te_httpServer s = h \<and> (\<forall>D. h = Some D \<longrightarrow>
     settled D s \<and> ready_inv D s \<and> 1 \<le> sc_successfulRoundsForReady (dp_config D))"

interpretation bed_kept: scan_blind "untouched te_httpServer" b for b
  by unfold_locales (simp_all add: untouched_def)

lemma bed_update: "te_httpServer s = h \<Longrightarrow> te_httpServer t = te_httpServer s \<Longrightarrow> te_httpServer t = h"
  by simp

lemma along_bed_same: "along (untouched te_httpServer) m \<Longrightarrow> along (keeps (\<lambda>s. te_httpServer s = h)) m"
  by (simp add: along_def untouched_def keeps_def)

lemma along_bed_init: "along (untouched te_httpServer) (sv_init D)"
  unfolding sv_init_def newRegistrationManager_def getNetworkId_def tm_init_def ci_getRawTxOptions_def
  by (intro bed_kept.reg_rules same.along_modify) (simp_all add: untouched_def)

interpretation bed_there: server_inv D "\<lambda>s. te_httpServer s = h" for D h
  by unfold_locales
    (rule along_bed_same along_bed_init bed_kept.along_reg_refreshStake bed_kept.along_blind_poll bed_kept.along_blind_boost
      bed_kept.along_blind_remove bed_kept.along_blind_send | erule bed_update, simp)+

lemma serve_bed: "te_httpServer (snd (serve D ev s)) = te_httpServer s"
  using bed_there.inv_serve [of s "te_httpServer s" D ev] by simp

lemma bed_inv_world: "bed_inv h s \<Longrightarrow> bed_inv h (s\<lparr>world := w\<rparr>)"
  unfolding bed_inv_def
  by (auto intro: settled.inv_world elim!: ready_inv_frame simp: registration_view_def)

lemma bed_inv_step: "bed_step s t \<Longrightarrow> bed_inv h s \<Longrightarrow> bed_inv h t"
proof (induction rule: bed_step.induct)
  case (bed_served s D ev)
  then show ?case using ready_serve [of s D ev] settled.inv_serve [of D s ev]
    by (auto simp: bed_inv_def serve_bed settled_def)
qed (rule bed_inv_world)

lemma bed_inv_life: "bed_step\<^sup>*\<^sup>* s t \<Longrightarrow> bed_inv h s \<Longrightarrow> bed_inv h t"
  by (induction rule: rtranclp_induct) (simp_all add: bed_inv_step)

lemma along_bed_inv: "along bed_step\<^sup>*\<^sup>* m \<Longrightarrow> along (keeps (bed_inv h)) m"
  by (auto simp: along_def keeps_def intro: bed_inv_life)

text \<open>What a server answers comes from one of its steps.\<close>

lemma bed_life_served: "bed_step\<^sup>*\<^sup>* s t \<Longrightarrow> te_httpServer t = Some D \<Longrightarrow> enabled ev t \<Longrightarrow> bed_step\<^sup>*\<^sup>* s (snd (serve D ev t))"
  by (rule rtranclp.rtrancl_into_rtrancl) (auto intro: bed_served)

lemma bedHttp_life:
  assumes "\<And>s. bed_step\<^sup>*\<^sup>* s (meanwhile s)"
  shows "along bed_step\<^sup>*\<^sup>* (h_get (bedHttp meanwhile) u)" "along bed_step\<^sup>*\<^sup>* (h_post (bedHttp meanwhile) u req)"
  using assms by (auto simp: along_def bedHttp_def serverHttp_def Let_def simp del: serve.simps split: option.split intro!: bed_life_served)

lemma bed_requests:
  assumes "bed_commands meanwhile M"
  shows "command_requests (bed_inv h) M"
proof -
  have m: "bed_step\<^sup>*\<^sup>* s (meanwhile s)" for s using assms by (simp add: bed_commands_def)
  have inv: "bed_inv h (meanwhile s)" if "bed_inv h s" for s using bed_inv_life [OF m that] .
  obtain N where N: "cm_node M = chainNode meanwhile N" using assms by (auto simp: bed_commands_def)
  show ?thesis
  proof
    show "node_keeps (bed_inv h) (cm_node M)" unfolding N by (rule chainNode_keeps) (auto intro: inv bed_inv_world)
    show "http_keeps (bed_inv h) (cm_http M)"
      using assms bedHttp_life [OF m] by (auto simp: http_keeps_def bed_commands_def intro: along_bed_inv)
  qed (use assms in \<open>auto simp: bed_commands_def intro: along_bed_inv\<close>)
qed

section \<open>What the environment promises\<close>

lemma te_stop_Inr: "te_stop s = (Inr u, t) \<Longrightarrow> te_httpServer t = None"
  unfolding te_stop_def by (elim bnd_InrE) (auto elim!: andthen_InrE split: option.splits)

definition test_server ::
  "string deployment_result \<Rightarrow> string \<Rightarrow> int \<Rightarrow> ('w, 'd, 'k, 't) deps \<Rightarrow> bool" where
  "test_server deploymentResult relayUrl workerTargetBalance D \<longleftrightarrow> sc_url (dp_config D) = relayUrl \<and>
     hubAddress D = dpr_relayHubAddress deploymentResult \<and>
     sc_relayVerifierAddress (dp_config D) = dpr_relayVerifierAddress deploymentResult \<and>
     sc_deployVerifierAddress (dp_config D) = dpr_deployVerifierAddress deploymentResult \<and>
     sc_workerTargetBalance (dp_config D) = workerTargetBalance"

lemma testServerParams_member:
  "map_of (configureServer (testServerParams d url w)) k = (case map_of (testServerParams d url w) k of
     Some v \<Rightarrow> Some v | None \<Rightarrow> map_of serverDefaultConfiguration k)"
proof -
  have "distinct (map fst (testServerParams d url w))" by (simp add: testServerParams_def)
  then show ?thesis by (simp add: configureServer_member split: option.split)
qed

lemma testServer_config:
  fixes E :: "('w, 'seed, 'd, 'k, 't) process_env"
  shows "test_server d url w (serverDependencies E N km kw (testServerParams d url w))"
    and "sc_successfulRoundsForReady (dp_config (serverDependencies E N km kw (testServerParams d url w))) = 3"
  by (simp_all add: test_server_def serverDependencies_def toServerConfig_def hubAddress_def member_str_def member_int_def
      testServerParams_member) (simp_all add: testServerParams_def value_text_def serverDefaultConfiguration_def)

lemma te_runServer_Inr:
  fixes s :: "('w, 'd, 'k, 't) test_world"
  assumes "te_runServer V url d relayUrl w environment s = (Inr u, t)" "te_httpServer s = None"
  shows "\<exists>D. test_server d relayUrl w D \<and> te_httpServer t = Some D \<and> bed_inv (Some D) t"
proof -
  obtain km kw D and s1 s2 :: "('w, 'd, 'k, 't) test_world" where
    k: "returns (newKeyManager (px_keys (tv_process V)) 1 None None) km" "returns (newKeyManager (px_keys (tv_process V)) 1 None None) kw" and
    b: "bootServer (serverDependencies (tv_process V) (px_nodeAt (tv_process V) url) km kw (testServerParams d relayUrl w))
        (testInteractorConfig d environment) s1 = (Inr D, s2)" "t = s2\<lparr>te_httpServer := Some D\<rparr>"
    using assms unfolding te_runServer_def by (elim bnd_InrE andthen_InrE) (auto elim!: bnd_InrE andthen_InrE dest!: io_returns)
  let ?D = "serverDependencies (tv_process V) (px_nodeAt (tv_process V) url) km kw (testServerParams d relayUrl w)"
  have "ec_relayHubAddress (testInteractorConfig d environment) = hubAddress ?D"
    using testServer_config(1) [where E = "tv_process V" and d = d and url = relayUrl and w = w]
    by (simp add: test_server_def testInteractorConfig_def configure_def override_def emptyConfig_def)
  note boot = bootServer_Inr [OF b(1) this]
  have "launched ?D s2" "D = ?D"
    by (rule boot; simp add: serverDependencies_def newKeyManager_address [OF k(1)] newKeyManager_address [OF k(2)])+
  then have "launched D s2" "sc_successfulRoundsForReady (dp_config D) = 3" "test_server d relayUrl w D"
    using testServer_config [where E = "tv_process V" and d = d and url = relayUrl and w = w] by simp_all
  then show ?thesis
    by (intro exI [of _ D]) (simp add: b(2) bed_inv_def launched_def settled_def ready_inv_def)
qed

text \<open>A server that has just answered that it is ready is registered.\<close>

definition ready_server :: "('w, 'd, 'k, 't) deps \<Rightarrow> ('w, 'd, 'z) process_state_scheme \<Rightarrow> bool" where
  "ready_server D s \<longleftrightarrow> hs_listening s \<and> isReady D s \<and> isRegistered D s \<and> worker_funded D"

lemma answered_ready:
  assumes "bed_inv (Some D) s" "h_get (bedHttp meanwhile) url s = (Inr (Some p), t)" "pr_ready p" "bed_step\<^sup>*\<^sup>* s (meanwhile s)"
  shows "ready_server D t" "te_httpServer t = Some D"
proof -
  have i: "bed_inv (Some D) (meanwhile s)" by (rule bed_inv_life [OF assms(4,1)])
  then have "hs_listening t \<and> isReady D t" "t = meanwhile s"
    using assms(2,3)
    by (auto simp: bed_inv_def bedHttp_def serverHttp_def Let_def answerGet_def http_pingHandler_def http_handler_def
        bnd_run sv_pingHandler_def split: if_splits)
  then show "ready_server D t" "te_httpServer t = Some D"
    using i by (auto simp: ready_server_def bed_inv_def ready_inv_def isReady_def split: if_splits)
qed

lemma registered_ready:
  fixes s :: "(('w, 'd, 'k, 't) test_world, 'z) commands_state_scheme"
  assumes "bed_commands meanwhile M" "registerTestRelay M from url F s = (Inr (Some u), t)" "bed_inv (Some D) (world s)"
  shows "ready_server D (world t)" "te_httpServer (world t) = Some D"
proof -
  have c: "command_requests (bed_inv (Some D)) M" by (rule bed_requests [OF assms(1)])
  obtain r and s1 :: "(('w, 'd, 'k, 't) test_world, 'z) commands_state_scheme" where
    r: "registerRelay M (testRegisterOptions from url) F s = (Inr (Some r), s1)" "waitForRelay M url 60 F s1 = (Inr (Some u), t)"
    using assms(2) by (auto simp: registerTestRelay_def bnd_rounds_def elim!: bnd_InrE split: option.splits if_splits)
  have "bed_inv (Some D) (world s1)"
    using along_keepsD [OF command_requests.held_register [OF c], of s "testRegisterOptions from url" F] assms(3) r(1) by simp
  from command_requests.wait_ready [OF c r(2) this] obtain w p where w: "bed_inv (Some D) w"
    "h_get (bedHttp meanwhile) (url @ ''/getaddr'') w = (Inr (Some p), world t)" "pr_ready p"
    using assms(1) by (auto simp: bed_commands_def)
  show "ready_server D (world t)" "te_httpServer (world t) = Some D"
    by (rule answered_ready [OF w], use assms(1) in \<open>simp add: bed_commands_def\<close>)+
qed

text \<open>The provider of the environment: the deployment's contracts, the new relay first.\<close>

definition test_client :: "string deployment_result \<Rightarrow> string \<Rightarrow> enveloping_config \<Rightarrow> bool" where
  "test_client deploymentResult relayUrl c \<longleftrightarrow> ec_relayHubAddress c = dpr_relayHubAddress deploymentResult \<and>
     ec_relayVerifierAddress c = dpr_relayVerifierAddress deploymentResult \<and>
     ec_deployVerifierAddress c = dpr_deployVerifierAddress deploymentResult \<and> ec_preferredRelays c = [relayUrl]"

lemma test_provider:
  "newRelayProvider url (testClientConfig d relayUrl environment) overrides None = Inr rp \<Longrightarrow> test_client d relayUrl (rvp_config rp)"
  by (auto simp: newRelayProvider_def Let_def testClientConfig_def configure_def override_def emptyConfig_def test_client_def
      map_sum_def split: sum.splits)

lemma newCommandsLogic_Inr:
  fixes s :: "('w, 'z) commands_state_scheme"
  assumes "newCommandsLogic T h c m s = (Inr M, t)"
  shows "ct_logic T h m = Inr M \<and> world t = world s"
proof (cases "ct_logic T h m")
  case (Inr M')
  then show ?thesis using assms by (cases s) (auto simp: newCommandsLogic_def newInteractor_def bnd_run andthen_run)
qed (use assms in \<open>simp add: newCommandsLogic_def bnd_run\<close>)

lemma environment_ready:
  fixes s :: "(('w, 'd, 'k, 't) test_world, 'z) commands_state_scheme"
  assumes "bed_laws V meanwhile" "te_start V host target chosen F s = (Inr (Some info), t)"
  shows "\<exists>D. ti_httpServer info = Some D \<and> te_httpServer (world t) = Some D \<and> ready_server D (world t) \<and>
     test_server (ti_deploymentResult info) (ti_relayUrl info) (or_else target (3 * 10 ^ 15)) D \<and>
     test_client (ti_deploymentResult info) (ti_relayUrl info) (rvp_config (ti_relayProvider info))"
proof -
  let ?target = "or_else target (3 * 10 ^ 15)" and ?environment = "or_else chosen defaultEnvironment"
  obtain url where url: "getNetworkUrl (or_else host '''') = Some url"
    using assms(2) unfolding te_start_def Let_def
    by (cases "getNetworkUrl (or_else host '''')") (auto elim: andthen_InrE)
  obtain M a d port rp u v1 v2 v3 h h' and s1 s2 s3 s4 s5 s6 s7 s8 s9 s10 :: "(('w, 'd, 'k, 't) test_world, 'z) commands_state_scheme" where
    stop: "io te_stop s = (Inr v1, s1)" and
    tools: "newCommandsLogic (tv_cli V) (Some url) (configure (emptyConfig\<lparr>pc_chainId := Some (en_chainId ?environment)\<rparr>)) None s1 = (Inr M, s2)" and
    deploy: "findWealthyAccount M None s2 = (Inr a, s3)" "deployContracts M (testDeployOptions a ?environment) F s3 = (Inr (Some d), s4)" and
    port: "io (resolveAvailablePort V) s4 = (Inr port, s5)" and
    run: "io (te_runServer V url d (''http://127.0.0.1:'' @ int_str port) ?target ?environment) s5 = (Inr v2, s6)" and
    h: "io (gets te_httpServer) s6 = (Inr h, s7)" "throw_if (h = None) ''Failed to run a local Relay Server'' s7 = (Inr v3, s8)" and
    reg: "registerTestRelay M a (''http://127.0.0.1:'' @ int_str port) F s8 = (Inr (Some u), s9)" and
    rp: "of_result (newRelayProvider url (testClientConfig d (''http://127.0.0.1:'' @ int_str port) ?environment) [] None) s9 = (Inr rp, s10)" and
    info: "bnd (io (gets te_httpServer)) (\<lambda>httpServer. ret (Some \<lparr>ti_deploymentResult = d, ti_relayProvider = rp,
        ti_relayUrl = ''http://127.0.0.1:'' @ int_str port, ti_httpServer = httpServer\<rparr>)) s10 = (Inr (Some info), t)"
    using assms(2) unfolding te_start_def Let_def url option.case
    by - (erule andthen_InrE, erule bnd_InrE, erule bnd_InrE, erule bnd_roundsE, erule bnd_InrE, erule andthen_InrE, erule bnd_InrE,
      erule andthen_InrE, erule bnd_roundsE, erule bnd_InrE, rule that)
  have "bed_inv None (world s1)"
    using stop te_stop_Inr [of "world s" v1 "world s1"] by (cases "te_stop (world s)") (auto simp: io_run bed_inv_def)
  moreover have M: "ct_logic (tv_cli V) (Some url) None = Inr M" "world s2 = world s1"
    using newCommandsLogic_Inr [OF tools] by simp_all
  moreover have bed: "bed_commands meanwhile M" using assms(1) M(1) by (simp add: bed_laws_def)
  note requests = bed_requests [OF bed, of None]
  ultimately have "bed_inv None (world s4)"
    using deploy along_keepsD [OF command_requests.held_wealthy [OF requests], of s2 None]
      along_keepsD [OF command_requests.held_deploy [OF requests], of s3 "testDeployOptions a ?environment" F] by simp
  moreover have "along (keeps (bed_inv None)) (resolveAvailablePort V)"
    using assms(1) unfolding resolveAvailablePort_def
    by (intro keeping.along_rules along_bed_inv) (simp add: bed_laws_def)
  ultimately have "te_httpServer (world s5) = None"
    using port along_keepsD [of "bed_inv None" "resolveAvailablePort V" "world s4"]
    by (cases "resolveAvailablePort V (world s4)") (auto simp: io_run bed_inv_def)
  then obtain D where D: "test_server d (''http://127.0.0.1:'' @ int_str port) ?target D" "bed_inv (Some D) (world s6)"
    using run te_runServer_Inr [of V url d "''http://127.0.0.1:'' @ int_str port" ?target ?environment "world s5" v2 "world s6"]
    by (cases "te_runServer V url d (''http://127.0.0.1:'' @ int_str port) ?target ?environment (world s5)") (auto simp: io_run)
  have "world s8 = world s6" using h by (auto simp: io_run dest!: throw_if_InrD simp del: throw_if_run split: prod.splits)
  then have r: "ready_server D (world s9)" "te_httpServer (world s9) = Some D"
    using registered_ready [OF bed reg] D(2) by simp_all
  have "newRelayProvider url (testClientConfig d (''http://127.0.0.1:'' @ int_str port) ?environment) [] None = Inr rp" "s10 = s9"
    using of_result_InrD [OF rp] by simp_all
  note client = test_provider [OF this(1)] and this(2)
  moreover have "world t = world s10" "info = \<lparr>ti_deploymentResult = d, ti_relayProvider = rp,
      ti_relayUrl = ''http://127.0.0.1:'' @ int_str port, ti_httpServer = te_httpServer (world s10)\<rparr>"
    using info by (auto simp: io_run bnd_run)
  ultimately show ?thesis using r D(1) by simp
qed

end
