(* ===== verification/BedProperties.thy ===== *)
theory BedProperties
  imports ProcessProperties ToolProperties TestBed
begin

text \<open>
  The test environment: what \<open>start\<close> returns is a ready relay, with a concrete environment whose node reports
  the registration of its relay, and whose stake is followed by a tick of the server's timer.
\<close>

section \<open>A test environment\<close>

definition bed_event_ex :: event_data where
  "bed_event_ex = \<lparr>ev_event = RelayServerRegistered, ev_blockNumber = 10, ev_transactionIndex = 0, ev_transactionHash = ''0xreg'',
     ev_returnValues = \<lparr>rv_relayManager = ''0xw'', rv_relayUrl = ''http://127.0.0.1:1'', rv_newRelayWorkers = [], rv_withdrawBlock = ''''\<rparr>\<rparr>"

definition bed_node_ex :: "unit node" where
  "bed_node_ex = process_node_ex\<lparr>n_getBalance := (\<lambda>_ _. ret ''3000000000000000000''),
     n_getPastEvents := (\<lambda>_ topics _. ret
     (if RelayServerRegistered \<in> set (hd topics) then [bed_event_ex]
      else if StakeAdded \<in> set (hd topics) then [bed_event_ex\<lparr>ev_event := StakeAdded\<rparr>] else []))\<rparr>"

text \<open>The server is listening before the first request, and works after the stake.\<close>

type_synonym bed_world_ex = "(unit, stored_tx list, unit, tx_args) test_world"

definition bed_meanwhile_ex :: "bed_world_ex \<Rightarrow> bed_world_ex" where
  "bed_meanwhile_ex s = (case te_httpServer s of None \<Rightarrow> s
     | Some D \<Rightarrow> if enabled Listening s then snd (serve D Listening s) else s)"

definition bed_tick_ex :: "(bed_world_ex, unit) js" where
  "bed_tick_ex s = (Inr (), case te_httpServer s of None \<Rightarrow> s
     | Some D \<Rightarrow> if enabled Tick s then snd (serve D Tick s) else s)"

definition bed_commands_ex :: "bed_world_ex commands" where
  "bed_commands_ex = \<lparr>cm_node = chainNode bed_meanwhile_ex bed_node_ex, cm_web3 = web3_ex, cm_http = bedHttp bed_meanwhile_ex, cm_BN = toBN_ex,
     cm_getAccounts = ret [''0xo''], cm_stakeForAddress = (\<lambda>_ _ _ _ _ _. andthen bed_tick_ex (ret ''0xstake'')),
     cm_fund = (\<lambda>_ _ _ _. ret (Some ''0xfund'', ''{}'')), cm_estimateDeploy = (\<lambda>_ _. ret 1000),
     cm_sendDeploy = (\<lambda>kind _ _. ret (if kind = RelayHub then ''0xhub'' else ''0xnew'')), cm_addVersion = (\<lambda>_ _ _ _ _. ret ()), cm_read = ret ''yes''\<rparr>"

definition bed_process_ex :: "(unit, string, stored_tx list, unit, tx_args) process_env" where
  "bed_process_ex = (process_ex [])\<lparr>px_nodeAt := (\<lambda>_. bed_node_ex)\<rparr>"

definition bed_ex :: "(unit, string, stored_tx list, unit, tx_args) test_env" where
  "bed_ex = \<lparr>tv_process = bed_process_ex, tv_emptyStore = [],
     tv_cli = \<lparr>ct_files = file_tools_ex, ct_logic = (\<lambda>_ _. Inr bed_commands_ex), ct_formatDate = (\<lambda>_. ''''),
       ct_ether = (\<lambda>_. Inr 0), ct_fromWei = Inr\<rparr>, tv_listen = ret (Some 1)\<rparr>"

definition bed_keys_ex :: "unit key_manager" where
  "bed_keys_ex = \<lparr>km_privateKeys = [(''0xw'', ())], km_nonces = [(0, 0)]\<rparr>"

definition bed_deployment_ex :: "string deployment_result" where
  "bed_deployment_ex = \<lparr>dpr_relayHubAddress = ''0xhub'', dpr_penalizerAddress = ''0xnew'', dpr_smartWalletTemplateAddress = ''0xnew'',
     dpr_smartWalletFactoryAddress = ''0xnew'', dpr_versionRegistryAddress = ''0xnew'', dpr_relayVerifierAddress = ''0xnew'',
     dpr_deployVerifierAddress = ''0xnew'', dpr_customSmartWalletTemplateAddress = ''0xnew'',
     dpr_customSmartWalletFactoryAddress = ''0xnew'', dpr_customSmartWalletDeployVerifierAddress = ''0xnew'',
     dpr_customSmartWalletRelayVerifierAddress = ''0xnew''\<rparr>"

definition bed_deps_ex :: "(unit, stored_tx list, unit, tx_args) deps" where
  "bed_deps_ex = serverDependencies bed_process_ex bed_node_ex bed_keys_ex bed_keys_ex
     (testServerParams bed_deployment_ex ''http://127.0.0.1:1'' (3 * 10 ^ 15))"

definition bed_state_ex :: "bed_world_ex commands_state" where
  "bed_state_ex = \<lparr>world = process_state.extend process_state_ex \<lparr>te_httpServer = None\<rparr>, ci_relayHub = None, ci_relayVerifier = None,
     ci_deployVerifier = None, ci_rawTxOptions = None, ci_chainId = 33, ci_networkId = None, ci_networkType = None,
     cs_config = client_config_ex, cs_transactions = []\<rparr>"

section \<open>Its laws\<close>

lemma bed_meanwhile_life: "bed_step\<^sup>*\<^sup>* s (bed_meanwhile_ex s)"
  by (auto simp: bed_meanwhile_ex_def simp del: serve.simps enabled.simps split: option.split intro: r_into_rtranclp bed_served)

lemma bed_tick_life: "along bed_step\<^sup>*\<^sup>* bed_tick_ex"
  by (auto simp: along_def bed_tick_ex_def simp del: serve.simps enabled.simps split: option.split intro: r_into_rtranclp bed_served)

lemma bed_laws_ex: "bed_laws bed_ex bed_meanwhile_ex"
  using bed_meanwhile_life bed_tick_life
  by (auto simp: bed_laws_def bed_commands_def bed_ex_def bed_commands_ex_def along_def andthen_run bed_tick_ex_def)

interpretation bed: command_requests "bed_inv h" bed_commands_ex for h
  by (rule bed_requests [where meanwhile = bed_meanwhile_ex])
    (use bed_laws_ex in \<open>auto simp: bed_laws_def bed_ex_def\<close>)

section \<open>It starts\<close>

lemma bed_keys: "newKeyManager process_keys_ex 1 None None s = (Inr bed_keys_ex, s)"
  by (simp add: newKeyManager_def process_keys_ex_def js_run Let_def generateKeys_opt_def generateKeys_def bed_keys_ex_def)

lemma bed_process_simps [simp]:
  "px_web3 bed_process_ex = web3_ex" "px_txlib bed_process_ex = process_tx_ex" "px_nedb bed_process_ex = list_nedb"
  "px_keys bed_process_ex = process_keys_ex" "px_nodeAt bed_process_ex = (\<lambda>_. bed_node_ex)"
  by (simp_all add: bed_process_ex_def)

lemma bed_deps_simps [simp]:
  "dp_node bed_deps_ex = bed_node_ex" "dp_web3 bed_deps_ex = web3_ex" "dp_db bed_deps_ex = list_nedb"
  "dp_tx bed_deps_ex = process_tx_ex" "workerAddress bed_deps_ex = ''0xw''" "managerAddress bed_deps_ex = ''0xw''"
  by (simp_all add: bed_deps_ex_def serverDependencies_def workerAddress_def managerAddress_def bed_keys_ex_def
      getAddress_def getAddresses_def)

lemma bed_node_simps [simp]:
  "n_getBalance bed_node_ex = (\<lambda>_ _. ret ''3000000000000000000'')" "n_getCode bed_node_ex = n_getCode node_ex"
  "n_getNetworkType bed_node_ex = ret ''private''" "n_getChainId bed_node_ex = ret 33"
  "n_getNetworkId bed_node_ex = ret 33" "n_contractAt bed_node_ex = (\<lambda>_ _. ret ())"
  "n_versionHub bed_node_ex = (\<lambda>_. ret ''2.0.1'')" "n_getBlock bed_node_ex = (\<lambda>_. ret block_ex)"
  "n_getPastEvents bed_node_ex = (\<lambda>_ topics _. ret
     (if RelayServerRegistered \<in> set (hd topics) then [bed_event_ex]
      else if StakeAdded \<in> set (hd topics) then [bed_event_ex\<lparr>ev_event := StakeAdded\<rparr>] else []))"
  "n_getGasPrice bed_node_ex = ret ''100''" "n_getStakeInfo bed_node_ex = n_getStakeInfo node_ex" "n_now bed_node_ex = n_now node_ex"
  by (simp_all add: bed_node_ex_def process_node_ex_def)

lemma bed_member:
  "map_of (configureServer (testServerParams bed_deployment_ex ''http://127.0.0.1:1'' 3000000000000000)) k =
     (case map_of (testServerParams bed_deployment_ex ''http://127.0.0.1:1'' 3000000000000000) k of
       Some v \<Rightarrow> Some v | None \<Rightarrow> map_of serverDefaultConfiguration k)"
  by (rule testServerParams_member)

lemma bed_config_simps:
  "sc_url (dp_config bed_deps_ex) = ''http://127.0.0.1:1''" "sc_port (dp_config bed_deps_ex) = 0"
  "sc_managerMinStake (dp_config bed_deps_ex) = ''1''" "sc_customReplenish (dp_config bed_deps_ex) = False"
  "sc_managerMinBalance (dp_config bed_deps_ex) = 1000000000000000"
  "sc_workerMinBalance (dp_config bed_deps_ex) = 1000000000000000"
  "sc_managerTargetBalance (dp_config bed_deps_ex) = 3000000000000000"
  "sc_registrationBlockRate (dp_config bed_deps_ex) = 0" "sc_successfulRoundsForReady (dp_config bed_deps_ex) = 3"
  "sc_refreshStateTimeoutBlocks (dp_config bed_deps_ex) = 5"
  "sc_alertedBlockDelay (dp_config bed_deps_ex) = 0" "sc_gasPriceFactor (dp_config bed_deps_ex) = num 1"
  by (simp_all add: bed_deps_ex_def serverDependencies_def toServerConfig_def member_str_def member_int_def member_num_def
      member_bool_def bed_member) (simp_all add: testServerParams_def serverDefaultConfiguration_def value_text_def)

lemma bed_interactor:
  "ec_relayHubAddress (testInteractorConfig bed_deployment_ex env_rsk) = ''0xhub''"
  "ec_relayVerifierAddress (testInteractorConfig bed_deployment_ex env_rsk) = ''0xnew''"
  "ec_deployVerifierAddress (testInteractorConfig bed_deployment_ex env_rsk) = ''0xnew''"
  by (simp_all add: testInteractorConfig_def configure_def override_def emptyConfig_def bed_deployment_ex_def)

lemma bed_deps_fold: "serverDependencies bed_process_ex bed_node_ex bed_keys_ex bed_keys_ex
     (testServerParams bed_deployment_ex ''http://127.0.0.1:1'' 3000000000000000) = bed_deps_ex"
  by (simp add: bed_deps_ex_def)

lemma bed_initNonces: "initNonces bed_deps_ex = (\<lambda>a. if a = ''0xw'' then Some 0 else None)"
  by (rule ext) (simp add: initNonces_def, simp add: bed_deps_ex_def serverDependencies_def bed_keys_ex_def getAddress_def getAddresses_def)

lemma bed_balance: "parse_int 0 ''3000000000000000000'' = Some 3000000000000000000"
  by (simp add: parse_ex)

lemma bed_runs_ex:
  fixes s :: bed_world_ex
  assumes "te_httpServer s = None"
  shows "\<exists>t. te_runServer bed_ex ''http://node'' bed_deployment_ex ''http://127.0.0.1:1'' 3000000000000000 env_rsk s = (Inr (), t) \<and>
     te_httpServer t = Some bed_deps_ex \<and> hs_serverInstance t \<and> \<not> hs_listening t \<and> \<not> sv_ready t \<and> sv_chainId t = 33 \<and>
     isReady bed_deps_ex (snd (serve bed_deps_ex Tick (snd (serve bed_deps_ex Listening t))))"
  using assms
  by (simp add: te_runServer_def bed_ex_def js_run bed_keys [simplified] bed_deps_fold bootServer_def bed_interactor
      bed_config_simps start_defs ZERO_ADDRESS_def toBN_ex_def)
   (simp add: tick_defs js_run bed_config_simps block_ex_def bed_balance list_nedb_def
      bed_event_ex_def Let_def num_mul_def num_def math_floor_def)

text \<open>The server after it has begun to listen, and after its first tick.\<close>

definition bed_served_ex :: "bed_world_ex \<Rightarrow> bed_world_ex \<Rightarrow> bed_world_ex \<Rightarrow> bool" where
  "bed_served_ex t L T \<longleftrightarrow> bed_meanwhile_ex t = L \<and> bed_meanwhile_ex L = L \<and> bed_tick_ex L = (Inr (), T) \<and> bed_meanwhile_ex T = T \<and>
     te_httpServer L = Some bed_deps_ex \<and> te_httpServer T = Some bed_deps_ex \<and> hs_listening L \<and> hs_listening T \<and>
     \<not> isReady bed_deps_ex L \<and> sv_chainId L = 33 \<and> isReady bed_deps_ex T"

lemma bed_serves_ex:
  fixes t :: bed_world_ex
  assumes "te_httpServer t = Some bed_deps_ex" "hs_serverInstance t" "\<not> hs_listening t" "\<not> sv_ready t" "sv_chainId t = 33"
    "isReady bed_deps_ex (snd (serve bed_deps_ex Tick (snd (serve bed_deps_ex Listening t))))"
  shows "bed_served_ex t (snd (serve bed_deps_ex Listening t)) (snd (serve bed_deps_ex Tick (snd (serve bed_deps_ex Listening t))))"
proof -
  define L where "L = snd (serve bed_deps_ex Listening t)"
  have L: "hs_listening L" "sv_polling L" "\<not> sv_ready L" "sv_chainId L = 33" "te_httpServer L = Some bed_deps_ex"
    using assms serve_bed [of bed_deps_ex Listening t] by (simp_all add: L_def startBackend_def start_def catching_run)
  have "hs_listening (snd (serve bed_deps_ex Tick L))"
    using interval_life [of bed_deps_ex L] L(1)
    by (simp add: life_view_def deliverUnstaked_def close_def stop_def bnd_run andthen_run)
  moreover have not_ready: "\<not> isReady bed_deps_ex L" using L(3) by (simp add: isReady_def)
  ultimately show ?thesis
    using L assms serve_bed [of bed_deps_ex Tick L] unfolding L_def [symmetric] bed_served_ex_def
    by (simp add: bed_meanwhile_ex_def bed_tick_ex_def L_def [symmetric] not_ready del: serve.simps)
qed

lemma bed_during: "during bed_meanwhile_ex (ret x) s = (Inr x, bed_meanwhile_ex s)"
  by (simp add: during_def io_run)

lemma bed_http_ex:
  assumes "te_httpServer (bed_meanwhile_ex w) = Some bed_deps_ex" "hs_listening (bed_meanwhile_ex w)"
  shows "h_get (bedHttp bed_meanwhile_ex) ''http://127.0.0.1:1/getaddr'' w =
     (Inr (Some (sv_pingHandler bed_deps_ex (bed_meanwhile_ex w))), bed_meanwhile_ex w)"
  using assms
  by (simp add: bedHttp_def serverHttp_def Let_def bed_config_simps http_pingHandler_def http_handler_def bnd_run answerGet_def)

lemma bed_commands_simps [simp]:
  "cm_node bed_commands_ex = chainNode bed_meanwhile_ex bed_node_ex" "cm_web3 bed_commands_ex = web3_ex"
  "cm_http bed_commands_ex = bedHttp bed_meanwhile_ex" "cm_BN bed_commands_ex = toBN_ex"
  "cm_getAccounts bed_commands_ex = ret [''0xo'']" "cm_stakeForAddress bed_commands_ex = (\<lambda>_ _ _ _ _ _. andthen bed_tick_ex (ret ''0xstake''))"
  "cm_estimateDeploy bed_commands_ex = (\<lambda>_ _. ret 1000)"
  "cm_sendDeploy bed_commands_ex = (\<lambda>kind _ _. ret (if kind = RelayHub then ''0xhub'' else ''0xnew''))"
  by (simp_all add: bed_commands_ex_def)

lemma bed_chain_simps [simp]:
  "n_getBalance (chainNode bed_meanwhile_ex bed_node_ex) = (\<lambda>_ _. during bed_meanwhile_ex (ret ''3000000000000000000''))"
  "n_getNetworkType (chainNode bed_meanwhile_ex bed_node_ex) = during bed_meanwhile_ex (ret ''private'')"
  "n_getChainId (chainNode bed_meanwhile_ex bed_node_ex) = during bed_meanwhile_ex (ret 33)"
  "n_getNetworkId (chainNode bed_meanwhile_ex bed_node_ex) = during bed_meanwhile_ex (ret 33)"
  "n_contractAt (chainNode bed_meanwhile_ex bed_node_ex) = (\<lambda>_ _. during bed_meanwhile_ex (ret ()))"
  "n_versionHub (chainNode bed_meanwhile_ex bed_node_ex) = (\<lambda>_. during bed_meanwhile_ex (ret ''2.0.1''))"
  "n_getStakeInfo (chainNode bed_meanwhile_ex bed_node_ex) = (\<lambda>_ _. during bed_meanwhile_ex
     (ret \<lparr>si_stake = ''1'', si_unstakeDelay = ''1000'', si_withdrawBlock = ''0'', si_owner = ''0xo''\<rparr>))"
  "n_now (chainNode bed_meanwhile_ex bed_node_ex) = during bed_meanwhile_ex (ret 0)"
  by (simp_all add: chainNode_def node_ex_def)

lemma bed_texts: "int_str 33 = ''33''" "int_str 1 = ''1''"
  by code_simp+

lemma bed_numbers: "parse_int 0 ''1000'' = Some 1000" "parse_int 0 ''2000'' = Some 2000"
  by (simp_all add: parse_ex)

lemma bed_registers_ex:
  assumes "bed_served_ex t L T" "s = \<lparr>world = t, ci_relayHub = None, ci_relayVerifier = None,
     ci_deployVerifier = None, ci_rawTxOptions = None, ci_chainId = 33, ci_networkId = None, ci_networkType = None,
     cs_config = c, cs_transactions = []\<rparr>"
  shows "\<exists>u. registerTestRelay bed_commands_ex ''0xo'' ''http://127.0.0.1:1'' 1 s = (Inr (Some ()), u)"
  using assms
  by (simp add: bed_served_ex_def registerTestRelay_def registerRelay_def registerSteps_def getPingResponse_def Let_def js_run
      isInitialized_def ci_init_def initializeContracts_def createContract_def validateCompatibility_def validateVersion_def
      relayHubInstance_def instance_of_def stakeAndFund_def stakeRelay_def fundRelay_def toBN_ex_def getBalance_def
      pushTransaction_def bnd_rounds_def waitForRelay_def isRelayReady_def bed_texts bed_numbers bed_balance testRegisterOptions_def bed_during
      bed_http_ex sv_pingHandler_def)

lemma bed_deploys_ex:
  "deployContracts bed_commands_ex (testDeployOptions a environment) 1 s =
     (Inr (Some bed_deployment_ex), s\<lparr>cs_config := (cs_config s)\<lparr>ec_relayHubAddress := ''0xhub'',
        ec_deployVerifierAddress := ''0xnew'', ec_relayVerifierAddress := ''0xnew''\<rparr>\<rparr>)"
  by (simp add: deployContracts_def Let_def getContract_def bnd_rounds_def js_run testDeployOptions_def maxCost_def toBN_ex_def
      bn_muln_def bn_toNumber_def bed_deployment_ex_def)

lemma bed_starts_ex:
  "\<exists>info u. te_start bed_ex (Some ''http://node'') None None 1 bed_state_ex = (Inr (Some info), u) \<and> ti_relayUrl info = ''http://127.0.0.1:1''"
proof -
  let ?w = "process_state.extend process_state_ex \<lparr>te_httpServer = None\<rparr> :: bed_world_ex"
  have none: "te_httpServer ?w = None" by (simp add: process_state.defs)
  obtain t where t: "te_runServer bed_ex ''http://node'' bed_deployment_ex ''http://127.0.0.1:1'' 3000000000000000 env_rsk ?w = (Inr (), t)"
    "te_httpServer t = Some bed_deps_ex" and served: "bed_served_ex t (snd (serve bed_deps_ex Listening t))
      (snd (serve bed_deps_ex Tick (snd (serve bed_deps_ex Listening t))))"
    using bed_runs_ex [OF none] bed_serves_ex by blast
  have url: "getNetworkUrl ''http://node'' = Some ''http://node''" by code_simp
  have tools: "tv_cli bed_ex = \<lparr>ct_files = file_tools_ex, ct_logic = (\<lambda>_ _. Inr bed_commands_ex), ct_formatDate = (\<lambda>_. ''''),
       ct_ether = (\<lambda>_. Inr 0), ct_fromWei = Inr\<rparr>" "tv_listen bed_ex = ret (Some 1)" by (simp_all add: bed_ex_def)
  have provider: "\<exists>rp. newRelayProvider ''http://node'' (testClientConfig bed_deployment_ex ''http://127.0.0.1:1'' env_rsk)
      ([] :: (string \<times> unit option) list) (None :: unit option) = Inr rp"
    by (simp add: newRelayProvider_def newRelayClient_def getDependencies_def overridden_def unexpectedKey_def Let_def)
  then obtain rp where rp: "newRelayProvider ''http://node'' (testClientConfig bed_deployment_ex ''http://127.0.0.1:1'' env_rsk)
      ([] :: (string \<times> unit option) list) (None :: unit option) = Inr rp" by blast
  define s where "s = \<lparr>world = t, ci_relayHub = None, ci_relayVerifier = None,
     ci_deployVerifier = None, ci_rawTxOptions = None, ci_chainId = 33, ci_networkId = None, ci_networkType = None,
     cs_config = (configure (emptyConfig\<lparr>pc_chainId := Some 33\<rparr>))\<lparr>ec_relayHubAddress := ''0xhub'',
        ec_deployVerifierAddress := ''0xnew'', ec_relayVerifierAddress := ''0xnew''\<rparr>, cs_transactions = []\<rparr>"
  obtain u where u: "registerTestRelay bed_commands_ex ''0xo'' ''http://127.0.0.1:1'' 1 s = (Inr (Some ()), u)"
    using bed_registers_ex [OF served s_def] by blast
  have config: "ec_chainId (configure (emptyConfig\<lparr>pc_chainId := Some 33\<rparr>)) = 33"
    by (simp add: configure_def override_def emptyConfig_def)
  have env: "en_chainId env_rsk = 33" by (simp add: env_rsk_def)
  have w: "world bed_state_ex = ?w" by (simp add: bed_state_ex_def)
  show ?thesis
    unfolding te_start_def Let_def
    by (simp add: js_run url tools te_stop_def none w newCommandsLogic_def newInteractor_def bed_state_ex_def config env
        defaultEnvironment_def findWealthyAccount_def bed_during bed_meanwhile_ex_def bed_balance toBN_ex_def
        bnd_rounds_def bed_deploys_ex [simplified] resolveAvailablePort_def bed_texts t u [unfolded s_def One_nat_def] rp)
qed

section \<open>Properties\<close>

text \<open>
  C3. The test environment is ready when it has started: the server it returns is the one that runs, listens
  and is ready, is registered with a locked stake, and has the URL, hub, verifiers and target balance of
  this deployment; the provider has the same contracts and prefers this relay.
\<close>

theorem test_environment_is_ready:
  fixes s :: "(('w, 'd, 'k, 't) test_world, 'z) commands_state_scheme"
  assumes "bed_laws V meanwhile" "te_start V host target chosen F s = (Inr (Some info), t)"
  shows "\<exists>D. ti_httpServer info = Some D \<and> te_httpServer (world t) = Some D \<and> ready_server D (world t) \<and>
     test_server (ti_deploymentResult info) (ti_relayUrl info) (or_else target (3 * 10 ^ 15)) D \<and>
     test_client (ti_deploymentResult info) (ti_relayUrl info) (rvp_config (ti_relayProvider info))"
  by (rule environment_ready [OF assms])

theorem test_environment_is_ready_witness:
  "\<exists>info t D. te_start bed_ex (Some ''http://node'') None None 1 bed_state_ex = (Inr (Some info), t) \<and>
     te_httpServer (world t) = Some D \<and> isRegistered D (world t) \<and> sc_url (dp_config D) = ''http://127.0.0.1:1''"
proof -
  obtain info t where run: "te_start bed_ex (Some ''http://node'') None None 1 bed_state_ex = (Inr (Some info), t)"
    "ti_relayUrl info = ''http://127.0.0.1:1''" using bed_starts_ex by blast
  from test_environment_is_ready [OF bed_laws_ex run(1)] run show ?thesis
    by (auto simp: ready_server_def test_server_def)
qed

end
