(* ===== verification/Spec2Isabelle.thy ===== *)
theory Spec2Isabelle
  imports ServerProperties StoreProperties ServingProperties ClientProperties CommonProperties AppProperties ToolProperties CommandProperties SystemExample BedProperties
begin

text \<open>
  A verification library for the RIF relay: the relay server (\<open>src/src/relayserver\<close>), the relay client
  (\<open>src/src/relayclient\<close>), the code they share (\<open>src/src/common\<close>) and the command line tools (\<open>src/src/cli\<close>). The client signs a request and sends
  it over HTTP to a server; the server wraps it in a transaction of its worker, which the relay hub
  contract executes; the client checks the transaction it gets back and broadcasts it as well.

  Modelling. A method is a function from the state to a result (a thrown value on the left, the returned
  one on the right) and the state after it, composed with the operations of \<open>Prelude\<close>; an exception keeps
  the changes made before it. State is layered in extensible records, one layer for each class, so that a
  method of one class runs on the state of the classes that use it: \<open>net\<close>, \<open>interactor\<close>, \<open>store_state\<close>,
  \<open>tm_state\<close>, \<open>reg_state\<close>, \<open>server_state\<close> for the server, \<open>net\<close>, \<open>interactor\<close>, \<open>relays_state\<close>,
  \<open>selection_state\<close>, \<open>account_state\<close>, \<open>client_state\<close> for the client. Code outside the repository is a
  parameter: the node (\<open>node\<close>), web3's functions (\<open>web3_utils\<close>), ethereumjs-tx (\<open>txlib\<close>), nedb (\<open>nedb\<close>, with
  the laws \<open>nedb_laws\<close>), HTTP (\<open>http\<close>), keys and signatures (\<open>signer\<close>). JavaScript numbers are \<open>number\<close>, a
  rational or NaN with the rounding of doubles, where the code computes with fractions, and \<open>int\<close> where it
  only counts; BN is \<open>int\<close>.

  Theories, in the order of their imports.
  \<^item> \<open>Prelude\<close>: the state and exception monad, relations kept along a computation (locale \<open>step_relation\<close>),
    strings. \<open>JsNumber\<close>: doubles, \<open>parseInt\<close>, \<open>Number\<close>, \<open>toString\<close>. \<open>Types\<close>: requests, transaction details, events,
    constants, environments. \<open>Web3\<close>: the parameters.
  \<^item> \<open>Utils\<close> (\<open>Utils.ts\<close>, \<open>AmountRequired.ts\<close>), \<open>Configurator\<close>, \<open>VersionRegistry\<close> (with \<open>VersionsManager.ts\<close>),
    \<open>ContractInteractor\<close>, \<open>ServerConfig\<close> (\<open>ServerConfigParams.ts\<close> and the configuration part of \<open>runServer.ts\<close>).
  \<^item> Server: \<open>TxStore\<close> (\<open>TxStoreManager.ts\<close>) and \<open>NedbList\<close>, an implementation of \<open>nedb_laws\<close> on lists;
    \<open>Transactions\<close> (\<open>KeyManager.ts\<close>, \<open>TransactionManager.ts\<close>); \<open>Concurrency\<close>, the same sends and polls as a step
    relation between their \<open>await\<close>s; \<open>Registration\<close>; \<open>Server\<close> (the worker's round, readiness, replenishing);
    \<open>ServerRequests\<close> (validation and creation of relay transactions, the HTTP handlers); \<open>ServerProcess\<close>
    (\<open>runServer.ts\<close>, the constructors, the listening part of \<open>HttpServer.ts\<close>): the server's life as the states
    \<open>server_reachable\<close>, and \<open>ServerInvariants\<close>, what holds in all of them.
  \<^item> Both: \<open>ClientWorld\<close>, what the client's requests keep and where its answers come from; \<open>RelaySystem\<close>, the client
    whose world is the server's process, with arbitrary other activity before each of its requests.
  \<^item> Client: \<open>HttpClient\<close>, \<open>KnownRelays\<close>, \<open>RelaySelection\<close>, \<open>Signing\<close> (typed data, \<open>AccountManager.ts\<close>,
    \<open>RelayedTransactionValidator.ts\<close>), \<open>RelayClient\<close>; \<open>Dependencies\<close>, how a client is made of its collaborators
    (\<open>getDependencies\<close>, the constructors of \<open>RelayClient.ts\<close> and \<open>RelayProvider.ts\<close>), with HTTP over axios and signing and
    broadcasting by the provider.
  \<^item> Around the client: \<open>Provider\<close> (\<open>RelayProvider.ts\<close>), \<open>Discovery\<close> (\<open>SmartWalletDiscovery.ts\<close>), \<open>EnvelopingApi\<close>
    (\<open>Enveloping.ts\<close>), \<open>Commands\<close> (\<open>CommandsLogic.ts\<close>), \<open>CliTools\<close> (\<open>StatusLogic.ts\<close>, \<open>cli/utils.ts\<close>), \<open>CommandLine\<close>
    (\<open>cli/commands\<close>), \<open>DevProviders\<close> (\<open>common/dev\<close>), \<open>SovrynScript\<close> (\<open>sovryn/relayTest.ts\<close>).
  \<^item> \<open>CommandWorld\<close>: what the command line tools do to the world. \<open>TestBed\<close> (\<open>TestEnvironment.ts\<close>, \<open>enveloping-boot-test.ts\<close>): the
    tools whose world is the process of the server they start, register and wait for.
  \<^item> \<open>Example\<close>: a concrete deployment, to which the properties with hypotheses are applied;
    \<open>ServerProperties\<close>, \<open>StoreProperties\<close>, \<open>ServingProperties\<close>, \<open>ClientProperties\<close>, \<open>CommonProperties\<close>,
    \<open>AppProperties\<close>, \<open>ToolProperties\<close>, \<open>CommandProperties\<close>, \<open>ProcessProperties\<close>: the properties; \<open>SystemExample\<close>: a concrete client of a
    concrete server; \<open>BedProperties\<close>: the test environment, with a concrete one; this theory: the properties of server and client together.

  Interfaces. \<open>nedb_laws\<close> is what the store relies on, interpreted by \<open>list_db\<close>; \<open>step_relation\<close>, \<open>tm_growing\<close>,
  \<open>tm_blind\<close>, \<open>reg_blind\<close> and \<open>scan_blind\<close> are the relations that sequencing, the transaction manager, the
  registration manager and a scan of the chain cannot break, interpreted by nonces that only grow, by the parts of the state a caller relies on, by the owner
  of the stake, by the blocks scanned, by the accounts a discovery has found, by the tools' configuration and by what was
  sent to the version registry. \<open>server_inv\<close> says which sends an invariant of the server process rests on and
  proves that every handler, hence the whole life of the process, keeps it; it is interpreted by the
  invariants of \<open>ServerInvariants\<close>, and \<open>process_store\<close>, the store with the purposes its transactions serve,
  is a sublocale of it. \<open>client_requests\<close> says which single requests a property of the world has to survive and
  proves that the whole of \<open>relayTransaction\<close> keeps it and what it then returns; it is interpreted by the
  reachable states of the server. \<open>command_requests\<close> does the same for the command line tools; it is interpreted by the
  invariant of the test environment's server.

  Bounds. The search for past events makes three rounds, which is enough from one window on because the
  number of windows grows fourfold up to sixteen; the loop over the relays and the loops of the selection
  make one round more than relays are left, which is enough because each round removes one; the loop of
  \<open>splitRange\<close> terminates by its distance to the end; the receipt loop is structural in its retries. What
  does not end in the code (a race whose relays share a URL) is a value, \<open>Never\<close>, and a loop whose bound was too small
  would be another, \<open>Spinning\<close>: with distinct URLs \<open>selection_terminates\<close> and \<open>relay_loop_ends\<close> exclude both. The loops of the discovery,
  of \<open>waitForRelay\<close> and of \<open>confirm\<close> depend on the chain, the clock and the user; they take their bound as an
  argument and give \<open>None\<close> when it was too small: \<open>discovery_ends\<close> and \<open>waiting_for_a_relay_ends\<close> say which
  bound is enough (the latter also how long the wait may last), for \<open>confirm\<close> it is the number of lines up to the first yes or no.

  Not modelled: logging and emitted events, which no code reads back; the order in which concurrent
  handlers other than sends and polls interleave; the event loop's timers, which are the operations
  \<open>intervalHandler\<close> and \<open>ready_timeout\<close>, run to their end as single steps of the process; requests to the
  JSON-RPC root in the life of the process, since they can call any method of the server; sockets and the
  parsing of HTTP; the parsing of options by commander and the progress messages; type aliases, the replacer of
  errors in JSON and the events for a user interface; the contracts.

  Simplified, without a property that depends on it: \<open>getRawTxOptions\<close> leaves out the error of \<open>Common.forCustomChain\<close> on
  an unknown hard fork; \<open>pollNonce\<close> has one value, \<open>None\<close>, for a nonce that is undefined and one that is \<open>NaN\<close>; the
  errors of a race are those it has at its end, while the code returns the map that later pings still write to; writing
  the files of a deployment does not fail; a numeric member of a request to the provider is its decimal text.
\<close>

section \<open>Server and client together\<close>

text \<open>
  C1. However \<open>relayTransaction\<close> ends, with a result, without one or with an error, and whatever else happens between
  the requests of the client, the server's state afterwards is one it can reach, so that nothing a client does
  breaks what holds in these states. And what a client reports as relayed has been accepted by the server: a transaction that
  is returned is the one that the server, in a state it can reach, has signed for a request with the client's details and
  the sender's signature; in that state the server was ready and registered and the request acceptable.
\<close>

theorem relayed_transaction_was_accepted:
  fixes C :: "(('w, 'd, 'z) process_state_scheme, 'c, 'q, 't) client" and D :: "('w, 'd, 'k, 'u) deps"
  assumes "served_by E args env D url meanwhile C" "server_reachable E args env D (world s)"
    and "rc_relayTransaction C d s = (outcome, t)"
  shows "server_reachable E args env D (world t) \<and>
    (\<forall>res tx. outcome = Inr (Result res) \<and> re_transaction res = Some tx \<longrightarrow>
      (\<exists>req r (u :: ('w, 'd, 'z) process_state_scheme) v. server_reachable E args env D u \<and>
         createRelayTransaction D req u = (Inr r, v) \<and> acceptable D req u \<and> isRegistered D u \<and>
         t_decode (cl_txlib C) (sx_signedTx r) = Inr tx \<and> carries d (relayRequest req) \<and> signed_by_sender C req))"
  using relaying_keeps_server [OF assms] relayed_was_accepted [OF assms(1,2)] assms(3) by blast

theorem relayed_transaction_was_accepted_witness:
  "\<exists>R res t. rc_relayTransaction system_client_ex details_ex (system_state_ex R) = (Inr (Result res), t) \<and>
     re_transaction res = Some sent_ex \<and> server_reachable (process_ex []) [] [] process_deps_ex (world t) \<and>
     (\<exists>req r (u :: (unit, stored_tx list) process_state) v. server_reachable (process_ex []) [] [] process_deps_ex u \<and>
        createRelayTransaction process_deps_ex req u = (Inr r, v) \<and> carries details_ex (relayRequest req))"
proof -
  obtain R r R' where R: "server_reachable (process_ex []) [] [] process_deps_ex (R :: (unit, stored_tx list) process_state)"
    and run: "hs_listening R" "sv_pingHandler process_deps_ex R = ping_ex"
      "createRelayTransaction process_deps_ex request_ex R = (Inr r, R')" "sx_signedTx r = ''0xraw''"
    by (rule system_server_ex)
  obtain res t where t: "rc_relayTransaction system_client_ex details_ex (system_state_ex R) = (Inr (Result res), t)"
    "re_transaction res = Some sent_ex" using system_run_ex [OF run] by blast
  have "server_reachable (process_ex []) [] [] process_deps_ex (world (system_state_ex R))" using R by simp
  from relayed_transaction_was_accepted [OF system_served this t(1)] t show ?thesis by blast
qed

text \<open>
  C2. What the server accepts is relayed. When a request that the client sends to the server is accepted
  there, the client's attempt returns the server's transaction, or fails for one reason only: the worker's
  nonce has passed the one agreed on since the server checked it.
\<close>

theorem accepted_request_is_relayed:
  fixes C :: "(('w, 'd, 'z) process_state_scheme, 'c, 'k, 't) client" and D :: "('w, 'd, 'k, 't) deps"
  assumes "tx_laws (dp_tx D) addressOf" "abi_laws (dp_web3 D)" "named_errors (dp_node D)"
    and "\<And>k. map_of (km_privateKeys (keysOf D (workerAddress D))) (workerAddress D) = Some k \<Longrightarrow>
      isSameAddress (addressOf k) (workerAddress D)"
    and "cl_txlib C = dp_tx D" "cl_web3 C = dp_web3 D" "cl_node C = chainNode meanwhile (dp_node D)"
      "se_http (cl_selector C) = serverHttp meanwhile D (ri_relayUrl (pi_relayInfo relay))"
    and "isSameAddress (md_relayHubAddress (metadata req)) (ec_relayHubAddress (cl_config C))" "ci_rawTxOptions s \<noteq> None"
    and "hs_listening (meanwhile (world s))" "createRelayTransaction D req (meanwhile (world s)) = (Inr r, v)"
  shows "\<exists>n y. t_decode (dp_tx D) (sx_signedTx r) = Inr y \<and> t_nonce (dp_tx D) y = n \<and>
    fst (sendToRelay C relay req s) = (if n \<le> md_relayMaxNonce (metadata req)
      then Inr \<lparr>at_transaction = Some y, at_error = None\<rparr> else Inl (too_high (md_relayMaxNonce (metadata req)) n))"
  by (rule accepted_is_relayed [OF assms])

theorem accepted_request_is_relayed_witness:
  "\<exists>R n y. t_nonce process_tx_ex y = n \<and>
     fst (sendToRelay system_client_ex \<lparr>pi_relayInfo = relay_ex, pi_pingResponse = ping_ex\<rparr> request_ex (system_state_ex R)) =
       (if n \<le> 7 then Inr \<lparr>at_transaction = Some y, at_error = None\<rparr> else Inl (too_high 7 n))"
proof -
  obtain R r R' where "server_reachable (process_ex []) [] [] process_deps_ex (R :: (unit, stored_tx list) process_state)"
    and run: "hs_listening R" "sv_pingHandler process_deps_ex R = ping_ex"
      "createRelayTransaction process_deps_ex request_ex R = (Inr r, R')" "sx_signedTx r = ''0xraw''"
    by (rule system_server_ex)
  have laws: "tx_laws (dp_tx process_deps_ex) (\<lambda>_. ''0xw'')" "abi_laws (dp_web3 process_deps_ex)"
    "named_errors (dp_node process_deps_ex)" by (simp_all add: system_laws)
  have "\<exists>n y. t_decode (dp_tx process_deps_ex) (sx_signedTx r) = Inr y \<and> t_nonce (dp_tx process_deps_ex) y = n \<and>
    fst (sendToRelay system_client_ex \<lparr>pi_relayInfo = relay_ex, pi_pingResponse = ping_ex\<rparr> request_ex (system_state_ex R)) =
      (if n \<le> md_relayMaxNonce (metadata request_ex) then Inr \<lparr>at_transaction = Some y, at_error = None\<rparr>
       else Inl (too_high (md_relayMaxNonce (metadata request_ex)) n))"
    by (rule accepted_request_is_relayed [where D = process_deps_ex and meanwhile = id, OF laws])
      (use run in \<open>simp_all add: request_ex_def client_config_ex_def\<close>)
  moreover have "md_relayMaxNonce (metadata request_ex) = 7" by (simp add: request_ex_def)
  ultimately show ?thesis unfolding process_deps_simps by metis
qed

text \<open>
  What the server answers to a request passes the client's validation, or fails it for one reason
  only: the worker's nonce has passed the one agreed on since the server checked it.
\<close>

theorem response_passes_client:
  fixes s :: "('w, 'd, 'z) server_state_scheme" and u :: "('v, 'y) interactor_scheme"
  assumes "tx_laws (dp_tx D) addressOf" "abi_laws (dp_web3 D)"
    and "\<And>k. map_of (km_privateKeys (keysOf D (workerAddress D))) (workerAddress D) = Some k \<Longrightarrow>
      isSameAddress (addressOf k) (workerAddress D)"
    and "createRelayTransaction D req s = (Inr r, t)"
    and "isSameAddress (md_relayHubAddress (metadata req)) (ec_relayHubAddress cfg)" "ci_rawTxOptions u \<noteq> None"
  shows "\<exists>n. validateRelayResponse (dp_tx D) (dp_web3 D) cfg req (sx_signedTx r) u =
    (if n \<le> md_relayMaxNonce (metadata req) then Inr True
     else Inl (Error (''Relay used a tx nonce higher than requested. Requested '' @
       int_str (md_relayMaxNonce (metadata req)) @ '' got '' @ int_str n)), u)"
proof -
  obtain n y where "validateRelayResponse (dp_tx D) (dp_web3 D) cfg req (sx_signedTx r) u =
      (if n \<le> md_relayMaxNonce (metadata req) then Inr True else Inl (too_high (md_relayMaxNonce (metadata req)) n), u)"
    by (rule answer_validated [OF assms])
  then show ?thesis unfolding too_high_def by blast
qed

definition only_sent_ex :: "(unit, stored_tx list, unit, tx_args) deps" where
  "only_sent_ex = deps_ex\<lparr>dp_tx := tx_ex\<lparr>t_new := (\<lambda>a. if a = sent_ex then Inr a else Inl (Error ''unexpected''))\<rparr>\<rparr>"

lemma only_sent_ex_simps [simp]:
  "workerAddress only_sent_ex = ''0xw''" "managerAddress only_sent_ex = ''0xm''" "dp_node only_sent_ex = node_ex"
  "dp_web3 only_sent_ex = web3_ex" "dp_db only_sent_ex = list_nedb" "dp_managerKeys only_sent_ex = dp_managerKeys deps_ex"
  "dp_workersKeys only_sent_ex = dp_workersKeys deps_ex" "dp_config only_sent_ex = config_ex"
  "dp_tx only_sent_ex = tx_ex\<lparr>t_new := (\<lambda>a. if a = sent_ex then Inr a else Inl (Error ''unexpected''))\<rparr>"
  using addresses_ex by (simp_all add: only_sent_ex_def workerAddress_def managerAddress_def)

lemma only_serve_ex: "\<exists>r t. createRelayTransaction only_sent_ex request_ex server_ex = (Inr r, t)"
  by (simp add: relay_defs send_defs js_run ZERO_ADDRESS_def request_ex_def relay_data_ex_def deploy_ex_def
      amount_ex_def encodeABI_ex_def sent_ex_def)

theorem response_passes_client_witness:
  "\<exists>r t n. createRelayTransaction only_sent_ex request_ex server_ex = (Inr r, t) \<and>
     validateRelayResponse (dp_tx only_sent_ex) web3_ex client_config_ex request_ex (sx_signedTx r) client_state_ex =
       (if n \<le> 7 then Inr True else Inl (Error (''Relay used a tx nonce higher than requested. Requested '' @
          int_str 7 @ '' got '' @ int_str n)), client_state_ex)"
proof -
  obtain r t where run: "createRelayTransaction only_sent_ex request_ex server_ex = (Inr r, t)" using only_serve_ex by blast
  have lower: "toLowerCase ''0x04'' = ''0x04''" "toLowerCase ''0x01'' = ''0x01''" "toLowerCase ''0x02'' = ''0x02''"
    "toLowerCase ''0x03'' = ''0x03''" "toLowerCase ''0x05'' = ''0x05''" "toLowerCase ''0x06'' = ''0x06''" by code_simp+
  have tx: "tx_laws (dp_tx only_sent_ex) (\<lambda>_. ''0xw'')" by (simp add: tx_laws_def sent_ex_def lower)
  have abi: "abi_laws (dp_web3 only_sent_ex)"
    by (auto simp: abi_laws_def encodeABI_ex_def startsWith_def lower split: hub_method.split)
  have hub: "isSameAddress (md_relayHubAddress (metadata request_ex)) (ec_relayHubAddress client_config_ex)"
    by (simp add: request_ex_def client_config_ex_def)
  have opts: "ci_rawTxOptions client_state_ex \<noteq> None" by simp
  from response_passes_client [OF tx abi _ run hub opts] run show ?thesis by (auto simp: request_ex_def)
qed

end
